(* ===== verification/Watari_Prelude.thy ===== *)
theory Watari_Prelude
  imports Main "HOL-Library.AList"
begin

text \<open>
  Shared vocabulary of the development.

  \<^item> Services: a service function of the backend takes an SQLAlchemy session, may raise an
    exception and leaves the session changed either way. It is a function from a state to a pair of
    a result (\<open>Inl\<close> the exception, \<open>Inr\<close> the value) and the state it leaves, so that the effects
    made before an exception stay visible until a transaction boundary rolls them back.
  \<^item> Tables: a database table is the list of its rows in insertion order, each with its primary key.
    The locale \<open>row_store\<close> is what the services rely on, and the table operations interpret it.
  \<^item> The Python string methods the code calls, on strings whose characters are the code points
    below 256.
\<close>

named_theorems svc_simps
  "unfolding of the service combinators"
named_theorems table_simps
  "lookup, keys and membership after a table operation"
named_theorems keeps_intros
  "composition rules for state invariants of services"

section \<open>Services: exceptions and state\<close>

type_synonym ('s, 'e, 'a) svc = "'s \<Rightarrow> ('e + 'a) \<times> 's"

definition ret :: "'a \<Rightarrow> ('s, 'e, 'a) svc" where
  "ret x = (\<lambda>s. (Inr x, s))"

definition raise :: "'e \<Rightarrow> ('s, 'e, 'a) svc" where
  "raise e = (\<lambda>s. (Inl e, s))"

definition reads :: "('s \<Rightarrow> 'a) \<Rightarrow> ('s, 'e, 'a) svc" where
  "reads f = (\<lambda>s. (Inr (f s), s))"

definition modify :: "('s \<Rightarrow> 's) \<Rightarrow> ('s, 'e, unit) svc" where
  "modify f = (\<lambda>s. (Inr (), f s))"

definition bind :: "('s, 'e, 'a) svc \<Rightarrow> ('a \<Rightarrow> ('s, 'e, 'b) svc) \<Rightarrow> ('s, 'e, 'b) svc" where
  "bind m k = (\<lambda>s. case m s of (Inl e, s') \<Rightarrow> (Inl e, s') | (Inr x, s') \<Rightarrow> k x s')"

text \<open>\<open>and_then\<close> sequences two services and drops the first value.\<close>

definition and_then :: "('s, 'e, 'a) svc \<Rightarrow> ('s, 'e, 'b) svc \<Rightarrow> ('s, 'e, 'b) svc" where
  "and_then m n = bind m (\<lambda>_. n)"

text \<open>\<open>try: m except: h\<close>; the handler runs in the state the failing body left.\<close>

definition catch :: "('s, 'e, 'a) svc \<Rightarrow> ('e \<Rightarrow> ('s, 'e, 'a) svc) \<Rightarrow> ('s, 'e, 'a) svc" where
  "catch m h = (\<lambda>s. case m s of (Inl e, s') \<Rightarrow> h e s' | (Inr x, s') \<Rightarrow> (Inr x, s'))"

definition guard :: "bool \<Rightarrow> 'e \<Rightarrow> ('s, 'e, unit) svc" where
  "guard b e = (if b then ret () else raise e)"

text \<open>A \<open>for\<close> loop over a list, and the loop that collects the values of its body.\<close>

fun for_each :: "'a list \<Rightarrow> ('a \<Rightarrow> ('s, 'e, unit) svc) \<Rightarrow> ('s, 'e, unit) svc" where
  "for_each [] f = ret ()"
| "for_each (x # xs) f = and_then (f x) (for_each xs f)"

fun collect :: "'a list \<Rightarrow> ('a \<Rightarrow> ('s, 'e, 'b) svc) \<Rightarrow> ('s, 'e, 'b list) svc" where
  "collect [] f = ret []"
| "collect (x # xs) f = bind (f x) (\<lambda>y. bind (collect xs f) (\<lambda>ys. ret (y # ys)))"

lemma ret_apply [svc_simps, simp]: "ret x s = (Inr x, s)"
  by (simp add: ret_def)

lemma raise_apply [svc_simps, simp]: "raise e s = (Inl e, s)"
  by (simp add: raise_def)

lemma reads_apply [svc_simps, simp]: "reads f s = (Inr (f s), s)"
  by (simp add: reads_def)

lemma modify_apply [svc_simps, simp]: "modify f s = (Inr (), f s)"
  by (simp add: modify_def)

lemma guard_apply [svc_simps, simp]: "guard b e s = (if b then (Inr (), s) else (Inl e, s))"
  by (simp add: guard_def)

lemma bind_apply [svc_simps]:
  "bind m k s = (case m s of (Inl e, s') \<Rightarrow> (Inl e, s') | (Inr x, s') \<Rightarrow> k x s')"
  by (simp add: bind_def)

lemma and_then_apply [svc_simps]:
  "and_then m n s = (case m s of (Inl e, s') \<Rightarrow> (Inl e, s') | (Inr x, s') \<Rightarrow> n s')"
  by (simp add: and_then_def bind_def)

lemma catch_apply [svc_simps]:
  "catch m h s = (case m s of (Inl e, s') \<Rightarrow> h e s' | (Inr x, s') \<Rightarrow> (Inr x, s'))"
  by (simp add: catch_def)

lemma bind_assoc: "bind (bind m k) h = bind m (\<lambda>x. bind (k x) h)"
  by (rule ext) (auto simp: bind_apply split: prod.splits sum.splits)

lemma bind_ret [simp]: "bind m ret = m"
  by (rule ext) (auto simp: bind_apply split: prod.splits sum.splits)

lemma ret_bind [simp]: "bind (ret x) k = k x"
  by (rule ext) (simp add: bind_apply)

lemma bind_InrD:
  assumes "bind m k s = (Inr y, s')"
  obtains x s1 where "m s = (Inr x, s1)" and "k x s1 = (Inr y, s')"
  using assms by (auto simp: bind_apply split: prod.splits sum.splits)

lemma and_then_InrD:
  assumes "and_then m n s = (Inr y, s')"
  obtains x s1 where "m s = (Inr x, s1)" and "n s1 = (Inr y, s')"
  using assms unfolding and_then_def by (rule bind_InrD)

lemma guard_InrD: "guard b e s = (Inr y, s') \<Longrightarrow> b \<and> s' = s"
  by (simp split: if_splits)

subsection \<open>Invariants of services\<close>

text \<open>
  \<open>keeps I m\<close>: whatever \<open>m\<close> does, also when it raises, it takes a state in which \<open>I\<close> holds to one
  in which \<open>I\<close> holds.
\<close>

definition keeps :: "('s \<Rightarrow> bool) \<Rightarrow> ('s, 'e, 'a) svc \<Rightarrow> bool" where
  "keeps I m \<longleftrightarrow> (\<forall>s. I s \<longrightarrow> I (snd (m s)))"

lemma keepsI: "(\<And>s. I s \<Longrightarrow> I (snd (m s))) \<Longrightarrow> keeps I m"
  by (simp add: keeps_def)

lemma keepsD: "keeps I m \<Longrightarrow> I s \<Longrightarrow> I (snd (m s))"
  by (simp add: keeps_def)

lemma keeps_ret [keeps_intros]: "keeps I (ret x)"
  by (simp add: keeps_def)

lemma keeps_raise [keeps_intros]: "keeps I (raise e)"
  by (simp add: keeps_def)

lemma keeps_reads [keeps_intros]: "keeps I (reads f)"
  by (simp add: keeps_def)

lemma keeps_guard [keeps_intros]: "keeps I (guard b e)"
  by (simp add: keeps_def)

lemma keeps_modify: "(\<And>s. I s \<Longrightarrow> I (f s)) \<Longrightarrow> keeps I (modify f)"
  by (simp add: keeps_def)

lemma bind_post:
  assumes "I (snd (m s))" and "\<And>x s'. m s = (Inr x, s') \<Longrightarrow> I (snd (k x s'))"
  shows "I (snd (bind m k s))"
  using assms by (auto simp: bind_apply split: prod.splits sum.splits)

lemma keeps_bind [keeps_intros]:
  "keeps I m \<Longrightarrow> (\<And>x. keeps I (k x)) \<Longrightarrow> keeps I (bind m k)"
  unfolding keeps_def by (metis bind_post snd_conv)

lemma keeps_and_then [keeps_intros]: "keeps I m \<Longrightarrow> keeps I n \<Longrightarrow> keeps I (and_then m n)"
  unfolding and_then_def by (rule keeps_bind)

lemma keeps_catch [keeps_intros]:
  "keeps I m \<Longrightarrow> (\<And>e. keeps I (h e)) \<Longrightarrow> keeps I (catch m h)"
  unfolding keeps_def catch_apply by (fastforce split: prod.splits sum.splits)

lemma keeps_for_each [keeps_intros]: "(\<And>x. x \<in> set xs \<Longrightarrow> keeps I (f x)) \<Longrightarrow> keeps I (for_each xs f)"
  by (induction xs) (auto intro: keeps_intros)

lemma keeps_collect [keeps_intros]: "(\<And>x. x \<in> set xs \<Longrightarrow> keeps I (f x)) \<Longrightarrow> keeps I (collect xs f)"
  by (induction xs) (auto intro!: keeps_intros)

lemma keeps_if [keeps_intros]: "keeps I m \<Longrightarrow> keeps I n \<Longrightarrow> keeps I (if b then m else n)"
  by simp

lemma keeps_option [keeps_intros]:
  "keeps I m \<Longrightarrow> (\<And>x. keeps I (n x)) \<Longrightarrow> keeps I (case x of None \<Rightarrow> m | Some y \<Rightarrow> n y)"
  by (cases x) auto

section \<open>Tables\<close>

type_synonym uuid = nat

type_synonym 'r table = "(uuid \<times> 'r) list"

definition row_get :: "'r table \<Rightarrow> uuid \<Rightarrow> 'r option" where
  "row_get t i = map_of t i"

definition row_add :: "uuid \<Rightarrow> 'r \<Rightarrow> 'r table \<Rightarrow> 'r table" where
  "row_add i r t = t @ [(i, r)]"

definition row_map :: "(uuid \<Rightarrow> 'r \<Rightarrow> 'r) \<Rightarrow> 'r table \<Rightarrow> 'r table" where
  "row_map f t = map (\<lambda>(k, r). (k, f k r)) t"

definition row_set :: "uuid \<Rightarrow> 'r \<Rightarrow> 'r table \<Rightarrow> 'r table" where
  "row_set i r t = row_map (\<lambda>k x. if k = i then r else x) t"

definition row_del :: "uuid \<Rightarrow> 'r table \<Rightarrow> 'r table" where
  "row_del i t = filter (\<lambda>(k, r). k \<noteq> i) t"

definition rows_where :: "(uuid \<Rightarrow> 'r \<Rightarrow> bool) \<Rightarrow> 'r table \<Rightarrow> 'r table" where
  "rows_where P t = filter (\<lambda>(k, r). P k r) t"

definition table_keys :: "'r table \<Rightarrow> uuid set" where
  "table_keys t = fst ` set t"

lemma row_get_Nil [table_simps, simp]: "row_get [] i = None"
  by (simp add: row_get_def)

lemma row_get_keys: "i \<in> table_keys t \<longleftrightarrow> row_get t i \<noteq> None"
  by (simp add: row_get_def table_keys_def map_of_eq_None_iff)

lemma row_get_in: "row_get t i = Some r \<Longrightarrow> (i, r) \<in> set t"
  by (simp add: row_get_def map_of_SomeD)

lemma row_get_iff: "distinct (map fst t) \<Longrightarrow> row_get t i = Some r \<longleftrightarrow> (i, r) \<in> set t"
  by (simp add: row_get_def)

lemma row_get_add [table_simps]:
  "row_get (row_add i r t) j = (case row_get t j of Some x \<Rightarrow> Some x | None \<Rightarrow> if j = i then Some r else None)"
  by (auto simp: row_get_def row_add_def map_add_def split: option.splits)

lemma row_get_map [table_simps]: "row_get (row_map f t) j = map_option (f j) (row_get t j)"
  by (induction t) (auto simp: row_get_def row_map_def)

lemma row_get_set [table_simps]:
  "row_get (row_set i r t) j = (if j = i \<and> row_get t i \<noteq> None then Some r else row_get t j)"
  by (auto simp: row_set_def row_get_map map_option_case split: option.splits)

lemma row_get_del [table_simps]: "row_get (row_del i t) j = (if j = i then None else row_get t j)"
  by (induction t) (auto simp: row_get_def row_del_def)

lemma row_get_where:
  "distinct (map fst t) \<Longrightarrow>
   row_get (rows_where P t) j = (case row_get t j of Some r \<Rightarrow> if P j r then Some r else None | None \<Rightarrow> None)"
  by (induction t) (auto simp: row_get_def rows_where_def map_of_eq_None_iff split: option.splits
      intro: rev_image_eqI)

lemma set_row_add [table_simps, simp]: "set (row_add i r t) = insert (i, r) (set t)"
  by (simp add: row_add_def)

lemma set_row_map [table_simps]: "set (row_map f t) = (\<lambda>(k, r). (k, f k r)) ` set t"
  by (simp add: row_map_def)

lemma set_row_set [table_simps]:
  "set (row_set i r t) = (\<lambda>(k, x). (k, if k = i then r else x)) ` set t"
  by (simp add: row_set_def row_map_def)

lemma set_row_del [table_simps, simp]: "set (row_del i t) = {(k, x) \<in> set t. k \<noteq> i}"
  by (auto simp: row_del_def)

lemma set_rows_where [table_simps, simp]: "set (rows_where P t) = {(k, x) \<in> set t. P k x}"
  by (auto simp: rows_where_def)

lemma fst_row_add [table_simps, simp]: "map fst (row_add i r t) = map fst t @ [i]"
  by (simp add: row_add_def)

lemma fst_row_map [table_simps, simp]: "map fst (row_map f t) = map fst t"
  by (simp add: row_map_def comp_def case_prod_unfold)

lemma fst_row_set [table_simps, simp]: "map fst (row_set i r t) = map fst t"
  by (simp add: row_set_def)

lemma fst_row_del [table_simps, simp]: "map fst (row_del i t) = filter (\<lambda>k. k \<noteq> i) (map fst t)"
  by (induction t) (auto simp: row_del_def)

lemma distinct_rows_where [simp]: "distinct (map fst t) \<Longrightarrow> distinct (map fst (rows_where P t))"
  unfolding rows_where_def by (rule distinct_map_filter)

lemma length_row_add [simp]: "length (row_add i r t) = Suc (length t)"
  by (simp add: row_add_def)

lemma length_row_map [simp]: "length (row_map f t) = length t"
  by (simp add: row_map_def)

lemma length_row_set [simp]: "length (row_set i r t) = length t"
  by (simp add: row_set_def)

subsection \<open>The store interface\<close>

text \<open>
  What the services assume of a table: looking a row up after an insert, an update or a delete.
\<close>

locale row_store =
  fixes get :: "'t \<Rightarrow> uuid \<Rightarrow> 'r option"
    and add :: "uuid \<Rightarrow> 'r \<Rightarrow> 't \<Rightarrow> 't"
    and put :: "uuid \<Rightarrow> 'r \<Rightarrow> 't \<Rightarrow> 't"
    and del :: "uuid \<Rightarrow> 't \<Rightarrow> 't"
  assumes get_add: "get t i = None \<Longrightarrow> get (add i r t) j = (if j = i then Some r else get t j)"
    and get_put: "get t i \<noteq> None \<Longrightarrow> get (put i r t) j = (if j = i then Some r else get t j)"
    and get_del: "get (del i t) j = (if j = i then None else get t j)"
begin

lemma get_add_same: "get t i = None \<Longrightarrow> get (add i r t) i = Some r"
  by (simp add: get_add)

lemma get_put_same: "get t i \<noteq> None \<Longrightarrow> get (put i r t) i = Some r"
  by (simp add: get_put)

lemma put_put: "get t i \<noteq> None \<Longrightarrow> get (put i r (put i r' t)) = get (put i r t)"
  by (rule ext) (simp add: get_put)

lemma del_add: "get t i = None \<Longrightarrow> get (del i (add i r t)) = get t"
  by (rule ext) (simp add: get_add get_del)

lemma put_add: "get t i = None \<Longrightarrow> get (put i r (add i r' t)) = get (add i r t)"
  by (rule ext) (simp add: get_add get_put)

lemma del_put: "get t i \<noteq> None \<Longrightarrow> get (del i (put i r t)) = get (del i t)"
  by (rule ext) (simp add: get_put get_del)

end

lemma row_set_mem: "(k, x) \<in> set (row_set i r t) \<Longrightarrow> (k = i \<and> x = r) \<or> (k \<noteq> i \<and> (k, x) \<in> set t)"
  by (auto simp: set_row_set split: if_splits)

interpretation tbl: row_store row_get row_add row_set row_del
  by unfold_locales (auto simp: table_simps split: option.splits)

subsection \<open>Well-formed key columns\<close>

text \<open>\<open>ids_ok n t\<close>: the keys of \<open>t\<close> are distinct and were drawn before the next id \<open>n\<close>.\<close>

definition ids_ok :: "uuid \<Rightarrow> 'r table \<Rightarrow> bool" where
  "ids_ok n t \<longleftrightarrow> distinct (map fst t) \<and> (\<forall>k \<in> set (map fst t). k < n)"

lemma ids_ok_Nil [simp]: "ids_ok n []"
  by (simp add: ids_ok_def)

lemma ids_ok_mono: "ids_ok n t \<Longrightarrow> n \<le> m \<Longrightarrow> ids_ok m t"
  by (fastforce simp: ids_ok_def)

lemma ids_ok_Suc [simp]: "ids_ok n t \<Longrightarrow> ids_ok (Suc n) t"
  by (rule ids_ok_mono) auto

lemma ids_ok_add [simp]: "ids_ok n t \<Longrightarrow> ids_ok (Suc n) (row_add n r t)"
  by (fastforce simp: ids_ok_def)

lemma ids_ok_map [simp]: "ids_ok n (row_map f t) = ids_ok n t"
  unfolding ids_ok_def fst_row_map ..

lemma ids_ok_set [simp]: "ids_ok n (row_set i r t) = ids_ok n t"
  unfolding ids_ok_def fst_row_set ..

lemma ids_ok_del [simp]: "ids_ok n t \<Longrightarrow> ids_ok n (row_del i t)"
  unfolding ids_ok_def fst_row_del by auto

lemma ids_ok_where [simp]: "ids_ok n t \<Longrightarrow> ids_ok n (rows_where P t)"
  by (auto simp: ids_ok_def)

lemma ids_ok_fresh [simp]: "ids_ok n t \<Longrightarrow> row_get t n = None"
  by (force simp: ids_ok_def row_get_def map_of_eq_None_iff)

lemma ids_ok_distinct: "ids_ok n t \<Longrightarrow> distinct (map fst t)"
  by (simp add: ids_ok_def)

lemma ids_ok_get_iff: "ids_ok n t \<Longrightarrow> row_get t i = Some r \<longleftrightarrow> (i, r) \<in> set t"
  by (simp add: ids_ok_distinct row_get_iff)

section \<open>Sorting, paging\<close>

text \<open>
  \<open>ORDER BY key DESC\<close>: rows by decreasing key. SQL leaves the order of rows with equal keys open;
  the model keeps the insertion order there, and no property depends on it.
\<close>

text \<open>Python's \<^verbatim>\<open>x or y\<close> on an optional string.\<close>

definition str_or :: "string option \<Rightarrow> string \<Rightarrow> string" where
  "str_or x y = (case x of None \<Rightarrow> y | Some s \<Rightarrow> if s = [] then y else s)"

definition sort_desc :: "('r \<Rightarrow> int) \<Rightarrow> 'r list \<Rightarrow> 'r list" where
  "sort_desc f rs = sort_key (\<lambda>r. - f r) rs"

definition page_of :: "nat \<Rightarrow> nat \<Rightarrow> 'r list \<Rightarrow> 'r list" where
  "page_of limit offset rs = take limit (drop offset rs)"

lemma set_sort_desc [simp]: "set (sort_desc f rs) = set rs"
  by (simp add: sort_desc_def)

lemma length_sort_desc [simp]: "length (sort_desc f rs) = length rs"
  by (simp add: sort_desc_def)

lemma sorted_sort_desc: "sorted (map (\<lambda>r. - f r) (sort_desc f rs))"
  by (simp add: sort_desc_def)

lemma set_page_of: "set (page_of l n rs) \<subseteq> set rs"
  unfolding page_of_def by (meson in_set_dropD in_set_takeD subsetI)

lemma length_page_of: "length (page_of l n rs) = min l (length rs - n)"
  by (simp add: page_of_def)

section \<open>Python strings\<close>

text \<open>
  A Python string is modelled as a list of characters, each standing for the code point it encodes
  (0 to 255). \<open>py_space\<close> is \<open>str.isspace\<close> on that range, \<open>py_lower_char\<close> the one-character case of
  \<open>str.lower\<close>.
\<close>

definition py_space :: "char \<Rightarrow> bool" where
  "py_space c = (let n = (of_char c :: nat) in
     (9 \<le> n \<and> n \<le> 13) \<or> (28 \<le> n \<and> n \<le> 32) \<or> n = 133 \<or> n = 160)"

definition py_strip :: "string \<Rightarrow> string" where
  "py_strip s = rev (dropWhile py_space (rev (dropWhile py_space s)))"

definition py_rstrip_char :: "char \<Rightarrow> string \<Rightarrow> string" where
  "py_rstrip_char c s = rev (dropWhile (\<lambda>x. x = c) (rev s))"

definition quoted :: "string \<Rightarrow> string" where
  "quoted s = CHR 0x27 # s @ [CHR 0x27]"

definition py_lower_char :: "char \<Rightarrow> char" where
  "py_lower_char c = (let n = (of_char c :: nat) in
     if (65 \<le> n \<and> n \<le> 90) \<or> (192 \<le> n \<and> n \<le> 222 \<and> n \<noteq> 215) then char_of (n + 32) else c)"

definition py_lower :: "string \<Rightarrow> string" where
  "py_lower s = map py_lower_char s"

fun py_startswith :: "string \<Rightarrow> string \<Rightarrow> bool" where
  "py_startswith s [] = True"
| "py_startswith [] (p # ps) = False"
| "py_startswith (c # cs) (p # ps) = (c = p \<and> py_startswith cs ps)"

fun py_contains :: "string \<Rightarrow> string \<Rightarrow> bool" where
  "py_contains [] q = (q = [])"
| "py_contains (c # cs) q = (py_startswith (c # cs) q \<or> py_contains cs q)"

fun show_nat :: "nat \<Rightarrow> string" where
  "show_nat n = (if n < 10 then [char_of (48 + n)] else show_nat (n div 10) @ [char_of (48 + n mod 10)])"

declare show_nat.simps [simp del]

text \<open>\<open>str(uuid)\<close>: 32 lower-case hexadecimal digits in groups of 8, 4, 4, 4 and 12.\<close>

definition hex_digit :: "nat \<Rightarrow> char" where
  "hex_digit n = (if n < 10 then char_of (48 + n) else char_of (87 + n))"

fun hex_digits :: "nat \<Rightarrow> nat \<Rightarrow> string" where
  "hex_digits 0 n = []"
| "hex_digits (Suc k) n = hex_digits k (n div 16) @ [hex_digit (n mod 16)]"

definition uuid_str :: "uuid \<Rightarrow> string" where
  "uuid_str u = (let h = hex_digits 32 u in
     take 8 h @ ''-'' @ take 4 (drop 8 h) @ ''-'' @ take 4 (drop 12 h) @ ''-'' @
     take 4 (drop 16 h) @ ''-'' @ drop 20 h)"

lemma py_startswith_iff: "py_startswith s p \<longleftrightarrow> (\<exists>r. s = p @ r)"
  by (induction s p rule: py_startswith.induct) auto

lemma py_contains_iff: "py_contains s q \<longleftrightarrow> (\<exists>a b. s = a @ q @ b)"
proof (induction s q rule: py_contains.induct)
  case (2 c cs q)
  show ?case
    unfolding py_contains.simps "2.IH" py_startswith_iff
    by (metis append_Cons append_Nil append_eq_Cons_conv)
qed auto

lemma length_hex_digits [simp]: "length (hex_digits k n) = k"
  by (induction k arbitrary: n) auto

lemma length_uuid_str [simp]: "length (uuid_str u) = 36"
  by (simp add: uuid_str_def Let_def)

lemma length_py_lower [simp]: "length (py_lower s) = length s"
  by (simp add: py_lower_def)

lemma py_lower_append [simp]: "py_lower (s @ t) = py_lower s @ py_lower t"
  by (simp add: py_lower_def)

lemma py_lower_char_idem [simp]: "py_lower_char (py_lower_char c) = py_lower_char c"
  by (auto simp: py_lower_char_def Let_def)

lemma py_lower_idem [simp]: "py_lower (py_lower s) = py_lower s"
  by (simp add: py_lower_def)

lemma dropWhile_idem: "dropWhile P (dropWhile P s) = dropWhile P s"
  by (induction s) auto

lemma dropWhile_append_Nil: "dropWhile P (s @ t) = (if \<forall>x \<in> set s. P x then dropWhile P t else dropWhile P s @ t)"
  by (induction s) auto

lemma py_strip_set: "set (py_strip s) \<subseteq> set s"
  unfolding py_strip_def by (metis set_dropWhileD set_rev subsetI)

lemma py_strip_last: "py_strip s \<noteq> [] \<Longrightarrow> \<not> py_space (last (py_strip s))"
  unfolding py_strip_def by (simp add: last_rev hd_dropWhile)

end
