(* ===== verification/Data_Model.thy ===== *)
theory Data_Model
  imports Watari_Prelude
begin

text \<open>
  The data model: the enumerations of \<^verbatim>\<open>backend/src/schemas\<close>, one record per table of
  \<^verbatim>\<open>backend/src/models\<close>, the database as a record of tables with the settings of the
  current session, and the exceptions services raise.

  A row's primary key is its key in the table, so the row records have no \<open>id\<close> field. Columns with a
  check constraint are the enumeration the constraint lists. Time stamps are integers (microseconds);
  \<open>db_now\<close> is the clock that \<^verbatim>\<open>now()\<close> and \<^verbatim>\<open>datetime.now(UTC)\<close> read. \<open>db_next_id\<close>
  stands for \<^verbatim>\<open>uuid4()\<close>: a new key is one not used before.
\<close>

section \<open>Values\<close>

text \<open>
  JSON documents (JSONB columns). \<open>JId u\<close> is the string \<^verbatim>\<open>str(u)\<close> of a UUID. A JSONB
  column that an update can set has type \<open>json\<close>: SQLAlchemy stores an explicit null there as the JSON
  value null, which \<^verbatim>\<open>nullable=False\<close> does not forbid.
\<close>

datatype json = JNull | JBool bool | JInt int | JStr string | JId uuid
  | JList "json list" | JObj "(string \<times> json) list"

type_synonym jobj = "(string \<times> json) list"

datatype case_status = CS_NEW | CS_IN_PROGRESS | CS_PENDING | CS_RESOLVED | CS_CLOSED

datatype case_severity = SEV_CRITICAL | SEV_HIGH | SEV_MEDIUM | SEV_LOW | SEV_INFORMATIONAL

datatype case_outcome = OC_TRUE_POSITIVE | OC_FALSE_POSITIVE | OC_INDETERMINATE | OC_NOT_APPLICABLE

datatype task_status = TS_TODO | TS_IN_PROGRESS | TS_DONE | TS_CANCELLED

datatype observable_type = OT_IP | OT_DOMAIN | OT_HOSTNAME | OT_URL | OT_HASH_MD5 | OT_HASH_SHA1
  | OT_HASH_SHA256 | OT_EMAIL | OT_FILENAME | OT_REGISTRY_KEY

datatype tlp = TLP_RED | TLP_AMBER | TLP_GREEN | TLP_CLEAR

datatype asset_type = AT_WORKSTATION | AT_SERVER | AT_NETWORK_DEVICE | AT_MOBILE_DEVICE
  | AT_CLOUD_RESOURCE | AT_OTHER

datatype evidence_type = ET_DISK_IMAGE | ET_MEMORY_DUMP | ET_LOG_EXPORT | ET_PCAP | ET_DOCUMENT | ET_OTHER

datatype alert_status = AS_PENDING | AS_PROMOTED | AS_DISMISSED

datatype module_type = MT_PIPELINE | MT_PROCESSOR

datatype execution_status = XS_QUEUED | XS_RUNNING | XS_COMPLETED | XS_FAILED

datatype enrichment_status = ES_SUCCESS | ES_ERROR | ES_TIMEOUT

datatype report_type = RT_INVESTIGATION | RT_ACTIVITY

datatype report_format = RF_DOCX | RF_MARKDOWN | RF_HTML

datatype role = PLATFORM_ADMIN | TENANT_ADMIN | ANALYST | READ_ONLY | API_SERVICE_ACCOUNT

fun case_status_str :: "case_status \<Rightarrow> string" where
  "case_status_str CS_NEW = ''new''"
| "case_status_str CS_IN_PROGRESS = ''in_progress''"
| "case_status_str CS_PENDING = ''pending''"
| "case_status_str CS_RESOLVED = ''resolved''"
| "case_status_str CS_CLOSED = ''closed''"

fun case_severity_str :: "case_severity \<Rightarrow> string" where
  "case_severity_str SEV_CRITICAL = ''critical''"
| "case_severity_str SEV_HIGH = ''high''"
| "case_severity_str SEV_MEDIUM = ''medium''"
| "case_severity_str SEV_LOW = ''low''"
| "case_severity_str SEV_INFORMATIONAL = ''informational''"

fun case_severity_of :: "string \<Rightarrow> case_severity option" where
  "case_severity_of s =
     (if s = ''critical'' then Some SEV_CRITICAL else if s = ''high'' then Some SEV_HIGH
      else if s = ''medium'' then Some SEV_MEDIUM else if s = ''low'' then Some SEV_LOW
      else if s = ''informational'' then Some SEV_INFORMATIONAL else None)"

fun task_status_str :: "task_status \<Rightarrow> string" where
  "task_status_str TS_TODO = ''todo''"
| "task_status_str TS_IN_PROGRESS = ''in_progress''"
| "task_status_str TS_DONE = ''done''"
| "task_status_str TS_CANCELLED = ''cancelled''"

fun observable_type_str :: "observable_type \<Rightarrow> string" where
  "observable_type_str OT_IP = ''ip''"
| "observable_type_str OT_DOMAIN = ''domain''"
| "observable_type_str OT_HOSTNAME = ''hostname''"
| "observable_type_str OT_URL = ''url''"
| "observable_type_str OT_HASH_MD5 = ''hash_md5''"
| "observable_type_str OT_HASH_SHA1 = ''hash_sha1''"
| "observable_type_str OT_HASH_SHA256 = ''hash_sha256''"
| "observable_type_str OT_EMAIL = ''email''"
| "observable_type_str OT_FILENAME = ''filename''"
| "observable_type_str OT_REGISTRY_KEY = ''registry_key''"

fun tlp_str :: "tlp \<Rightarrow> string" where
  "tlp_str TLP_RED = ''red''"
| "tlp_str TLP_AMBER = ''amber''"
| "tlp_str TLP_GREEN = ''green''"
| "tlp_str TLP_CLEAR = ''clear''"

fun asset_type_str :: "asset_type \<Rightarrow> string" where
  "asset_type_str AT_WORKSTATION = ''workstation''"
| "asset_type_str AT_SERVER = ''server''"
| "asset_type_str AT_NETWORK_DEVICE = ''network_device''"
| "asset_type_str AT_MOBILE_DEVICE = ''mobile_device''"
| "asset_type_str AT_CLOUD_RESOURCE = ''cloud_resource''"
| "asset_type_str AT_OTHER = ''other''"

fun evidence_type_str :: "evidence_type \<Rightarrow> string" where
  "evidence_type_str ET_DISK_IMAGE = ''disk_image''"
| "evidence_type_str ET_MEMORY_DUMP = ''memory_dump''"
| "evidence_type_str ET_LOG_EXPORT = ''log_export''"
| "evidence_type_str ET_PCAP = ''pcap''"
| "evidence_type_str ET_DOCUMENT = ''document''"
| "evidence_type_str ET_OTHER = ''other''"

fun role_str :: "role \<Rightarrow> string" where
  "role_str PLATFORM_ADMIN = ''platform_admin''"
| "role_str TENANT_ADMIN = ''tenant_admin''"
| "role_str ANALYST = ''analyst''"
| "role_str READ_ONLY = ''read_only''"
| "role_str API_SERVICE_ACCOUNT = ''api_service_account''"

section \<open>Exceptions\<close>

text \<open>
  \<open>HTTPException\<close> as the services raise it; the others are the database driver's exceptions
  (constraint violations, values a column does not take, rows hidden by a policy), a query that
  expects at most one row and finds more, a row an ORM update does not find, a failed Pydantic
  validation inside a service, and a missing key of a Python dictionary.
\<close>

datatype api_error = HTTPException nat string | IntegrityError string | DBError string
  | MultipleResultsFound | NoResultFound | ValidationError | KeyError string | OtherError string

section \<open>Rows\<close>

record tenant_row =
  tn_name :: string
  tn_slug :: string
  tn_settings :: json
  tn_custom_fields_schema :: json
  tn_is_active :: bool
  tn_created_at :: int
  tn_updated_at :: int

record user_row =
  u_tenant_id :: uuid
  u_username :: string
  u_email :: string
  u_password_hash :: "string option"
  u_display_name :: string
  u_role :: role
  u_is_active :: bool
  u_is_service_account :: bool
  u_api_key_hash :: "string option"
  u_permissions :: json
  u_last_login_at :: "int option"
  u_inactivity_timeout_minutes :: int
  u_created_at :: int
  u_updated_at :: int

record case_row =
  c_tenant_id :: uuid
  c_case_number :: int
  c_title :: string
  c_description :: "string option"
  c_status :: case_status
  c_severity :: case_severity
  c_outcome :: "case_outcome option"
  c_assignee_id :: "uuid option"
  c_template_id :: "uuid option"
  c_tags :: "string list"
  c_custom_fields :: json
  c_merged_from :: "uuid list option"
  c_created_by :: uuid
  c_resolved_at :: "int option"
  c_closed_at :: "int option"
  c_created_at :: int
  c_updated_at :: int

record task_row =
  k_tenant_id :: uuid
  k_case_id :: uuid
  k_title :: string
  k_description :: "string option"
  k_status :: task_status
  k_assignee_id :: "uuid option"
  k_sort_order :: int
  k_created_by :: uuid
  k_created_at :: int
  k_updated_at :: int

record observable_row =
  o_tenant_id :: uuid
  o_case_id :: uuid
  o_type :: observable_type
  o_value :: string
  o_tlp :: "tlp option"
  o_is_ioc :: bool
  o_tags :: "string list"
  o_description :: "string option"
  o_created_by :: uuid
  o_created_at :: int
  o_updated_at :: int

record asset_row =
  a_tenant_id :: uuid
  a_case_id :: uuid
  a_name :: string
  a_type :: asset_type
  a_ip_address :: "string option"
  a_domain :: "string option"
  a_is_compromised :: bool
  a_description :: "string option"
  a_custom_attributes :: json
  a_created_by :: uuid
  a_created_at :: int
  a_updated_at :: int

record evidence_row =
  e_tenant_id :: uuid
  e_case_id :: uuid
  e_filename :: string
  e_type :: evidence_type
  e_file_hash_sha256 :: string
  e_file_size :: int
  e_description :: "string option"
  e_storage_path :: "string option"
  e_is_uploaded :: bool
  e_is_encrypted :: bool
  e_integrity_verified :: "bool option"
  e_integrity_mismatch :: bool
  e_tags :: "string list"
  e_registered_by :: uuid
  e_registered_at :: int
  e_updated_at :: int

record timeline_row =
  tl_tenant_id :: uuid
  tl_case_id :: uuid
  tl_event_type :: string
  tl_event_timestamp :: int
  tl_description :: string
  tl_category :: "string option"
  tl_actor_id :: "uuid option"
  tl_is_automatic :: bool
  tl_metadata :: json
  tl_created_at :: int

record folder_row =
  f_tenant_id :: uuid
  f_case_id :: uuid
  f_parent_id :: "uuid option"
  f_name :: string
  f_sort_order :: int
  f_created_at :: int

record note_row =
  n_tenant_id :: uuid
  n_case_id :: uuid
  n_folder_id :: "uuid option"
  n_title :: string
  n_content :: string
  n_author_id :: uuid
  n_created_at :: int
  n_updated_at :: int

record alert_row =
  al_tenant_id :: uuid
  al_severity_id :: int
  al_source_product :: string
  al_finding_uid :: string
  al_title :: string
  al_message :: "string option"
  al_ocsf_payload :: jobj
  al_status :: alert_status
  al_dismiss_reason :: "string option"
  al_promoted_to_case_id :: "uuid option"
  al_dedup_key :: "string option"
  al_created_at :: int
  al_updated_at :: int

record template_row =
  tp_tenant_id :: "uuid option"
  tp_name :: string
  tp_description :: "string option"
  tp_default_severity :: "string option"
  tp_default_tags :: "string list"
  tp_tasks :: json
  tp_custom_fields :: json
  tp_created_by :: uuid
  tp_created_at :: int
  tp_updated_at :: int

record source_row =
  es_tenant_id :: uuid
  es_name :: string
  es_type :: string
  es_config :: json
  es_supported_observable_types :: "observable_type list"
  es_is_enabled :: bool
  es_timeout_seconds :: int
  es_created_at :: int
  es_updated_at :: int

record result_row =
  er_tenant_id :: uuid
  er_observable_id :: uuid
  er_source_id :: uuid
  er_status :: enrichment_status
  er_result_data :: json
  er_error_message :: "string option"
  er_queried_at :: int

record mapping_row =
  m_tenant_id :: uuid
  m_case_id :: "uuid option"
  m_observable_id :: "uuid option"
  m_timeline_entry_id :: "uuid option"
  m_tactic_id :: string
  m_technique_id :: string
  m_sub_technique_id :: "string option"
  m_created_by :: uuid
  m_created_at :: int

record module_row =
  mo_name :: string
  mo_version :: string
  mo_type :: module_type
  mo_description :: "string option"
  mo_config_schema :: json
  mo_entry_point :: string
  mo_is_enabled :: bool
  mo_supported_evidence_types :: "string list option"
  mo_subscribed_events :: "string list option"
  mo_installed_at :: int
  mo_updated_at :: int

record execution_row =
  x_module_id :: uuid
  x_tenant_id :: uuid
  x_case_id :: "uuid option"
  x_status :: execution_status
  x_trigger_event :: "string option"
  x_config :: jobj
  x_result :: "json option"
  x_error_message :: "string option"
  x_started_at :: "int option"
  x_completed_at :: "int option"
  x_created_at :: int

record reference_row =
  ar_technique_id :: string
  ar_tactic_id :: string
  ar_name :: string
  ar_description :: "string option"
  ar_is_subtechnique :: bool
  ar_parent_technique_id :: "string option"
  ar_updated_at :: int

record report_template_row =
  rt_tenant_id :: "uuid option"
  rt_name :: string
  rt_type :: report_type
  rt_format :: report_format
  rt_template_content :: string
  rt_tag_schema :: json
  rt_created_by :: uuid
  rt_created_at :: int
  rt_updated_at :: int

record report_row =
  rp_tenant_id :: uuid
  rp_case_id :: uuid
  rp_template_id :: uuid
  rp_format :: string
  rp_storage_path :: "string option"
  rp_generated_by :: uuid
  rp_generated_at :: int

record audit_row =
  au_tenant_id :: uuid
  au_user_id :: uuid
  au_action :: string
  au_resource_type :: string
  au_resource_id :: "uuid option"
  au_details :: jobj
  au_source_ip :: "string option"
  au_user_agent :: "string option"
  au_is_service_account :: bool
  au_created_at :: int

text \<open>A message for the clients of the realtime hub (\<^verbatim>\<open>realtime/hub.py\<close>).\<close>

record realtime_event =
  ev_type :: string
  ev_case_id :: "uuid option"
  ev_tenant_id :: uuid
  ev_payload :: jobj
  ev_actor_id :: "uuid option"
  ev_actor_display_name :: "string option"
  ev_timestamp :: int

section \<open>The database and its session\<close>

text \<open>
  \<open>db_objects\<close> is the object store (the S3 bucket): the bytes under each key. Like the messages
  published it is outside the database, and a rollback leaves it as it is. \<open>db_redis\<close> is Redis' string
  keys: a value and the time at which it expires.

  A session setting (\<^verbatim>\<open>current_setting(name, true)\<close>): never set, reset to the empty string
  when the transaction that set it ended, or set. \<open>nullif_empty\<close> is the \<^verbatim>\<open>NULLIF(..., '')\<close> of
  the policies. \<open>s_bypass\<close> marks the owner connection (a superuser, not restricted by the policies).
\<close>

datatype 'a guc = Guc_unset | Guc_empty | Guc_val 'a

record session =
  s_bypass :: bool
  s_tenant :: "uuid guc"
  s_platform_admin :: "bool guc"

fun nullif_empty :: "'a guc \<Rightarrow> 'a option" where
  "nullif_empty (Guc_val v) = Some v"
| "nullif_empty _ = None"

record db =
  db_tenants :: "tenant_row table"
  db_users :: "user_row table"
  db_cases :: "case_row table"
  db_tasks :: "task_row table"
  db_observables :: "observable_row table"
  db_assets :: "asset_row table"
  db_evidence :: "evidence_row table"
  db_timeline :: "timeline_row table"
  db_asset_links :: "(uuid \<times> uuid) list"
  db_folders :: "folder_row table"
  db_notes :: "note_row table"
  db_alerts :: "alert_row table"
  db_templates :: "template_row table"
  db_sources :: "source_row table"
  db_results :: "result_row table"
  db_mappings :: "mapping_row table"
  db_modules :: "module_row table"
  db_executions :: "execution_row table"
  db_audit_logs :: "audit_row table"
  db_report_templates :: "report_template_row table"
  db_reports :: "report_row table"
  db_attack_reference :: "reference_row list"
  db_session :: session
  db_next_id :: uuid
  db_now :: int
  db_published :: "(string \<times> realtime_event) list"
  db_objects :: "(string \<times> string) list"
  db_redis :: "(string \<times> string \<times> int) list"

type_synonym 'a service = "(db, api_error, 'a) svc"

end
