(* ===== verification/Tenancy.thy ===== *)
theory Tenancy
  imports Data_Model
begin

text \<open>
  Row-level security and the access primitives of the ORM session.

  \<^item> The policies of migrations 0002 and 0003 and the session context (\<^verbatim>\<open>db/session.py\<close>).
  \<^item> The table constraints declared in \<^verbatim>\<open>models/\<close> (foreign keys, uniqueness, integer columns).
  \<^item> The primitives every service is built from: look a row up by id, select rows, insert, write and
    delete one row. Reads see the rows the policies show, writes fail on rows the policies hide.
  \<^item> \<open>isolated\<close>, the frame the policies give: rows hidden from a session are left as they are; the
    locale \<open>rls_table\<close> derives it for a table from the laws of its lens.
\<close>

section \<open>Session context and policies\<close>

text \<open>Migration 0003: \<^verbatim>\<open>_TENANT\<close>, \<^verbatim>\<open>_IS_ADMIN\<close> and the two policies of a table.\<close>

definition is_admin_policy :: "session \<Rightarrow> bool" where
  "is_admin_policy s \<longleftrightarrow> nullif_empty (s_platform_admin s) = Some True"

definition rls_standard :: "session \<Rightarrow> uuid \<Rightarrow> bool" where
  "rls_standard s t \<longleftrightarrow> s_bypass s \<or> is_admin_policy s \<or> nullif_empty (s_tenant s) = Some t"

definition rls_nullable :: "session \<Rightarrow> uuid option \<Rightarrow> bool" where
  "rls_nullable s t \<longleftrightarrow> s_bypass s \<or> is_admin_policy s \<or>
     (case t of None \<Rightarrow> True | Some u \<Rightarrow> nullif_empty (s_tenant s) = Some u)"

text \<open>
  Migration 0002's policy casts the setting directly. The cast of an empty string raises; a NULL
  comparison is not true. \<open>policy_0002\<close> is its value on a row of tenant \<open>t\<close>.
\<close>

fun cast_uuid :: "uuid guc \<Rightarrow> api_error + uuid option" where
  "cast_uuid Guc_unset = Inr None"
| "cast_uuid Guc_empty = Inl (DBError ''invalid input syntax for type uuid'')"
| "cast_uuid (Guc_val u) = Inr (Some u)"

definition policy_0002 :: "session \<Rightarrow> uuid \<Rightarrow> api_error + bool" where
  "policy_0002 s t = (case cast_uuid (s_tenant s) of Inl e \<Rightarrow> Inl e | Inr u \<Rightarrow> Inr (u = Some t))"

definition policy_0003 :: "session \<Rightarrow> uuid \<Rightarrow> api_error + bool" where
  "policy_0003 s t = Inr (nullif_empty (s_tenant s) = Some t)"

text \<open>\<^verbatim>\<open>TenantContext\<close> and \<^verbatim>\<open>apply_tenant_context\<close>.\<close>

record tenant_context =
  tc_tenant_id :: uuid
  tc_is_platform_admin :: bool

definition apply_tenant_context :: "tenant_context \<Rightarrow> unit service" where
  "apply_tenant_context tc = modify (\<lambda>d. d\<lparr>db_session := (db_session d)
     \<lparr>s_tenant := Guc_val (tc_tenant_id tc),
      s_platform_admin := (if tc_is_platform_admin tc then Guc_val True
                           else s_platform_admin (db_session d))\<rparr>\<rparr>)"

text \<open>
  The end of a transaction: a setting made with \<^verbatim>\<open>is_local\<close> reverts to the empty string on the
  pooled connection.
\<close>

fun guc_end :: "'a guc \<Rightarrow> 'a guc" where
  "guc_end Guc_unset = Guc_unset"
| "guc_end _ = Guc_empty"

definition end_transaction :: "db \<Rightarrow> db" where
  "end_transaction d = d\<lparr>db_session := (db_session d)
     \<lparr>s_tenant := guc_end (s_tenant (db_session d)),
      s_platform_admin := guc_end (s_platform_admin (db_session d))\<rparr>\<rparr>"

text \<open>
  \<^verbatim>\<open>get_db\<close>: commit on success, roll back on an exception. What a rollback cannot take back are
  the messages already published and the ids already drawn.
\<close>

definition rollback :: "db \<Rightarrow> db \<Rightarrow> db" where
  "rollback d d' = d\<lparr>db_published := db_published d', db_objects := db_objects d', db_redis := db_redis d',
     db_next_id := max (db_next_id d) (db_next_id d'), db_session := db_session d'\<rparr>"

definition get_db :: "'a service \<Rightarrow> 'a service" where
  "get_db m = (\<lambda>d. case m d of (Inr x, d') \<Rightarrow> (Inr x, end_transaction d')
     | (Inl e, d') \<Rightarrow> (Inl e, end_transaction (rollback d d')))"

definition tenant_session :: "uuid \<Rightarrow> session" where
  "tenant_session t = \<lparr>s_bypass = False, s_tenant = Guc_val t, s_platform_admin = Guc_empty\<rparr>"

lemma rls_standard_tenant [simp]: "rls_standard (tenant_session t) u \<longleftrightarrow> u = t"
  by (auto simp: rls_standard_def is_admin_policy_def tenant_session_def)

lemma rls_nullable_tenant [simp]: "rls_nullable (tenant_session t) u \<longleftrightarrow> u = None \<or> u = Some t"
  by (auto simp: rls_nullable_def is_admin_policy_def tenant_session_def split: option.splits)

lemma guc_end_null [simp]: "nullif_empty (guc_end g) = None"
  by (cases g) auto

section \<open>Constraints\<close>

definition fk :: "'r table \<Rightarrow> uuid \<Rightarrow> bool" where
  "fk t i \<longleftrightarrow> row_get t i \<noteq> None"

definition fk_opt :: "'r table \<Rightarrow> uuid option \<Rightarrow> bool" where
  "fk_opt t x = (case x of None \<Rightarrow> True | Some i \<Rightarrow> fk t i)"

definition pg_int :: "int \<Rightarrow> bool" where
  "pg_int n \<longleftrightarrow> - 2147483648 \<le> n \<and> n \<le> 2147483647"

definition pg_bigint :: "int \<Rightarrow> bool" where
  "pg_bigint n \<longleftrightarrow> - 9223372036854775808 \<le> n \<and> n \<le> 9223372036854775807"

text \<open>\<^verbatim>\<open>VARCHAR(n)\<close>.\<close>

definition varchar :: "nat \<Rightarrow> string \<Rightarrow> bool" where
  "varchar n s \<longleftrightarrow> length s \<le> n"

definition varchar_opt :: "nat \<Rightarrow> string option \<Rightarrow> bool" where
  "varchar_opt n x = (case x of None \<Rightarrow> True | Some s \<Rightarrow> varchar n s)"

text \<open>No other row of \<open>t\<close> has the key \<open>f r\<close> (a unique constraint seen from row \<open>i\<close>).\<close>

definition unique_for :: "('r \<Rightarrow> 'k) \<Rightarrow> 'r table \<Rightarrow> uuid \<Rightarrow> 'r \<Rightarrow> bool" where
  "unique_for f t i r \<longleftrightarrow> (\<forall>(j, x) \<in> set t. j \<noteq> i \<longrightarrow> f x \<noteq> f r)"

definition constraints :: "(bool \<times> api_error) list \<Rightarrow> api_error option" where
  "constraints cs = (case filter (\<lambda>(b, e). \<not> b) cs of [] \<Rightarrow> None | (b, e) # _ \<Rightarrow> Some e)"

abbreviation fk_error :: api_error where
  "fk_error \<equiv> IntegrityError ''violates foreign key constraint''"

abbreviation unique_error :: api_error where
  "unique_error \<equiv> IntegrityError ''duplicate key value violates unique constraint''"

abbreviation null_error :: api_error where
  "null_error \<equiv> IntegrityError ''null value violates not-null constraint''"

abbreviation range_error :: api_error where
  "range_error \<equiv> DBError ''value out of range''"

lemma constraints_Nil [simp]: "constraints [] = None"
  by (simp add: constraints_def)

lemma constraints_Cons [simp]: "constraints ((b, e) # cs) = (if b then constraints cs else Some e)"
  by (simp add: constraints_def)

text \<open>
  An entity: its table in the database, the policy that shows its rows, and the constraints a row
  written under a key has to meet.
\<close>

record 'r entity =
  ent_sel :: "db \<Rightarrow> 'r table"
  ent_upd :: "('r table \<Rightarrow> 'r table) \<Rightarrow> db \<Rightarrow> db"
  ent_vis :: "session \<Rightarrow> 'r \<Rightarrow> bool"
  ent_check :: "db \<Rightarrow> uuid \<Rightarrow> 'r \<Rightarrow> api_error option"

definition tenants_e :: "tenant_row entity" where
  "tenants_e = \<lparr>ent_sel = db_tenants, ent_upd = db_tenants_update, ent_vis = (\<lambda>s r. True),
     ent_check = (\<lambda>d i r. constraints [(varchar 255 (tn_name r) \<and> varchar 100 (tn_slug r), range_error),
       (unique_for tn_slug (db_tenants d) i r, unique_error)])\<rparr>"

definition users_e :: "user_row entity" where
  "users_e = \<lparr>ent_sel = db_users, ent_upd = db_users_update,
     ent_vis = (\<lambda>s r. rls_standard s (u_tenant_id r)),
     ent_check = (\<lambda>d i r. constraints [(varchar 100 (u_username r) \<and> varchar 255 (u_email r) \<and> varchar_opt 255 (u_password_hash r) \<and>
        varchar 255 (u_display_name r) \<and> varchar_opt 255 (u_api_key_hash r), range_error),
       (fk (db_tenants d) (u_tenant_id r), fk_error),
       (unique_for (\<lambda>u. (u_tenant_id u, u_username u)) (db_users d) i r, unique_error),
       (pg_int (u_inactivity_timeout_minutes r), range_error)])\<rparr>"

definition cases_e :: "case_row entity" where
  "cases_e = \<lparr>ent_sel = db_cases, ent_upd = db_cases_update,
     ent_vis = (\<lambda>s r. rls_standard s (c_tenant_id r)),
     ent_check = (\<lambda>d i r. constraints [(varchar 500 (c_title r), range_error),
       (fk (db_tenants d) (c_tenant_id r), fk_error),
       (fk_opt (db_users d) (c_assignee_id r), fk_error),
       (fk_opt (db_templates d) (c_template_id r), fk_error),
       (fk (db_users d) (c_created_by r), fk_error),
       (unique_for (\<lambda>c. (c_tenant_id c, c_case_number c)) (db_cases d) i r, unique_error),
       (pg_int (c_case_number r), range_error)])\<rparr>"

definition tasks_e :: "task_row entity" where
  "tasks_e = \<lparr>ent_sel = db_tasks, ent_upd = db_tasks_update,
     ent_vis = (\<lambda>s r. rls_standard s (k_tenant_id r)),
     ent_check = (\<lambda>d i r. constraints [(varchar 500 (k_title r), range_error),
       (pg_int (k_sort_order r), range_error),
       (fk (db_tenants d) (k_tenant_id r), fk_error), (fk (db_cases d) (k_case_id r), fk_error),
       (fk_opt (db_users d) (k_assignee_id r), fk_error), (fk (db_users d) (k_created_by r), fk_error)])\<rparr>"

definition observables_e :: "observable_row entity" where
  "observables_e = \<lparr>ent_sel = db_observables, ent_upd = db_observables_update,
     ent_vis = (\<lambda>s r. rls_standard s (o_tenant_id r)),
     ent_check = (\<lambda>d i r. constraints [(fk (db_tenants d) (o_tenant_id r), fk_error),
       (fk (db_cases d) (o_case_id r), fk_error), (fk (db_users d) (o_created_by r), fk_error)])\<rparr>"

definition assets_e :: "asset_row entity" where
  "assets_e = \<lparr>ent_sel = db_assets, ent_upd = db_assets_update,
     ent_vis = (\<lambda>s r. rls_standard s (a_tenant_id r)),
     ent_check = (\<lambda>d i r. constraints [(varchar 255 (a_name r) \<and> varchar_opt 45 (a_ip_address r) \<and> varchar_opt 255 (a_domain r), range_error),
       (unique_for (\<lambda>a. (a_case_id a, a_name a)) (db_assets d) i r, unique_error),
       (fk (db_tenants d) (a_tenant_id r), fk_error), (fk (db_cases d) (a_case_id r), fk_error),
       (fk (db_users d) (a_created_by r), fk_error)])\<rparr>"

definition evidence_e :: "evidence_row entity" where
  "evidence_e = \<lparr>ent_sel = db_evidence, ent_upd = db_evidence_update,
     ent_vis = (\<lambda>s r. rls_standard s (e_tenant_id r)),
     ent_check = (\<lambda>d i r. constraints [(varchar 500 (e_filename r) \<and> varchar 64 (e_file_hash_sha256 r) \<and> varchar_opt 1000 (e_storage_path r), range_error),
       (pg_bigint (e_file_size r), range_error),
       (fk (db_tenants d) (e_tenant_id r), fk_error), (fk (db_cases d) (e_case_id r), fk_error),
       (fk (db_users d) (e_registered_by r), fk_error)])\<rparr>"

definition timeline_e :: "timeline_row entity" where
  "timeline_e = \<lparr>ent_sel = db_timeline, ent_upd = db_timeline_update,
     ent_vis = (\<lambda>s r. rls_standard s (tl_tenant_id r)),
     ent_check = (\<lambda>d i r. constraints [(varchar 50 (tl_event_type r) \<and> varchar_opt 100 (tl_category r), range_error),
       (fk (db_tenants d) (tl_tenant_id r), fk_error),
       (fk (db_cases d) (tl_case_id r), fk_error), (fk_opt (db_users d) (tl_actor_id r), fk_error)])\<rparr>"

definition folders_e :: "folder_row entity" where
  "folders_e = \<lparr>ent_sel = db_folders, ent_upd = db_folders_update,
     ent_vis = (\<lambda>s r. rls_standard s (f_tenant_id r)),
     ent_check = (\<lambda>d i r. constraints [(varchar 255 (f_name r), range_error),
       (pg_int (f_sort_order r), range_error),
       (fk (db_tenants d) (f_tenant_id r), fk_error), (fk (db_cases d) (f_case_id r), fk_error),
       (fk_opt (row_add i r (db_folders d)) (f_parent_id r), fk_error)])\<rparr>"

definition notes_e :: "note_row entity" where
  "notes_e = \<lparr>ent_sel = db_notes, ent_upd = db_notes_update,
     ent_vis = (\<lambda>s r. rls_standard s (n_tenant_id r)),
     ent_check = (\<lambda>d i r. constraints [(varchar 500 (n_title r), range_error),
       (fk (db_tenants d) (n_tenant_id r), fk_error),
       (fk (db_cases d) (n_case_id r), fk_error), (fk_opt (db_folders d) (n_folder_id r), fk_error),
       (fk (db_users d) (n_author_id r), fk_error)])\<rparr>"

definition alerts_e :: "alert_row entity" where
  "alerts_e = \<lparr>ent_sel = db_alerts, ent_upd = db_alerts_update,
     ent_vis = (\<lambda>s r. rls_standard s (al_tenant_id r)),
     ent_check = (\<lambda>d i r. constraints [(varchar 255 (al_source_product r) \<and> varchar 500 (al_finding_uid r) \<and> varchar 500 (al_title r) \<and>
        varchar_opt 255 (al_dismiss_reason r) \<and> varchar_opt 500 (al_dedup_key r), range_error),
       (fk (db_tenants d) (al_tenant_id r), fk_error),
       (fk_opt (db_cases d) (al_promoted_to_case_id r), fk_error), (pg_int (al_severity_id r), range_error)])\<rparr>"

definition templates_e :: "template_row entity" where
  "templates_e = \<lparr>ent_sel = db_templates, ent_upd = db_templates_update,
     ent_vis = (\<lambda>s r. rls_nullable s (tp_tenant_id r)),
     ent_check = (\<lambda>d i r. constraints [(varchar 255 (tp_name r) \<and> varchar_opt 50 (tp_default_severity r), range_error),
       (fk_opt (db_tenants d) (tp_tenant_id r), fk_error),
       (fk (db_users d) (tp_created_by r), fk_error)])\<rparr>"

definition sources_e :: "source_row entity" where
  "sources_e = \<lparr>ent_sel = db_sources, ent_upd = db_sources_update,
     ent_vis = (\<lambda>s r. rls_standard s (es_tenant_id r)),
     ent_check = (\<lambda>d i r. constraints [(varchar 255 (es_name r) \<and> varchar 100 (es_type r), range_error),
       (fk (db_tenants d) (es_tenant_id r), fk_error),
       (pg_int (es_timeout_seconds r), range_error)])\<rparr>"

definition results_e :: "result_row entity" where
  "results_e = \<lparr>ent_sel = db_results, ent_upd = db_results_update,
     ent_vis = (\<lambda>s r. rls_standard s (er_tenant_id r)),
     ent_check = (\<lambda>d i r. constraints [(fk (db_tenants d) (er_tenant_id r), fk_error),
       (fk (db_observables d) (er_observable_id r), fk_error), (fk (db_sources d) (er_source_id r), fk_error)])\<rparr>"

definition mappings_e :: "mapping_row entity" where
  "mappings_e = \<lparr>ent_sel = db_mappings, ent_upd = db_mappings_update,
     ent_vis = (\<lambda>s r. rls_standard s (m_tenant_id r)),
     ent_check = (\<lambda>d i r. constraints [(varchar 20 (m_tactic_id r) \<and> varchar 20 (m_technique_id r) \<and> varchar_opt 20 (m_sub_technique_id r), range_error),
       (m_case_id r \<noteq> None \<or> m_observable_id r \<noteq> None \<or> m_timeline_entry_id r \<noteq> None,
        IntegrityError ''violates check constraint''),
       (fk (db_tenants d) (m_tenant_id r), fk_error), (fk_opt (db_cases d) (m_case_id r), fk_error),
       (fk_opt (db_observables d) (m_observable_id r), fk_error),
       (fk_opt (db_timeline d) (m_timeline_entry_id r), fk_error), (fk (db_users d) (m_created_by r), fk_error)])\<rparr>"

definition modules_e :: "module_row entity" where
  "modules_e = \<lparr>ent_sel = db_modules, ent_upd = db_modules_update, ent_vis = (\<lambda>s r. True),
     ent_check = (\<lambda>d i r. constraints [(varchar 255 (mo_name r) \<and> varchar 50 (mo_version r) \<and> varchar 500 (mo_entry_point r), range_error),
       (unique_for mo_name (db_modules d) i r, unique_error)])\<rparr>"

definition executions_e :: "execution_row entity" where
  "executions_e = \<lparr>ent_sel = db_executions, ent_upd = db_executions_update,
     ent_vis = (\<lambda>s r. rls_standard s (x_tenant_id r)),
     ent_check = (\<lambda>d i r. constraints [(varchar_opt 100 (x_trigger_event r), range_error),
       (fk (db_modules d) (x_module_id r), fk_error),
       (fk (db_tenants d) (x_tenant_id r), fk_error), (fk_opt (db_cases d) (x_case_id r), fk_error)])\<rparr>"

definition audit_logs_e :: "audit_row entity" where
  "audit_logs_e = \<lparr>ent_sel = db_audit_logs, ent_upd = db_audit_logs_update,
     ent_vis = (\<lambda>s r. rls_standard s (au_tenant_id r)),
     ent_check = (\<lambda>d i r. constraints [(varchar 100 (au_action r) \<and> varchar 100 (au_resource_type r) \<and> varchar_opt 45 (au_source_ip r), range_error),
       (fk (db_tenants d) (au_tenant_id r), fk_error),
       (fk (db_users d) (au_user_id r), fk_error)])\<rparr>"

definition report_templates_e :: "report_template_row entity" where
  "report_templates_e = \<lparr>ent_sel = db_report_templates, ent_upd = db_report_templates_update,
     ent_vis = (\<lambda>s r. rls_nullable s (rt_tenant_id r)),
     ent_check = (\<lambda>d i r. constraints [(varchar 255 (rt_name r), range_error),
       (fk_opt (db_tenants d) (rt_tenant_id r), fk_error), (fk (db_users d) (rt_created_by r), fk_error)])\<rparr>"

definition reports_e :: "report_row entity" where
  "reports_e = \<lparr>ent_sel = db_reports, ent_upd = db_reports_update,
     ent_vis = (\<lambda>s r. rls_standard s (rp_tenant_id r)),
     ent_check = (\<lambda>d i r. constraints [(varchar 20 (rp_format r) \<and> varchar_opt 1000 (rp_storage_path r), range_error),
       (fk (db_tenants d) (rp_tenant_id r), fk_error), (fk (db_cases d) (rp_case_id r), fk_error),
       (fk (db_report_templates d) (rp_template_id r), fk_error), (fk (db_users d) (rp_generated_by r), fk_error)])\<rparr>"

lemmas entity_defs = tenants_e_def users_e_def cases_e_def tasks_e_def observables_e_def assets_e_def
  evidence_e_def timeline_e_def folders_e_def notes_e_def alerts_e_def templates_e_def sources_e_def
  results_e_def mappings_e_def modules_e_def executions_e_def audit_logs_e_def report_templates_e_def
  reports_e_def

end
