(* ===== verification/Orm.thy ===== *)
theory Orm
  imports Tenancy
begin

text \<open>
  The ORM session: the primitives every service is built from, the well-formedness invariant of the
  database and the isolation frame, with one lemma per table and primitive.

  A flush is immediate: \<open>insert_row\<close> and \<open>store_row\<close> check the row policy and the constraints where
  the code flushes. An ORM update or delete of a row the session does not see matches no row, which
  SQLAlchemy reports as a stale-data error.
\<close>

section \<open>Primitives\<close>

definition visible_row :: "'r entity \<Rightarrow> db \<Rightarrow> uuid \<Rightarrow> 'r option" where
  "visible_row E d i = (case row_get (ent_sel E d) i of None \<Rightarrow> None
     | Some r \<Rightarrow> if ent_vis E (db_session d) r then Some r else None)"

definition find_row :: "'r entity \<Rightarrow> uuid \<Rightarrow> 'r option service" where
  "find_row E i = reads (\<lambda>d. visible_row E d i)"

definition select_rows :: "'r entity \<Rightarrow> (uuid \<Rightarrow> 'r \<Rightarrow> bool) \<Rightarrow> 'r table service" where
  "select_rows E P = reads (\<lambda>d. rows_where (\<lambda>i r. ent_vis E (db_session d) r \<and> P i r) (ent_sel E d))"

abbreviation rls_error :: api_error where
  "rls_error \<equiv> DBError ''new row violates row-level security policy''"

abbreviation stale_error :: api_error where
  "stale_error \<equiv> OtherError ''StaleDataError''"

definition insert_row :: "'r entity \<Rightarrow> 'r \<Rightarrow> uuid service" where
  "insert_row E r = (\<lambda>d.
     if \<not> ent_vis E (db_session d) r then (Inl rls_error, d)
     else case ent_check E d (db_next_id d) r of Some e \<Rightarrow> (Inl e, d)
     | None \<Rightarrow> (Inr (db_next_id d),
         ent_upd E (row_add (db_next_id d) r) (d\<lparr>db_next_id := Suc (db_next_id d)\<rparr>)))"

definition store_row :: "'r entity \<Rightarrow> uuid \<Rightarrow> 'r \<Rightarrow> unit service" where
  "store_row E i r = (\<lambda>d. case visible_row E d i of None \<Rightarrow> (Inl stale_error, d)
     | Some old \<Rightarrow>
       if \<not> ent_vis E (db_session d) r then (Inl rls_error, d)
       else case ent_check E d i r of Some e \<Rightarrow> (Inl e, d)
       | None \<Rightarrow> (Inr (), ent_upd E (row_set i r) d))"

definition delete_row :: "'r entity \<Rightarrow> uuid \<Rightarrow> unit service" where
  "delete_row E i = (\<lambda>d. case visible_row E d i of None \<Rightarrow> (Inl stale_error, d)
     | Some old \<Rightarrow> (Inr (), ent_upd E (row_del i) d))"

text \<open>\<^verbatim>\<open>scalar_one_or_none()\<close> on the selected rows.\<close>

definition scalar_one_or_none :: "'a list \<Rightarrow> 'a option service" where
  "scalar_one_or_none rs = (case rs of [] \<Rightarrow> ret None | [r] \<Rightarrow> ret (Some r) | _ \<Rightarrow> raise MultipleResultsFound)"

definition now_utc :: "int service" where
  "now_utc = reads db_now"

text \<open>The services' \<^verbatim>\<open>_get_..._or_404\<close> helpers: the row, or the 404 with the given detail.\<close>

definition get_or_404 :: "'r entity \<Rightarrow> (uuid \<Rightarrow> string) \<Rightarrow> uuid \<Rightarrow> 'r service" where
  "get_or_404 E detail i = bind (find_row E i)
     (\<lambda>x. case x of None \<Rightarrow> raise (HTTPException 404 (detail i)) | Some r \<Rightarrow> ret r)"

text \<open>
  A field of a partial update (\<^verbatim>\<open>model_dump(exclude_unset=True)\<close>): not sent, sent as null, or
  sent with a value. \<open>set_opt\<close> writes it to a nullable column, \<open>set_req\<close> to a column that is not;
  writing null there is what \<open>is_null\<close> detects.
\<close>

type_synonym 'a upd = "'a option option"

fun set_opt :: "'a upd \<Rightarrow> 'a option \<Rightarrow> 'a option" where
  "set_opt None x = x"
| "set_opt (Some v) x = v"

fun set_req :: "'a upd \<Rightarrow> 'a \<Rightarrow> 'a" where
  "set_req (Some (Some v)) x = v"
| "set_req _ x = x"

definition is_null :: "'a upd \<Rightarrow> bool" where
  "is_null u \<longleftrightarrow> u = Some None"

text \<open>The same for a JSONB column, where null is stored as a JSON value.\<close>

fun set_json :: "json upd \<Rightarrow> json \<Rightarrow> json" where
  "set_json None x = x"
| "set_json (Some None) x = JNull"
| "set_json (Some (Some v)) x = v"

text \<open>The flush after a partial update: a null in a column that takes none, or the changed row.\<close>

definition not_null :: "bool list \<Rightarrow> unit service" where
  "not_null nulls = guard (\<not> (True \<in> set nulls)) null_error"

definition save_changed :: "'r entity \<Rightarrow> uuid \<Rightarrow> 'r \<Rightarrow> 'r \<Rightarrow> ('r \<Rightarrow> 'r) \<Rightarrow> unit service" where
  "save_changed E i old new touch = (if new = old then ret () else store_row E i (touch new))"

lemma not_null_apply [svc_simps]: "not_null ns d = (if True \<in> set ns then (Inl null_error, d) else (Inr (), d))"
  by (simp add: not_null_def)

lemma keeps_not_null [keeps_intros]: "keeps I (not_null ns)"
  by (simp add: not_null_def keeps_guard)

lemma keeps_save_changed [keeps_intros]:
  "keeps I (store_row E i (touch new)) \<Longrightarrow> keeps I (save_changed E i old new touch)"
  by (simp add: save_changed_def keeps_ret)

lemma visible_rowD: "visible_row E d i = Some r \<Longrightarrow> row_get (ent_sel E d) i = Some r \<and> ent_vis E (db_session d) r"
  by (auto simp: visible_row_def split: option.splits if_splits)

lemma visible_frame:
  "ent_sel E d' = ent_sel E d \<Longrightarrow> db_session d' = db_session d \<Longrightarrow> visible_row E d' i = visible_row E d i"
  by (simp add: visible_row_def split: option.split)

lemma find_row_apply [svc_simps]: "find_row E i d = (Inr (visible_row E d i), d)"
  by (simp add: find_row_def)

lemma select_rows_apply [svc_simps]:
  "select_rows E P d = (Inr (rows_where (\<lambda>i r. ent_vis E (db_session d) r \<and> P i r) (ent_sel E d)), d)"
  by (simp add: select_rows_def)

lemma now_utc_apply [svc_simps]: "now_utc d = (Inr (db_now d), d)"
  by (simp add: now_utc_def)

lemma get_or_404_apply [svc_simps]:
  "get_or_404 E det i d = (case visible_row E d i of
     None \<Rightarrow> (Inl (HTTPException 404 (det i)), d) | Some r \<Rightarrow> (Inr r, d))"
  by (simp add: get_or_404_def svc_simps split: option.splits)

lemma keeps_find_row [keeps_intros]: "keeps I (find_row E i)"
  by (simp add: find_row_def keeps_reads)

lemma keeps_select_rows [keeps_intros]: "keeps I (select_rows E P)"
  by (simp add: select_rows_def keeps_reads)

lemma keeps_now_utc [keeps_intros]: "keeps I now_utc"
  by (simp add: now_utc_def keeps_reads)

lemma keeps_scalar [keeps_intros]: "keeps I (scalar_one_or_none rs)"
  unfolding scalar_one_or_none_def by (auto split: list.splits intro: keeps_intros)

lemma keeps_get_or_404 [keeps_intros]: "keeps I (get_or_404 E det i)"
  unfolding get_or_404_def by (intro keeps_intros)

lemma get_or_404_post:
  assumes "I d"
    and "\<And>r. visible_row E d i = Some r \<Longrightarrow> I (snd (k r d))"
  shows "I (snd (bind (get_or_404 E det i) k d))"
  using assms by (auto simp: svc_simps split: option.splits)

lemma get_or_404_InrD: "get_or_404 E det i d = (Inr r, d') \<Longrightarrow> visible_row E d i = Some r \<and> d' = d"
  by (simp add: get_or_404_apply split: option.splits)

lemma not_null_InrD: "not_null ns d = (Inr u, d') \<Longrightarrow> True \<notin> set ns \<and> d' = d"
  by (simp add: not_null_apply split: if_splits)

section \<open>Successful runs\<close>

text \<open>A successful run of a service, statement by statement: rewriting with \<open>run_eqs\<close> unrolls it.\<close>

named_theorems run_eqs
  "a successful run of a sequence, as a run of its first statement and one of the rest"

lemma run_bind_get [run_eqs]:
  "bind (get_or_404 E det i) k d = (Inr r, d') \<longleftrightarrow> (\<exists>x. visible_row E d i = Some x \<and> k x d = (Inr r, d'))"
  by (auto simp: bind_apply get_or_404_apply split: option.splits)

lemma run_get [run_eqs]: "get_or_404 E det i d = (Inr r, d') \<longleftrightarrow> visible_row E d i = Some r \<and> d' = d"
  by (auto simp: get_or_404_apply split: option.splits)

lemma run_find [run_eqs]: "bind (find_row E i) k d = k (visible_row E d i) d"
  by (simp add: bind_apply find_row_apply)

lemma run_now [run_eqs]: "bind now_utc k d = k (db_now d) d"
  by (simp add: bind_apply now_utc_apply)

lemma run_reads [run_eqs]: "bind (reads f) k d = k (f d) d"
  by (simp add: bind_apply)

lemma run_select [run_eqs]:
  "bind (select_rows E P) k d = k (rows_where (\<lambda>i r. ent_vis E (db_session d) r \<and> P i r) (ent_sel E d)) d"
  by (simp add: bind_apply select_rows_apply)

lemma run_guard [run_eqs]: "and_then (guard b e) m d = (Inr r, d') \<longleftrightarrow> b \<and> m d = (Inr r, d')"
  by (simp add: and_then_apply)

lemma run_not_null [run_eqs]: "and_then (not_null ns) m d = (Inr r, d') \<longleftrightarrow> True \<notin> set ns \<and> m d = (Inr r, d')"
  by (simp add: and_then_apply not_null_apply)

lemma run_modify [run_eqs]: "and_then (modify f) m d = m (f d)"
  by (simp add: and_then_apply)

lemma run_insert [run_eqs]:
  "bind (insert_row E x) k d = (Inr r, d') \<longleftrightarrow> (\<exists>d1. insert_row E x d = (Inr (db_next_id d), d1) \<and> k (db_next_id d) d1 = (Inr r, d'))"
  by (auto simp: bind_apply insert_row_def split: option.splits)

lemma run_store [run_eqs]:
  "and_then (store_row E i x) m d = (Inr r, d') \<longleftrightarrow> (\<exists>d1. store_row E i x d = (Inr (), d1) \<and> m d1 = (Inr r, d'))"
  by (auto simp: and_then_apply split: prod.splits sum.splits)

lemma run_save [run_eqs]:
  "and_then (save_changed E i old new touch) m d = (Inr r, d') \<longleftrightarrow>
     (if new = old then m d = (Inr r, d') else \<exists>d1. store_row E i (touch new) d = (Inr (), d1) \<and> m d1 = (Inr r, d'))"
  by (auto simp: save_changed_def and_then_apply split: prod.splits sum.splits)

section \<open>Lenses\<close>

text \<open>The tables, updates and policies of the entities, without their constraint checks.\<close>

lemma entity_sel [simp]:
  "ent_sel tenants_e = db_tenants"
  "ent_sel users_e = db_users"
  "ent_sel cases_e = db_cases"
  "ent_sel tasks_e = db_tasks"
  "ent_sel observables_e = db_observables"
  "ent_sel assets_e = db_assets"
  "ent_sel evidence_e = db_evidence"
  "ent_sel timeline_e = db_timeline"
  "ent_sel folders_e = db_folders"
  "ent_sel notes_e = db_notes"
  "ent_sel alerts_e = db_alerts"
  "ent_sel templates_e = db_templates"
  "ent_sel sources_e = db_sources"
  "ent_sel results_e = db_results"
  "ent_sel mappings_e = db_mappings"
  "ent_sel modules_e = db_modules"
  "ent_sel executions_e = db_executions"
  "ent_sel audit_logs_e = db_audit_logs"
  "ent_sel report_templates_e = db_report_templates"
  "ent_sel reports_e = db_reports"
  by (simp_all add: entity_defs)

lemma entity_upd [simp]:
  "ent_upd tenants_e = db_tenants_update"
  "ent_upd users_e = db_users_update"
  "ent_upd cases_e = db_cases_update"
  "ent_upd tasks_e = db_tasks_update"
  "ent_upd observables_e = db_observables_update"
  "ent_upd assets_e = db_assets_update"
  "ent_upd evidence_e = db_evidence_update"
  "ent_upd timeline_e = db_timeline_update"
  "ent_upd folders_e = db_folders_update"
  "ent_upd notes_e = db_notes_update"
  "ent_upd alerts_e = db_alerts_update"
  "ent_upd templates_e = db_templates_update"
  "ent_upd sources_e = db_sources_update"
  "ent_upd results_e = db_results_update"
  "ent_upd mappings_e = db_mappings_update"
  "ent_upd modules_e = db_modules_update"
  "ent_upd executions_e = db_executions_update"
  "ent_upd audit_logs_e = db_audit_logs_update"
  "ent_upd report_templates_e = db_report_templates_update"
  "ent_upd reports_e = db_reports_update"
  by (simp_all add: entity_defs)

lemma entity_vis [simp]:
  "ent_vis tenants_e = (\<lambda>s r. True)" "ent_vis modules_e = (\<lambda>s r. True)"
  "ent_vis users_e = (\<lambda>s r. rls_standard s (u_tenant_id r))"
  "ent_vis cases_e = (\<lambda>s r. rls_standard s (c_tenant_id r))"
  "ent_vis tasks_e = (\<lambda>s r. rls_standard s (k_tenant_id r))"
  "ent_vis observables_e = (\<lambda>s r. rls_standard s (o_tenant_id r))"
  "ent_vis assets_e = (\<lambda>s r. rls_standard s (a_tenant_id r))"
  "ent_vis evidence_e = (\<lambda>s r. rls_standard s (e_tenant_id r))"
  "ent_vis timeline_e = (\<lambda>s r. rls_standard s (tl_tenant_id r))"
  "ent_vis folders_e = (\<lambda>s r. rls_standard s (f_tenant_id r))"
  "ent_vis notes_e = (\<lambda>s r. rls_standard s (n_tenant_id r))"
  "ent_vis alerts_e = (\<lambda>s r. rls_standard s (al_tenant_id r))"
  "ent_vis sources_e = (\<lambda>s r. rls_standard s (es_tenant_id r))"
  "ent_vis results_e = (\<lambda>s r. rls_standard s (er_tenant_id r))"
  "ent_vis mappings_e = (\<lambda>s r. rls_standard s (m_tenant_id r))"
  "ent_vis executions_e = (\<lambda>s r. rls_standard s (x_tenant_id r))"
  "ent_vis audit_logs_e = (\<lambda>s r. rls_standard s (au_tenant_id r))"
  "ent_vis report_templates_e = (\<lambda>s r. rls_nullable s (rt_tenant_id r))"
  "ent_vis reports_e = (\<lambda>s r. rls_standard s (rp_tenant_id r))"
  "ent_vis templates_e = (\<lambda>s r. rls_nullable s (tp_tenant_id r))"
  by (simp_all add: entity_defs)

text \<open>What a primitive can have done to the state: nothing, or its one change to the table.\<close>

lemma insert_row_post:
  assumes "P d"
    and "ent_vis E (db_session d) r \<Longrightarrow> ent_check E d (db_next_id d) r = None \<Longrightarrow>
      P (ent_upd E (row_add (db_next_id d) r) (d\<lparr>db_next_id := Suc (db_next_id d)\<rparr>))"
  shows "P (snd (insert_row E r d))"
  using assms by (auto simp: insert_row_def split: option.splits)

lemma store_row_post:
  assumes "P d"
    and "\<And>old. visible_row E d i = Some old \<Longrightarrow> ent_vis E (db_session d) r \<Longrightarrow>
      ent_check E d i r = None \<Longrightarrow> P (ent_upd E (row_set i r) d)"
  shows "P (snd (store_row E i r d))"
  using assms by (auto simp: store_row_def split: option.splits)

lemma delete_row_post:
  assumes "P d" and "\<And>old. visible_row E d i = Some old \<Longrightarrow> P (ent_upd E (row_del i) d)"
  shows "P (snd (delete_row E i d))"
  using assms by (auto simp: delete_row_def split: option.splits)

lemma keeps_insertI:
  "(\<And>d. I d \<Longrightarrow> ent_vis E (db_session d) r \<Longrightarrow> ent_check E d (db_next_id d) r = None \<Longrightarrow>
     I (ent_upd E (row_add (db_next_id d) r) (d\<lparr>db_next_id := Suc (db_next_id d)\<rparr>))) \<Longrightarrow>
   keeps I (insert_row E r)"
  by (rule keepsI, rule insert_row_post) auto

lemma keeps_storeI:
  "(\<And>d old. I d \<Longrightarrow> visible_row E d i = Some old \<Longrightarrow> ent_vis E (db_session d) r \<Longrightarrow>
     ent_check E d i r = None \<Longrightarrow> I (ent_upd E (row_set i r) d)) \<Longrightarrow> keeps I (store_row E i r)"
  by (rule keepsI, rule store_row_post) auto

lemma keeps_deleteI:
  "(\<And>d old. I d \<Longrightarrow> visible_row E d i = Some old \<Longrightarrow> I (ent_upd E (row_del i) d)) \<Longrightarrow>
   keeps I (delete_row E i)"
  by (rule keepsI, rule delete_row_post) auto

lemma insert_row_InrD:
  "insert_row E r d = (Inr i, d') \<Longrightarrow> i = db_next_id d \<and> ent_vis E (db_session d) r \<and>
     ent_check E d i r = None \<and>
     d' = ent_upd E (row_add (db_next_id d) r) (d\<lparr>db_next_id := Suc (db_next_id d)\<rparr>)"
  by (auto simp: insert_row_def split: if_splits option.splits)

lemma store_row_InrD:
  "store_row E i r d = (Inr u, d') \<Longrightarrow> visible_row E d i \<noteq> None \<and> ent_vis E (db_session d) r \<and>
     ent_check E d i r = None \<and> d' = ent_upd E (row_set i r) d"
  by (auto simp: store_row_def split: if_splits option.splits)

lemma delete_row_InrD:
  "delete_row E i d = (Inr u, d') \<Longrightarrow> visible_row E d i \<noteq> None \<and> d' = ent_upd E (row_del i) d"
  by (auto simp: delete_row_def split: if_splits option.splits)

section \<open>Keys\<close>

definition wf_ids :: "db \<Rightarrow> bool" where
  "wf_ids d \<longleftrightarrow>
     ids_ok (db_next_id d) (db_tenants d) \<and> ids_ok (db_next_id d) (db_users d) \<and>
     ids_ok (db_next_id d) (db_cases d) \<and> ids_ok (db_next_id d) (db_tasks d) \<and>
     ids_ok (db_next_id d) (db_observables d) \<and> ids_ok (db_next_id d) (db_assets d) \<and>
     ids_ok (db_next_id d) (db_evidence d) \<and> ids_ok (db_next_id d) (db_timeline d) \<and>
     ids_ok (db_next_id d) (db_folders d) \<and> ids_ok (db_next_id d) (db_notes d) \<and>
     ids_ok (db_next_id d) (db_alerts d) \<and> ids_ok (db_next_id d) (db_templates d) \<and>
     ids_ok (db_next_id d) (db_sources d) \<and> ids_ok (db_next_id d) (db_results d) \<and>
     ids_ok (db_next_id d) (db_mappings d) \<and> ids_ok (db_next_id d) (db_modules d) \<and>
     ids_ok (db_next_id d) (db_executions d) \<and> ids_ok (db_next_id d) (db_audit_logs d) \<and>
     ids_ok (db_next_id d) (db_report_templates d) \<and> ids_ok (db_next_id d) (db_reports d)"

lemma wf_ids_Suc [simp]: "wf_ids d \<Longrightarrow> wf_ids (d\<lparr>db_next_id := Suc (db_next_id d)\<rparr>)"
  by (simp add: wf_ids_def)

section \<open>Isolation\<close>

text \<open>
  The rows of a table that a session does not see, and the frame: a state of the same session whose
  hidden rows, in every table under row-level security, are those of \<open>d0\<close>.
\<close>

definition hidden :: "'r entity \<Rightarrow> session \<Rightarrow> db \<Rightarrow> 'r table" where
  "hidden E s d = rows_where (\<lambda>i r. \<not> ent_vis E s r) (ent_sel E d)"

definition isolated :: "session \<Rightarrow> db \<Rightarrow> db \<Rightarrow> bool" where
  "isolated s d0 d \<longleftrightarrow> wf_ids d \<and> db_session d = s \<and>
     hidden users_e s d = hidden users_e s d0 \<and>
     hidden cases_e s d = hidden cases_e s d0 \<and>
     hidden tasks_e s d = hidden tasks_e s d0 \<and>
     hidden observables_e s d = hidden observables_e s d0 \<and>
     hidden assets_e s d = hidden assets_e s d0 \<and>
     hidden evidence_e s d = hidden evidence_e s d0 \<and>
     hidden timeline_e s d = hidden timeline_e s d0 \<and>
     hidden folders_e s d = hidden folders_e s d0 \<and>
     hidden notes_e s d = hidden notes_e s d0 \<and>
     hidden alerts_e s d = hidden alerts_e s d0 \<and>
     hidden templates_e s d = hidden templates_e s d0 \<and>
     hidden sources_e s d = hidden sources_e s d0 \<and>
     hidden results_e s d = hidden results_e s d0 \<and>
     hidden mappings_e s d = hidden mappings_e s d0 \<and>
     hidden executions_e s d = hidden executions_e s d0 \<and>
     hidden audit_logs_e s d = hidden audit_logs_e s d0 \<and>
     hidden report_templates_e s d = hidden report_templates_e s d0 \<and>
     hidden reports_e s d = hidden reports_e s d0"

lemma isolated_refl: "wf_ids d \<Longrightarrow> isolated (db_session d) d d"
  by (simp add: isolated_def)

lemma rows_where_add: "rows_where P (row_add i r t) = (if P i r then row_add i r (rows_where P t) else rows_where P t)"
  by (simp add: rows_where_def row_add_def)

lemma rows_where_map:
  assumes "\<forall>(k, x) \<in> set t. (\<not> P k x \<and> \<not> P k (f k x)) \<or> f k x = x"
  shows "rows_where P (row_map f t) = rows_where P t"
  using assms by (induction t) (auto simp: rows_where_def row_map_def)

lemma rows_where_set:
  assumes "row_get t i = Some old" "distinct (map fst t)" "\<not> P i old" "\<not> P i r"
  shows "rows_where P (row_set i r t) = rows_where P t"
proof -
  have "x = old" if "(i, x) \<in> set t" for x
    using assms(1) that row_get_iff [OF assms(2)] by (metis option.inject)
  then show ?thesis
    unfolding row_set_def using assms(3,4) by (intro rows_where_map) auto
qed

lemma rows_where_del:
  assumes "row_get t i = Some old" "distinct (map fst t)" "\<not> P i old"
  shows "rows_where P (row_del i t) = rows_where P t"
proof -
  have "x = old" if "(i, x) \<in> set t" for x
    using assms(1) that row_get_iff [OF assms(2)] by (metis option.inject)
  with assms(3) have "\<forall>(k, x) \<in> set t. P k x \<longrightarrow> k \<noteq> i"
    by auto
  then show ?thesis
    unfolding rows_where_def row_del_def filter_filter by (intro filter_cong) auto
qed

lemma isolated_ids: "isolated s d0 d \<Longrightarrow> wf_ids d"
  by (simp add: isolated_def)

lemma isolated_session: "isolated s d0 d \<Longrightarrow> db_session d = s"
  by (simp add: isolated_def)

text \<open>Writing or deleting a row the session sees does not touch a row it does not see.\<close>

lemma hidden_set:
  assumes "visible_row E d i = Some old" "ids_ok n (ent_sel E d)" "ent_vis E (db_session d) r"
  shows "rows_where (\<lambda>i r. \<not> ent_vis E (db_session d) r) (row_set i r (ent_sel E d))
       = rows_where (\<lambda>i r. \<not> ent_vis E (db_session d) r) (ent_sel E d)"
  using assms visible_rowD [OF assms(1)] by (intro rows_where_set [where old = old]) (auto simp: ids_ok_distinct)

lemma hidden_del:
  assumes "visible_row E d i = Some old" "ids_ok n (ent_sel E d)"
  shows "rows_where (\<lambda>i r. \<not> ent_vis E (db_session d) r) (row_del i (ent_sel E d))
       = rows_where (\<lambda>i r. \<not> ent_vis E (db_session d) r) (ent_sel E d)"
  using assms visible_rowD [OF assms(1)] by (intro rows_where_del [where old = old]) (auto simp: ids_ok_distinct)

text \<open>
  The contract of an entity: its update is a lens on one table of the database, so that keys and
  hidden rows have to be checked for that table only. What the primitives keep follows once.
\<close>

locale rls_table =
  fixes E :: "'r entity"
  assumes sel_upd: "ent_sel E (ent_upd E f d) = f (ent_sel E d)"
    and sel_next: "ent_sel E (d\<lparr>db_next_id := n\<rparr>) = ent_sel E d"
    and ids_sel: "wf_ids d \<Longrightarrow> ids_ok (db_next_id d) (ent_sel E d)"
    and ids_upd: "wf_ids d \<Longrightarrow> ids_ok (db_next_id d) (f (ent_sel E d)) \<Longrightarrow> wf_ids (ent_upd E f d)"
    and upd_upd: "ent_upd E g (ent_upd E f d) = ent_upd E (\<lambda>t. g (f t)) d"
    and upd_sel: "f (ent_sel E d) = g (ent_sel E d) \<Longrightarrow> ent_upd E f d = ent_upd E g d"
    and upd_id: "ent_upd E (\<lambda>t. t) d = d"
    and session_upd: "db_session (ent_upd E f d) = db_session d"
    and isolated_upd: "isolated s d0 d \<Longrightarrow> ids_ok (db_next_id d) (f (ent_sel E d)) \<Longrightarrow>
      rows_where (\<lambda>i r. \<not> ent_vis E s r) (f (ent_sel E d)) = hidden E s d \<Longrightarrow>
      isolated s d0 (ent_upd E f d)"
begin

lemma insert_keeps_ids [keeps_intros]: "keeps wf_ids (insert_row E r)"
proof (rule keeps_insertI)
  fix d assume "wf_ids d"
  then show "wf_ids (ent_upd E (row_add (db_next_id d) r) (d\<lparr>db_next_id := Suc (db_next_id d)\<rparr>))"
    by (intro ids_upd) (simp_all add: sel_next ids_sel)
qed

lemma store_keeps_ids [keeps_intros]: "keeps wf_ids (store_row E i r)"
  by (intro keeps_storeI ids_upd) (simp_all add: ids_sel)

lemma delete_keeps_ids [keeps_intros]: "keeps wf_ids (delete_row E i)"
  by (intro keeps_deleteI ids_upd) (simp_all add: ids_sel)

lemma insert_keeps_isolated [keeps_intros]: "keeps (isolated s d0) (insert_row E r)"
proof (rule keeps_insertI)
  fix d assume iso: "isolated s d0 d" and vis: "ent_vis E (db_session d) r"
  let ?d = "d\<lparr>db_next_id := Suc (db_next_id d)\<rparr>"
  have "isolated s d0 ?d"
    using iso by (simp add: isolated_def hidden_def)
  then show "isolated s d0 (ent_upd E (row_add (db_next_id d) r) ?d)"
    using vis iso by (intro isolated_upd)
      (simp_all add: sel_next ids_sel isolated_ids isolated_session rows_where_add hidden_def)
qed

lemma store_keeps_isolated [keeps_intros]: "keeps (isolated s d0) (store_row E i r)"
proof (rule keeps_storeI)
  fix d old assume iso: "isolated s d0 d" and old: "visible_row E d i = Some old"
    and vis: "ent_vis E (db_session d) r"
  note ids = ids_sel [OF isolated_ids [OF iso]]
  show "isolated s d0 (ent_upd E (row_set i r) d)"
    using hidden_set [OF old ids vis] ids isolated_session [OF iso]
    by (intro isolated_upd [OF iso]) (auto simp: hidden_def)
qed

lemma delete_keeps_isolated [keeps_intros]: "keeps (isolated s d0) (delete_row E i)"
proof (rule keeps_deleteI)
  fix d old assume iso: "isolated s d0 d" and old: "visible_row E d i = Some old"
  note ids = ids_sel [OF isolated_ids [OF iso]]
  show "isolated s d0 (ent_upd E (row_del i) d)"
    using hidden_del [OF old ids] ids isolated_session [OF iso]
    by (intro isolated_upd [OF iso]) (auto simp: hidden_def)
qed

text \<open>The row stored under the new id is the one inserted, and a stored row is read back.\<close>

lemma insert_reads_back:
  assumes "wf_ids d" and "insert_row E r d = (Inr i, d')"
  shows "row_get (ent_sel E d') i = Some r"
proof -
  have "row_get (ent_sel E d) (db_next_id d) = None"
    using ids_sel [OF assms(1)] by simp
  then show ?thesis
    using insert_row_InrD [OF assms(2)] by (simp add: sel_upd sel_next tbl.get_add_same)
qed

lemma store_reads_back:
  assumes "store_row E i r d = (Inr u, d')"
  shows "row_get (ent_sel E d') i = Some r"
  using store_row_InrD [OF assms] visible_rowD
  by (fastforce simp: sel_upd intro: tbl.get_put_same)

text \<open>A loop that writes rows of the table back under their keys is one pass over the table.\<close>

lemma bulk_store:
  assumes "for_each rows (\<lambda>(i, r). store_row E i (f r)) d = (Inr u, d')"
    and "distinct (map fst (ent_sel E d))" "distinct (map fst rows)" "set rows \<subseteq> set (ent_sel E d)"
  shows "d' = ent_upd E (row_map (\<lambda>i r. if i \<in> fst ` set rows then f r else r)) d"
  using assms
proof (induction rows arbitrary: d)
  case Nil
  then show ?case
    by (simp add: row_map_def upd_id)
next
  case (Cons x rows)
  obtain i r where x: "x = (i, r)" by fastforce
  from Cons.prems(1) obtain d1 where one: "store_row E i (f r) d = (Inr (), d1)"
    and rest: "for_each rows (\<lambda>(i, r). store_row E i (f r)) d1 = (Inr u, d')"
    by (auto simp: x elim!: and_then_InrD)
  have d1: "d1 = ent_upd E (row_set i (f r)) d"
    using store_row_InrD [OF one] by simp
  have sub: "set rows \<subseteq> set (ent_sel E d1)"
  proof
    fix q assume q: "q \<in> set rows"
    obtain j y where jy: "q = (j, y)" by fastforce
    from q Cons.prems(3,4) have "j \<noteq> i" and "(j, y) \<in> set (ent_sel E d)"
      by (auto simp: x jy image_iff)
    then show "q \<in> set (ent_sel E d1)"
      by (auto simp: d1 sel_upd set_row_set jy intro!: image_eqI [of _ _ "(j, y)"])
  qed
  have val: "y = r" if "(i, y) \<in> set (ent_sel E d)" for y
    using Cons.prems(2,4) that by (auto simp: x dest: eq_key_imp_eq_value)
  have "d' = ent_upd E (row_map (\<lambda>i r. if i \<in> fst ` set rows then f r else r)) d1"
    using Cons.prems by (intro Cons.IH [OF rest _ _ sub]) (auto simp: d1 sel_upd)
  also have "\<dots> = ent_upd E (row_map (\<lambda>i r. if i \<in> fst ` set (x # rows) then f r else r)) d"
    unfolding d1 upd_upd using Cons.prems(3) val
    by (intro upd_sel) (auto simp: row_map_def row_set_def x image_iff)
  finally show ?case .
qed

lemma delete_reads_back:
  assumes "delete_row E i d = (Inr u, d')"
  shows "row_get (ent_sel E d') i = None"
  using delete_row_InrD [OF assms] by (simp add: sel_upd tbl.get_del)

end

interpretation tenants_t: rls_table tenants_e
  by unfold_locales (auto simp: wf_ids_def isolated_def hidden_def intro: db.equality)

interpretation users_t: rls_table users_e
  by unfold_locales (auto simp: wf_ids_def isolated_def hidden_def intro: db.equality)

interpretation cases_t: rls_table cases_e
  by unfold_locales (auto simp: wf_ids_def isolated_def hidden_def intro: db.equality)

interpretation tasks_t: rls_table tasks_e
  by unfold_locales (auto simp: wf_ids_def isolated_def hidden_def intro: db.equality)

interpretation observables_t: rls_table observables_e
  by unfold_locales (auto simp: wf_ids_def isolated_def hidden_def intro: db.equality)

interpretation assets_t: rls_table assets_e
  by unfold_locales (auto simp: wf_ids_def isolated_def hidden_def intro: db.equality)

interpretation evidence_t: rls_table evidence_e
  by unfold_locales (auto simp: wf_ids_def isolated_def hidden_def intro: db.equality)

interpretation timeline_t: rls_table timeline_e
  by unfold_locales (auto simp: wf_ids_def isolated_def hidden_def intro: db.equality)

interpretation folders_t: rls_table folders_e
  by unfold_locales (auto simp: wf_ids_def isolated_def hidden_def intro: db.equality)

interpretation notes_t: rls_table notes_e
  by unfold_locales (auto simp: wf_ids_def isolated_def hidden_def intro: db.equality)

interpretation alerts_t: rls_table alerts_e
  by unfold_locales (auto simp: wf_ids_def isolated_def hidden_def intro: db.equality)

interpretation templates_t: rls_table templates_e
  by unfold_locales (auto simp: wf_ids_def isolated_def hidden_def intro: db.equality)

interpretation sources_t: rls_table sources_e
  by unfold_locales (auto simp: wf_ids_def isolated_def hidden_def intro: db.equality)

interpretation results_t: rls_table results_e
  by unfold_locales (auto simp: wf_ids_def isolated_def hidden_def intro: db.equality)

interpretation mappings_t: rls_table mappings_e
  by unfold_locales (auto simp: wf_ids_def isolated_def hidden_def intro: db.equality)

interpretation modules_t: rls_table modules_e
  by unfold_locales (auto simp: wf_ids_def isolated_def hidden_def intro: db.equality)

interpretation executions_t: rls_table executions_e
  by unfold_locales (auto simp: wf_ids_def isolated_def hidden_def intro: db.equality)

interpretation audit_logs_t: rls_table audit_logs_e
  by unfold_locales (auto simp: wf_ids_def isolated_def hidden_def intro: db.equality)

interpretation report_templates_t: rls_table report_templates_e
  by unfold_locales (auto simp: wf_ids_def isolated_def hidden_def intro: db.equality)

interpretation reports_t: rls_table reports_e
  by unfold_locales (auto simp: wf_ids_def isolated_def hidden_def intro: db.equality)

end
