(* ===== verification/Integrity.thy ===== *)
theory Integrity
  imports Orm
begin

text \<open>
  Referential and tenant integrity of the database.

  \<^item> \<open>wf_tenancy\<close>: every row that hangs on a case (task, observable, asset, evidence, timeline entry,
    folder, note) belongs to an existing case and carries that case's tenant. The schema has two
    independent foreign keys here and does not enforce the agreement; the services have to.
  \<^item> \<open>wf_unique\<close>: the unique constraints of the schema.
  \<^item> \<open>wf_notes\<close>: a note is filed in a folder of its own case.
  \<^item> \<open>wf_alerts\<close>: a tenant has at most one pending alert per non-empty dedup key, and a promoted
    alert names its case.

  The locale \<open>wf_table\<close> states for one table what has to be shown of a change to it.
\<close>

section \<open>The invariant\<close>

definition tenant_in :: "case_row table \<Rightarrow> uuid \<Rightarrow> uuid option" where
  "tenant_in t i = map_option c_tenant_id (row_get t i)"

abbreviation case_tenant :: "db \<Rightarrow> uuid \<Rightarrow> uuid option" where
  "case_tenant d \<equiv> tenant_in (db_cases d)"

definition rows_in_case :: "(uuid \<Rightarrow> uuid option) \<Rightarrow> ('r \<Rightarrow> uuid) \<Rightarrow> ('r \<Rightarrow> uuid) \<Rightarrow> 'r table \<Rightarrow> bool" where
  "rows_in_case T cid ten t \<longleftrightarrow> (\<forall>(i, r) \<in> set t. T (cid r) = Some (ten r))"

definition unique_rows :: "('r \<Rightarrow> 'k) \<Rightarrow> 'r table \<Rightarrow> bool" where
  "unique_rows f t \<longleftrightarrow> (\<forall>(i, x) \<in> set t. \<forall>(j, y) \<in> set t. f x = f y \<longrightarrow> i = j)"

abbreviation case_key :: "case_row \<Rightarrow> uuid \<times> int" where
  "case_key c \<equiv> (c_tenant_id c, c_case_number c)"

abbreviation asset_key :: "asset_row \<Rightarrow> uuid \<times> string" where
  "asset_key a \<equiv> (a_case_id a, a_name a)"

abbreviation user_key :: "user_row \<Rightarrow> uuid \<times> string" where
  "user_key u \<equiv> (u_tenant_id u, u_username u)"

definition wf_tenancy :: "db \<Rightarrow> bool" where
  "wf_tenancy d \<longleftrightarrow>
     rows_in_case (case_tenant d) k_case_id k_tenant_id (db_tasks d) \<and>
     rows_in_case (case_tenant d) o_case_id o_tenant_id (db_observables d) \<and>
     rows_in_case (case_tenant d) a_case_id a_tenant_id (db_assets d) \<and>
     rows_in_case (case_tenant d) e_case_id e_tenant_id (db_evidence d) \<and>
     rows_in_case (case_tenant d) tl_case_id tl_tenant_id (db_timeline d) \<and>
     rows_in_case (case_tenant d) f_case_id f_tenant_id (db_folders d) \<and>
     rows_in_case (case_tenant d) n_case_id n_tenant_id (db_notes d)"

definition notes_filed :: "folder_row table \<Rightarrow> note_row table \<Rightarrow> bool" where
  "notes_filed fs ns \<longleftrightarrow> (\<forall>(i, n) \<in> set ns. \<forall>f. n_folder_id n = Some f \<longrightarrow>
     map_option f_case_id (row_get fs f) = Some (n_case_id n))"

definition pending_unique :: "alert_row table \<Rightarrow> bool" where
  "pending_unique t \<longleftrightarrow> (\<forall>(i, a) \<in> set t. \<forall>(j, b) \<in> set t.
     al_status a = AS_PENDING \<and> al_status b = AS_PENDING \<and> al_tenant_id a = al_tenant_id b \<and>
     al_dedup_key a = al_dedup_key b \<and> al_dedup_key a \<noteq> None \<and> al_dedup_key a \<noteq> Some [] \<longrightarrow> i = j)"

definition promoted_has_case :: "alert_row table \<Rightarrow> bool" where
  "promoted_has_case t \<longleftrightarrow> (\<forall>(i, a) \<in> set t. al_status a = AS_PROMOTED \<longrightarrow> al_promoted_to_case_id a \<noteq> None)"

definition wf_unique :: "db \<Rightarrow> bool" where
  "wf_unique d \<longleftrightarrow> unique_rows case_key (db_cases d) \<and> unique_rows asset_key (db_assets d) \<and>
     unique_rows user_key (db_users d) \<and> unique_rows tn_slug (db_tenants d) \<and>
     unique_rows mo_name (db_modules d)"

definition wf_db :: "db \<Rightarrow> bool" where
  "wf_db d \<longleftrightarrow> wf_ids d \<and> wf_tenancy d \<and> wf_unique d \<and> notes_filed (db_folders d) (db_notes d) \<and>
     pending_unique (db_alerts d) \<and> promoted_has_case (db_alerts d)"

lemma wf_db_ids: "wf_db d \<Longrightarrow> wf_ids d"
  by (simp add: wf_db_def)

section \<open>Table lemmas\<close>

lemma rows_in_case_Nil [simp]: "rows_in_case T cid ten []"
  by (simp add: rows_in_case_def)

lemma rows_in_case_add [simp]:
  "rows_in_case T cid ten (row_add i r t) \<longleftrightarrow> rows_in_case T cid ten t \<and> T (cid r) = Some (ten r)"
  by (auto simp: rows_in_case_def)

lemma rows_in_case_set [intro]:
  "rows_in_case T cid ten t \<Longrightarrow> T (cid r) = Some (ten r) \<Longrightarrow> rows_in_case T cid ten (row_set i r t)"
  by (auto simp: rows_in_case_def set_row_set split: if_splits)

lemma rows_in_case_del [simp]: "rows_in_case T cid ten t \<Longrightarrow> rows_in_case T cid ten (row_del i t)"
  by (auto simp: rows_in_case_def)

lemma rows_in_case_where [simp]: "rows_in_case T cid ten t \<Longrightarrow> rows_in_case T cid ten (rows_where P t)"
  by (auto simp: rows_in_case_def)

lemma rows_in_case_map:
  "rows_in_case T cid ten t \<Longrightarrow> (\<And>k x. (k, x) \<in> set t \<Longrightarrow> T (cid x) = Some (ten x) \<Longrightarrow>
     T (cid (f k x)) = Some (ten (f k x))) \<Longrightarrow> rows_in_case T cid ten (row_map f t)"
  by (auto simp: rows_in_case_def set_row_map)

lemma rows_in_caseD: "rows_in_case T cid ten t \<Longrightarrow> row_get t i = Some r \<Longrightarrow> T (cid r) = Some (ten r)"
  using row_get_in [of t i r] by (auto simp: rows_in_case_def)

lemma rows_in_case_mono:
  "rows_in_case T cid ten t \<Longrightarrow> (\<And>k x u. (k, x) \<in> set t \<Longrightarrow> T (cid x) = Some u \<Longrightarrow> T' (cid x) = Some u) \<Longrightarrow>
   rows_in_case T' cid ten t"
  by (auto simp: rows_in_case_def)

lemma unique_rows_Nil [simp]: "unique_rows f []"
  by (simp add: unique_rows_def)

lemma unique_rows_add:
  "unique_rows f t \<Longrightarrow> unique_for f t i r \<Longrightarrow> row_get t i = None \<Longrightarrow> unique_rows f (row_add i r t)"
  by (fastforce simp: unique_rows_def unique_for_def row_get_def map_of_eq_None_iff)

lemma unique_rows_iff:
  "unique_rows f t \<longleftrightarrow> (\<forall>i x j y. (i, x) \<in> set t \<longrightarrow> (j, y) \<in> set t \<longrightarrow> f x = f y \<longrightarrow> i = j)"
  by (auto simp: unique_rows_def)

lemma unique_for_iff: "unique_for f t i r \<longleftrightarrow> (\<forall>j x. (j, x) \<in> set t \<longrightarrow> j \<noteq> i \<longrightarrow> f x \<noteq> f r)"
  by (auto simp: unique_for_def)

lemma unique_rows_set:
  "unique_rows f t \<Longrightarrow> unique_for f t i r \<Longrightarrow> unique_rows f (row_set i r t)"
  unfolding unique_rows_iff unique_for_iff set_row_set by (auto split: if_splits) metis+

lemma unique_rows_del [simp]: "unique_rows f t \<Longrightarrow> unique_rows f (row_del i t)"
  by (fastforce simp: unique_rows_def)

lemma unique_for_same:
  "unique_rows f t \<Longrightarrow> row_get t i = Some x \<Longrightarrow> f r = f x \<Longrightarrow> unique_for f t i r"
  using row_get_in [of t i x] by (fastforce simp: unique_rows_def unique_for_def)

lemma notes_filed_del [simp]: "notes_filed fs ns \<Longrightarrow> notes_filed fs (row_del i ns)"
  by (auto simp: notes_filed_def)

lemma notes_filed_folder_add:
  "notes_filed fs ns \<Longrightarrow> row_get fs i = None \<Longrightarrow> notes_filed (row_add i r fs) ns"
  by (fastforce simp: notes_filed_def row_get_add split: option.splits)

lemma notes_filed_folder_set:
  "notes_filed fs ns \<Longrightarrow> row_get fs i = Some old \<Longrightarrow> f_case_id r = f_case_id old \<Longrightarrow>
   notes_filed (row_set i r fs) ns"
  by (fastforce simp: notes_filed_def row_get_set)

lemma case_tenant_SomeD: "case_tenant d i = Some t \<Longrightarrow> \<exists>c. row_get (db_cases d) i = Some c \<and> c_tenant_id c = t"
  by (auto simp: tenant_in_def)

lemma case_tenant_visible:
  "visible_row cases_e d i = Some c \<Longrightarrow> case_tenant d i = Some (c_tenant_id c)"
  using visible_rowD [of cases_e d i c] by (simp add: tenant_in_def)

section \<open>One table at a time\<close>

text \<open>
  \<open>ok d t\<close>: the part of the invariant that speaks of the entity's table, for a table \<open>t\<close> in the
  database \<open>d\<close>.
\<close>

locale wf_table = rls_table E for E :: "'r entity" +
  fixes ok :: "db \<Rightarrow> 'r table \<Rightarrow> bool"
  assumes ok_sel: "wf_db d \<Longrightarrow> ok d (ent_sel E d)"
    and ok_next: "ok (d\<lparr>db_next_id := n\<rparr>) t = ok d t"
    and wf_upd: "wf_db d \<Longrightarrow> ids_ok (db_next_id d) (f (ent_sel E d)) \<Longrightarrow> ok d (f (ent_sel E d)) \<Longrightarrow>
      wf_db (ent_upd E f d)"
begin

lemma wf_insert:
  assumes "wf_db d"
    and "ent_vis E (db_session d) r \<Longrightarrow> ent_check E d (db_next_id d) r = None \<Longrightarrow>
      ok d (row_add (db_next_id d) r (ent_sel E d))"
  shows "wf_db (snd (insert_row E r d))"
proof (rule insert_row_post)
  show "wf_db d" by fact
  assume vis: "ent_vis E (db_session d) r" and chk: "ent_check E d (db_next_id d) r = None"
  have "wf_db (d\<lparr>db_next_id := Suc (db_next_id d)\<rparr>)"
    using assms(1) by (simp add: wf_db_def wf_tenancy_def wf_unique_def)
  then show "wf_db (ent_upd E (row_add (db_next_id d) r) (d\<lparr>db_next_id := Suc (db_next_id d)\<rparr>))"
    using assms(2) [OF vis chk] ids_sel [OF wf_db_ids [OF assms(1)]]
    by (intro wf_upd) (simp_all add: sel_next ok_next)
qed

lemma wf_store:
  assumes "wf_db d"
    and "\<And>old. visible_row E d i = Some old \<Longrightarrow> ent_vis E (db_session d) r \<Longrightarrow>
      ent_check E d i r = None \<Longrightarrow> ok d (row_set i r (ent_sel E d))"
  shows "wf_db (snd (store_row E i r d))"
  using assms ids_sel [OF wf_db_ids [OF assms(1)]] by (intro store_row_post [where P = wf_db] wf_upd) auto

lemma wf_delete:
  assumes "wf_db d"
    and "\<And>old. visible_row E d i = Some old \<Longrightarrow> ok d (row_del i (ent_sel E d))"
  shows "wf_db (snd (delete_row E i d))"
  using assms ids_sel [OF wf_db_ids [OF assms(1)]] by (intro delete_row_post [where P = wf_db] wf_upd) auto

end

definition tasks_ok :: "db \<Rightarrow> task_row table \<Rightarrow> bool" where
  "tasks_ok d t \<longleftrightarrow> rows_in_case (case_tenant d) k_case_id k_tenant_id t"

definition observables_ok :: "db \<Rightarrow> observable_row table \<Rightarrow> bool" where
  "observables_ok d t \<longleftrightarrow> rows_in_case (case_tenant d) o_case_id o_tenant_id t"

definition assets_ok :: "db \<Rightarrow> asset_row table \<Rightarrow> bool" where
  "assets_ok d t \<longleftrightarrow> rows_in_case (case_tenant d) a_case_id a_tenant_id t \<and> unique_rows asset_key t"

definition evidence_ok :: "db \<Rightarrow> evidence_row table \<Rightarrow> bool" where
  "evidence_ok d t \<longleftrightarrow> rows_in_case (case_tenant d) e_case_id e_tenant_id t"

definition timeline_ok :: "db \<Rightarrow> timeline_row table \<Rightarrow> bool" where
  "timeline_ok d t \<longleftrightarrow> rows_in_case (case_tenant d) tl_case_id tl_tenant_id t"

definition folders_ok :: "db \<Rightarrow> folder_row table \<Rightarrow> bool" where
  "folders_ok d t \<longleftrightarrow> rows_in_case (case_tenant d) f_case_id f_tenant_id t \<and> notes_filed t (db_notes d)"

definition notes_ok :: "db \<Rightarrow> note_row table \<Rightarrow> bool" where
  "notes_ok d t \<longleftrightarrow> rows_in_case (case_tenant d) n_case_id n_tenant_id t \<and> notes_filed (db_folders d) t"

definition cases_ok :: "db \<Rightarrow> case_row table \<Rightarrow> bool" where
  "cases_ok d t \<longleftrightarrow> unique_rows case_key t \<and> wf_tenancy (d\<lparr>db_cases := t\<rparr>)"

definition alerts_ok :: "db \<Rightarrow> alert_row table \<Rightarrow> bool" where
  "alerts_ok d t \<longleftrightarrow> pending_unique t \<and> promoted_has_case t"

lemmas ok_defs = tasks_ok_def observables_ok_def assets_ok_def evidence_ok_def timeline_ok_def
  folders_ok_def notes_ok_def cases_ok_def alerts_ok_def

interpretation tenants_w: wf_table tenants_e "(\<lambda>d t. unique_rows tn_slug t)"
  by unfold_locales (auto simp: wf_db_def wf_ids_def wf_tenancy_def wf_unique_def ok_defs)

interpretation users_w: wf_table users_e "(\<lambda>d t. unique_rows user_key t)"
  by unfold_locales (auto simp: wf_db_def wf_ids_def wf_tenancy_def wf_unique_def ok_defs)

interpretation cases_w: wf_table cases_e "cases_ok"
  by unfold_locales (auto simp: wf_db_def wf_ids_def wf_tenancy_def wf_unique_def ok_defs)

interpretation tasks_w: wf_table tasks_e "tasks_ok"
  by unfold_locales (auto simp: wf_db_def wf_ids_def wf_tenancy_def wf_unique_def ok_defs)

interpretation observables_w: wf_table observables_e "observables_ok"
  by unfold_locales (auto simp: wf_db_def wf_ids_def wf_tenancy_def wf_unique_def ok_defs)

interpretation assets_w: wf_table assets_e "assets_ok"
  by unfold_locales (auto simp: wf_db_def wf_ids_def wf_tenancy_def wf_unique_def ok_defs)

interpretation evidence_w: wf_table evidence_e "evidence_ok"
  by unfold_locales (auto simp: wf_db_def wf_ids_def wf_tenancy_def wf_unique_def ok_defs)

interpretation timeline_w: wf_table timeline_e "timeline_ok"
  by unfold_locales (auto simp: wf_db_def wf_ids_def wf_tenancy_def wf_unique_def ok_defs)

interpretation folders_w: wf_table folders_e "folders_ok"
  by unfold_locales (auto simp: wf_db_def wf_ids_def wf_tenancy_def wf_unique_def ok_defs)

interpretation notes_w: wf_table notes_e "notes_ok"
  by unfold_locales (auto simp: wf_db_def wf_ids_def wf_tenancy_def wf_unique_def ok_defs)

interpretation alerts_w: wf_table alerts_e "alerts_ok"
  by unfold_locales (auto simp: wf_db_def wf_ids_def wf_tenancy_def wf_unique_def ok_defs)

interpretation templates_w: wf_table templates_e "(\<lambda>d t. True)"
  by unfold_locales (auto simp: wf_db_def wf_ids_def wf_tenancy_def wf_unique_def ok_defs)

interpretation sources_w: wf_table sources_e "(\<lambda>d t. True)"
  by unfold_locales (auto simp: wf_db_def wf_ids_def wf_tenancy_def wf_unique_def ok_defs)

interpretation results_w: wf_table results_e "(\<lambda>d t. True)"
  by unfold_locales (auto simp: wf_db_def wf_ids_def wf_tenancy_def wf_unique_def ok_defs)

interpretation mappings_w: wf_table mappings_e "(\<lambda>d t. True)"
  by unfold_locales (auto simp: wf_db_def wf_ids_def wf_tenancy_def wf_unique_def ok_defs)

interpretation modules_w: wf_table modules_e "(\<lambda>d t. unique_rows mo_name t)"
  by unfold_locales (auto simp: wf_db_def wf_ids_def wf_tenancy_def wf_unique_def ok_defs)

interpretation executions_w: wf_table executions_e "(\<lambda>d t. True)"
  by unfold_locales (auto simp: wf_db_def wf_ids_def wf_tenancy_def wf_unique_def ok_defs)

interpretation audit_logs_w: wf_table audit_logs_e "(\<lambda>d t. True)"
  by unfold_locales (auto simp: wf_db_def wf_ids_def wf_tenancy_def wf_unique_def ok_defs)

interpretation report_templates_w: wf_table report_templates_e "(\<lambda>d t. True)"
  by unfold_locales (auto simp: wf_db_def wf_ids_def wf_tenancy_def wf_unique_def ok_defs)

interpretation reports_w: wf_table reports_e "(\<lambda>d t. True)"
  by unfold_locales (auto simp: wf_db_def wf_ids_def wf_tenancy_def wf_unique_def ok_defs)

section \<open>Work on known cases\<close>

text \<open>
  \<open>wf_at A\<close>: the invariant, in a state in which each case of \<open>A\<close> exists and has the tenant given.
  A service that has read a case (or a row of one) works under it, and each of its steps keeps it.
\<close>

definition wf_at :: "(uuid \<times> uuid) set \<Rightarrow> db \<Rightarrow> bool" where
  "wf_at A d \<longleftrightarrow> wf_db d \<and> (\<forall>(c, t) \<in> A. case_tenant d c = Some t)"

lemma wf_at_db: "wf_at A d \<Longrightarrow> wf_db d"
  by (simp add: wf_at_def)

lemma wf_atD: "wf_at A d \<Longrightarrow> (c, t) \<in> A \<Longrightarrow> case_tenant d c = Some t"
  by (auto simp: wf_at_def)

lemma wf_at_empty: "wf_at {} d = wf_db d"
  by (simp add: wf_at_def)

lemma wf_at_insert: "wf_at (insert (c, t) A) d \<longleftrightarrow> wf_at A d \<and> case_tenant d c = Some t"
  by (auto simp: wf_at_def)

lemma wf_at_mono: "wf_at B d \<Longrightarrow> A \<subseteq> B \<Longrightarrow> wf_at A d"
  by (auto simp: wf_at_def)

text \<open>Entering the frame after a read, and leaving it.\<close>

lemma wf_run:
  assumes "wf_db d" and "\<forall>(c, t) \<in> A. case_tenant d c = Some t" and "keeps (wf_at A) m"
  shows "wf_db (snd (m d))"
  using keepsD [OF assms(3), of d] assms(1,2) by (simp add: wf_at_def)

lemma wf_run_case:
  assumes "wf_db d" and "case_tenant d c = Some t" and "keeps (wf_at {(c, t)}) m"
  shows "wf_db (snd (m d))"
  using assms by (intro wf_run [where A = "{(c, t)}"]) auto

lemma wf_row_case:
  assumes "wf_db d"
  shows "visible_row tasks_e d i = Some k \<Longrightarrow> case_tenant d (k_case_id k) = Some (k_tenant_id k)"
    and "visible_row observables_e d i = Some ob \<Longrightarrow> case_tenant d (o_case_id ob) = Some (o_tenant_id ob)"
    and "visible_row assets_e d i = Some a \<Longrightarrow> case_tenant d (a_case_id a) = Some (a_tenant_id a)"
    and "visible_row evidence_e d i = Some e \<Longrightarrow> case_tenant d (e_case_id e) = Some (e_tenant_id e)"
    and "visible_row timeline_e d i = Some te \<Longrightarrow> case_tenant d (tl_case_id te) = Some (tl_tenant_id te)"
    and "visible_row folders_e d i = Some f \<Longrightarrow> case_tenant d (f_case_id f) = Some (f_tenant_id f)"
    and "visible_row notes_e d i = Some n \<Longrightarrow> case_tenant d (n_case_id n) = Some (n_tenant_id n)"
  using assms by (auto simp: wf_db_def wf_tenancy_def intro: rows_in_caseD dest!: visible_rowD)

lemma tenant_in_add: "row_get t i = None \<Longrightarrow> tenant_in (row_add i r t) j = (if j = i then Some (c_tenant_id r) else tenant_in t j)"
  by (auto simp: tenant_in_def tbl.get_add)

lemma tenant_in_set: "tenant_in t i = Some (c_tenant_id r) \<Longrightarrow> tenant_in (row_set i r t) = tenant_in t"
  by (rule ext) (auto simp: tenant_in_def row_get_set)

text \<open>An entity whose changes leave the cases alone.\<close>

locale off_cases = wf_table E ok for E :: "'r entity" and ok +
  assumes cases_upd: "db_cases (ent_upd E f d) = db_cases d"
begin

lemma insert_state_at:
  assumes at: "wf_at A d" and "ent_check E d (db_next_id d) r = None \<Longrightarrow> ok d (row_add (db_next_id d) r (ent_sel E d))"
  shows "wf_at A (snd (insert_row E r d))"
proof -
  have "db_cases (snd (insert_row E r d)) = db_cases d"
    by (rule insert_row_post) (simp_all add: cases_upd)
  moreover have "wf_db (snd (insert_row E r d))"
    by (rule wf_insert) (use assms in \<open>auto simp: wf_at_db\<close>)
  ultimately show ?thesis
    using at by (simp add: wf_at_def)
qed

lemma insert_at:
  assumes "\<And>d. wf_at A d \<Longrightarrow> ent_check E d (db_next_id d) r = None \<Longrightarrow> ok d (row_add (db_next_id d) r (ent_sel E d))"
  shows "keeps (wf_at A) (insert_row E r)"
  using assms by (intro keepsI insert_state_at)

lemma store_state_at:
  assumes at: "wf_at A d"
    and "\<And>old. visible_row E d i = Some old \<Longrightarrow> ent_check E d i r = None \<Longrightarrow> ok d (row_set i r (ent_sel E d))"
  shows "wf_at A (snd (store_row E i r d))"
proof -
  have "db_cases (snd (store_row E i r d)) = db_cases d"
    by (rule store_row_post) (simp_all add: cases_upd)
  moreover have "wf_db (snd (store_row E i r d))"
    by (rule wf_store) (use assms in \<open>auto simp: wf_at_db\<close>)
  ultimately show ?thesis
    using at by (simp add: wf_at_def)
qed

lemma store_at:
  assumes "\<And>d old. wf_at A d \<Longrightarrow> visible_row E d i = Some old \<Longrightarrow> ent_check E d i r = None \<Longrightarrow> ok d (row_set i r (ent_sel E d))"
  shows "keeps (wf_at A) (store_row E i r)"
  using assms by (intro keepsI store_state_at)

lemma delete_state_at:
  assumes at: "wf_at A d" and "\<And>old. visible_row E d i = Some old \<Longrightarrow> ok d (row_del i (ent_sel E d))"
  shows "wf_at A (snd (delete_row E i d))"
proof -
  have "db_cases (snd (delete_row E i d)) = db_cases d"
    by (rule delete_row_post) (simp_all add: cases_upd)
  moreover have "wf_db (snd (delete_row E i d))"
    by (rule wf_delete) (use assms in \<open>auto simp: wf_at_db\<close>)
  ultimately show ?thesis
    using at by (simp add: wf_at_def)
qed

lemma delete_at:
  assumes "\<And>d old. wf_at A d \<Longrightarrow> visible_row E d i = Some old \<Longrightarrow> ok d (row_del i (ent_sel E d))"
  shows "keeps (wf_at A) (delete_row E i)"
  using assms by (intro keepsI delete_state_at)

end

interpretation tenants_c: off_cases tenants_e "(\<lambda>d t. unique_rows tn_slug t)"
  by unfold_locales simp

interpretation users_c: off_cases users_e "(\<lambda>d t. unique_rows user_key t)"
  by unfold_locales simp

interpretation tasks_c: off_cases tasks_e "tasks_ok"
  by unfold_locales simp

interpretation observables_c: off_cases observables_e "observables_ok"
  by unfold_locales simp

interpretation assets_c: off_cases assets_e "assets_ok"
  by unfold_locales simp

interpretation evidence_c: off_cases evidence_e "evidence_ok"
  by unfold_locales simp

interpretation timeline_c: off_cases timeline_e "timeline_ok"
  by unfold_locales simp

interpretation folders_c: off_cases folders_e "folders_ok"
  by unfold_locales simp

interpretation notes_c: off_cases notes_e "notes_ok"
  by unfold_locales simp

interpretation alerts_c: off_cases alerts_e "alerts_ok"
  by unfold_locales simp

interpretation templates_c: off_cases templates_e "(\<lambda>d t. True)"
  by unfold_locales simp

interpretation sources_c: off_cases sources_e "(\<lambda>d t. True)"
  by unfold_locales simp

interpretation results_c: off_cases results_e "(\<lambda>d t. True)"
  by unfold_locales simp

interpretation mappings_c: off_cases mappings_e "(\<lambda>d t. True)"
  by unfold_locales simp

interpretation modules_c: off_cases modules_e "(\<lambda>d t. unique_rows mo_name t)"
  by unfold_locales simp

interpretation executions_c: off_cases executions_e "(\<lambda>d t. True)"
  by unfold_locales simp

interpretation audit_logs_c: off_cases audit_logs_e "(\<lambda>d t. True)"
  by unfold_locales simp

interpretation report_templates_c: off_cases report_templates_e "(\<lambda>d t. True)"
  by unfold_locales simp

interpretation reports_c: off_cases reports_e "(\<lambda>d t. True)"
  by unfold_locales simp

lemma row_ok_at:
  assumes "wf_at A d"
  shows "tasks_ok d (db_tasks d)" and "observables_ok d (db_observables d)" and "assets_ok d (db_assets d)"
    and "evidence_ok d (db_evidence d)" and "timeline_ok d (db_timeline d)" and "folders_ok d (db_folders d)"
    and "notes_ok d (db_notes d)" and "alerts_ok d (db_alerts d)" and "unique_rows tn_slug (db_tenants d)"
    and "unique_rows user_key (db_users d)" and "unique_rows mo_name (db_modules d)"
  using wf_at_db [OF assms] by (simp_all add: wf_db_def wf_tenancy_def wf_unique_def ok_defs)

lemma fresh_at:
  assumes "wf_at A d"
  shows "row_get (db_tenants d) (db_next_id d) = None" and "row_get (db_users d) (db_next_id d) = None"
    and "row_get (db_assets d) (db_next_id d) = None" and "row_get (db_folders d) (db_next_id d) = None"
    and "row_get (db_modules d) (db_next_id d) = None"
  using wf_db_ids [OF wf_at_db [OF assms]] by (auto simp: wf_ids_def)

text \<open>Writes to the rows of a case of \<open>A\<close>.\<close>

lemma check_unique:
  "ent_check tenants_e d i tn = None \<Longrightarrow> unique_for tn_slug (db_tenants d) i tn"
  "ent_check users_e d i u = None \<Longrightarrow> unique_for user_key (db_users d) i u"
  "ent_check assets_e d i a = None \<Longrightarrow> unique_for asset_key (db_assets d) i a"
  "ent_check cases_e d i c = None \<Longrightarrow> unique_for case_key (db_cases d) i c"
  "ent_check modules_e d i mo = None \<Longrightarrow> unique_for mo_name (db_modules d) i mo"
  by (auto simp: entity_defs split: if_splits)

lemma task_at [keeps_intros]:
  "(k_case_id r, k_tenant_id r) \<in> A \<Longrightarrow> keeps (wf_at A) (insert_row tasks_e r)"
  "(k_case_id r, k_tenant_id r) \<in> A \<Longrightarrow> keeps (wf_at A) (store_row tasks_e i r)"
  "keeps (wf_at A) (delete_row tasks_e i)"
  by ((rule tasks_c.insert_at tasks_c.store_at tasks_c.delete_at; frule row_ok_at;
       auto simp: tasks_ok_def wf_atD))+

lemma observable_at [keeps_intros]:
  "(o_case_id r, o_tenant_id r) \<in> A \<Longrightarrow> keeps (wf_at A) (insert_row observables_e r)"
  "(o_case_id r, o_tenant_id r) \<in> A \<Longrightarrow> keeps (wf_at A) (store_row observables_e i r)"
  "keeps (wf_at A) (delete_row observables_e i)"
  by ((rule observables_c.insert_at observables_c.store_at observables_c.delete_at; frule row_ok_at;
       auto simp: observables_ok_def wf_atD))+

lemma asset_at [keeps_intros]:
  "(a_case_id r, a_tenant_id r) \<in> A \<Longrightarrow> keeps (wf_at A) (insert_row assets_e r)"
  "(a_case_id r, a_tenant_id r) \<in> A \<Longrightarrow> keeps (wf_at A) (store_row assets_e i r)"
  "keeps (wf_at A) (delete_row assets_e i)"
  by ((rule assets_c.insert_at assets_c.store_at assets_c.delete_at; frule row_ok_at;
       auto simp: assets_ok_def wf_atD check_unique fresh_at unique_rows_add unique_rows_set))+

lemma evidence_at [keeps_intros]:
  "(e_case_id r, e_tenant_id r) \<in> A \<Longrightarrow> keeps (wf_at A) (insert_row evidence_e r)"
  "(e_case_id r, e_tenant_id r) \<in> A \<Longrightarrow> keeps (wf_at A) (store_row evidence_e i r)"
  "keeps (wf_at A) (delete_row evidence_e i)"
  by ((rule evidence_c.insert_at evidence_c.store_at evidence_c.delete_at; frule row_ok_at;
       auto simp: evidence_ok_def wf_atD))+

lemma timeline_at [keeps_intros]:
  "(tl_case_id r, tl_tenant_id r) \<in> A \<Longrightarrow> keeps (wf_at A) (insert_row timeline_e r)"
  "(tl_case_id r, tl_tenant_id r) \<in> A \<Longrightarrow> keeps (wf_at A) (store_row timeline_e i r)"
  "keeps (wf_at A) (delete_row timeline_e i)"
  by ((rule timeline_c.insert_at timeline_c.store_at timeline_c.delete_at; frule row_ok_at;
       auto simp: timeline_ok_def wf_atD))+

lemma free_at [keeps_intros]:
  "keeps (wf_at A) (insert_row templates_e tp)" "keeps (wf_at A) (store_row templates_e i tp)"
  "keeps (wf_at A) (delete_row templates_e i)"
  "keeps (wf_at A) (insert_row sources_e es)" "keeps (wf_at A) (store_row sources_e i es)"
  "keeps (wf_at A) (delete_row sources_e i)"
  "keeps (wf_at A) (insert_row results_e er)" "keeps (wf_at A) (store_row results_e i er)"
  "keeps (wf_at A) (delete_row results_e i)"
  "keeps (wf_at A) (insert_row mappings_e m)" "keeps (wf_at A) (delete_row mappings_e i)"
  "keeps (wf_at A) (insert_row executions_e x)" "keeps (wf_at A) (store_row executions_e i x)"
  "keeps (wf_at A) (insert_row audit_logs_e au)"
  "keeps (wf_at A) (insert_row report_templates_e rt)" "keeps (wf_at A) (insert_row reports_e rp)"
  "keeps (wf_at A) (delete_row tenants_e i)" "keeps (wf_at A) (delete_row users_e i)"
  "keeps (wf_at A) (delete_row modules_e i)"
  by (auto simp: row_ok_at intro!: templates_c.insert_at templates_c.store_at templates_c.delete_at
      sources_c.insert_at sources_c.store_at sources_c.delete_at results_c.insert_at results_c.store_at results_c.delete_at
      mappings_c.insert_at mappings_c.delete_at executions_c.insert_at executions_c.store_at
      audit_logs_c.insert_at report_templates_c.insert_at reports_c.insert_at tenants_c.delete_at users_c.delete_at modules_c.delete_at)

lemma unique_at [keeps_intros]:
  "keeps (wf_at A) (insert_row tenants_e tn)" "keeps (wf_at A) (store_row tenants_e i tn)"
  "keeps (wf_at A) (insert_row users_e u)" "keeps (wf_at A) (store_row users_e i u)"
  "keeps (wf_at A) (insert_row modules_e mo)" "keeps (wf_at A) (store_row modules_e i mo)"
  by (auto simp: fresh_at row_ok_at check_unique unique_rows_add unique_rows_set
      intro!: tenants_c.insert_at tenants_c.store_at users_c.insert_at users_c.store_at
        modules_c.insert_at modules_c.store_at)

lemma case_store_at [keeps_intros]:
  assumes "(i, c_tenant_id r) \<in> A"
  shows "keeps (wf_at A) (store_row cases_e i r)"
proof (rule keepsI)
  fix d assume at: "wf_at A d"
  note i = wf_atD [OF at assms]
  note wf = wf_at_db [OF at]
  have "cases_ok d (row_set i r (db_cases d))" if "unique_for case_key (db_cases d) i r"
    using that wf by (simp add: cases_ok_def wf_db_def wf_unique_def wf_tenancy_def unique_rows_set tenant_in_set [OF i])
  then have "wf_db (snd (store_row cases_e i r d))"
    using wf by (intro cases_w.wf_store) (auto simp: cases_e_def split: if_splits)
  moreover have "tenant_in (db_cases (snd (store_row cases_e i r d))) = case_tenant d"
    by (rule store_row_post) (simp_all add: tenant_in_set [OF i])
  ultimately show "wf_at A (snd (store_row cases_e i r d))"
    using at by (simp add: wf_at_def)
qed

lemma case_insert_at [keeps_intros]: "keeps (wf_at A) (insert_row cases_e r)"
proof (rule keepsI)
  fix d assume at: "wf_at A d"
  note wf = wf_at_db [OF at]
  let ?n = "db_next_id d" and ?t = "row_add (db_next_id d) r (db_cases d)"
  have fresh: "row_get (db_cases d) ?n = None"
    using wf_db_ids [OF wf] by (simp add: wf_ids_def)
  have ext: "tenant_in ?t c = Some u" if "case_tenant d c = Some u" for c u
    using that fresh by (auto simp: tenant_in_def row_get_add)
  have "wf_tenancy (d\<lparr>db_cases := ?t\<rparr>)"
    using wf unfolding wf_db_def wf_tenancy_def by (auto elim!: rows_in_case_mono intro: ext)
  then have "cases_ok d ?t" if "unique_for case_key (db_cases d) ?n r"
    using that wf fresh by (simp add: cases_ok_def wf_db_def wf_unique_def unique_rows_add)
  then have "wf_db (snd (insert_row cases_e r d))"
    using wf by (intro cases_w.wf_insert) (auto simp: cases_e_def split: if_splits)
  moreover have "case_tenant (snd (insert_row cases_e r d)) c = Some u" if "case_tenant d c = Some u" for c u
    by (rule insert_row_post) (use that ext in auto)
  ultimately show "wf_at A (snd (insert_row cases_e r d))"
    using at by (auto simp: wf_at_def)
qed

text \<open>What a read tells of the cases of the rows it returns.\<close>

lemma wf_at_enter:
  assumes "\<And>d. wf_at A d \<Longrightarrow> (\<exists>x. m d = (Inr x, d) \<and> (\<exists>B. wf_at B d \<and> A \<subseteq> B \<and> keeps (wf_at B) (k x))) \<or> (\<exists>e. m d = (Inl e, d))"
  shows "keeps (wf_at A) (bind m k)"
proof (rule keepsI)
  fix d assume at: "wf_at A d"
  consider x B where "m d = (Inr x, d)" "wf_at B d" "A \<subseteq> B" "keeps (wf_at B) (k x)" | e where "m d = (Inl e, d)"
    using assms [OF at] by blast
  then show "wf_at A (snd (bind m k d))"
  proof cases
    case 1
    then show ?thesis
      using keepsD [OF 1(4,2)] wf_at_mono by (simp add: bind_apply)
  qed (use at in \<open>simp add: bind_apply\<close>)
qed

lemma get_at:
  assumes "\<And>d r. wf_at A d \<Longrightarrow> visible_row E d i = Some r \<Longrightarrow> wf_at (insert (f r) A) d"
    and "\<And>r. keeps (wf_at (insert (f r) A)) (k r)"
  shows "keeps (wf_at A) (bind (get_or_404 E det i) k)"
proof (rule wf_at_enter)
  fix d assume "wf_at A d"
  then show "(\<exists>x. get_or_404 E det i d = (Inr x, d) \<and> (\<exists>B. wf_at B d \<and> A \<subseteq> B \<and> keeps (wf_at B) (k x))) \<or>
      (\<exists>e. get_or_404 E det i d = (Inl e, d))"
    using assms by (cases "visible_row E d i") (auto simp: get_or_404_apply)
qed

lemma get_case_at:
  "(\<And>c. keeps (wf_at (insert (i, c_tenant_id c) A)) (k c)) \<Longrightarrow> keeps (wf_at A) (bind (get_or_404 cases_e det i) k)"
  by (rule get_at [where f = "\<lambda>c. (i, c_tenant_id c)"]) (simp_all add: wf_at_insert case_tenant_visible)

lemma get_child_at:
  "(\<And>r. keeps (wf_at (insert (k_case_id r, k_tenant_id r) A)) (f1 r)) \<Longrightarrow> keeps (wf_at A) (bind (get_or_404 tasks_e det i) f1)"
  "(\<And>r. keeps (wf_at (insert (o_case_id r, o_tenant_id r) A)) (f2 r)) \<Longrightarrow> keeps (wf_at A) (bind (get_or_404 observables_e det i) f2)"
  "(\<And>r. keeps (wf_at (insert (a_case_id r, a_tenant_id r) A)) (f3 r)) \<Longrightarrow> keeps (wf_at A) (bind (get_or_404 assets_e det i) f3)"
  "(\<And>r. keeps (wf_at (insert (e_case_id r, e_tenant_id r) A)) (f4 r)) \<Longrightarrow> keeps (wf_at A) (bind (get_or_404 evidence_e det i) f4)"
  "(\<And>r. keeps (wf_at (insert (tl_case_id r, tl_tenant_id r) A)) (f5 r)) \<Longrightarrow> keeps (wf_at A) (bind (get_or_404 timeline_e det i) f5)"
  "(\<And>r. keeps (wf_at (insert (f_case_id r, f_tenant_id r) A)) (f6 r)) \<Longrightarrow> keeps (wf_at A) (bind (get_or_404 folders_e det i) f6)"
  "(\<And>r. keeps (wf_at (insert (n_case_id r, n_tenant_id r) A)) (f7 r)) \<Longrightarrow> keeps (wf_at A) (bind (get_or_404 notes_e det i) f7)"
  by (rule get_at [where f = "\<lambda>r. (k_case_id r, k_tenant_id r)"] get_at [where f = "\<lambda>r. (o_case_id r, o_tenant_id r)"]
      get_at [where f = "\<lambda>r. (a_case_id r, a_tenant_id r)"] get_at [where f = "\<lambda>r. (e_case_id r, e_tenant_id r)"]
      get_at [where f = "\<lambda>r. (tl_case_id r, tl_tenant_id r)"] get_at [where f = "\<lambda>r. (f_case_id r, f_tenant_id r)"]
      get_at [where f = "\<lambda>r. (n_case_id r, n_tenant_id r)"]; simp add: wf_at_insert wf_row_case wf_at_db)+

lemma insert_case_at:
  assumes "\<And>i. keeps (wf_at (insert (i, c_tenant_id r) A)) (k i)"
  shows "keeps (wf_at A) (bind (insert_row cases_e r) k)"
proof (rule keepsI, rule bind_post)
  fix d assume at: "wf_at A d"
  show after: "wf_at A (snd (insert_row cases_e r d))"
    by (rule keepsD [OF case_insert_at at])
  fix i d' assume ins: "insert_row cases_e r d = (Inr i, d')"
  have "row_get (db_cases d') i = Some r"
    using cases_t.insert_reads_back [OF wf_db_ids [OF wf_at_db [OF at]] ins] by simp
  then have "wf_at (insert (i, c_tenant_id r) A) d'"
    using after ins by (simp add: wf_at_insert tenant_in_def)
  from keepsD [OF assms this] show "wf_at A (snd (k i d'))"
    by (rule wf_at_mono) auto
qed

lemma select_in_case_at:
  assumes "(c, t) \<in> A" and "\<And>rows. (\<forall>(j, r) \<in> set rows. o_case_id r = c \<and> o_tenant_id r = t) \<Longrightarrow> keeps (wf_at A) (f rows)"
  shows "keeps (wf_at A) (bind (select_rows observables_e (\<lambda>_ r. o_case_id r = c)) f)"
proof (rule wf_at_enter)
  fix d assume at: "wf_at A d"
  have "o_tenant_id r = t" if "(j, r) \<in> set (db_observables d)" "o_case_id r = c" for j r
    using wf_at_db [OF at] wf_atD [OF at assms(1)] that
    by (fastforce simp: wf_db_def wf_tenancy_def rows_in_case_def)
  then show "(\<exists>x. select_rows observables_e (\<lambda>_ r. o_case_id r = c) d = (Inr x, d) \<and>
      (\<exists>B. wf_at B d \<and> A \<subseteq> B \<and> keeps (wf_at B) (f x))) \<or> (\<exists>e. select_rows observables_e (\<lambda>_ r. o_case_id r = c) d = (Inl e, d))"
    using at by (auto simp: select_rows_apply intro!: exI [of _ A] assms(2))
qed

lemma select_events_at:
  assumes "(c, t) \<in> A" and "\<And>rows. (\<forall>(j, r) \<in> set rows. tl_case_id r = c \<and> tl_tenant_id r = t) \<Longrightarrow> keeps (wf_at A) (f rows)"
  shows "keeps (wf_at A) (bind (select_rows timeline_e (\<lambda>_ r. tl_case_id r = c)) f)"
proof (rule wf_at_enter)
  fix d assume at: "wf_at A d"
  have "tl_tenant_id r = t" if "(j, r) \<in> set (db_timeline d)" "tl_case_id r = c" for j r
    using wf_at_db [OF at] wf_atD [OF at assms(1)] that
    by (fastforce simp: wf_db_def wf_tenancy_def rows_in_case_def)
  then show "(\<exists>x. select_rows timeline_e (\<lambda>_ r. tl_case_id r = c) d = (Inr x, d) \<and>
      (\<exists>B. wf_at B d \<and> A \<subseteq> B \<and> keeps (wf_at B) (f x))) \<or> (\<exists>e. select_rows timeline_e (\<lambda>_ r. tl_case_id r = c) d = (Inl e, d))"
    using at by (auto simp: select_rows_apply intro!: exI [of _ A] assms(2))
qed

end
