(* ===== verification/Realtime.thy ===== *)
theory Realtime
  imports Integrity
begin

text \<open>
  Publishing realtime events (\<^verbatim>\<open>realtime/hub.py\<close>, \<^verbatim>\<open>realtime/publisher.py\<close>) and the recorder of
  automatic timeline entries (\<^verbatim>\<open>services/timeline_recorder.py\<close>).

  Third-party code is a parameter: \<open>env\<close> holds whether Redis accepts a message on a channel, what
  Celery's \<^verbatim>\<open>delay\<close> returns (a task id, or none when it raises), the plugins the module registry
  resolves an entry point to, the text of an exception, and whether Redis answers other commands.
  \<open>db_published\<close> is the sequence of messages Redis accepted.
\<close>

section \<open>Third-party code\<close>

type_synonym plugin = "uuid option \<Rightarrow> jobj \<Rightarrow> jobj \<Rightarrow> json service"

record env =
  env_publish :: "string \<Rightarrow> bool"
  env_delay :: "string \<Rightarrow> json list \<Rightarrow> string option"
  env_registry :: "string \<Rightarrow> plugin option"
  env_exc_str :: "api_error \<Rightarrow> string"
  env_redis :: bool

text \<open>
  \<^verbatim>\<open>except Exception\<close> around session work. After a failed flush the session refuses every
  statement until it is rolled back, and every such handler of the code goes on with a statement:
  a database error cannot be handled there, it comes back as \<open>PendingRollbackError\<close>.
\<close>

fun poisons :: "api_error \<Rightarrow> bool" where
  "poisons (IntegrityError _) = True"
| "poisons (DBError _) = True"
| "poisons (OtherError s) = (s = ''StaleDataError'' \<or> s = ''PendingRollbackError'')"
| "poisons _ = False"

abbreviation pending_rollback :: api_error where
  "pending_rollback \<equiv> OtherError ''PendingRollbackError''"

definition except_any :: "'a service \<Rightarrow> (api_error \<Rightarrow> 'a service) \<Rightarrow> 'a service" where
  "except_any m h = catch m (\<lambda>e. if poisons e then raise pending_rollback else h e)"

lemma keeps_except_any [keeps_intros]:
  "keeps I m \<Longrightarrow> (\<And>e. keeps I (h e)) \<Longrightarrow> keeps I (except_any m h)"
  unfolding except_any_def by (intro keeps_intros)

lemma insert_row_InlD:
  "insert_row E r d = (Inl e, d') \<Longrightarrow> d' = d \<and> (e = rls_error \<or> ent_check E d (db_next_id d) r = Some e)"
  by (auto simp: insert_row_def split: if_splits option.splits)

lemma store_row_InlD:
  "store_row E i r d = (Inl e, d') \<Longrightarrow> d' = d \<and> (e = stale_error \<or> e = rls_error \<or> ent_check E d i r = Some e)"
  by (auto simp: store_row_def split: if_splits option.splits)

lemma execution_check_poisons: "ent_check executions_e d i r = Some e \<Longrightarrow> poisons e"
  by (auto simp: executions_e_def split: if_splits)

lemma except_any_InlD:
  "except_any m h d = (Inl e, d') \<Longrightarrow> poisons e \<or> (\<exists>e0 d0. m d = (Inl e0, d0) \<and> \<not> poisons e0 \<and> h e0 d0 = (Inl e, d'))"
  by (auto simp: except_any_def svc_simps split: prod.splits sum.splits if_splits)

section \<open>Publishing\<close>

definition case_channel :: "uuid \<Rightarrow> string" where
  "case_channel c = ''case:'' @ uuid_str c"

definition tenant_channel :: "uuid \<Rightarrow> string" where
  "tenant_channel t = ''tenant:'' @ uuid_str t"

definition redis_publish :: "env \<Rightarrow> string \<Rightarrow> realtime_event \<Rightarrow> unit service" where
  "redis_publish env ch ev =
     (if env_publish env ch then modify (\<lambda>d. d\<lparr>db_published := db_published d @ [(ch, ev)]\<rparr>)
      else raise (OtherError ''RedisError''))"

definition publish_case_event ::
  "env \<Rightarrow> uuid \<Rightarrow> uuid \<Rightarrow> string \<Rightarrow> jobj \<Rightarrow> uuid option \<Rightarrow> string option \<Rightarrow> unit service" where
  "publish_case_event env case_id tenant_id event_type payload actor_id actor_name =
     bind now_utc (\<lambda>now.
       let event = \<lparr>ev_type = event_type, ev_case_id = Some case_id, ev_tenant_id = tenant_id,
             ev_payload = payload, ev_actor_id = actor_id, ev_actor_display_name = actor_name,
             ev_timestamp = now\<rparr>
       in and_then (redis_publish env (case_channel case_id) event)
                   (redis_publish env (tenant_channel tenant_id) event))"

definition publish_tenant_event ::
  "env \<Rightarrow> uuid \<Rightarrow> string \<Rightarrow> jobj \<Rightarrow> uuid option \<Rightarrow> string option \<Rightarrow> unit service" where
  "publish_tenant_event env tenant_id event_type payload actor_id actor_name =
     bind now_utc (\<lambda>now.
       redis_publish env (tenant_channel tenant_id)
         \<lparr>ev_type = event_type, ev_case_id = None, ev_tenant_id = tenant_id,
          ev_payload = payload, ev_actor_id = actor_id, ev_actor_display_name = actor_name,
          ev_timestamp = now\<rparr>)"

text \<open>\<^verbatim>\<open>publisher.py\<close>: \<^verbatim>\<open>with suppress(Exception)\<close>.\<close>

definition suppress :: "unit service \<Rightarrow> unit service" where
  "suppress m = catch m (\<lambda>_. ret ())"

definition publish_case ::
  "env \<Rightarrow> uuid \<Rightarrow> uuid \<Rightarrow> string \<Rightarrow> jobj \<Rightarrow> uuid option \<Rightarrow> string option \<Rightarrow> unit service" where
  "publish_case env case_id tenant_id event_type payload actor_id actor_name =
     suppress (publish_case_event env case_id tenant_id event_type payload actor_id actor_name)"

definition publish_tenant ::
  "env \<Rightarrow> uuid \<Rightarrow> string \<Rightarrow> jobj \<Rightarrow> uuid option \<Rightarrow> string option \<Rightarrow> unit service" where
  "publish_tenant env tenant_id event_type payload actor_id actor_name =
     suppress (publish_tenant_event env tenant_id event_type payload actor_id actor_name)"

text \<open>Publishing never raises and changes nothing but the messages published.\<close>

lemma publish_case_apply:
  "\<exists>ms. publish_case env c t ty p a n d = (Inr (), d\<lparr>db_published := db_published d @ ms\<rparr>) \<and>
     (\<forall>(ch, ev) \<in> set ms. ch \<in> {case_channel c, tenant_channel t} \<and> ev_tenant_id ev = t \<and> ev_case_id ev = Some c)"
proof -
  let ?ev = "\<lparr>ev_type = ty, ev_case_id = Some c, ev_tenant_id = t, ev_payload = p, ev_actor_id = a,
     ev_actor_display_name = n, ev_timestamp = db_now d\<rparr>"
  let ?ms = "if env_publish env (case_channel c) then (case_channel c, ?ev) #
     (if env_publish env (tenant_channel t) then [(tenant_channel t, ?ev)] else []) else []"
  have "publish_case env c t ty p a n d = (Inr (), d\<lparr>db_published := db_published d @ ?ms\<rparr>)"
    by (simp add: publish_case_def suppress_def publish_case_event_def redis_publish_def Let_def svc_simps)
  moreover have "\<forall>(ch, ev) \<in> set ?ms. ch \<in> {case_channel c, tenant_channel t} \<and> ev_tenant_id ev = t \<and> ev_case_id ev = Some c"
    by auto
  ultimately show ?thesis
    by blast
qed

lemma publish_case_obtain:
  obtains ms where "publish_case env c t ty p a n d = (Inr (), d\<lparr>db_published := db_published d @ ms\<rparr>)"
  using publish_case_apply by blast

section \<open>Automatic timeline entries\<close>

definition record_event ::
  "env \<Rightarrow> uuid \<Rightarrow> uuid \<Rightarrow> string \<Rightarrow> string \<Rightarrow> string option \<Rightarrow> uuid option \<Rightarrow> jobj \<Rightarrow> int option \<Rightarrow> uuid service" where
  "record_event env tenant_id case_id event_type description category actor_id metadata event_timestamp =
     bind now_utc (\<lambda>now.
     bind (insert_row timeline_e
        \<lparr>tl_tenant_id = tenant_id, tl_case_id = case_id, tl_event_type = event_type,
         tl_event_timestamp = (case event_timestamp of Some t \<Rightarrow> t | None \<Rightarrow> now),
         tl_description = description, tl_category = category, tl_actor_id = actor_id,
         tl_is_automatic = True, tl_metadata = JObj metadata, tl_created_at = now\<rparr>) (\<lambda>entry_id.
     and_then (publish_case env case_id tenant_id event_type
        [(''timeline_entry_id'', JId entry_id), (''description'', JStr description),
         (''category'', case category of Some c \<Rightarrow> JStr c | None \<Rightarrow> JNull), (''metadata'', JObj metadata)]
        actor_id None)
     (ret entry_id)))"

text \<open>
  The contract of the recorder, on which every service that records an event relies: on success one
  automatic entry was added and nothing else changed but the id supply and the messages published; on
  failure the state is the one before.
\<close>

definition event_entry ::
  "uuid \<Rightarrow> uuid \<Rightarrow> string \<Rightarrow> string \<Rightarrow> string option \<Rightarrow> uuid option \<Rightarrow> jobj \<Rightarrow> int \<Rightarrow> timeline_row" where
  "event_entry tenant_id case_id event_type description category actor_id metadata now =
     \<lparr>tl_tenant_id = tenant_id, tl_case_id = case_id, tl_event_type = event_type,
      tl_event_timestamp = now, tl_description = description, tl_category = category,
      tl_actor_id = actor_id, tl_is_automatic = True, tl_metadata = JObj metadata, tl_created_at = now\<rparr>"

lemma record_event_apply:
  "record_event env t c ty de ca ac me None d =
     (case insert_row timeline_e (event_entry t c ty de ca ac me (db_now d)) d of
        (Inl e, d') \<Rightarrow> (Inl e, d')
      | (Inr i, d') \<Rightarrow> (Inr i, snd (publish_case env c t ty
          [(''timeline_entry_id'', JId i), (''description'', JStr de),
           (''category'', case ca of Some c \<Rightarrow> JStr c | None \<Rightarrow> JNull), (''metadata'', JObj me)] ac None d')))"
proof (cases "insert_row timeline_e (event_entry t c ty de ca ac me (db_now d)) d")
  case (Pair r d')
  show ?thesis
  proof (cases r)
    case (Inr i)
    obtain ms where "publish_case env c t ty
          [(''timeline_entry_id'', JId i), (''description'', JStr de),
           (''category'', case ca of Some c \<Rightarrow> JStr c | None \<Rightarrow> JNull), (''metadata'', JObj me)] ac None d'
        = (Inr (), d'\<lparr>db_published := db_published d' @ ms\<rparr>)"
      by (rule publish_case_obtain)
    with Pair Inr show ?thesis
      by (simp add: record_event_def event_entry_def svc_simps)
  qed (use Pair in \<open>simp add: record_event_def event_entry_def svc_simps\<close>)
qed

lemma record_event_InrD:
  assumes "record_event env t c ty de ca ac me None d = (Inr i, d')"
  shows "i = db_next_id d \<and> rls_standard (db_session d) t \<and>
    (\<exists>ms. d' = d\<lparr>db_next_id := Suc (db_next_id d),
       db_timeline := row_add (db_next_id d) (event_entry t c ty de ca ac me (db_now d)) (db_timeline d),
       db_published := db_published d @ ms\<rparr>)"
proof -
  obtain d1 where ins: "insert_row timeline_e (event_entry t c ty de ca ac me (db_now d)) d = (Inr i, d1)"
    and d': "d' = snd (publish_case env c t ty
          [(''timeline_entry_id'', JId i), (''description'', JStr de),
           (''category'', case ca of Some c \<Rightarrow> JStr c | None \<Rightarrow> JNull), (''metadata'', JObj me)] ac None d1)"
    using assms by (auto simp: record_event_apply split: prod.splits sum.splits)
  obtain ms where ms: "d' = d1\<lparr>db_published := db_published d1 @ ms\<rparr>"
    unfolding d' by (metis publish_case_obtain snd_conv)
  note D = insert_row_InrD [OF ins]
  show ?thesis
  proof (intro conjI exI [of _ ms])
    show "d' = d\<lparr>db_next_id := Suc (db_next_id d),
       db_timeline := row_add (db_next_id d) (event_entry t c ty de ca ac me (db_now d)) (db_timeline d),
       db_published := db_published d @ ms\<rparr>"
      unfolding ms using D by (cases d) simp
  qed (use D in \<open>simp_all add: event_entry_def\<close>)
qed

lemma record_event_InlD:
  assumes "record_event env t c ty de ca ac me None d = (Inl e, d')"
  shows "d' = d"
  using assms by (auto simp: record_event_apply insert_row_def split: prod.splits sum.splits if_splits option.splits)

lemma keeps_publish_case: "(\<And>d p. I d \<Longrightarrow> I (d\<lparr>db_published := p\<rparr>)) \<Longrightarrow> keeps I (publish_case env c t ty p a n)"
  by (rule keepsI) (metis publish_case_obtain snd_conv)

lemma keeps_record_event:
  assumes "\<And>r. tl_tenant_id r = t \<Longrightarrow> tl_case_id r = c \<Longrightarrow> keeps I (insert_row timeline_e r)"
    and "\<And>d p. I d \<Longrightarrow> I (d\<lparr>db_published := p\<rparr>)"
  shows "keeps I (record_event env t c ty de ca ac me ts)"
  unfolding record_event_def by (intro keeps_intros assms keeps_publish_case) simp_all

lemma isolated_published [simp]: "isolated s d0 d \<Longrightarrow> isolated s d0 (d\<lparr>db_published := p\<rparr>)"
  by (simp add: isolated_def wf_ids_def hidden_def)

lemma wf_db_published [simp]: "wf_db (d\<lparr>db_published := p\<rparr>) = wf_db d"
  by (simp add: wf_db_def wf_ids_def wf_tenancy_def wf_unique_def)

lemma record_event_isolated [keeps_intros]: "keeps (isolated s d0) (record_event env t c ty de ca ac me ts)"
  by (rule keeps_record_event) (auto intro: keeps_intros)

lemma publish_case_at [keeps_intros]: "keeps (wf_at A) (publish_case env c t ty p a n)"
  by (rule keeps_publish_case) (simp add: wf_at_def)

lemma record_event_at [keeps_intros]: "(c, t) \<in> A \<Longrightarrow> keeps (wf_at A) (record_event env t c ty de ca ac me ts)"
  unfolding record_event_def by (intro keeps_intros) simp

end
