(* ===== verification/Demo.thy ===== *)
theory Demo
  imports Realtime
begin

text \<open>
  A small concrete database on which the properties are instantiated: two tenants, an analyst of the
  first, one case of it with a task, an observable and two timeline entries, a second case, a pending
  alert, an enabled processor module, seen through a session of the first tenant.
\<close>

definition empty_db :: db where
  "empty_db = \<lparr>db_tenants = [], db_users = [], db_cases = [], db_tasks = [], db_observables = [], db_assets = [],
     db_evidence = [], db_timeline = [], db_asset_links = [], db_folders = [], db_notes = [], db_alerts = [],
     db_templates = [], db_sources = [], db_results = [], db_mappings = [], db_modules = [], db_executions = [],
     db_audit_logs = [], db_report_templates = [], db_reports = [], db_attack_reference = [],
     db_session = tenant_session 1, db_next_id = 0, db_now = 0, db_published = [], db_objects = [], db_redis = []\<rparr>"

definition demo_tenant :: "string \<Rightarrow> tenant_row" where
  "demo_tenant slug = \<lparr>tn_name = slug, tn_slug = slug, tn_settings = JObj [], tn_custom_fields_schema = JList [],
     tn_is_active = True, tn_created_at = 0, tn_updated_at = 0\<rparr>"

definition demo_user :: "uuid \<Rightarrow> string \<Rightarrow> role \<Rightarrow> user_row" where
  "demo_user t name r = \<lparr>u_tenant_id = t, u_username = name, u_email = name @ ''@example.org'',
     u_password_hash = Some ''hash'', u_display_name = name, u_role = r, u_is_active = True,
     u_is_service_account = False, u_api_key_hash = None, u_permissions = JList [], u_last_login_at = None,
     u_inactivity_timeout_minutes = 30, u_created_at = 0, u_updated_at = 0\<rparr>"

definition demo_case :: "uuid \<Rightarrow> int \<Rightarrow> case_row" where
  "demo_case t n = \<lparr>c_tenant_id = t, c_case_number = n, c_title = ''Phishing'', c_description = None,
     c_status = CS_NEW, c_severity = SEV_MEDIUM, c_outcome = None, c_assignee_id = None, c_template_id = None,
     c_tags = [], c_custom_fields = JObj [], c_merged_from = None, c_created_by = 3, c_resolved_at = None,
     c_closed_at = None, c_created_at = 0, c_updated_at = 0\<rparr>"

definition demo_task :: "uuid \<Rightarrow> uuid \<Rightarrow> task_row" where
  "demo_task t c = \<lparr>k_tenant_id = t, k_case_id = c, k_title = ''Triage'', k_description = None, k_status = TS_TODO,
     k_assignee_id = None, k_sort_order = 0, k_created_by = 3, k_created_at = 0, k_updated_at = 0\<rparr>"

definition demo_observable :: "uuid \<Rightarrow> uuid \<Rightarrow> string \<Rightarrow> observable_row" where
  "demo_observable t c v = \<lparr>o_tenant_id = t, o_case_id = c, o_type = OT_FILENAME, o_value = v, o_tlp = None,
     o_is_ioc = False, o_tags = [], o_description = None, o_created_by = 3, o_created_at = 0, o_updated_at = 0\<rparr>"

definition demo_event :: "uuid \<Rightarrow> uuid \<Rightarrow> int \<Rightarrow> bool \<Rightarrow> timeline_row" where
  "demo_event t c at auto = \<lparr>tl_tenant_id = t, tl_case_id = c, tl_event_type = ''note'', tl_event_timestamp = at,
     tl_description = ''seen'', tl_category = None, tl_actor_id = None, tl_is_automatic = auto,
     tl_metadata = JObj [], tl_created_at = 0\<rparr>"

definition demo_module :: module_row where
  "demo_module = \<lparr>mo_name = ''vt'', mo_version = ''1'', mo_type = MT_PROCESSOR, mo_description = None,
     mo_config_schema = JObj [], mo_entry_point = ''vt.enrich'', mo_is_enabled = True,
     mo_supported_evidence_types = None, mo_subscribed_events = Some [''case_status_changed'', ''observable_created''],
     mo_installed_at = 0, mo_updated_at = 0\<rparr>"

definition demo_alert :: "uuid \<Rightarrow> string \<Rightarrow> alert_row" where
  "demo_alert t key = \<lparr>al_tenant_id = t, al_severity_id = 4, al_source_product = ''edr'', al_finding_uid = key,
     al_title = ''Malware'', al_message = None, al_ocsf_payload = [], al_status = AS_PENDING,
     al_dismiss_reason = None, al_promoted_to_case_id = None, al_dedup_key = Some key,
     al_created_at = 0, al_updated_at = 0\<rparr>"

definition demo_template :: template_row where
  "demo_template = \<lparr>tp_tenant_id = Some 1, tp_name = ''phishing'', tp_description = None,
     tp_default_severity = Some ''high'', tp_default_tags = [''mail'', ''a''],
     tp_tasks = JList [JObj [(''title'', JStr ''Block sender'')], JNull, JObj []],
     tp_custom_fields = JObj [(''k'', JInt 1), (''m'', JInt 2)], tp_created_by = 3,
     tp_created_at = 0, tp_updated_at = 0\<rparr>"

definition demo_db :: db where
  "demo_db = empty_db
     \<lparr>db_tenants := [(1, demo_tenant ''acme''), (2, demo_tenant ''globex'')],
      db_users := [(3, demo_user 1 ''alice'' ANALYST), (4, demo_user 2 ''bob'' TENANT_ADMIN)],
      db_cases := [(5, demo_case 1 1), (6, demo_case 1 2), (7, demo_case 2 1)],
      db_tasks := [(8, demo_task 1 5)],
      db_observables := [(9, demo_observable 1 6 ''a.exe''), (10, demo_observable 2 7 ''a.exe'')],
      db_timeline := [(11, demo_event 1 5 100 False), (12, demo_event 1 6 200 True)],
      db_alerts := [(13, demo_alert 1 ''k'')],
      db_modules := [(14, demo_module)], db_templates := [(15, demo_template)],
      db_next_id := 20, db_now := 1000\<rparr>"

text \<open>Redis and Celery up; one plugin, which returns a constant, and one which raises.\<close>

definition demo_env :: env where
  "demo_env = \<lparr>env_publish = (\<lambda>_. True), env_delay = (\<lambda>_ _. Some ''task''),
     env_registry = (\<lambda>e. if e = ''vt.enrich'' then Some (\<lambda>_ _ _. ret (JStr ''ok''))
                         else if e = ''bad'' then Some (\<lambda>_ _ _. raise (OtherError ''boom'')) else None),
     env_exc_str = (\<lambda>_. ''boom''), env_redis = True\<rparr>"

lemmas demo_defs = demo_db_def empty_db_def demo_env_def demo_tenant_def demo_user_def demo_case_def demo_task_def
  demo_observable_def demo_event_def demo_module_def demo_alert_def demo_template_def tenant_session_def

text \<open>Running a service on it.\<close>

lemma demo_wf: "wf_db demo_db"
  by (simp add: wf_db_def wf_ids_def wf_tenancy_def wf_unique_def ids_ok_def rows_in_case_def tenant_in_def
      unique_rows_def notes_filed_def pending_unique_def promoted_has_case_def row_get_def demo_defs)

lemma demo_broker: "env_delay demo_env n a \<noteq> None"
  by (simp add: demo_env_def)

lemmas run_simps = svc_simps demo_defs rows_where_def row_get_def row_add_def row_set_def row_map_def row_del_def
  insert_row_def store_row_def delete_row_def visible_row_def rls_standard_def rls_nullable_def is_admin_policy_def
  fk_def fk_opt_def unique_for_def pg_int_def varchar_def varchar_opt_def except_any_def is_null_def save_changed_def
  record_event_def publish_case_def suppress_def publish_case_event_def redis_publish_def Let_def entity_defs

end
