(* ===== verification/Platform_Modules.thy ===== *)
theory Platform_Modules
  imports Demo
begin

text \<open>
  Platform modules: \<^verbatim>\<open>services/modules.py\<close>, \<^verbatim>\<open>services/events.py\<close>, \<^verbatim>\<open>modules/base.py\<close>
  and the processor task of \<^verbatim>\<open>worker/tasks.py\<close>.

  A plugin is third-party code: what it does to the session is an arbitrary service
  (\<open>env_registry\<close>). \<open>plugins_keep I env\<close> states that every registered plugin keeps the invariant \<open>I\<close>;
  it is what a claim about a service that fires an event asks of the plugins installed.
\<close>

section \<open>Platform events\<close>

datatype platform_event = OBSERVABLE_CREATED | EVIDENCE_UPLOADED | CASE_STATUS_CHANGED
  | ALERT_INGESTED | CASE_CREATED

fun platform_event_str :: "platform_event \<Rightarrow> string" where
  "platform_event_str OBSERVABLE_CREATED = ''observable_created''"
| "platform_event_str EVIDENCE_UPLOADED = ''evidence_uploaded''"
| "platform_event_str CASE_STATUS_CHANGED = ''case_status_changed''"
| "platform_event_str ALERT_INGESTED = ''alert_ingested''"
| "platform_event_str CASE_CREATED = ''case_created''"

definition plugins_keep :: "(db \<Rightarrow> bool) \<Rightarrow> env \<Rightarrow> bool" where
  "plugins_keep I env \<longleftrightarrow> (\<forall>e f a c p. env_registry env e = Some f \<longrightarrow> keeps I (f a c p))"

section \<open>The modules table\<close>

record module_register =
  mr_name :: string
  mr_version :: string
  mr_type :: module_type
  mr_description :: "string option"
  mr_config_schema :: jobj
  mr_entry_point :: string
  mr_supported_evidence_types :: "string list option"
  mr_subscribed_events :: "string list option"

record module_update =
  mu_is_enabled :: "bool upd"
  mu_config_schema :: "json upd"
  mu_subscribed_events :: "string list upd"

abbreviation module_or_404 :: "uuid \<Rightarrow> module_row service" where
  "module_or_404 \<equiv> get_or_404 modules_e (\<lambda>i. ''Module '' @ uuid_str i @ '' not found'')"

definition register_module :: "module_register \<Rightarrow> uuid service" where
  "register_module payload =
     bind (select_rows modules_e (\<lambda>_ m. mo_name m = mr_name payload)) (\<lambda>rows.
     bind (scalar_one_or_none rows) (\<lambda>existing.
     and_then (guard (existing = None)
        (HTTPException 409 (''Module '' @ quoted (mr_name payload) @ '' already registered'')))
     (bind now_utc (\<lambda>now.
     insert_row modules_e
       \<lparr>mo_name = mr_name payload, mo_version = mr_version payload, mo_type = mr_type payload,
        mo_description = mr_description payload, mo_config_schema = JObj (mr_config_schema payload),
        mo_entry_point = mr_entry_point payload, mo_is_enabled = True,
        mo_supported_evidence_types = mr_supported_evidence_types payload,
        mo_subscribed_events = mr_subscribed_events payload, mo_installed_at = now, mo_updated_at = now\<rparr>))))"

definition update_module :: "uuid \<Rightarrow> module_update \<Rightarrow> unit service" where
  "update_module module_id data =
     bind (module_or_404 module_id) (\<lambda>m.
     and_then (not_null [is_null (mu_is_enabled data)])
     (bind now_utc (\<lambda>now.
     save_changed modules_e module_id m
       (m\<lparr>mo_is_enabled := set_req (mu_is_enabled data) (mo_is_enabled m),
          mo_config_schema := set_json (mu_config_schema data) (mo_config_schema m),
          mo_subscribed_events := set_opt (mu_subscribed_events data) (mo_subscribed_events m)\<rparr>)
       (mo_updated_at_update (\<lambda>_. now)))))"

text \<open>
  The ORM relationship \<^verbatim>\<open>executions\<close> sets the module of its rows to null before the delete,
  which that column does not take.
\<close>

definition delete_module :: "uuid \<Rightarrow> unit service" where
  "delete_module module_id =
     bind (module_or_404 module_id) (\<lambda>m.
     bind (select_rows executions_e (\<lambda>_ x. x_module_id x = module_id)) (\<lambda>xs.
     and_then (not_null [xs \<noteq> []])
     (and_then (bind (reads (\<lambda>d. \<exists>(i, x) \<in> set (db_executions d). x_module_id x = module_id))
                  (\<lambda>b. guard (\<not> b) fk_error))
     (delete_row modules_e module_id))))"

section \<open>Executions\<close>

definition execute_module ::
  "env \<Rightarrow> uuid \<Rightarrow> uuid \<Rightarrow> uuid option \<Rightarrow> jobj \<Rightarrow> jobj \<Rightarrow> uuid option \<Rightarrow> string option \<Rightarrow> uuid service" where
  "execute_module env module_id tenant_id case_id config payload actor_id trigger_event =
     bind (module_or_404 module_id) (\<lambda>m.
     bind now_utc (\<lambda>now.
     let execution = \<lparr>x_module_id = module_id, x_tenant_id = tenant_id, x_case_id = case_id,
           x_status = XS_RUNNING, x_trigger_event = trigger_event, x_config = config, x_result = None,
           x_error_message = None, x_started_at = Some now, x_completed_at = None, x_created_at = now\<rparr> in
     bind (insert_row executions_e execution) (\<lambda>i.
     case env_registry env (mo_entry_point m) of
       None \<Rightarrow> and_then (store_row executions_e i (execution
          \<lparr>x_status := XS_FAILED, x_completed_at := Some now,
           x_error_message := Some (''Module entry_point '' @ quoted (mo_entry_point m) @ '' is not registered'')\<rparr>))
          (ret i)
     | Some plugin \<Rightarrow>
         bind (except_any
             (bind (plugin actor_id config payload)
                (\<lambda>result. ret (execution\<lparr>x_status := XS_COMPLETED, x_result := Some result\<rparr>)))
             (\<lambda>exc. ret (execution\<lparr>x_status := XS_FAILED, x_error_message := Some (env_exc_str env exc)\<rparr>)))
           (\<lambda>execution'. bind now_utc (\<lambda>now'.
              and_then (store_row executions_e i (execution'\<lparr>x_completed_at := Some now'\<rparr>)) (ret i))))))"

text \<open>\<^verbatim>\<open>UUID(payload["case_id"]) if payload.get("case_id") else None\<close>\<close>

definition payload_case :: "jobj \<Rightarrow> uuid option service" where
  "payload_case payload = (case map_of payload ''case_id'' of
       Some (JId c) \<Rightarrow> ret (Some c)
     | Some (JStr s) \<Rightarrow> if s = [] then ret None else raise (OtherError ''ValueError'')
     | Some JNull \<Rightarrow> ret None
     | Some _ \<Rightarrow> raise (OtherError ''AttributeError'')
     | None \<Rightarrow> ret None)"

text \<open>One module of the loop in \<^verbatim>\<open>dispatch_event\<close>: queue it, or run it here when that fails.\<close>

definition dispatch_one ::
  "env \<Rightarrow> uuid \<Rightarrow> platform_event \<Rightarrow> jobj \<Rightarrow> uuid option \<Rightarrow> uuid \<Rightarrow> uuid service" where
  "dispatch_one env tenant_id event payload actor_id module_id =
     except_any
       (case env_delay env ''module.processor.execute''
           [JId module_id, JId tenant_id,
            case map_of payload ''case_id'' of Some v \<Rightarrow> v | None \<Rightarrow> JNull,
            JStr (platform_event_str event), JObj payload,
            case actor_id of Some a \<Rightarrow> JId a | None \<Rightarrow> JNull] of
          None \<Rightarrow> raise (OtherError ''OperationalError'')
        | Some task_id \<Rightarrow> bind (payload_case payload) (\<lambda>case_id. bind now_utc (\<lambda>now.
            insert_row executions_e
              \<lparr>x_module_id = module_id, x_tenant_id = tenant_id, x_case_id = case_id,
               x_status = XS_QUEUED, x_trigger_event = Some (platform_event_str event), x_config = [],
               x_result = Some (JObj [(''celery_task_id'', JStr task_id)]), x_error_message = None,
               x_started_at = None, x_completed_at = None, x_created_at = now\<rparr>)))
       (\<lambda>_. bind (payload_case payload) (\<lambda>case_id.
          execute_module env module_id tenant_id case_id [] payload actor_id
            (Some (platform_event_str event))))"

definition subscribed :: "platform_event \<Rightarrow> module_row \<Rightarrow> bool" where
  "subscribed event m \<longleftrightarrow> mo_is_enabled m \<and> mo_type m = MT_PROCESSOR \<and>
     platform_event_str event \<in> set (case mo_subscribed_events m of Some es \<Rightarrow> es | None \<Rightarrow> [])"

definition dispatch_event ::
  "env \<Rightarrow> uuid \<Rightarrow> platform_event \<Rightarrow> jobj \<Rightarrow> uuid option \<Rightarrow> uuid list service" where
  "dispatch_event env tenant_id event payload actor_id =
     bind (select_rows modules_e (\<lambda>_ m. subscribed event m)) (\<lambda>matched.
     collect (map fst matched) (dispatch_one env tenant_id event payload actor_id))"

text \<open>
  \<^verbatim>\<open>events.fire\<close> suppresses every exception of the dispatch. After a database error the session is
  unusable and the caller's next statement fails; the model lets \<open>fire\<close> itself fail then.
\<close>

definition fire :: "env \<Rightarrow> uuid \<Rightarrow> platform_event \<Rightarrow> jobj \<Rightarrow> uuid option \<Rightarrow> unit service" where
  "fire env tenant_id event payload actor_id =
     except_any (bind (dispatch_event env tenant_id event payload actor_id) (\<lambda>_. ret ())) (\<lambda>_. ret ())"

section \<open>Invariants\<close>

lemma keeps_payload_case [keeps_intros]: "keeps I (payload_case p)"
  by (auto simp: payload_case_def split: option.splits json.splits intro: keeps_intros)

lemma keeps_registry:
  assumes "plugins_keep I env" and "keeps I n"
    and "\<And>f. (\<And>a c p. keeps I (f a c p)) \<Longrightarrow> keeps I (k f)"
  shows "keeps I (case env_registry env e of None \<Rightarrow> n | Some f \<Rightarrow> k f)"
  using assms by (auto simp: plugins_keep_def split: option.splits)

text \<open>
  Dispatching keeps every invariant that the plugins keep and that writing an execution row keeps.
\<close>

locale execution_safe =
  fixes I :: "db \<Rightarrow> bool"
  assumes insert_execution: "keeps I (insert_row executions_e x)"
    and store_execution: "keeps I (store_row executions_e i x)"
begin

lemma execute_module_keeps:
  assumes "plugins_keep I env"
  shows "keeps I (execute_module env m t c config payload a te)"
  unfolding execute_module_def Let_def
  by (intro keeps_registry [OF assms] keeps_intros insert_execution store_execution) simp_all

lemma dispatch_one_keeps:
  "plugins_keep I env \<Longrightarrow> keeps I (dispatch_one env t ev payload a m)"
  unfolding dispatch_one_def by (intro keeps_intros insert_execution execute_module_keeps)

lemma fire_keeps: "plugins_keep I env \<Longrightarrow> keeps I (fire env t ev payload a)"
  unfolding fire_def dispatch_event_def by (intro keeps_intros dispatch_one_keeps)

end

interpretation iso_exec: execution_safe "isolated s d0"
  by unfold_locales (rule keeps_intros)+

interpretation wf_exec: execution_safe "wf_at A"
  by unfold_locales (rule keeps_intros)+

text \<open>Plugins that keep the integrity of the database and the tenants of its cases.\<close>

definition plugins_wf :: "env \<Rightarrow> bool" where
  "plugins_wf env \<longleftrightarrow> (\<forall>A. plugins_keep (wf_at A) env)"

lemma fire_at [keeps_intros]: "plugins_wf env \<Longrightarrow> keeps (wf_at A) (fire env t ev payload a)"
  by (simp add: plugins_wf_def wf_exec.fire_keeps)

lemma fire_isolated [keeps_intros]:
  "plugins_keep (isolated s d0) env \<Longrightarrow> keeps (isolated s d0) (fire env t ev payload a)"
  by (rule iso_exec.fire_keeps)

section \<open>Dispatch with a working broker\<close>

text \<open>
  \<open>broker_up env\<close>: Celery accepts every task. Then firing an event only queues executions, and a
  service's effects are its own and those of the log: timeline entries, queued executions, published
  messages, ids drawn. \<open>core d\<close> is \<open>d\<close> without that log.
\<close>

definition broker_up :: "env \<Rightarrow> bool" where
  "broker_up env \<longleftrightarrow> (\<forall>n a. env_delay env n a \<noteq> None)"

definition core :: "db \<Rightarrow> db" where
  "core d = d\<lparr>db_timeline := [], db_executions := [], db_next_id := 0, db_published := []\<rparr>"

definition queued_execution ::
  "uuid \<Rightarrow> uuid option \<Rightarrow> platform_event \<Rightarrow> string \<Rightarrow> int \<Rightarrow> uuid \<Rightarrow> execution_row" where
  "queued_execution tenant_id case_id event task_id now module_id =
     \<lparr>x_module_id = module_id, x_tenant_id = tenant_id, x_case_id = case_id,
      x_status = XS_QUEUED, x_trigger_event = Some (platform_event_str event), x_config = [],
      x_result = Some (JObj [(''celery_task_id'', JStr task_id)]), x_error_message = None,
      x_started_at = None, x_completed_at = None, x_created_at = now\<rparr>"

lemma demo_up: "broker_up demo_env"
  by (simp add: broker_up_def demo_broker)

lemma insert_execution_poisons: "insert_row executions_e x d = (Inl e, d') \<Longrightarrow> poisons e \<and> d' = d"
  by (auto simp: insert_row_def executions_e_def split: if_splits option.splits)

lemma payload_case_state: "snd (payload_case p d) = d"
  by (auto simp: payload_case_def split: option.splits json.splits)

lemma payload_case_const: "payload_case p d = (fst (payload_case p d0), d)"
  by (auto simp: payload_case_def split: option.splits json.splits)

text \<open>The dispatch to one module then either queues one execution, or fails leaving the state as it was.\<close>

lemma dispatch_one_up:
  assumes "broker_up env" and "dispatch_one env t ev p a m d = (r, d')"
  shows "(\<exists>e. r = Inl e \<and> d' = d) \<or>
    (\<exists>c task. r = Inr (db_next_id d) \<and> payload_case p d = (Inr c, d) \<and>
       d' = d\<lparr>db_next_id := Suc (db_next_id d),
              db_executions := row_add (db_next_id d) (queued_execution t c ev task (db_now d) m) (db_executions d)\<rparr>)"
proof -
  let ?args = "[JId m, JId t, case map_of p ''case_id'' of Some v \<Rightarrow> v | None \<Rightarrow> JNull,
    JStr (platform_event_str ev), JObj p, case a of Some a \<Rightarrow> JId a | None \<Rightarrow> JNull]"
  obtain task where task: "env_delay env ''module.processor.execute'' ?args = Some task"
    using assms(1) by (auto simp: broker_up_def)
  consider e where "payload_case p d = (Inl e, d)" | c where "payload_case p d = (Inr c, d)"
    using payload_case_state [of p d] by (metis old.sum.exhaust prod.collapse)
  then show ?thesis
  proof cases
    case 1
    then show ?thesis
      using assms(2) unfolding dispatch_one_def
      by (auto simp: except_any_def task svc_simps split: if_splits)
  next
    case (2 c)
    show ?thesis
    proof (cases "insert_row executions_e (queued_execution t c ev task (db_now d) m) d")
      case (Pair q d1)
      show ?thesis
      proof (cases q)
        case (Inl e)
        with Pair insert_execution_poisons [of _ d e d1] 2 assms(2) show ?thesis
          unfolding dispatch_one_def
          by (auto simp: except_any_def task svc_simps queued_execution_def)
      next
        case (Inr i)
        with Pair have "insert_row executions_e (queued_execution t c ev task (db_now d) m) d = (Inr i, d1)"
          by simp
        note D = insert_row_InrD [OF this]
        from Pair Inr 2 assms(2) have "r = Inr i \<and> d' = d1"
          unfolding dispatch_one_def by (simp add: except_any_def task svc_simps queued_execution_def)
        with D 2 show ?thesis
          by (cases d) auto
      qed
    qed
  qed
qed

definition queued_only :: "db \<Rightarrow> db \<Rightarrow> bool" where
  "queued_only d d' \<longleftrightarrow> (\<exists>xs n. d' = d\<lparr>db_executions := db_executions d @ xs, db_next_id := n\<rparr>)"

lemma queued_only_refl: "queued_only d d"
  unfolding queued_only_def by (rule exI [of _ "[]"], rule exI [of _ "db_next_id d"]) simp

lemma queued_onlyI: "queued_only d (d\<lparr>db_next_id := n, db_executions := db_executions d @ xs\<rparr>)"
  unfolding queued_only_def by (rule exI [of _ xs], rule exI [of _ n]) simp

lemma queued_only_trans: "queued_only d d1 \<Longrightarrow> queued_only d1 d2 \<Longrightarrow> queued_only d d2"
  unfolding queued_only_def by (cases d) auto

lemma keeps_queued_only_dispatch: "broker_up env \<Longrightarrow> keeps (queued_only d0) (dispatch_one env t ev p a m)"
proof (rule keepsI)
  fix d assume up: "broker_up env" and q: "queued_only d0 d"
  have "queued_only d (snd (dispatch_one env t ev p a m d))"
    using dispatch_one_up [OF up, of t ev p a m d]
    by (cases "dispatch_one env t ev p a m d")
      (auto simp: queued_only_refl row_add_def intro: queued_onlyI)
  with q show "queued_only d0 (snd (dispatch_one env t ev p a m d))"
    by (rule queued_only_trans)
qed

lemma fire_up: "broker_up env \<Longrightarrow> queued_only d (snd (fire env t ev p a d))"
  by (rule keepsD [of "queued_only d", OF _ queued_only_refl])
    (unfold fire_def dispatch_event_def, intro keeps_intros keeps_queued_only_dispatch)

lemma queued_only_frame:
  assumes "queued_only d d'"
  shows "core d' = core d" and "db_timeline d' = db_timeline d" and "db_published d' = db_published d"
    and "db_session d' = db_session d" and "db_now d' = db_now d"
  using assms by (auto simp: queued_only_def core_def)

lemma record_event_frame: "core (snd (record_event env t c ty de ca ac me None d)) = core d"
proof (cases "record_event env t c ty de ca ac me None d")
  case (Pair r d')
  then show ?thesis
  proof (cases r)
    case (Inl e)
    with Pair record_event_InlD show ?thesis by fastforce
  next
    case (Inr i)
    with Pair record_event_InrD [of env t c ty de ca ac me d i d'] show ?thesis
      by (auto simp: core_def)
  qed
qed

text \<open>The tables of \<open>core\<close>.\<close>

lemma core_eqD:
  assumes "core d' = core d"
  shows "db_tenants d' = db_tenants d" and "db_users d' = db_users d" and "db_cases d' = db_cases d"
    and "db_tasks d' = db_tasks d" and "db_observables d' = db_observables d" and "db_assets d' = db_assets d"
    and "db_evidence d' = db_evidence d" and "db_folders d' = db_folders d" and "db_notes d' = db_notes d"
    and "db_alerts d' = db_alerts d" and "db_templates d' = db_templates d" and "db_session d' = db_session d"
    and "db_modules d' = db_modules d" and "db_now d' = db_now d"
  using arg_cong [OF assms, of db_tenants]
    arg_cong [OF assms, of db_users]
    arg_cong [OF assms, of db_cases]
    arg_cong [OF assms, of db_tasks]
    arg_cong [OF assms, of db_observables]
    arg_cong [OF assms, of db_assets]
    arg_cong [OF assms, of db_evidence]
    arg_cong [OF assms, of db_folders]
    arg_cong [OF assms, of db_notes]
    arg_cong [OF assms, of db_alerts]
    arg_cong [OF assms, of db_templates]
    arg_cong [OF assms, of db_session]
    arg_cong [OF assms, of db_modules]
    arg_cong [OF assms, of db_now]
  by (simp_all add: core_def)

lemma fire_core: "broker_up env \<Longrightarrow> core (snd (fire env t ev p a d)) = core d"
  using queued_only_frame(1) [OF fire_up] .

text \<open>A service that starts from a state whose core is \<open>c\<close> and only logs.\<close>

lemma keeps_core_record [keeps_intros]: "keeps (\<lambda>d. core d = c) (record_event env t i ty de ca ac me None)"
  by (simp add: keeps_def record_event_frame)

lemma keeps_core_fire [keeps_intros]: "broker_up env \<Longrightarrow> keeps (\<lambda>d. core d = c) (fire env t ev p a)"
  by (simp add: keeps_def fire_core)

lemma demo_plugins: "plugins_wf demo_env" and demo_plugins_keep: "plugins_keep I demo_env"
  by (auto simp: plugins_wf_def plugins_keep_def demo_env_def keeps_ret keeps_raise split: if_splits)

lemmas fire_run = fire_def dispatch_event_def subscribed_def dispatch_one_def payload_case_def

section \<open>Properties\<close>

lemma collect_dispatch_up:
  assumes "broker_up env" and "collect ms (dispatch_one env t ev p a) d = (Inr ids, d')"
  shows "\<exists>xs n. d' = d\<lparr>db_next_id := n, db_executions := db_executions d @ xs\<rparr> \<and> map fst xs = ids \<and>
    map (x_module_id \<circ> snd) xs = ms \<and>
    (\<forall>(i, x) \<in> set xs. \<exists>c task m. x = queued_execution t c ev task (db_now d) m \<and> payload_case p d = (Inr c, d))"
  using assms(2)
proof (induction ms arbitrary: d ids)
  case Nil
  then show ?case
    by (intro exI [of _ "[]"] exI [of _ "db_next_id d"]) simp
next
  case (Cons m ms)
  from Cons.prems obtain i d1 js where one: "dispatch_one env t ev p a m d = (Inr i, d1)"
    and rest: "collect ms (dispatch_one env t ev p a) d1 = (Inr js, d')" and ids: "ids = i # js"
    by (auto elim!: bind_InrD)
  from dispatch_one_up [OF assms(1) one] obtain c task where c: "payload_case p d = (Inr c, d)"
    and i: "i = db_next_id d"
    and d1: "d1 = d\<lparr>db_next_id := Suc (db_next_id d),
       db_executions := db_executions d @ [(i, queued_execution t c ev task (db_now d) m)]\<rparr>"
    by (auto simp: row_add_def)
  from Cons.IH [OF rest] obtain xs n where
    d': "d' = d1\<lparr>db_next_id := n, db_executions := db_executions d1 @ xs\<rparr>" and xs: "map fst xs = js"
      "map (x_module_id \<circ> snd) xs = ms"
      "\<forall>(i, x) \<in> set xs. \<exists>c task m. x = queued_execution t c ev task (db_now d1) m \<and> payload_case p d1 = (Inr c, d1)"
    by blast
  have pc: "payload_case p d1 = (Inr c, d1)"
    using payload_case_const [of p d1 d] c by simp
  let ?x = "(i, queued_execution t c ev task (db_now d) m)"
  have "d' = d\<lparr>db_next_id := n, db_executions := db_executions d @ ?x # xs\<rparr>"
    unfolding d' d1 by simp
  moreover have "\<forall>(j, x) \<in> set (?x # xs). \<exists>c task m. x = queued_execution t c ev task (db_now d) m \<and> payload_case p d = (Inr c, d)"
    using xs(3) c pc unfolding d1 by auto
  moreover have "map (x_module_id \<circ> snd) (?x # xs) = m # ms"
    using xs(2) by (simp add: queued_execution_def comp_def)
  ultimately show ?case
    using xs(1) ids by (intro exI [of _ "?x # xs"] exI [of _ n]) (simp add: comp_def)
qed

text \<open>
  C12: with a working broker, dispatching an event queues exactly one execution for each enabled
  processor module subscribed to it, in the order of the modules, for the event's tenant, and returns
  their ids.
\<close>

theorem dispatch_queues_subscribed:
  assumes "broker_up env" and "dispatch_event env t ev p a d = (Inr ids, d')"
  shows "\<exists>xs. db_executions d' = db_executions d @ xs \<and> map fst xs = ids \<and>
    map (x_module_id \<circ> snd) xs = map fst (rows_where (\<lambda>_ m. subscribed ev m) (db_modules d)) \<and>
    (\<forall>(i, x) \<in> set xs. x_status x = XS_QUEUED \<and> x_tenant_id x = t \<and>
       x_trigger_event x = Some (platform_event_str ev) \<and> payload_case p d = (Inr (x_case_id x), d))"
proof -
  from assms(2) have "collect (map fst (rows_where (\<lambda>_ m. subscribed ev m) (db_modules d)))
      (dispatch_one env t ev p a) d = (Inr ids, d')"
    by (simp add: dispatch_event_def svc_simps)
  from collect_dispatch_up [OF assms(1) this] obtain xs n where
    d': "d' = d\<lparr>db_next_id := n, db_executions := db_executions d @ xs\<rparr>" and xs: "map fst xs = ids"
      "map (x_module_id \<circ> snd) xs = map fst (rows_where (\<lambda>_ m. subscribed ev m) (db_modules d))"
      "\<forall>(i, x) \<in> set xs. \<exists>c task m. x = queued_execution t c ev task (db_now d) m \<and> payload_case p d = (Inr c, d)"
    by blast
  from xs(3) have "\<forall>(i, x) \<in> set xs. x_status x = XS_QUEUED \<and> x_tenant_id x = t \<and>
       x_trigger_event x = Some (platform_event_str ev) \<and> payload_case p d = (Inr (x_case_id x), d)"
    by (fastforce simp: queued_execution_def)
  with xs(1,2) show ?thesis
    unfolding d' by auto
qed

theorem dispatch_queues_subscribed_witness:
  "\<exists>d'. dispatch_event demo_env 1 OBSERVABLE_CREATED [(''case_id'', JId 5)] None demo_db = (Inr [20], d') \<and>
     (\<exists>xs. db_executions d' = xs \<and> map (x_module_id \<circ> snd) xs = [14])"
proof -
  obtain r d' where run: "dispatch_event demo_env 1 OBSERVABLE_CREATED [(''case_id'', JId 5)] None demo_db = (r, d')"
    by (cases "dispatch_event demo_env 1 OBSERVABLE_CREATED [(''case_id'', JId 5)] None demo_db")
  then have r: "r = Inr [20]"
    by (simp add: dispatch_event_def subscribed_def dispatch_one_def payload_case_def executions_e_def modules_e_def run_simps)
  from dispatch_queues_subscribed [OF demo_up run [unfolded r]] run r show ?thesis
    by (auto simp: demo_defs subscribed_def rows_where_def)
qed

text \<open>
  executing a module does not let the plugin's exception out. The only errors are the 404 of an
  unknown module and the database's own.
\<close>

theorem module_failure_contained:
  assumes "execute_module env module_id t c config p a te d = (Inl e, d')"
  shows "e = HTTPException 404 (''Module '' @ uuid_str module_id @ '' not found'') \<or> poisons e"
  using assms unfolding execute_module_def Let_def
  by (auto simp: svc_simps split: option.splits prod.splits sum.splits
      dest!: insert_row_InlD store_row_InlD execution_check_poisons except_any_InlD)

theorem module_failure_contained_witness:
  "execute_module demo_env 99 1 None [] [] None None demo_db =
     (Inl (HTTPException 404 (''Module '' @ uuid_str 99 @ '' not found'')), demo_db) \<and>
   (HTTPException 404 (''Module '' @ uuid_str 99 @ '' not found'') = HTTPException 404 (''Module '' @ uuid_str 99 @ '' not found'')
     \<or> poisons (HTTPException 404 (''Module '' @ uuid_str 99 @ '' not found'')))"
proof -
  have run: "execute_module demo_env 99 1 None [] [] None None demo_db =
     (Inl (HTTPException 404 (''Module '' @ uuid_str 99 @ '' not found'')), demo_db)"
    by (simp add: execute_module_def get_or_404_apply bind_apply visible_row_def demo_defs row_get_def)
  with module_failure_contained [OF run] show ?thesis
    by blast
qed

text \<open>
  C13: an execution that returns is finished: its row is completed with a result, or failed with a
  message, and carries both time stamps.
\<close>

theorem execution_finishes:
  assumes "execute_module env module_id t c config p a te d = (Inr i, d')"
  shows "\<exists>x. row_get (db_executions d') i = Some x \<and> x_module_id x = module_id \<and> x_tenant_id x = t \<and>
    x_started_at x \<noteq> None \<and> x_completed_at x \<noteq> None \<and>
    (x_status x = XS_COMPLETED \<and> x_result x \<noteq> None \<and> x_error_message x = None \<or>
     x_status x = XS_FAILED \<and> x_result x = None \<and> x_error_message x \<noteq> None)"
  using assms unfolding execute_module_def Let_def
  by (auto simp: svc_simps except_any_def split: option.splits prod.splits sum.splits if_splits
      dest!: executions_t.store_reads_back)

theorem execution_finishes_witness:
  "\<exists>d'. execute_module demo_env 14 1 (Some 5) [] [] None None demo_db = (Inr 20, d') \<and>
     (\<exists>x. row_get (db_executions d') 20 = Some x \<and> x_status x \<in> {XS_COMPLETED, XS_FAILED})"
proof -
  obtain r d' where run: "execute_module demo_env 14 1 (Some 5) [] [] None None demo_db = (r, d')"
    by (cases "execute_module demo_env 14 1 (Some 5) [] [] None None demo_db")
  then have r: "r = Inr 20"
    by (auto simp: execute_module_def modules_e_def executions_e_def run_simps)
  from execution_finishes [OF run [unfolded r]] run r show ?thesis
    by auto
qed

section \<open>Listings\<close>

text \<open>\<open>coll\<close> is the collation the database orders names by.\<close>

definition list_modules :: "(string \<Rightarrow> 'k::linorder) \<Rightarrow> nat \<Rightarrow> nat \<Rightarrow> (module_row table \<times> nat) service" where
  "list_modules coll limit offset =
     bind (select_rows modules_e (\<lambda>i m. True)) (\<lambda>rows.
     ret (page_of limit offset (sort_key (\<lambda>r. coll (mo_name (snd r))) rows), length rows))"

definition list_executions :: "uuid option \<Rightarrow> uuid option \<Rightarrow> uuid option \<Rightarrow> nat \<Rightarrow> nat \<Rightarrow> (execution_row table \<times> nat) service" where
  "list_executions module_id tenant_id case_id limit offset =
     bind (select_rows executions_e (\<lambda>i x. (module_id = None \<or> module_id = Some (x_module_id x)) \<and>
       (tenant_id = None \<or> tenant_id = Some (x_tenant_id x)) \<and> (case_id = None \<or> case_id = x_case_id x))) (\<lambda>rows.
     ret (page_of limit offset (sort_desc (\<lambda>r. x_created_at (snd r)) rows), length rows))"

lemma list_modules_keeps [keeps_intros]:
  "keeps I (list_modules coll l ofs)" "keeps I (list_executions m t c l ofs)"
  unfolding list_modules_def list_executions_def by (intro keeps_intros)+

end
