(* ===== verification/Cases.thy ===== *)
theory Cases
  imports Platform_Modules
begin

text \<open>
  The case service (\<^verbatim>\<open>services/cases.py\<close>, \<^verbatim>\<open>schemas/cases.py\<close>, and \<^verbatim>\<open>next_case_number\<close> of
  migration 0001): creation with numbering and templates, partial update with its status machine,
  closing, merging, listing and deletion.
\<close>

section \<open>Payloads\<close>

record case_create =
  cc_title :: string
  cc_description :: "string option"
  cc_severity :: case_severity
  cc_assignee_id :: "uuid option"
  cc_template_id :: "uuid option"
  cc_tags :: "string list"
  cc_custom_fields :: jobj

record case_update =
  cu_title :: "string upd"
  cu_description :: "string upd"
  cu_status :: "case_status upd"
  cu_severity :: "case_severity upd"
  cu_outcome :: "case_outcome upd"
  cu_assignee_id :: "uuid upd"
  cu_tags :: "string list upd"
  cu_custom_fields :: "json upd"

record case_list_filters =
  cf_status :: "case_status option"
  cf_severity :: "case_severity option"
  cf_assignee_id :: "uuid option"
  cf_tag :: "string option"
  cf_created_after :: "int option"
  cf_created_before :: "int option"
  cf_search :: "string option"

definition no_case_update :: case_update where
  "no_case_update = \<lparr>cu_title = None, cu_description = None, cu_status = None, cu_severity = None,
     cu_outcome = None, cu_assignee_id = None, cu_tags = None, cu_custom_fields = None\<rparr>"

section \<open>Creation\<close>

abbreviation case_or_404 :: "uuid \<Rightarrow> case_row service" where
  "case_or_404 \<equiv> get_or_404 cases_e (\<lambda>i. ''Case '' @ uuid_str i @ '' not found'')"

text \<open>
  \<^verbatim>\<open>SELECT COALESCE(MAX(case_number), 0) + 1 FROM cases WHERE tenant_id = p_tenant_id\<close>, run with the
  caller's rights: it sees the rows the policies show. The result is an \<^verbatim>\<open>INTEGER\<close>.
\<close>

definition max_number :: "int list \<Rightarrow> int" where
  "max_number ns = (case ns of [] \<Rightarrow> 0 | k # ks \<Rightarrow> fold max ks k)"

definition next_number :: "db \<Rightarrow> uuid \<Rightarrow> int" where
  "next_number d t = max_number (map (c_case_number \<circ> snd)
     (rows_where (\<lambda>_ c. ent_vis cases_e (db_session d) c \<and> c_tenant_id c = t) (db_cases d))) + 1"

definition next_case_number :: "uuid \<Rightarrow> int service" where
  "next_case_number t = bind (reads (\<lambda>d. next_number d t)) (\<lambda>n.
     and_then (guard (pg_int n) range_error) (ret n))"

text \<open>\<^verbatim>\<open>{**a, **b}\<close> of two dictionaries.\<close>

definition dict_merge :: "jobj \<Rightarrow> jobj \<Rightarrow> jobj" where
  "dict_merge a b = fold (\<lambda>(k, v) m. AList.update k v m) b a"

text \<open>A task specification of a template, with the defaults of its position.\<close>

definition arg_error :: api_error where
  "arg_error = DBError ''invalid input for query argument''"

definition spec_title :: "nat \<Rightarrow> jobj \<Rightarrow> api_error + string" where
  "spec_title idx spec = (case map_of spec ''title'' of
       None \<Rightarrow> Inr (''Task '' @ show_nat (idx + 1))
     | Some (JStr s) \<Rightarrow> Inr s | Some (JId u) \<Rightarrow> Inr (uuid_str u)
     | Some JNull \<Rightarrow> Inl null_error | Some _ \<Rightarrow> Inl arg_error)"

definition spec_description :: "jobj \<Rightarrow> api_error + string option" where
  "spec_description spec = (case map_of spec ''description'' of
       None \<Rightarrow> Inr None | Some JNull \<Rightarrow> Inr None
     | Some (JStr s) \<Rightarrow> Inr (Some s) | Some (JId u) \<Rightarrow> Inr (Some (uuid_str u)) | Some _ \<Rightarrow> Inl arg_error)"

definition spec_sort_order :: "nat \<Rightarrow> jobj \<Rightarrow> api_error + int" where
  "spec_sort_order idx spec = (case map_of spec ''sort_order'' of
       None \<Rightarrow> Inr (int idx) | Some JNull \<Rightarrow> Inr 0
     | Some (JInt n) \<Rightarrow> Inr n | Some (JBool b) \<Rightarrow> Inr (if b then 1 else 0) | Some _ \<Rightarrow> Inl arg_error)"

definition lift_sum :: "api_error + 'a \<Rightarrow> 'a service" where
  "lift_sum x = (case x of Inl e \<Rightarrow> raise e | Inr v \<Rightarrow> ret v)"

definition apply_task_spec :: "uuid \<Rightarrow> uuid \<Rightarrow> uuid \<Rightarrow> nat \<Rightarrow> json \<Rightarrow> unit service" where
  "apply_task_spec tenant_id case_id created_by idx spec = (case spec of
       JObj kvs \<Rightarrow>
         bind (lift_sum (spec_title idx kvs)) (\<lambda>title.
         bind (lift_sum (spec_description kvs)) (\<lambda>description.
         bind (lift_sum (spec_sort_order idx kvs)) (\<lambda>sort_order.
         bind now_utc (\<lambda>now.
         bind (insert_row tasks_e
           \<lparr>k_tenant_id = tenant_id, k_case_id = case_id, k_title = title, k_description = description,
            k_status = TS_TODO, k_assignee_id = None, k_sort_order = sort_order, k_created_by = created_by,
            k_created_at = now, k_updated_at = now\<rparr>) (\<lambda>_. ret ())))))
     | _ \<Rightarrow> ret ())"

definition json_items :: "json \<Rightarrow> json list" where
  "json_items j = (case j of JList xs \<Rightarrow> xs | _ \<Rightarrow> [])"

definition json_fields :: "json \<Rightarrow> jobj" where
  "json_fields j = (case j of JObj kvs \<Rightarrow> kvs | _ \<Rightarrow> [])"

text \<open>
  What a template contributes: tags (a set union in the source, whose order Python leaves open; the
  model keeps first occurrences), custom fields under those of the payload, and the severity when the
  payload has the default one. A stored severity outside the enumeration violates the check constraint
  of the column.
\<close>

definition template_severity :: "case_severity \<Rightarrow> template_row \<Rightarrow> api_error + case_severity" where
  "template_severity sev tp = (case tp_default_severity tp of
       Some s \<Rightarrow> if s \<noteq> [] \<and> sev = SEV_MEDIUM
         then (case case_severity_of s of Some v \<Rightarrow> Inr v
               | None \<Rightarrow> Inl (IntegrityError ''violates check constraint''))
         else Inr sev
     | None \<Rightarrow> Inr sev)"

definition find_template :: "uuid option \<Rightarrow> template_row option service" where
  "find_template template_id = (case template_id of None \<Rightarrow> ret None
     | Some i \<Rightarrow> bind (get_or_404 templates_e (\<lambda>i. ''Template '' @ uuid_str i @ '' not found'') i) (\<lambda>tp. ret (Some tp)))"

definition case_draft :: "uuid \<Rightarrow> uuid \<Rightarrow> case_create \<Rightarrow> int \<Rightarrow> template_row option \<Rightarrow> case_severity \<Rightarrow> int \<Rightarrow> case_row" where
  "case_draft tenant_id created_by payload case_number template severity now =
       \<lparr>c_tenant_id = tenant_id, c_case_number = case_number, c_title = cc_title payload,
        c_description = cc_description payload, c_status = CS_NEW, c_severity = severity, c_outcome = None,
        c_assignee_id = cc_assignee_id payload, c_template_id = cc_template_id payload,
        c_tags = (case template of None \<Rightarrow> cc_tags payload
                  | Some tp \<Rightarrow> remdups (cc_tags payload @ tp_default_tags tp)),
        c_custom_fields = JObj (case template of None \<Rightarrow> cc_custom_fields payload
                  | Some tp \<Rightarrow> dict_merge (json_fields (tp_custom_fields tp)) (cc_custom_fields payload)),
        c_merged_from = None, c_created_by = created_by, c_resolved_at = None, c_closed_at = None,
        c_created_at = now, c_updated_at = now\<rparr>"

definition create_case :: "env \<Rightarrow> uuid \<Rightarrow> uuid \<Rightarrow> case_create \<Rightarrow> uuid service" where
  "create_case env tenant_id created_by payload =
     bind (next_case_number tenant_id) (\<lambda>case_number.
     bind (find_template (cc_template_id payload)) (\<lambda>template.
     bind (case template of None \<Rightarrow> ret (cc_severity payload)
           | Some tp \<Rightarrow> lift_sum (template_severity (cc_severity payload) tp)) (\<lambda>severity.
     bind now_utc (\<lambda>now.
     bind (insert_row cases_e (case_draft tenant_id created_by payload case_number template severity now)) (\<lambda>case_id.
     and_then (record_event env tenant_id case_id ''case_created'' (''Case created: '' @ cc_title payload)
        (Some ''lifecycle'') (Some created_by) [] None)
     (and_then (for_each (enumerate 0 (case template of None \<Rightarrow> [] | Some tp \<Rightarrow> json_items (tp_tasks tp)))
        (\<lambda>(idx, spec). apply_task_spec tenant_id case_id created_by idx spec))
     (and_then (fire env tenant_id CASE_CREATED
        [(''case_id'', JId case_id), (''title'', JStr (cc_title payload)),
         (''severity'', JStr (case_severity_str severity))] (Some created_by))
     (ret case_id))))))))"

section \<open>Update\<close>

definition case_set :: "case_update \<Rightarrow> case_row \<Rightarrow> case_row" where
  "case_set data c = c
     \<lparr>c_title := set_req (cu_title data) (c_title c),
      c_description := set_opt (cu_description data) (c_description c),
      c_status := set_req (cu_status data) (c_status c),
      c_severity := set_req (cu_severity data) (c_severity c),
      c_outcome := set_opt (cu_outcome data) (c_outcome c),
      c_assignee_id := set_opt (cu_assignee_id data) (c_assignee_id c),
      c_tags := set_req (cu_tags data) (c_tags c),
      c_custom_fields := set_json (cu_custom_fields data) (c_custom_fields c)\<rparr>"

text \<open>The time stamps of a status change, and the 400 when a case is closed without an outcome.\<close>

definition case_stamp :: "int \<Rightarrow> case_row \<Rightarrow> case_row" where
  "case_stamp now c =
     c\<lparr>c_resolved_at := (if c_status c = CS_RESOLVED then Some now else c_resolved_at c),
       c_closed_at := (if c_status c = CS_CLOSED then Some now else c_closed_at c)\<rparr>"

definition opt_uuid_str :: "uuid option \<Rightarrow> string" where
  "opt_uuid_str x = (case x of None \<Rightarrow> ''None'' | Some u \<Rightarrow> uuid_str u)"

definition opt_uuid_json :: "uuid option \<Rightarrow> json" where
  "opt_uuid_json x = (case x of None \<Rightarrow> JNull | Some u \<Rightarrow> JId u)"

definition save_case :: "uuid \<Rightarrow> case_update \<Rightarrow> case_row \<Rightarrow> case_row \<Rightarrow> unit service" where
  "save_case case_id data c new =
     and_then (not_null [is_null (cu_title data), is_null (cu_status data), is_null (cu_severity data),
                         is_null (cu_tags data)])
     (bind now_utc (\<lambda>now. save_changed cases_e case_id c new (c_updated_at_update (\<lambda>_. now))))"

definition status_changes :: "case_update \<Rightarrow> case_row \<Rightarrow> bool" where
  "status_changes data c = (case cu_status data of Some (Some s) \<Rightarrow> s \<noteq> c_status c | _ \<Rightarrow> False)"

definition assignee_changes :: "case_update \<Rightarrow> case_row \<Rightarrow> bool" where
  "assignee_changes data c = (case cu_assignee_id data of Some a \<Rightarrow> a \<noteq> c_assignee_id c | None \<Rightarrow> False)"

definition case_new :: "int \<Rightarrow> case_update \<Rightarrow> case_row \<Rightarrow> case_row" where
  "case_new now data c =
     (if status_changes data c then case_stamp now (case_set data c) else case_set data c)"

text \<open>
  The changed row is written by the first flush: that of the first recorded event, or the one at the
  end.
\<close>

definition update_case :: "env \<Rightarrow> uuid \<Rightarrow> case_update \<Rightarrow> uuid \<Rightarrow> case_row service" where
  "update_case env case_id data actor_id =
     bind (case_or_404 case_id) (\<lambda>c.
     bind now_utc (\<lambda>now.
     let new = case_new now data c in
     and_then (guard (\<not> (status_changes data c \<and> c_status new = CS_CLOSED \<and> c_outcome new = None))
        (HTTPException 400 ''Outcome is required when closing a case''))
     (and_then (save_case case_id data c new)
     (and_then (if status_changes data c then
         and_then (record_event env (c_tenant_id c) case_id ''status_changed''
            (''Status changed from '' @ case_status_str (c_status c) @ '' to '' @ case_status_str (c_status new))
            (Some ''lifecycle'') (Some actor_id)
            [(''from'', JStr (case_status_str (c_status c))), (''to'', JStr (case_status_str (c_status new)))] None)
         (fire env (c_tenant_id c) CASE_STATUS_CHANGED
            [(''case_id'', JId case_id), (''from'', JStr (case_status_str (c_status c))),
             (''to'', JStr (case_status_str (c_status new)))] (Some actor_id))
       else ret ())
     (and_then (if assignee_changes data c then
         bind (record_event env (c_tenant_id c) case_id ''assignee_changed''
            (''Assignee changed from '' @ opt_uuid_str (c_assignee_id c) @ '' to '' @ opt_uuid_str (c_assignee_id new))
            (Some ''lifecycle'') (Some actor_id)
            [(''from'', opt_uuid_json (c_assignee_id c)), (''to'', opt_uuid_json (c_assignee_id new))] None)
           (\<lambda>_. ret ())
       else ret ())
     (case_or_404 case_id))))))"

definition close_case :: "env \<Rightarrow> uuid \<Rightarrow> case_outcome \<Rightarrow> uuid \<Rightarrow> case_row service" where
  "close_case env case_id outcome actor_id =
     update_case env case_id
       (no_case_update\<lparr>cu_status := Some (Some CS_CLOSED), cu_outcome := Some (Some outcome)\<rparr>) actor_id"

section \<open>Merging\<close>

definition merge_source :: "uuid \<Rightarrow> uuid \<Rightarrow> uuid \<Rightarrow> case_row service" where
  "merge_source target_id tenant_id source_id =
     and_then (guard (source_id \<noteq> target_id) (HTTPException 400 ''Cannot merge a case into itself''))
     (bind (case_or_404 source_id) (\<lambda>src.
      and_then (guard (c_tenant_id src = tenant_id) (HTTPException 400 ''Cannot merge across tenants''))
      (ret src)))"

definition transfer_case :: "uuid \<Rightarrow> uuid \<Rightarrow> unit service" where
  "transfer_case target_id source_id =
     bind now_utc (\<lambda>now.
     bind (select_rows observables_e (\<lambda>_ ob. o_case_id ob = source_id)) (\<lambda>observables.
     and_then (for_each observables (\<lambda>(i, ob).
        store_row observables_e i (ob\<lparr>o_case_id := target_id, o_updated_at := now\<rparr>)))
     (bind (select_rows timeline_e (\<lambda>_ en. tl_case_id en = source_id)) (\<lambda>entries.
     for_each entries (\<lambda>(i, en). store_row timeline_e i (en\<lparr>tl_case_id := target_id\<rparr>))))))"

definition close_source :: "uuid \<Rightarrow> unit service" where
  "close_source source_id = bind (case_or_404 source_id) (\<lambda>src. bind now_utc (\<lambda>now.
     store_row cases_e source_id
       (src\<lparr>c_status := CS_CLOSED, c_closed_at := Some now, c_updated_at := now\<rparr>)))"

definition merge_cases :: "env \<Rightarrow> uuid \<Rightarrow> uuid list \<Rightarrow> uuid \<Rightarrow> case_row service" where
  "merge_cases env target_id source_ids actor_id =
     bind (case_or_404 target_id) (\<lambda>target.
     bind (collect source_ids (merge_source target_id (c_tenant_id target))) (\<lambda>sources.
     and_then (for_each source_ids (transfer_case target_id))
     (bind now_utc (\<lambda>now.
     and_then (store_row cases_e target_id
        (target\<lparr>c_merged_from := Some ((case c_merged_from target of Some m \<Rightarrow> m | None \<Rightarrow> []) @ source_ids),
                c_updated_at := now\<rparr>))
     (and_then (record_event env (c_tenant_id target) target_id ''cases_merged''
        (''Merged '' @ show_nat (length sources) @ '' case(s) into this one'') (Some ''lifecycle'')
        (Some actor_id) [(''source_case_ids'', JList (map JId source_ids))] None)
     (and_then (for_each source_ids close_source)
     (case_or_404 target_id)))))))"

section \<open>Listing\<close>

text \<open>
  SQL \<^verbatim>\<open>ILIKE\<close>: \<^verbatim>\<open>%\<close> matches any string, \<^verbatim>\<open>_\<close> any character, a backslash makes the next
  character literal.
\<close>

fun like :: "string \<Rightarrow> string \<Rightarrow> bool" where
  "like [] s = (s = [])"
| "like (p # ps) [] = (p = CHR ''%'' \<and> like ps [])"
| "like (p # ps) (c # cs) =
     (if p = CHR ''%'' then like ps (c # cs) \<or> like (p # ps) cs
      else if p = CHR ''_'' then like ps cs
      else if p = CHR 0x5C then (case ps of [] \<Rightarrow> False | q # qs \<Rightarrow> q = c \<and> like qs cs)
      else p = c \<and> like ps cs)"

definition ilike :: "string \<Rightarrow> string \<Rightarrow> bool" where
  "ilike pattern s = like (py_lower pattern) (py_lower s)"

definition case_matches :: "uuid \<Rightarrow> case_list_filters \<Rightarrow> case_row \<Rightarrow> bool" where
  "case_matches tenant_id f c \<longleftrightarrow> c_tenant_id c = tenant_id \<and>
     (case cf_status f of None \<Rightarrow> True | Some s \<Rightarrow> c_status c = s) \<and>
     (case cf_severity f of None \<Rightarrow> True | Some s \<Rightarrow> c_severity c = s) \<and>
     (case cf_assignee_id f of None \<Rightarrow> True | Some a \<Rightarrow> c_assignee_id c = Some a) \<and>
     (case cf_tag f of None \<Rightarrow> True | Some t \<Rightarrow> t \<in> set (c_tags c)) \<and>
     (case cf_created_after f of None \<Rightarrow> True | Some t \<Rightarrow> t \<le> c_created_at c) \<and>
     (case cf_created_before f of None \<Rightarrow> True | Some t \<Rightarrow> c_created_at c \<le> t) \<and>
     (case cf_search f of None \<Rightarrow> True | Some s \<Rightarrow> py_strip s = [] \<or>
        (let pattern = ''%'' @ py_strip s @ ''%'' in
         ilike pattern (c_title c) \<or> (case c_description c of None \<Rightarrow> False | Some t \<Rightarrow> ilike pattern t)))"

definition list_cases :: "uuid \<Rightarrow> case_list_filters \<Rightarrow> nat \<Rightarrow> nat \<Rightarrow> (case_row table \<times> nat) service" where
  "list_cases tenant_id filters limit offset =
     bind (select_rows cases_e (\<lambda>_ c. case_matches tenant_id filters c)) (\<lambda>rows.
     ret (page_of limit offset (sort_desc (c_created_at \<circ> snd) rows), length rows))"

section \<open>Deletion\<close>

text \<open>
  \<^verbatim>\<open>db.delete(case)\<close>: the ORM first sets \<^verbatim>\<open>case_id\<close> to null in the rows of the relationships
  it loads (tasks, observables, assets, evidence, timeline entries, notes), which these columns do not
  take. Then the database restricts (alerts, executions, filed notes and subfolders elsewhere) and
  cascades.
\<close>

definition case_has_children :: "db \<Rightarrow> uuid \<Rightarrow> bool" where
  "case_has_children d i \<longleftrightarrow>
     (\<exists>(j, r) \<in> set (db_tasks d). k_case_id r = i \<and> ent_vis tasks_e (db_session d) r) \<or>
     (\<exists>(j, r) \<in> set (db_observables d). o_case_id r = i \<and> ent_vis observables_e (db_session d) r) \<or>
     (\<exists>(j, r) \<in> set (db_assets d). a_case_id r = i \<and> ent_vis assets_e (db_session d) r) \<or>
     (\<exists>(j, r) \<in> set (db_evidence d). e_case_id r = i \<and> ent_vis evidence_e (db_session d) r) \<or>
     (\<exists>(j, r) \<in> set (db_timeline d). tl_case_id r = i \<and> ent_vis timeline_e (db_session d) r) \<or>
     (\<exists>(j, r) \<in> set (db_notes d). n_case_id r = i \<and> ent_vis notes_e (db_session d) r)"

definition case_restricted :: "db \<Rightarrow> uuid \<Rightarrow> bool" where
  "case_restricted d i \<longleftrightarrow>
     (\<exists>(j, r) \<in> set (db_alerts d). al_promoted_to_case_id r = Some i) \<or>
     (\<exists>(j, r) \<in> set (db_executions d). x_case_id r = Some i) \<or>
     (\<exists>(j, r) \<in> set (db_reports d). rp_case_id r = i) \<or>
     (\<exists>(j, f) \<in> set (db_folders d). f_case_id f = i \<and>
        ((\<exists>(k, g) \<in> set (db_folders d). f_parent_id g = Some j \<and> f_case_id g \<noteq> i) \<or>
         (\<exists>(k, n) \<in> set (db_notes d). n_folder_id n = Some j \<and> n_case_id n \<noteq> i)))"

definition cascade_case :: "uuid \<Rightarrow> db \<Rightarrow> db" where
  "cascade_case i d =
     (let gone_obs = (\<lambda>j. \<exists>(k, r) \<in> set (db_observables d). k = j \<and> o_case_id r = i);
          gone_tl = (\<lambda>j. \<exists>(k, r) \<in> set (db_timeline d). k = j \<and> tl_case_id r = i);
          gone_as = (\<lambda>j. \<exists>(k, r) \<in> set (db_assets d). k = j \<and> a_case_id r = i) in
      d\<lparr>db_tasks := rows_where (\<lambda>_ r. k_case_id r \<noteq> i) (db_tasks d),
        db_observables := rows_where (\<lambda>_ r. o_case_id r \<noteq> i) (db_observables d),
        db_assets := rows_where (\<lambda>_ r. a_case_id r \<noteq> i) (db_assets d),
        db_evidence := rows_where (\<lambda>_ r. e_case_id r \<noteq> i) (db_evidence d),
        db_timeline := rows_where (\<lambda>_ r. tl_case_id r \<noteq> i) (db_timeline d),
        db_asset_links := filter (\<lambda>(e, a). \<not> gone_tl e \<and> \<not> gone_as a) (db_asset_links d),
        db_folders := rows_where (\<lambda>_ r. f_case_id r \<noteq> i) (db_folders d),
        db_notes := rows_where (\<lambda>_ r. n_case_id r \<noteq> i) (db_notes d),
        db_results := rows_where (\<lambda>_ r. \<not> gone_obs (er_observable_id r)) (db_results d),
        db_mappings := rows_where (\<lambda>_ m. m_case_id m \<noteq> Some i \<and>
          (case m_observable_id m of None \<Rightarrow> True | Some j \<Rightarrow> \<not> gone_obs j) \<and>
          (case m_timeline_entry_id m of None \<Rightarrow> True | Some j \<Rightarrow> \<not> gone_tl j)) (db_mappings d)\<rparr>)"

definition delete_case :: "uuid \<Rightarrow> unit service" where
  "delete_case case_id =
     bind (case_or_404 case_id) (\<lambda>c.
     bind (reads (\<lambda>d. case_has_children d case_id)) (\<lambda>children.
     and_then (not_null [children])
     (bind (reads (\<lambda>d. case_restricted d case_id)) (\<lambda>restricted.
     and_then (guard (\<not> restricted) fk_error)
     (and_then (modify (cascade_case case_id))
     (delete_row cases_e case_id))))))"


section \<open>Isolation\<close>

lemma json_fields_JObj [simp]: "json_fields (JObj kvs) = kvs"
  by (simp add: json_fields_def)

lemma keeps_lift_sum [keeps_intros]: "keeps I (lift_sum x)"
  by (cases x) (simp_all add: lift_sum_def keeps_intros)

lemma keeps_task_spec:
  assumes "\<And>r. k_tenant_id r = t \<Longrightarrow> k_case_id r = c \<Longrightarrow> keeps I (insert_row tasks_e r)"
  shows "keeps I (apply_task_spec t c u idx spec)"
  unfolding apply_task_spec_def by (cases spec) (auto intro!: keeps_intros assms)

lemma create_case_isolated [keeps_intros]:
  "plugins_keep (isolated s d0) env \<Longrightarrow> keeps (isolated s d0) (create_case env t u p)"
  unfolding create_case_def next_case_number_def find_template_def
  by (intro keeps_intros iso_exec.fire_keeps keeps_task_spec) (auto intro: keeps_intros keeps_task_spec split: prod.splits)

lemma update_case_isolated [keeps_intros]:
  "plugins_keep (isolated s d0) env \<Longrightarrow> keeps (isolated s d0) (update_case env i data a)"
  unfolding update_case_def save_case_def Let_def by (intro keeps_intros iso_exec.fire_keeps)

lemma merge_cases_isolated [keeps_intros]: "keeps (isolated s d0) (merge_cases env i is a)"
  unfolding merge_cases_def merge_source_def transfer_case_def close_source_def
  by (intro keeps_intros) (auto intro: keeps_intros split: prod.splits)

section \<open>Integrity\<close>

lemma create_case_at [keeps_intros]: "plugins_wf env \<Longrightarrow> keeps (wf_at A) (create_case env t u p)"
  unfolding create_case_def next_case_number_def find_template_def
  by (intro insert_case_at keeps_intros wf_exec.fire_keeps keeps_task_spec)
    (auto intro!: keeps_intros keeps_task_spec simp: plugins_wf_def case_draft_def split: prod.splits)

lemma update_case_at [keeps_intros]: "plugins_wf env \<Longrightarrow> keeps (wf_at A) (update_case env i data a)"
  unfolding update_case_def save_case_def Let_def
  by (intro get_case_at keeps_intros wf_exec.fire_keeps) (auto simp: case_new_def case_set_def case_stamp_def plugins_wf_def)

lemma collect_merge_sources:
  "collect ids (merge_source tgt t) d = (r, d') \<Longrightarrow> d' = d \<and>
     (\<forall>xs. r = Inr xs \<longrightarrow> length xs = length ids \<and>
        (\<forall>i \<in> set ids. i \<noteq> tgt \<and> (\<exists>c. visible_row cases_e d i = Some c \<and> c_tenant_id c = t)))"
proof (induction ids arbitrary: r)
  case (Cons i ids)
  then show ?case
    by (auto simp: merge_source_def svc_simps split: if_splits option.splits prod.splits sum.splits)
qed simp

lemma merge_sources_at:
  assumes "\<And>xs. length xs = length ids \<Longrightarrow> keeps (wf_at (A \<union> (\<lambda>i. (i, t)) ` set ids)) (k xs)"
  shows "keeps (wf_at A) (bind (collect ids (merge_source tgt t)) k)"
proof (rule wf_at_enter)
  fix d assume at: "wf_at A d"
  obtain r d' where run: "collect ids (merge_source tgt t) d = (r, d')"
    by fastforce
  note C = collect_merge_sources [OF run]
  show "(\<exists>x. collect ids (merge_source tgt t) d = (Inr x, d) \<and> (\<exists>B. wf_at B d \<and> A \<subseteq> B \<and> keeps (wf_at B) (k x))) \<or>
      (\<exists>e. collect ids (merge_source tgt t) d = (Inl e, d))"
  proof (cases r)
    case (Inr xs)
    with C have "length xs = length ids" and "\<forall>i \<in> set ids. case_tenant d i = Some t"
      using case_tenant_visible by auto
    with at have "wf_at (A \<union> (\<lambda>i. (i, t)) ` set ids) d"
      by (auto simp: wf_at_def)
    with run C Inr assms [of xs] \<open>length xs = length ids\<close> show ?thesis
      by blast
  qed (use run C in simp)
qed

lemma transfer_case_at: "(tgt, t) \<in> A \<Longrightarrow> (src, t) \<in> A \<Longrightarrow> keeps (wf_at A) (transfer_case tgt src)"
  unfolding transfer_case_def
  by (intro keeps_bind [OF keeps_now_utc] select_in_case_at [where t = t] keeps_and_then select_events_at [where t = t])
    (auto intro!: keeps_intros split: prod.splits)

lemma close_source_at: "(src, t) \<in> A \<Longrightarrow> keeps (wf_at A) (close_source src)"
  unfolding close_source_def by (intro get_case_at keeps_intros) simp

lemma merge_cases_at [keeps_intros]: "keeps (wf_at A) (merge_cases env tgt ids a)"
  unfolding merge_cases_def
  by (intro get_case_at merge_sources_at keeps_intros transfer_case_at close_source_at) auto

section \<open>Behaviour\<close>

lemma save_case_InrD:
  assumes "save_case i data c new d = (Inr u, d')"
  shows "\<not> is_null (cu_title data) \<and> \<not> is_null (cu_status data) \<and> \<not> is_null (cu_severity data) \<and>
    \<not> is_null (cu_tags data) \<and>
    d' = (if new = c then d else d\<lparr>db_cases := row_set i (new\<lparr>c_updated_at := db_now d\<rparr>) (db_cases d)\<rparr>)"
  using assms unfolding save_case_def
  by (auto simp: svc_simps save_changed_def split: if_splits dest!: store_row_InrD)

text \<open>What a successful update did: the row stored, and the entries it logged.\<close>

definition case_saved :: "int \<Rightarrow> case_update \<Rightarrow> case_row \<Rightarrow> case_row" where
  "case_saved now data c =
     (if case_new now data c = c then c else (case_new now data c)\<lparr>c_updated_at := now\<rparr>)"

definition logged :: "uuid \<Rightarrow> uuid \<Rightarrow> string list \<Rightarrow> timeline_row table \<Rightarrow> bool" where
  "logged tenant_id case_id types evs \<longleftrightarrow> map (tl_event_type \<circ> snd) evs = types \<and>
     (\<forall>(i, e) \<in> set evs. tl_tenant_id e = tenant_id \<and> tl_case_id e = case_id \<and> tl_is_automatic e)"

lemma logged_Nil [simp]: "logged t c [] []"
  by (simp add: logged_def)

lemma logged_append: "logged t c tys evs \<Longrightarrow> logged t c tys' evs' \<Longrightarrow> logged t c (tys @ tys') (evs @ evs')"
  by (auto simp: logged_def)

lemma record_event_logged:
  assumes "record_event env t c ty de ca ac me None d = (Inr i, d')"
  shows "core d' = core d \<and> (\<exists>evs. db_timeline d' = db_timeline d @ evs \<and> logged t c [ty] evs)"
proof
  show "core d' = core d"
    using record_event_frame [of env t c ty de ca ac me d] assms by simp
  obtain ms where "d' = d\<lparr>db_next_id := Suc (db_next_id d),
       db_timeline := row_add (db_next_id d) (event_entry t c ty de ca ac me (db_now d)) (db_timeline d),
       db_published := db_published d @ ms\<rparr>"
    using record_event_InrD [OF assms] by (elim conjE exE)
  then have "db_timeline d' = db_timeline d @ [(db_next_id d, event_entry t c ty de ca ac me (db_now d))]"
    by (simp add: row_add_def)
  then show "\<exists>evs. db_timeline d' = db_timeline d @ evs \<and> logged t c [ty] evs"
    by (auto simp: logged_def event_entry_def)
qed

lemma fire_logged:
  assumes "broker_up env" and "fire env t ev p a d = (r, d')"
  shows "core d' = core d \<and> db_timeline d' = db_timeline d"
  using queued_only_frame(1,2) [OF fire_up [OF assms(1), of d t ev p a]] assms(2) by simp

lemma log_fire_InrD:
  assumes "broker_up env"
    and "and_then (record_event env t c ty de ca ac me None) (and_then (fire env t ev p a) k) d = (Inr r, d')"
  obtains d2 evs where "core d2 = core d" and "db_timeline d2 = db_timeline d @ evs" and "logged t c [ty] evs"
    and "k d2 = (Inr r, d')"
proof -
  from assms(2) obtain i u d1 d2 where 1: "record_event env t c ty de ca ac me None d = (Inr i, d1)"
    and 2: "fire env t ev p a d1 = (Inr u, d2)" and k: "k d2 = (Inr r, d')"
    by (elim and_then_InrD)
  from record_event_logged [OF 1] obtain evs where "core d1 = core d" "db_timeline d1 = db_timeline d @ evs" "logged t c [ty] evs"
    by blast
  with fire_logged [OF assms(1) 2] k show thesis
    by (intro that) simp_all
qed

lemma core_visible_case: "core d' = core d \<Longrightarrow> visible_row cases_e d' i = visible_row cases_e d i"
  using core_eqD(3,12) [of d' d] by (simp add: visible_row_def split: option.split)

text \<open>A step that writes nothing but the log, and the two such steps of an update: an entry with an event, and an entry.\<close>

definition only_logs :: "uuid \<Rightarrow> uuid \<Rightarrow> string list \<Rightarrow> db \<Rightarrow> db \<Rightarrow> bool" where
  "only_logs t c tys d d' \<longleftrightarrow> (\<exists>evs. core d' = core d \<and> db_timeline d' = db_timeline d @ evs \<and> logged t c tys evs)"

lemma only_logs_trans: "only_logs t c tys d d1 \<Longrightarrow> only_logs t c tys' d1 d2 \<Longrightarrow> only_logs t c (tys @ tys') d d2"
  unfolding only_logs_def by (metis append.assoc logged_append)

lemma log_fire_if_InrD:
  assumes "broker_up env"
    and "(if b then and_then (record_event env t c ty de ca ac me None) (fire env t ev p a) else ret ()) d = (Inr u, d')"
  shows "only_logs t c (if b then [ty] else []) d d'"
  using assms fire_logged [OF assms(1)]
  by (auto simp: only_logs_def split: if_splits elim!: and_then_InrD dest!: record_event_logged)

lemma log_if_InrD:
  assumes "(if b then bind (record_event env t c ty de ca ac me None) (\<lambda>_. ret ()) else ret ()) d = (Inr u, d')"
  shows "only_logs t c (if b then [ty] else []) d d'"
  using assms by (auto simp: only_logs_def split: if_splits elim!: bind_InrD dest!: record_event_logged)

lemma update_case_effect:
  assumes up: "broker_up env" and run: "update_case env i data a d = (Inr r, d')"
  shows "\<exists>c evs. visible_row cases_e d i = Some c \<and> r = case_saved (db_now d) data c \<and>
    \<not> (status_changes data c \<and> c_status r = CS_CLOSED \<and> c_outcome r = None) \<and>
    db_cases d' = (if case_new (db_now d) data c = c then db_cases d else row_set i r (db_cases d)) \<and> core d' = core (d\<lparr>db_cases := db_cases d'\<rparr>) \<and>
    db_timeline d' = db_timeline d @ evs \<and>
    logged (c_tenant_id c) i ((if status_changes data c then [''status_changed''] else []) @
       (if assignee_changes data c then [''assignee_changed''] else [])) evs"
proof -
  from run obtain c where c: "visible_row cases_e d i = Some c"
    unfolding update_case_def by (auto elim!: bind_InrD dest!: get_or_404_InrD)
  let ?new = "case_new (db_now d) data c"
  from run c obtain d1 d2 where
    g: "\<not> (status_changes data c \<and> c_status ?new = CS_CLOSED \<and> c_outcome ?new = None)"
    and save: "save_case i data c ?new d = (Inr (), d1)"
    and logs: "only_logs (c_tenant_id c) i (if status_changes data c then [''status_changed''] else []) d1 d2"
      "only_logs (c_tenant_id c) i (if assignee_changes data c then [''assignee_changed''] else []) d2 d'"
    and last: "visible_row cases_e d' i = Some r"
    unfolding update_case_def Let_def
    by (auto simp: now_utc_apply simp del: guard_apply elim!: bind_InrD and_then_InrD
        dest!: get_or_404_InrD guard_InrD log_if_InrD log_fire_if_InrD [OF up])
  from only_logs_trans [OF logs] obtain evs where e: "core d' = core d1" "db_timeline d' = db_timeline d1 @ evs"
      "logged (c_tenant_id c) i ((if status_changes data c then [''status_changed''] else []) @
         (if assignee_changes data c then [''assignee_changed''] else [])) evs"
    by (auto simp: only_logs_def)
  note S = save_case_InrD [OF save]
  have d1: "db_cases d1 = (if ?new = c then db_cases d else row_set i (case_saved (db_now d) data c) (db_cases d))"
      "db_timeline d1 = db_timeline d" "core d1 = core (d\<lparr>db_cases := db_cases d1\<rparr>)" "db_session d1 = db_session d"
    using S by (auto simp: case_saved_def core_def)
  have tl: "db_timeline d' = db_timeline d @ evs"
    using e(2) d1(2) by simp
  have cases: "db_cases d' = db_cases d1"
    using core_eqD(3) [OF e(1)] .
  have "row_get (db_cases d) i = Some c"
    using visible_rowD [OF c] by simp
  then have "row_get (db_cases d1) i = Some (case_saved (db_now d) data c)"
    by (auto simp: d1(1) row_get_set case_saved_def)
  moreover have "row_get (db_cases d1) i = Some r"
    using last visible_rowD [of cases_e d' i r] cases by simp
  ultimately have r: "r = case_saved (db_now d) data c"
    by simp
  have "c_status r = c_status ?new" "c_outcome r = c_outcome ?new"
    unfolding r by (simp_all add: case_saved_def)
  with g have ng: "\<not> (status_changes data c \<and> c_status r = CS_CLOSED \<and> c_outcome r = None)"
    by simp
  have "core d' = core (d\<lparr>db_cases := db_cases d'\<rparr>)"
    using e(1) d1(3) cases by simp
  with c r ng d1(1) cases tl e(3) show ?thesis
    by (intro exI [of _ c] exI [of _ evs]) simp
qed

section \<open>Properties\<close>

definition demo_close :: case_update where
  "demo_close = no_case_update\<lparr>cu_status := Some (Some CS_CLOSED), cu_outcome := Some (Some OC_TRUE_POSITIVE)\<rparr>"

definition demo_create :: case_create where
  "demo_create = \<lparr>cc_title = ''New'', cc_description = None, cc_severity = SEV_MEDIUM, cc_assignee_id = None,
     cc_template_id = Some 15, cc_tags = [''a'', ''b''], cc_custom_fields = [(''k'', JInt 5)]\<rparr>"

lemmas case_run = update_case_def case_new_def status_changes_def assignee_changes_def case_set_def case_stamp_def
  save_case_def opt_uuid_str_def no_case_update_def

lemmas create_run = create_case_def next_case_number_def next_number_def max_number_def find_template_def case_draft_def
  template_severity_def lift_sum_def apply_task_spec_def spec_title_def spec_description_def spec_sort_order_def
  json_items_def json_fields_def dict_merge_def show_nat.simps

text \<open>The row of a successful update, field by field.\<close>

lemma status_changes_iff:
  "r = case_saved now data c \<Longrightarrow> status_changes data c \<longleftrightarrow> c_status r \<noteq> c_status c"
  "r = case_saved now data c \<Longrightarrow> assignee_changes data c \<longleftrightarrow> c_assignee_id r \<noteq> c_assignee_id c"
proof -
  have set: "c_status (case_new now data c) = set_req (cu_status data) (c_status c)"
    "c_assignee_id (case_new now data c) = set_opt (cu_assignee_id data) (c_assignee_id c)"
    by (simp_all add: case_new_def case_set_def case_stamp_def)
  have saved: "c_status (case_saved now data c) = c_status (case_new now data c)"
    "c_assignee_id (case_saved now data c) = c_assignee_id (case_new now data c)"
    by (simp_all add: case_saved_def)
  show "r = case_saved now data c \<Longrightarrow> status_changes data c \<longleftrightarrow> c_status r \<noteq> c_status c"
    by (cases "(cu_status data, c_status c)" rule: set_req.cases) (auto simp: saved set status_changes_def)
  show "r = case_saved now data c \<Longrightarrow> assignee_changes data c \<longleftrightarrow> c_assignee_id r \<noteq> c_assignee_id c"
    by (cases "cu_assignee_id data") (auto simp: saved set assignee_changes_def)
qed

lemma set_cases:
  "set_req x v = (case x of Some (Some w) \<Rightarrow> w | _ \<Rightarrow> v)" "set_opt y z = (case y of Some w \<Rightarrow> w | None \<Rightarrow> z)"
  "set_json q j = (case q of None \<Rightarrow> j | Some None \<Rightarrow> JNull | Some (Some w) \<Rightarrow> w)"
  by (simp_all split: option.split)

lemma saved_as:
  "case_saved now data c = (case_new now data c)\<lparr>c_updated_at := (if case_new now data c = c then c_updated_at c else now)\<rparr>"
  by (simp add: case_saved_def)

lemma case_saved_fields:
  assumes "r = case_saved now data c"
  shows "c_title r = (case cu_title data of Some (Some v) \<Rightarrow> v | _ \<Rightarrow> c_title c)"
    "c_description r = (case cu_description data of Some v \<Rightarrow> v | None \<Rightarrow> c_description c)"
    "c_status r = (case cu_status data of Some (Some v) \<Rightarrow> v | _ \<Rightarrow> c_status c)"
    "c_severity r = (case cu_severity data of Some (Some v) \<Rightarrow> v | _ \<Rightarrow> c_severity c)"
    "c_outcome r = (case cu_outcome data of Some v \<Rightarrow> v | None \<Rightarrow> c_outcome c)"
    "c_assignee_id r = (case cu_assignee_id data of Some v \<Rightarrow> v | None \<Rightarrow> c_assignee_id c)"
    "c_tags r = (case cu_tags data of Some (Some v) \<Rightarrow> v | _ \<Rightarrow> c_tags c)"
    "c_custom_fields r = (case cu_custom_fields data of None \<Rightarrow> c_custom_fields c | Some None \<Rightarrow> JNull | Some (Some v) \<Rightarrow> v)"
    "c_tenant_id r = c_tenant_id c" "c_case_number r = c_case_number c" "c_template_id r = c_template_id c"
    "c_merged_from r = c_merged_from c" "c_created_by r = c_created_by c" "c_created_at r = c_created_at c"
  unfolding assms saved_as case_new_def case_set_def case_stamp_def set_cases by simp_all

lemma case_saved_stamps:
  assumes "r = case_saved now data c"
  shows "c_resolved_at r = (if c_status r = CS_RESOLVED \<and> c_status c \<noteq> CS_RESOLVED then Some now else c_resolved_at c)"
    "c_closed_at r = (if c_status r = CS_CLOSED \<and> c_status c \<noteq> CS_CLOSED then Some now else c_closed_at c)"
    "c_updated_at r = (if r\<lparr>c_updated_at := c_updated_at c\<rparr> = c then c_updated_at c else now)"
proof -
  have new: "c_status r = c_status (case_new now data c)" "c_resolved_at r = c_resolved_at (case_new now data c)"
    "c_closed_at r = c_closed_at (case_new now data c)"
    by (simp_all add: assms saved_as)
  show "c_resolved_at r = (if c_status r = CS_RESOLVED \<and> c_status c \<noteq> CS_RESOLVED then Some now else c_resolved_at c)"
    "c_closed_at r = (if c_status r = CS_CLOSED \<and> c_status c \<noteq> CS_CLOSED then Some now else c_closed_at c)"
    using status_changes_iff(1) [OF assms] new by (auto simp: case_new_def case_stamp_def case_set_def)
  have "c_updated_at (case_new now data c) = c_updated_at c"
    by (simp add: case_new_def case_stamp_def case_set_def)
  then have "r\<lparr>c_updated_at := c_updated_at c\<rparr> = case_new now data c"
    by (simp add: assms saved_as)
  then show "c_updated_at r = (if r\<lparr>c_updated_at := c_updated_at c\<rparr> = c then c_updated_at c else now)"
    by (simp add: assms saved_as)
qed

text \<open>
  C6: a successful update stores exactly the fields sent and leaves the others: a field that was not sent keeps its value,
  one sent as null is emptied where the column allows it. A case that becomes resolved or closed gets the time, closing
  needs an outcome, and the row carries the time of the update when anything changed. Every other case and every other
  table but the log stay as they are, and the log gains one entry for a change of status and one for a change of assignee.
  Celery is assumed to take the events (\<open>broker_up\<close>).
\<close>

theorem update_case_correct:
  assumes "broker_up env" and "visible_row cases_e d i = Some c"
    and "update_case env i data a d = (Inr r, d')"
  shows "row_get (db_cases d') i = Some r \<and>
    c_title r = (case cu_title data of Some (Some v) \<Rightarrow> v | _ \<Rightarrow> c_title c) \<and>
    c_description r = (case cu_description data of Some v \<Rightarrow> v | None \<Rightarrow> c_description c) \<and>
    c_status r = (case cu_status data of Some (Some v) \<Rightarrow> v | _ \<Rightarrow> c_status c) \<and>
    c_severity r = (case cu_severity data of Some (Some v) \<Rightarrow> v | _ \<Rightarrow> c_severity c) \<and>
    c_outcome r = (case cu_outcome data of Some v \<Rightarrow> v | None \<Rightarrow> c_outcome c) \<and>
    c_assignee_id r = (case cu_assignee_id data of Some v \<Rightarrow> v | None \<Rightarrow> c_assignee_id c) \<and>
    c_tags r = (case cu_tags data of Some (Some v) \<Rightarrow> v | _ \<Rightarrow> c_tags c) \<and>
    c_custom_fields r = (case cu_custom_fields data of None \<Rightarrow> c_custom_fields c | Some None \<Rightarrow> JNull | Some (Some v) \<Rightarrow> v) \<and>
    c_tenant_id r = c_tenant_id c \<and> c_case_number r = c_case_number c \<and> c_template_id r = c_template_id c \<and>
    c_merged_from r = c_merged_from c \<and> c_created_by r = c_created_by c \<and> c_created_at r = c_created_at c \<and>
    c_resolved_at r = (if c_status r = CS_RESOLVED \<and> c_status c \<noteq> CS_RESOLVED then Some (db_now d) else c_resolved_at c) \<and>
    c_closed_at r = (if c_status r = CS_CLOSED \<and> c_status c \<noteq> CS_CLOSED then Some (db_now d) else c_closed_at c) \<and>
    c_updated_at r = (if r\<lparr>c_updated_at := c_updated_at c\<rparr> = c then c_updated_at c else db_now d) \<and>
    (c_status r = CS_CLOSED \<and> c_status c \<noteq> CS_CLOSED \<longrightarrow> c_outcome r \<noteq> None) \<and>
    (\<forall>j. j \<noteq> i \<longrightarrow> row_get (db_cases d') j = row_get (db_cases d) j) \<and>
    core d' = core (d\<lparr>db_cases := db_cases d'\<rparr>) \<and>
    (\<exists>evs. db_timeline d' = db_timeline d @ evs \<and>
       logged (c_tenant_id c) i ((if c_status r \<noteq> c_status c then [''status_changed''] else []) @
         (if c_assignee_id r \<noteq> c_assignee_id c then [''assignee_changed''] else [])) evs)"
proof -
  from update_case_effect [OF assms(1,3)] assms(2) obtain evs where r: "r = case_saved (db_now d) data c"
    and out: "\<not> (status_changes data c \<and> c_status r = CS_CLOSED \<and> c_outcome r = None)"
    and cases: "db_cases d' = (if case_new (db_now d) data c = c then db_cases d else row_set i r (db_cases d))"
    and rest: "core d' = core (d\<lparr>db_cases := db_cases d'\<rparr>)" "db_timeline d' = db_timeline d @ evs"
      "logged (c_tenant_id c) i ((if status_changes data c then [''status_changed''] else []) @
         (if assignee_changes data c then [''assignee_changed''] else [])) evs"
    by auto
  have "row_get (db_cases d') i = Some r" "\<forall>j. j \<noteq> i \<longrightarrow> row_get (db_cases d') j = row_get (db_cases d) j"
    using visible_rowD [OF assms(2)] by (auto simp: cases row_get_set r case_saved_def)
  moreover have "c_status r = CS_CLOSED \<and> c_status c \<noteq> CS_CLOSED \<longrightarrow> c_outcome r \<noteq> None"
    using out status_changes_iff(1) [OF r] by auto
  moreover note rest [unfolded status_changes_iff [OF r]]
  ultimately show ?thesis
    by (intro conjI case_saved_fields [OF r] case_saved_stamps [OF r]) blast+
qed

text \<open>Case 5 is closed; it keeps its title and its other fields.\<close>

theorem update_case_correct_witness:
  "\<exists>r d'. update_case demo_env 5 demo_close 3 demo_db = (Inr r, d') \<and> row_get (db_cases d') 5 = Some r \<and>
     r = (demo_case 1 1)\<lparr>c_status := CS_CLOSED, c_outcome := Some OC_TRUE_POSITIVE, c_closed_at := Some 1000, c_updated_at := 1000\<rparr> \<and>
     row_get (db_cases d') 6 = Some (demo_case 1 2)"
proof -
  obtain r d' where run: "update_case demo_env 5 demo_close 3 demo_db = (Inr r, d')"
    by (simp add: demo_close_def case_run fire_run run_simps)
  have c: "visible_row cases_e demo_db 5 = Some (demo_case 1 1)"
    by (simp add: run_simps)
  have old: "row_get (db_cases demo_db) 6 = Some (demo_case 1 2)" and now: "db_now demo_db = 1000"
    by (simp_all add: row_get_def demo_db_def)
  note U = update_case_correct [OF demo_up c run, unfolded now]
  have "r = (demo_case 1 1)\<lparr>c_status := CS_CLOSED, c_outcome := Some OC_TRUE_POSITIVE, c_closed_at := Some 1000, c_updated_at := 1000\<rparr>"
  proof -
    have st: "c_status r = CS_CLOSED" and up: "c_updated_at r = (if r\<lparr>c_updated_at := c_updated_at (demo_case 1 1)\<rparr> = demo_case 1 1
        then c_updated_at (demo_case 1 1) else 1000)"
      using U by (auto simp: demo_close_def no_case_update_def)
    have "c_status (r\<lparr>c_updated_at := x\<rparr>) \<noteq> c_status (demo_case 1 1)" for x
      using st by (simp add: demo_case_def)
    then have "r\<lparr>c_updated_at := x\<rparr> \<noteq> demo_case 1 1" for x by metis
    then have "c_updated_at r = 1000" using up by simp
    with U show ?thesis
      by (intro case_row.equality) (simp_all add: demo_close_def no_case_update_def demo_case_def)
  qed
  with U old run show ?thesis by simp
qed

text \<open>
  Closing needs an outcome. A case that an update closes has an outcome and the time of the closing,
  and the change is on its timeline.
\<close>

theorem closing_needs_outcome:
  assumes "broker_up env" and "update_case env i data a d = (Inr r, d')"
    and "visible_row cases_e d i = Some c" and "c_status c \<noteq> CS_CLOSED" and "c_status r = CS_CLOSED"
  shows "c_outcome r \<noteq> None \<and> c_closed_at r = Some (db_now d) \<and>
    (\<exists>(j, e) \<in> set (db_timeline d'). tl_case_id e = i \<and> tl_event_type e = ''status_changed'')"
proof -
  from update_case_effect [OF assms(1,2)] assms(3) obtain evs where
    r: "r = case_saved (db_now d) data c" and ng: "\<not> (status_changes data c \<and> c_status r = CS_CLOSED \<and> c_outcome r = None)"
    and tl: "db_timeline d' = db_timeline d @ evs"
    and ev: "logged (c_tenant_id c) i ((if status_changes data c then [''status_changed''] else []) @
       (if assignee_changes data c then [''assignee_changed''] else [])) evs"
    by auto
  have st: "status_changes data c"
  proof (rule ccontr)
    assume n: "\<not> status_changes data c"
    then have "set_req (cu_status data) (c_status c) = c_status c"
      by (cases "(cu_status data, c_status c)" rule: set_req.cases) (auto simp: status_changes_def)
    with n have "c_status r = c_status c"
      by (simp add: r case_saved_def case_new_def case_set_def)
    then show False
      using assms(4,5) by simp
  qed
  have closed: "c_closed_at r = Some (db_now d)"
    using st assms(4,5) unfolding r case_saved_def
    by (auto simp: case_new_def case_stamp_def split: if_splits)
  from ev st obtain j e where "(j, e) \<in> set evs" "tl_event_type e = ''status_changed''" "tl_case_id e = i"
    by (cases evs) (fastforce simp: logged_def)+
  with closed ng st assms(5) tl show ?thesis
    by auto
qed

theorem closing_needs_outcome_witness:
  "\<exists>r d'. update_case demo_env 5 demo_close 3 demo_db = (Inr r, d') \<and> c_status r = CS_CLOSED \<and>
     c_outcome r \<noteq> None \<and> c_closed_at r = Some 1000"
proof -
  obtain r d' where run: "update_case demo_env 5 demo_close 3 demo_db = (Inr r, d')" and r: "c_status r = CS_CLOSED"
    by (simp add: demo_close_def case_run fire_run run_simps)
  have c: "visible_row cases_e demo_db 5 = Some (demo_case 1 1)" and o: "c_status (demo_case 1 1) \<noteq> CS_CLOSED"
    by (simp_all add: run_simps)
  have "db_now demo_db = 1000"
    by (simp add: demo_db_def)
  with closing_needs_outcome [OF demo_up run c o r] run r show ?thesis
    by auto
qed

text \<open>Creation.\<close>

lemma keeps_cases_insert_task: "keeps (\<lambda>d. db_cases d = v) (insert_row tasks_e r)"
  by (rule keeps_insertI) simp

lemma keeps_cases_log:
  "keeps (\<lambda>d. db_cases d = v) (record_event env t i ty de ca ac me None)"
  "broker_up env \<Longrightarrow> keeps (\<lambda>d. db_cases d = v) (fire env t ev p a)"
  using core_eqD(3) [OF record_event_frame] core_eqD(3) [OF fire_core] by (auto simp: keeps_def)

lemma find_template_state: "find_template x d = (r, d') \<Longrightarrow> d' = d"
  by (auto simp: find_template_def svc_simps split: option.splits)

lemma lift_sum_InrD: "lift_sum x d = (Inr v, d') \<Longrightarrow> x = Inr v \<and> d' = d"
  by (cases x) (auto simp: lift_sum_def)

lemma create_case_effect:
  assumes "create_case env t u p d = (Inr i, d')"
  obtains template severity d1 x d2 d3 where
    "find_template (cc_template_id p) d = (Inr template, d)"
    "case template of None \<Rightarrow> severity = cc_severity p | Some tp \<Rightarrow> template_severity (cc_severity p) tp = Inr severity"
    "insert_row cases_e (case_draft t u p (next_number d t) template severity (db_now d)) d = (Inr i, d1)"
    "record_event env t i ''case_created'' (''Case created: '' @ cc_title p) (Some ''lifecycle'') (Some u) [] None d1 = (Inr x, d2)"
    "for_each (enumerate 0 (case template of None \<Rightarrow> [] | Some tp \<Rightarrow> json_items (tp_tasks tp)))
        (\<lambda>(idx, spec). apply_task_spec t i u idx spec) d2 = (Inr (), d3)"
    "fire env t CASE_CREATED [(''case_id'', JId i), (''title'', JStr (cc_title p)),
         (''severity'', JStr (case_severity_str severity))] (Some u) d3 = (Inr (), d')"
proof -
  let ?tail = "\<lambda>template severity case_id.
     and_then (record_event env t case_id ''case_created'' (''Case created: '' @ cc_title p)
        (Some ''lifecycle'') (Some u) [] None)
     (and_then (for_each (enumerate 0 (case template of None \<Rightarrow> [] | Some tp \<Rightarrow> json_items (tp_tasks tp)))
        (\<lambda>(idx, spec). apply_task_spec t case_id u idx spec))
     (and_then (fire env t CASE_CREATED
        [(''case_id'', JId case_id), (''title'', JStr (cc_title p)),
         (''severity'', JStr (case_severity_str severity))] (Some u))
     (ret case_id)))"
  from assms obtain n s1 where "next_case_number t d = (Inr n, s1)"
    and r1: "bind (find_template (cc_template_id p)) (\<lambda>template.
     bind (case template of None \<Rightarrow> ret (cc_severity p)
           | Some tp \<Rightarrow> lift_sum (template_severity (cc_severity p) tp)) (\<lambda>severity.
     bind now_utc (\<lambda>now.
     bind (insert_row cases_e (case_draft t u p n template severity now)) (?tail template severity)))) s1 = (Inr i, d')"
    unfolding create_case_def by (rule bind_InrD)
  then have n: "n = next_number d t" "s1 = d"
    by (auto simp: next_case_number_def svc_simps split: if_splits)
  from r1 obtain template d0 where ft: "find_template (cc_template_id p) d = (Inr template, d0)"
    and r2: "bind (case template of None \<Rightarrow> ret (cc_severity p)
           | Some tp \<Rightarrow> lift_sum (template_severity (cc_severity p) tp)) (\<lambda>severity.
     bind now_utc (\<lambda>now.
     bind (insert_row cases_e (case_draft t u p (next_number d t) template severity now)) (?tail template severity))) d0 = (Inr i, d')"
    unfolding n by (rule bind_InrD)
  from r2 obtain severity dx where sev: "(case template of None \<Rightarrow> ret (cc_severity p)
           | Some tp \<Rightarrow> lift_sum (template_severity (cc_severity p) tp)) d0 = (Inr severity, dx)"
    and "bind now_utc (\<lambda>now.
     bind (insert_row cases_e (case_draft t u p (next_number d t) template severity now)) (?tail template severity)) dx = (Inr i, d')"
    by (rule bind_InrD)
  then have "bind (insert_row cases_e (case_draft t u p (next_number d t) template severity (db_now dx))) (?tail template severity) dx = (Inr i, d')"
    by (simp add: bind_apply now_utc_apply)
  then obtain j d1 where ins': "insert_row cases_e (case_draft t u p (next_number d t) template severity (db_now dx)) dx = (Inr j, d1)"
    and rest': "?tail template severity j d1 = (Inr i, d')"
    by (rule bind_InrD)
  from rest' have "j = i"
    by (auto elim!: and_then_InrD)
  note ins = ins' [unfolded this] and rest = rest' [unfolded this]
  have d0: "d0 = d"
    by (rule find_template_state [OF ft])
  have dx: "dx = d" "case template of None \<Rightarrow> severity = cc_severity p | Some tp \<Rightarrow> template_severity (cc_severity p) tp = Inr severity"
    using sev by (auto simp: d0 split: option.splits dest!: lift_sum_InrD)
  from rest that [OF ft [unfolded d0] dx(2) ins [unfolded dx(1)]] show thesis
    by (auto elim!: and_then_InrD)
qed

lemma map_of_dict_merge:
  "map_of (dict_merge a b) k = (case map_of (rev b) k of Some v \<Rightarrow> Some v | None \<Rightarrow> map_of a k)"
proof (induction b arbitrary: a)
  case (Cons kv b)
  have "dict_merge a (kv # b) = dict_merge (AList.update (fst kv) (snd kv) a) b"
    by (simp add: dict_merge_def case_prod_unfold)
  then show ?case
    by (simp add: Cons.IH update_conv' map_add_def split: option.splits)
qed (simp add: dict_merge_def)

lemma map_of_rev_keys:
  assumes "distinct (map fst b)"
  shows "map_of (rev b) = map_of b"
proof -
  have "distinct (map fst (rev b))"
    using assms by (metis distinct_rev rev_map)
  then show ?thesis
    using assms by (intro map_of_inject_set [THEN iffD2]) simp_all
qed

text \<open>The tasks of a template: one per specification that is a dictionary.\<close>

fun is_spec :: "json \<Rightarrow> bool" where
  "is_spec (JObj kvs) = True"
| "is_spec _ = False"

lemma apply_task_spec_InrD:
  assumes "apply_task_spec t i u idx spec d = (Inr x, d')"
  shows "\<exists>ks. db_tasks d' = db_tasks d @ ks \<and> length ks = (if is_spec spec then 1 else 0) \<and>
    (\<forall>(j, k) \<in> set ks. k_case_id k = i \<and> k_tenant_id k = t \<and> k_status k = TS_TODO \<and> k_created_by k = u)"
  using assms unfolding apply_task_spec_def
  by (cases spec) (auto simp: now_utc_apply row_add_def elim!: bind_InrD dest!: lift_sum_InrD insert_row_InrD)

lemma task_specs_InrD:
  assumes "for_each (enumerate n specs) (\<lambda>(idx, spec). apply_task_spec t i u idx spec) d = (Inr x, d')"
  shows "\<exists>ks. db_tasks d' = db_tasks d @ ks \<and> length ks = length (filter is_spec specs) \<and>
    (\<forall>(j, k) \<in> set ks. k_case_id k = i \<and> k_tenant_id k = t \<and> k_status k = TS_TODO \<and> k_created_by k = u)"
  using assms
proof (induction specs arbitrary: n d)
  case (Cons spec specs)
  from Cons.prems obtain y d1 where one: "apply_task_spec t i u n spec d = (Inr y, d1)"
    and rest: "for_each (enumerate (Suc n) specs) (\<lambda>(idx, spec). apply_task_spec t i u idx spec) d1 = (Inr x, d')"
    by (auto elim!: and_then_InrD)
  from apply_task_spec_InrD [OF one] Cons.IH [OF rest] obtain ks1 ks2 where
    "db_tasks d1 = db_tasks d @ ks1" "length ks1 = (if is_spec spec then 1 else 0)"
    "\<forall>(j, k) \<in> set ks1. k_case_id k = i \<and> k_tenant_id k = t \<and> k_status k = TS_TODO \<and> k_created_by k = u"
    "db_tasks d' = db_tasks d1 @ ks2" "length ks2 = length (filter is_spec specs)"
    "\<forall>(j, k) \<in> set ks2. k_case_id k = i \<and> k_tenant_id k = t \<and> k_status k = TS_TODO \<and> k_created_by k = u"
    by blast
  then show ?case
    by (intro exI [of _ "ks1 @ ks2"]) auto
qed simp

lemma keeps_cases_specs:
  "keeps (\<lambda>d. db_cases d = v) (for_each xs (\<lambda>(idx, spec). apply_task_spec t i u idx spec))"
  by (rule keeps_for_each) (auto intro: keeps_task_spec keeps_cases_insert_task split: prod.splits)

lemma keeps_specs_frame:
  "keeps (\<lambda>d. db_timeline d = v \<and> db_session d = s) (for_each xs (\<lambda>(idx, spec). apply_task_spec t i u idx spec))"
  by (rule keeps_for_each) (auto intro!: keeps_task_spec keeps_insertI split: prod.splits)

text \<open>The number is one more than the highest of the tenant's cases.\<close>

lemma fold_max_Max: "fold max ns x = Max (insert x (set ns))" for x :: int
proof (induction ns arbitrary: x)
  case (Cons a ns)
  then show ?case by (cases "set ns = {}") (simp_all add: max.assoc)
qed simp

lemma max_number_Max: "max_number ns = (if ns = [] then 0 else Max (set ns))"
  by (cases ns) (simp_all add: max_number_def fold_max_Max)

lemma next_number_Max:
  assumes "rls_standard (db_session d) t"
  shows "next_number d t = (let ns = {c_case_number x |j x. (j, x) \<in> set (db_cases d) \<and> c_tenant_id x = t} in
    if ns = {} then 1 else Max ns + 1)"
proof -
  define N where "N = {c_case_number x |j x. (j, x) \<in> set (db_cases d) \<and> c_tenant_id x = t}"
  define ns where "ns = map (c_case_number \<circ> snd) (rows_where (\<lambda>_ c. ent_vis cases_e (db_session d) c \<and> c_tenant_id c = t) (db_cases d))"
  have "set ns = N"
  proof
    show "set ns \<subseteq> N" unfolding ns_def N_def by auto blast
    show "N \<subseteq> set ns" unfolding ns_def N_def using assms by force
  qed
  moreover have "next_number d t = (if ns = [] then 0 else Max (set ns)) + 1"
    unfolding ns_def next_number_def max_number_Max by (rule refl)
  ultimately show ?thesis
    unfolding N_def [symmetric] Let_def by (cases ns) auto
qed

text \<open>
  C7: creating a case adds one row, under a new id: the tenant's, numbered one more than the highest number of the
  tenant's cases (1 for the first), with the payload's fields, in status new, made by the caller now. Without a template
  the severity, the tags and the custom fields are the payload's (with one see \<open>template_applied\<close>). No other case
  changes, and the creation is the one entry the log gains. Celery is assumed to take the events (\<open>broker_up\<close>).
\<close>

theorem create_case_numbered:
  assumes "broker_up env" and "create_case env t u p d = (Inr i, d')"
  shows "\<exists>c ev. db_cases d' = row_add i c (db_cases d) \<and> i = db_next_id d \<and> c_tenant_id c = t \<and>
    c_case_number c = (let ns = {c_case_number x |j x. (j, x) \<in> set (db_cases d) \<and> c_tenant_id x = t} in
      if ns = {} then 1 else Max ns + 1) \<and>
    c_title c = cc_title p \<and> c_description c = cc_description p \<and> c_assignee_id c = cc_assignee_id p \<and>
    c_template_id c = cc_template_id p \<and> c_status c = CS_NEW \<and> c_outcome c = None \<and> c_merged_from c = None \<and>
    c_created_by c = u \<and> c_created_at c = db_now d \<and> c_updated_at c = db_now d \<and> c_resolved_at c = None \<and> c_closed_at c = None \<and>
    (cc_template_id p = None \<longrightarrow> c_severity c = cc_severity p \<and> c_tags c = cc_tags p \<and> c_custom_fields c = JObj (cc_custom_fields p)) \<and>
    db_timeline d' = db_timeline d @ [ev] \<and> tl_event_type (snd ev) = ''case_created'' \<and> tl_case_id (snd ev) = i \<and>
    tl_tenant_id (snd ev) = t"
  using assms(2)
proof (rule create_case_effect)
  fix template severity d1 x d2 d3
  let ?c = "case_draft t u p (next_number d t) template severity (db_now d)"
  assume tp: "find_template (cc_template_id p) d = (Inr template, d)"
    and sv: "case template of None \<Rightarrow> severity = cc_severity p | Some tp \<Rightarrow> template_severity (cc_severity p) tp = Inr severity"
    and ins: "insert_row cases_e ?c d = (Inr i, d1)"
    and rec: "record_event env t i ''case_created'' (''Case created: '' @ cc_title p) (Some ''lifecycle'') (Some u) [] None d1 = (Inr x, d2)"
    and specs: "for_each (enumerate 0 (case template of None \<Rightarrow> [] | Some tp \<Rightarrow> json_items (tp_tasks tp)))
        (\<lambda>(idx, spec). apply_task_spec t i u idx spec) d2 = (Inr (), d3)"
    and fired: "fire env t CASE_CREATED [(''case_id'', JId i), (''title'', JStr (cc_title p)),
         (''severity'', JStr (case_severity_str severity))] (Some u) d3 = (Inr (), d')"
  note I = insert_row_InrD [OF ins]
  have "db_cases d2 = db_cases d1"
    using keepsD [OF keeps_cases_log(1) [of "db_cases d1"]] rec by (metis snd_conv)
  moreover have "db_cases d3 = db_cases d2" and tl3: "db_timeline d3 = db_timeline d2"
    using keepsD [OF keeps_cases_specs [of "db_cases d2"], of d2] keepsD [OF keeps_specs_frame [of "db_timeline d2" "db_session d2"], of d2] specs
    by (metis snd_conv)+
  moreover have "db_cases d' = db_cases d3"
    using keepsD [OF keeps_cases_log(2) [OF assms(1), of "db_cases d3"]] fired by (metis snd_conv)
  ultimately have "db_cases d' = row_add i ?c (db_cases d)"
    using I by simp
  moreover have vis: "rls_standard (db_session d) t"
    using I by (simp add: case_draft_def)
  moreover from record_event_logged [OF rec] obtain evs where evs: "db_timeline d2 = db_timeline d1 @ evs" "logged t i [''case_created''] evs"
    by blast
  then obtain ev where "evs = [ev]" "tl_event_type (snd ev) = ''case_created''" "tl_case_id (snd ev) = i" "tl_tenant_id (snd ev) = t"
    by (cases evs) (auto simp: logged_def)
  moreover have "cc_template_id p = None \<Longrightarrow> template = None \<and> severity = cc_severity p"
    using tp sv by (simp add: find_template_def)
  ultimately show ?thesis
    using I evs(1) tl3 fire_logged [OF assms(1) fired]
    by (intro exI [of _ ?c] exI [of _ ev]) (simp add: case_draft_def next_number_Max [OF vis])
qed

theorem create_case_numbered_witness:
  "\<exists>d' c. create_case demo_env 1 3 demo_create demo_db = (Inr 20, d') \<and> db_cases d' = row_add 20 c (db_cases demo_db) \<and>
     c_case_number c = 3 \<and> c_title c = ''New'' \<and> c_status c = CS_NEW \<and> length (db_timeline d') = Suc (length (db_timeline demo_db))"
proof -
  obtain i d' where run: "create_case demo_env 1 3 demo_create demo_db = (Inr i, d')"
    by (simp add: demo_create_def create_run fire_run run_simps)
  have "rls_standard (db_session demo_db) 1" and third: "next_number demo_db 1 = 3" and "db_next_id demo_db = 20"
    by (simp_all add: next_number_def max_number_def run_simps)
  note number = next_number_Max [OF this(1), symmetric]
  from create_case_numbered [OF demo_up run, unfolded number third] run \<open>db_next_id demo_db = 20\<close> show ?thesis
    by (auto simp: demo_create_def)
qed

text \<open>What a creation leaves alone.\<close>

lemma task_spec_core:
  assumes "apply_task_spec t i u idx spec d = (Inr x, d')"
  shows "core d' = core (d\<lparr>db_tasks := db_tasks d'\<rparr>)"
  using assms unfolding apply_task_spec_def
  by (cases spec) (auto simp: now_utc_apply core_def elim!: bind_InrD dest!: lift_sum_InrD insert_row_InrD)

lemma task_specs_core:
  assumes "for_each (enumerate n specs) (\<lambda>(idx, spec). apply_task_spec t i u idx spec) d = (Inr x, d')"
  shows "core d' = core (d\<lparr>db_tasks := db_tasks d'\<rparr>)"
  using assms
proof (induction specs arbitrary: n d)
  case (Cons spec specs)
  from Cons.prems obtain y d1 where one: "apply_task_spec t i u n spec d = (Inr y, d1)"
    and rest: "for_each (enumerate (Suc n) specs) (\<lambda>(idx, spec). apply_task_spec t i u idx spec) d1 = (Inr x, d')"
    by (auto elim!: and_then_InrD)
  have "core (d1\<lparr>db_tasks := db_tasks d'\<rparr>) = (core d1)\<lparr>db_tasks := db_tasks d'\<rparr>"
    by (simp add: core_def)
  also have "\<dots> = core (d\<lparr>db_tasks := db_tasks d'\<rparr>)"
    unfolding task_spec_core [OF one] by (simp add: core_def)
  finally show ?case
    using Cons.IH [OF rest] by simp
qed simp

lemma create_case_frame:
  assumes "broker_up env" and "create_case env t u p d = (Inr i, d')"
  shows "\<exists>c. db_cases d' = row_add i c (db_cases d) \<and> i = db_next_id d \<and> c_tenant_id c = t \<and> c_title c = cc_title p \<and>
    rls_standard (db_session d) t \<and> core d' = core (d\<lparr>db_cases := db_cases d', db_tasks := db_tasks d'\<rparr>)"
  using assms(2)
proof (rule create_case_effect)
  fix template severity d1 x d2 d3
  let ?c = "case_draft t u p (next_number d t) template severity (db_now d)"
  assume ins: "insert_row cases_e ?c d = (Inr i, d1)"
    and rec: "record_event env t i ''case_created'' (''Case created: '' @ cc_title p) (Some ''lifecycle'') (Some u) [] None d1 = (Inr x, d2)"
    and specs: "for_each (enumerate 0 (case template of None \<Rightarrow> [] | Some tp \<Rightarrow> json_items (tp_tasks tp)))
        (\<lambda>(idx, spec). apply_task_spec t i u idx spec) d2 = (Inr (), d3)"
    and fired: "fire env t CASE_CREATED [(''case_id'', JId i), (''title'', JStr (cc_title p)),
         (''severity'', JStr (case_severity_str severity))] (Some u) d3 = (Inr (), d')"
  note I = insert_row_InrD [OF ins]
  have 1: "d1 = d\<lparr>db_next_id := Suc i, db_cases := row_add i ?c (db_cases d)\<rparr>"
    using I by simp
  have 2: "core d2 = core d1"
    using record_event_logged [OF rec] by simp
  have 3: "core d3 = core (d2\<lparr>db_tasks := db_tasks d3\<rparr>)"
    by (rule task_specs_core [OF specs])
  have 4: "core d' = core d3"
    using fire_logged [OF assms(1) fired] by simp
  have "core d' = (core d2)\<lparr>db_tasks := db_tasks d3\<rparr>"
    unfolding 4 3 by (simp add: core_def)
  also have "\<dots> = core (d\<lparr>db_cases := row_add i ?c (db_cases d), db_tasks := db_tasks d3\<rparr>)"
    unfolding 2 unfolding 1 by (simp add: core_def)
  finally have core: "core d' = core (d\<lparr>db_cases := row_add i ?c (db_cases d), db_tasks := db_tasks d3\<rparr>)" .
  then show ?thesis
    using I core_eqD(3,4) [OF core] by (intro exI [of _ ?c]) (simp add: case_draft_def)
qed

text \<open>
  C9: a template adds its tags to those of the payload, its custom fields under those of the payload,
  its severity when the payload has the default one, and one open task for each of its task
  specifications.
\<close>

theorem template_applied:
  assumes "broker_up env" and "wf_ids d" and "create_case env t u p d = (Inr i, d')"
    and "cc_template_id p = Some ti" and "visible_row templates_e d ti = Some tp"
    and "distinct (map fst (cc_custom_fields p))"
  shows "\<exists>c ks. row_get (db_cases d') i = Some c \<and>
    set (c_tags c) = set (cc_tags p) \<union> set (tp_default_tags tp) \<and> distinct (c_tags c) \<and>
    (\<forall>k. map_of (json_fields (c_custom_fields c)) k =
      (case map_of (cc_custom_fields p) k of Some v \<Rightarrow> Some v | None \<Rightarrow> map_of (json_fields (tp_custom_fields tp)) k)) \<and>
    (cc_severity p \<noteq> SEV_MEDIUM \<longrightarrow> c_severity c = cc_severity p) \<and>
    (cc_severity p = SEV_MEDIUM \<and> tp_default_severity tp = Some s \<and> s \<noteq> [] \<longrightarrow> case_severity_of s = Some (c_severity c)) \<and>
    db_tasks d' = db_tasks d @ ks \<and> length ks = length (filter is_spec (json_items (tp_tasks tp))) \<and>
    (\<forall>(j, k) \<in> set ks. k_case_id k = i \<and> k_tenant_id k = t \<and> k_status k = TS_TODO \<and> k_created_by k = u)"
  using assms(3)
proof (rule create_case_effect)
  fix template severity d1 x d2 d3
  assume "find_template (cc_template_id p) d = (Inr template, d)"
  then have tp: "template = Some tp"
    using assms(4,5) by (simp add: find_template_def svc_simps)
  let ?c = "case_draft t u p (next_number d t) (Some tp) severity (db_now d)"
  assume sv: "case template of None \<Rightarrow> severity = cc_severity p | Some tp \<Rightarrow> template_severity (cc_severity p) tp = Inr severity"
    and ins: "insert_row cases_e (case_draft t u p (next_number d t) template severity (db_now d)) d = (Inr i, d1)"
    and rec: "record_event env t i ''case_created'' (''Case created: '' @ cc_title p) (Some ''lifecycle'') (Some u) [] None d1 = (Inr x, d2)"
    and specs: "for_each (enumerate 0 (case template of None \<Rightarrow> [] | Some tp \<Rightarrow> json_items (tp_tasks tp)))
        (\<lambda>(idx, spec). apply_task_spec t i u idx spec) d2 = (Inr (), d3)"
    and fired: "fire env t CASE_CREATED [(''case_id'', JId i), (''title'', JStr (cc_title p)),
         (''severity'', JStr (case_severity_str severity))] (Some u) d3 = (Inr (), d')"
  have "row_get (db_cases d1) i = Some ?c"
    using cases_t.insert_reads_back [OF assms(2) ins] by (simp add: tp)
  moreover have core21: "core d2 = core d1"
    using record_event_logged [OF rec] by simp
  then have "db_cases d2 = db_cases d1" and t21: "db_tasks d2 = db_tasks d1"
    by (rule core_eqD(3), rule core_eqD(4))
  moreover have "db_cases d3 = db_cases d2"
    using keepsD [OF keeps_cases_specs [of "db_cases d2"]] specs by (metis snd_conv)
  moreover have core43: "core d' = core d3"
    using fire_logged [OF assms(1) fired] by simp
  then have "db_cases d' = db_cases d3" and t43: "db_tasks d' = db_tasks d3"
    by (rule core_eqD(3), rule core_eqD(4))
  ultimately have row: "row_get (db_cases d') i = Some ?c"
    by simp
  have t1: "db_tasks d1 = db_tasks d"
    using insert_row_InrD [OF ins] by simp
  obtain ks where ks: "db_tasks d3 = db_tasks d2 @ ks" "length ks = length (filter is_spec (json_items (tp_tasks tp)))"
    "\<forall>(j, k) \<in> set ks. k_case_id k = i \<and> k_tenant_id k = t \<and> k_status k = TS_TODO \<and> k_created_by k = u"
    using task_specs_InrD [OF specs] by (auto simp: tp)
  have cf: "map_of (json_fields (c_custom_fields ?c)) k =
      (case map_of (cc_custom_fields p) k of Some v \<Rightarrow> Some v | None \<Rightarrow> map_of (json_fields (tp_custom_fields tp)) k)" for k
    using map_of_dict_merge [of "json_fields (tp_custom_fields tp)" "cc_custom_fields p" k] assms(6)
    by (simp add: case_draft_def map_of_rev_keys [OF assms(6)] json_fields_JObj)
  have "template_severity (cc_severity p) tp = Inr severity"
    using sv by (simp add: tp)
  then have sev: "cc_severity p \<noteq> SEV_MEDIUM \<longrightarrow> c_severity ?c = cc_severity p"
    "cc_severity p = SEV_MEDIUM \<and> tp_default_severity tp = Some s \<and> s \<noteq> [] \<longrightarrow> case_severity_of s = Some (c_severity ?c)"
    by (auto simp: template_severity_def case_draft_def simp del: case_severity_of.simps split: option.splits if_splits)
  from row cf sev t43 ks t21 t1 show ?thesis
    by (intro exI [of _ ?c] exI [of _ ks]) (simp add: case_draft_def)
qed

theorem template_applied_witness:
  "\<exists>i d' c. create_case demo_env 1 3 demo_create demo_db = (Inr i, d') \<and> row_get (db_cases d') i = Some c \<and>
     set (c_tags c) = {''a'', ''b'', ''mail''} \<and> length (db_tasks d') = 3"
proof -
  obtain i d' where run: "create_case demo_env 1 3 demo_create demo_db = (Inr i, d')"
    by (simp add: demo_create_def create_run fire_run run_simps)
  have t: "cc_template_id demo_create = Some 15" and v: "visible_row templates_e demo_db 15 = Some demo_template"
    and f: "distinct (map fst (cc_custom_fields demo_create))"
    by (simp_all add: demo_create_def visible_row_def row_get_def demo_db_def demo_template_def empty_db_def)
  have "set (cc_tags demo_create) = {''a'', ''b''}" "set (tp_default_tags demo_template) = {''mail'', ''a''}"
    "length (db_tasks demo_db) = 1" "length (filter is_spec (json_items (tp_tasks demo_template))) = 2"
    by (simp_all add: demo_create_def demo_template_def demo_db_def json_items_def)
  with template_applied [OF demo_up wf_db_ids [OF demo_wf] run t v f] run show ?thesis
    by fastforce
qed

section \<open>Merging\<close>

lemma row_map_cong: "(\<And>i r. (i, r) \<in> set t \<Longrightarrow> f i r = g i r) \<Longrightarrow> row_map f t = row_map g t"
  by (auto simp: row_map_def)

lemma row_map_row_map: "row_map f (row_map g t) = row_map (\<lambda>i r. f i (g i r)) t"
  by (auto simp: row_map_def)

lemma row_map_id: "(\<And>i r. (i, r) \<in> set t \<Longrightarrow> f i r = r) \<Longrightarrow> row_map f t = t"
  by (induction t) (auto simp: row_map_def)

lemma row_set_row_map:
  assumes "distinct (map fst t)" "row_get t i = Some r"
  shows "row_set i (f r) t = row_map (\<lambda>k x. if k = i then f x else x) t"
  unfolding row_set_def
  by (rule row_map_cong) (use assms in \<open>auto simp: row_get_iff dest: eq_key_imp_eq_value\<close>)

definition move_observable :: "uuid \<Rightarrow> int \<Rightarrow> uuid set \<Rightarrow> observable_row \<Rightarrow> observable_row" where
  "move_observable target_id now ids ob =
     (if o_case_id ob \<in> ids then ob\<lparr>o_case_id := target_id, o_updated_at := now\<rparr> else ob)"

definition move_entry :: "uuid \<Rightarrow> uuid set \<Rightarrow> timeline_row \<Rightarrow> timeline_row" where
  "move_entry target_id ids en = (if tl_case_id en \<in> ids then en\<lparr>tl_case_id := target_id\<rparr> else en)"

lemma move_observable_keeps: "o_case_id ob \<notin> ids \<Longrightarrow> move_observable tgt now ids ob = ob"
  by (simp add: move_observable_def)

text \<open>The rows of a case, all visible: what the transfer of one source does.\<close>

definition rows_visible :: "db \<Rightarrow> uuid set \<Rightarrow> bool" where
  "rows_visible d ids \<longleftrightarrow>
     distinct (map fst (db_observables d)) \<and> distinct (map fst (db_timeline d)) \<and>
     (\<forall>(i, ob) \<in> set (db_observables d). o_case_id ob \<in> ids \<longrightarrow> ent_vis observables_e (db_session d) ob) \<and>
     (\<forall>(i, en) \<in> set (db_timeline d). tl_case_id en \<in> ids \<longrightarrow> ent_vis timeline_e (db_session d) en)"

lemma keys_of_rows: "distinct (map fst t) \<Longrightarrow> (i, r) \<in> set t \<Longrightarrow> i \<in> fst ` set (rows_where P t) \<longleftrightarrow> P i r"
  by (force dest: eq_key_imp_eq_value)

lemma transfer_case_InrD:
  assumes "transfer_case tgt src d = (Inr u, d')" and vis: "rows_visible d {src}"
  shows "d' = d\<lparr>db_observables := row_map (\<lambda>_. move_observable tgt (db_now d) {src}) (db_observables d),
                db_timeline := row_map (\<lambda>_. move_entry tgt {src}) (db_timeline d)\<rparr>"
proof -
  let ?obs = "rows_where (\<lambda>i r. ent_vis observables_e (db_session d) r \<and> o_case_id r = src) (db_observables d)"
  from assms(1) obtain d1 where
    o: "for_each ?obs (\<lambda>(i, ob). store_row observables_e i (ob\<lparr>o_case_id := tgt, o_updated_at := db_now d\<rparr>)) d = (Inr (), d1)"
    and t: "for_each (rows_where (\<lambda>i r. ent_vis timeline_e (db_session d1) r \<and> tl_case_id r = src) (db_timeline d1))
       (\<lambda>(i, en). store_row timeline_e i (en\<lparr>tl_case_id := tgt\<rparr>)) d1 = (Inr u, d')"
    unfolding transfer_case_def by (auto simp: now_utc_apply select_rows_apply elim!: bind_InrD and_then_InrD)
  have "d1 = db_observables_update (row_map (\<lambda>i r. if i \<in> fst ` set ?obs then r\<lparr>o_case_id := tgt, o_updated_at := db_now d\<rparr> else r)) d"
    using observables_t.bulk_store [OF o] vis by (auto simp: rows_visible_def)
  also have "\<dots> = d\<lparr>db_observables := row_map (\<lambda>_. move_observable tgt (db_now d) {src}) (db_observables d)\<rparr>"
  proof -
    have "row_map (\<lambda>i r. if i \<in> fst ` set ?obs then r\<lparr>o_case_id := tgt, o_updated_at := db_now d\<rparr> else r) (db_observables d)
      = row_map (\<lambda>_. move_observable tgt (db_now d) {src}) (db_observables d)"
      by (rule row_map_cong) (use vis in \<open>auto simp: rows_visible_def keys_of_rows move_observable_def simp del: set_rows_where\<close>)
    then show ?thesis
      by (intro db.equality) simp_all
  qed
  finally have d1: "d1 = d\<lparr>db_observables := row_map (\<lambda>_. move_observable tgt (db_now d) {src}) (db_observables d)\<rparr>" .
  let ?tls = "rows_where (\<lambda>i r. ent_vis timeline_e (db_session d) r \<and> tl_case_id r = src) (db_timeline d)"
  have "d' = db_timeline_update (row_map (\<lambda>i r. if i \<in> fst ` set ?tls then r\<lparr>tl_case_id := tgt\<rparr> else r)) d1"
    using timeline_t.bulk_store [OF t] vis by (auto simp: rows_visible_def d1)
  also have "\<dots> = d1\<lparr>db_timeline := row_map (\<lambda>_. move_entry tgt {src}) (db_timeline d)\<rparr>"
  proof -
    have "row_map (\<lambda>i r. if i \<in> fst ` set ?tls then r\<lparr>tl_case_id := tgt\<rparr> else r) (db_timeline d)
      = row_map (\<lambda>_. move_entry tgt {src}) (db_timeline d)"
      by (rule row_map_cong) (use vis in \<open>auto simp: rows_visible_def keys_of_rows move_entry_def simp del: set_rows_where\<close>)
    then show ?thesis
      by (intro db.equality) (simp_all add: d1)
  qed
  finally show ?thesis
    unfolding d1 by simp
qed

lemma transfer_all_InrD:
  assumes "for_each ids (transfer_case tgt) d = (Inr u, d')" and "rows_visible d (set ids)" and "tgt \<notin> set ids"
  shows "d' = d\<lparr>db_observables := row_map (\<lambda>_. move_observable tgt (db_now d) (set ids)) (db_observables d),
                db_timeline := row_map (\<lambda>_. move_entry tgt (set ids)) (db_timeline d)\<rparr>"
  using assms
proof (induction ids arbitrary: d)
  case Nil
  then show ?case
    by (intro db.equality) (simp_all add: move_observable_def move_entry_def row_map_id)
next
  case (Cons src ids)
  from Cons.prems(1) obtain d1 where one: "transfer_case tgt src d = (Inr (), d1)"
    and rest: "for_each ids (transfer_case tgt) d1 = (Inr u, d')"
    by (auto elim!: and_then_InrD)
  have d1: "d1 = d\<lparr>db_observables := row_map (\<lambda>_. move_observable tgt (db_now d) {src}) (db_observables d),
                db_timeline := row_map (\<lambda>_. move_entry tgt {src}) (db_timeline d)\<rparr>"
    using Cons.prems(2) by (intro transfer_case_InrD [OF one]) (auto simp: rows_visible_def)
  have vis: "rows_visible d1 (set ids)"
    using Cons.prems(2,3) unfolding rows_visible_def d1
    by (auto simp: set_row_map move_observable_def move_entry_def split: if_splits)
  have "d' = d1\<lparr>db_observables := row_map (\<lambda>_. move_observable tgt (db_now d) (set ids)) (db_observables d1),
                db_timeline := row_map (\<lambda>_. move_entry tgt (set ids)) (db_timeline d1)\<rparr>"
    using Cons.IH [OF rest vis] Cons.prems(3) by (simp add: d1)
  also have "\<dots> = d\<lparr>db_observables := row_map (\<lambda>_. move_observable tgt (db_now d) (set (src # ids))) (db_observables d),
                db_timeline := row_map (\<lambda>_. move_entry tgt (set (src # ids))) (db_timeline d)\<rparr>"
    using Cons.prems(3) by (intro db.equality)
      (auto simp: d1 row_map_row_map move_observable_def move_entry_def intro!: row_map_cong)
  finally show ?case .
qed

definition closed_source :: "int \<Rightarrow> case_row \<Rightarrow> case_row" where
  "closed_source now c = c\<lparr>c_status := CS_CLOSED, c_closed_at := Some now, c_updated_at := now\<rparr>"

lemma close_sources_InrD:
  assumes "for_each ids close_source d = (Inr u, d')" and "distinct (map fst (db_cases d))"
  shows "d' = d\<lparr>db_cases := row_map (\<lambda>i c. if i \<in> set ids then closed_source (db_now d) c else c) (db_cases d)\<rparr>"
  using assms
proof (induction ids arbitrary: d)
  case Nil
  then show ?case
    by (intro db.equality) (simp_all add: row_map_id)
next
  case (Cons i ids)
  from Cons.prems(1) obtain d1 where one: "close_source i d = (Inr (), d1)"
    and rest: "for_each ids close_source d1 = (Inr u, d')"
    by (auto elim!: and_then_InrD)
  from one obtain c where c: "visible_row cases_e d i = Some c"
    and st: "store_row cases_e i (closed_source (db_now d) c) d = (Inr (), d1)"
    unfolding close_source_def closed_source_def by (auto simp: now_utc_apply elim!: bind_InrD dest!: get_or_404_InrD)
  have "row_get (db_cases d) i = Some c"
    using visible_rowD [OF c] by simp
  with store_row_InrD [OF st] Cons.prems(2)
  have d1: "d1 = d\<lparr>db_cases := row_map (\<lambda>k x. if k = i then closed_source (db_now d) x else x) (db_cases d)\<rparr>"
    by (simp add: row_set_row_map db.equality)
  then have now: "db_now d1 = db_now d"
    by simp
  have "d' = d1\<lparr>db_cases := row_map (\<lambda>i c. if i \<in> set ids then closed_source (db_now d) c else c) (db_cases d1)\<rparr>"
    using Cons.IH [OF rest, unfolded now] Cons.prems(2) by (simp add: d1)
  also have "\<dots> = d\<lparr>db_cases := row_map (\<lambda>j c. if j \<in> set (i # ids) then closed_source (db_now d) c else c) (db_cases d)\<rparr>"
    by (intro db.equality) (auto simp: d1 row_map_row_map closed_source_def intro!: row_map_cong)
  finally show ?case .
qed

text \<open>The target of a merge, and the steps of one.\<close>

definition merged_target :: "int \<Rightarrow> uuid list \<Rightarrow> case_row \<Rightarrow> case_row" where
  "merged_target now ids c =
     c\<lparr>c_merged_from := Some ((case c_merged_from c of Some m \<Rightarrow> m | None \<Rightarrow> []) @ ids), c_updated_at := now\<rparr>"

lemma merge_cases_steps:
  assumes "merge_cases env tgt ids a d = (Inr r, d')"
  obtains c d1 d2 de ca ac me j d3 where "visible_row cases_e d tgt = Some c"
    and "\<forall>i \<in> set ids. i \<noteq> tgt \<and> (\<exists>x. visible_row cases_e d i = Some x \<and> c_tenant_id x = c_tenant_id c)"
    and "for_each ids (transfer_case tgt) d = (Inr (), d1)"
    and "store_row cases_e tgt (merged_target (db_now d1) ids c) d1 = (Inr (), d2)"
    and "record_event env (c_tenant_id c) tgt ''cases_merged'' de ca ac me None d2 = (Inr j, d3)"
    and "for_each ids close_source d3 = (Inr (), d')" and "visible_row cases_e d' tgt = Some r"
proof -
  from assms obtain c d0 where "case_or_404 tgt d = (Inr c, d0)"
    unfolding merge_cases_def by (auto elim!: bind_InrD)
  then have c: "visible_row cases_e d tgt = Some c" by (auto dest: get_or_404_InrD)
  from assms c obtain xs dc where col: "collect ids (merge_source tgt (c_tenant_id c)) d = (Inr xs, dc)"
    unfolding merge_cases_def by (auto elim!: bind_InrD dest!: get_or_404_InrD)
  note srcs = collect_merge_sources [OF col]
  from assms c col srcs show thesis
    unfolding merge_cases_def merged_target_def [symmetric]
    by (auto simp: now_utc_apply elim!: bind_InrD and_then_InrD dest!: get_or_404_InrD intro!: that)
qed

lemma merge_sources_visible:
  assumes "wf_db d" and "visible_row cases_e d tgt = Some c"
    and "\<forall>i \<in> set ids. i \<noteq> tgt \<and> (\<exists>x. visible_row cases_e d i = Some x \<and> c_tenant_id x = c_tenant_id c)"
  shows "rows_visible d (set ids)"
proof -
  have "rls_standard (db_session d) (c_tenant_id c)"
    using visible_rowD [OF assms(2)] by simp
  moreover have "case_tenant d i = Some (c_tenant_id c)" if "i \<in> set ids" for i
    using assms(3) that case_tenant_visible by fastforce
  ultimately show ?thesis
    using assms(1) wf_db_ids [OF assms(1)] unfolding rows_visible_def
    by (fastforce simp: wf_ids_def ids_ok_distinct wf_db_def wf_tenancy_def rows_in_case_def)
qed

text \<open>What a merge leaves of the three tables it writes.\<close>

lemma merge_cases_effect:
  assumes "wf_db d" and "merge_cases env tgt ids a d = (Inr r, d')"
  obtains c ev where "row_get (db_cases d) tgt = Some c" and "visible_row cases_e d' tgt = Some r"
    and "\<forall>i \<in> set ids. i \<noteq> tgt \<and> (\<exists>x. row_get (db_cases d) i = Some x)"
    and "db_cases d' = row_map (\<lambda>i x. if i \<in> set ids then closed_source (db_now d) x else x)
      (row_set tgt (merged_target (db_now d) ids c) (db_cases d))"
    and "db_observables d' = row_map (\<lambda>_. move_observable tgt (db_now d) (set ids)) (db_observables d)"
    and "db_timeline d' = row_map (\<lambda>_. move_entry tgt (set ids)) (db_timeline d) @ [ev]"
    and "tl_event_type (snd ev) = ''cases_merged''" and "tl_case_id (snd ev) = tgt"
proof -
  from merge_cases_steps [OF assms(2)] obtain c d1 d2 de ca ac me j d3 where c: "visible_row cases_e d tgt = Some c"
    and srcs: "\<forall>i \<in> set ids. i \<noteq> tgt \<and> (\<exists>x. visible_row cases_e d i = Some x \<and> c_tenant_id x = c_tenant_id c)"
    and tr: "for_each ids (transfer_case tgt) d = (Inr (), d1)"
    and st: "store_row cases_e tgt (merged_target (db_now d1) ids c) d1 = (Inr (), d2)"
    and rec: "record_event env (c_tenant_id c) tgt ''cases_merged'' de ca ac me None d2 = (Inr j, d3)"
    and cl: "for_each ids close_source d3 = (Inr (), d')" and last: "visible_row cases_e d' tgt = Some r" .
  have d1: "d1 = d\<lparr>db_observables := row_map (\<lambda>_. move_observable tgt (db_now d) (set ids)) (db_observables d),
      db_timeline := row_map (\<lambda>_. move_entry tgt (set ids)) (db_timeline d)\<rparr>"
    using srcs by (intro transfer_all_InrD [OF tr merge_sources_visible [OF assms(1) c srcs]]) blast
  have d2: "d2 = d1\<lparr>db_cases := row_set tgt (merged_target (db_now d) ids c) (db_cases d)\<rparr>"
    using store_row_InrD [OF st] by (auto simp: d1 intro: db.equality)
  from record_event_InrD [OF rec] obtain ms where
    d3: "d3 = d2\<lparr>db_next_id := Suc (db_next_id d2),
       db_timeline := row_add (db_next_id d2) (event_entry (c_tenant_id c) tgt ''cases_merged'' de ca ac me (db_now d2)) (db_timeline d2),
       db_published := db_published d2 @ ms\<rparr>"
    by (elim conjE exE)
  have "distinct (map fst (db_cases d3))" "db_now d3 = db_now d"
    using wf_db_ids [OF assms(1)] by (simp_all add: d3 d2 d1 wf_ids_def ids_ok_def)
  note d4 = close_sources_InrD [OF cl this(1), unfolded this(2)]
  have old: "\<forall>i \<in> set ids. i \<noteq> tgt \<and> (\<exists>x. row_get (db_cases d) i = Some x)"
    using srcs visible_rowD by fastforce
  show thesis
    by (rule that [of c "(db_next_id d2, event_entry (c_tenant_id c) tgt ''cases_merged'' de ca ac me (db_now d2))"])
      (use visible_rowD [OF c] last old in \<open>simp_all add: d4 d3 d2 d1 row_add_def event_entry_def\<close>)
qed

text \<open>
  C8: a merge moves every observable and every timeline entry of the sources to the target, loses none
  and touches no other, adds the sources to the target's merged_from, closes them, and logs the merge.
\<close>

theorem merge_cases_correct:
  assumes "wf_db d" and "merge_cases env tgt ids a d = (Inr r, d')"
  shows "tgt \<notin> set ids \<and>
    db_observables d' = row_map (\<lambda>_. move_observable tgt (db_now d) (set ids)) (db_observables d) \<and>
    (\<exists>ev. db_timeline d' = row_map (\<lambda>_. move_entry tgt (set ids)) (db_timeline d) @ [ev] \<and>
       tl_event_type (snd ev) = ''cases_merged'' \<and> tl_case_id (snd ev) = tgt) \<and>
    (\<exists>c. row_get (db_cases d) tgt = Some c \<and> row_get (db_cases d') tgt = Some r \<and>
       r = c\<lparr>c_merged_from := Some ((case c_merged_from c of Some m \<Rightarrow> m | None \<Rightarrow> []) @ ids), c_updated_at := db_now d\<rparr>) \<and>
    (\<forall>i \<in> set ids. \<exists>c. row_get (db_cases d) i = Some c \<and> row_get (db_cases d') i = Some (closed_source (db_now d) c))"
proof -
  from merge_cases_effect [OF assms] obtain c ev where c: "row_get (db_cases d) tgt = Some c"
    and last: "visible_row cases_e d' tgt = Some r"
    and srcs: "\<forall>i \<in> set ids. i \<noteq> tgt \<and> (\<exists>x. row_get (db_cases d) i = Some x)"
    and cases: "db_cases d' = row_map (\<lambda>i x. if i \<in> set ids then closed_source (db_now d) x else x)
      (row_set tgt (merged_target (db_now d) ids c) (db_cases d))"
    and moved: "db_observables d' = row_map (\<lambda>_. move_observable tgt (db_now d) (set ids)) (db_observables d)"
      "db_timeline d' = row_map (\<lambda>_. move_entry tgt (set ids)) (db_timeline d) @ [ev]"
      "tl_event_type (snd ev) = ''cases_merged''" "tl_case_id (snd ev) = tgt" .
  have tgt: "tgt \<notin> set ids" using srcs by blast
  have target: "row_get (db_cases d') tgt = Some (merged_target (db_now d) ids c)"
    using tgt c by (simp add: cases row_get_map row_get_set)
  moreover have "r = merged_target (db_now d) ids c"
    using visible_rowD [OF last] target by simp
  moreover have "\<exists>x. row_get (db_cases d) i = Some x \<and> row_get (db_cases d') i = Some (closed_source (db_now d) x)"
    if "i \<in> set ids" for i
    using srcs that by (auto simp: cases row_get_map row_get_set)
  ultimately show ?thesis
    using tgt c moved by (auto simp: merged_target_def)
qed

theorem merge_cases_correct_witness:
  "\<exists>r d'. merge_cases demo_env 5 [6] 3 demo_db = (Inr r, d') \<and> c_merged_from r = Some [6] \<and>
     map (o_case_id \<circ> snd) (db_observables d') = [5, 7]"
proof -
  obtain r d' where run: "merge_cases demo_env 5 [6] 3 demo_db = (Inr r, d')"
    by (simp add: case_run merge_cases_def merge_source_def transfer_case_def close_source_def run_simps)
  have c: "row_get (db_cases demo_db) 5 = Some (demo_case 1 1)"
    by (simp add: row_get_def demo_db_def)
  from merge_cases_correct [OF demo_wf run] run c show ?thesis
    by (auto simp: demo_case_def demo_db_def row_map_def move_observable_def demo_observable_def)
qed

section \<open>Deletion\<close>

lemma rows_where_all: "(\<And>i r. (i, r) \<in> set t \<Longrightarrow> P i r) \<Longrightarrow> rows_where P t = t"
  unfolding rows_where_def by (rule filter_True) auto

text \<open>Without children the cascade removes folders and mappings only.\<close>

definition childless :: "db \<Rightarrow> uuid \<Rightarrow> bool" where
  "childless d i \<longleftrightarrow>
     (\<forall>(j, r) \<in> set (db_tasks d). k_case_id r \<noteq> i) \<and> (\<forall>(j, r) \<in> set (db_observables d). o_case_id r \<noteq> i) \<and>
     (\<forall>(j, r) \<in> set (db_assets d). a_case_id r \<noteq> i) \<and> (\<forall>(j, r) \<in> set (db_evidence d). e_case_id r \<noteq> i) \<and>
     (\<forall>(j, r) \<in> set (db_timeline d). tl_case_id r \<noteq> i) \<and> (\<forall>(j, r) \<in> set (db_notes d). n_case_id r \<noteq> i)"

lemma no_children:
  assumes "wf_db d" and "visible_row cases_e d i = Some c" and "\<not> case_has_children d i"
  shows "childless d i"
proof -
  have "rls_standard (db_session d) (c_tenant_id c)" and "case_tenant d i = Some (c_tenant_id c)"
    using visible_rowD [OF assms(2)] case_tenant_visible [OF assms(2)] by simp_all
  with assms(1,3) show ?thesis
    unfolding childless_def case_has_children_def wf_db_def wf_tenancy_def rows_in_case_def
    by fastforce
qed

lemma cascade_childless:
  assumes "childless d i"
  shows "db_tasks (cascade_case i d) = db_tasks d" "db_observables (cascade_case i d) = db_observables d"
    "db_assets (cascade_case i d) = db_assets d" "db_evidence (cascade_case i d) = db_evidence d"
    "db_timeline (cascade_case i d) = db_timeline d" "db_notes (cascade_case i d) = db_notes d"
  using assms by (auto simp: cascade_case_def childless_def Let_def intro!: rows_where_all)

lemma cascade_tables [simp]:
  "db_tenants (cascade_case i d) = db_tenants d" "db_users (cascade_case i d) = db_users d"
  "db_cases (cascade_case i d) = db_cases d" "db_alerts (cascade_case i d) = db_alerts d"
  "db_templates (cascade_case i d) = db_templates d" "db_sources (cascade_case i d) = db_sources d"
  "db_modules (cascade_case i d) = db_modules d" "db_executions (cascade_case i d) = db_executions d"
  "db_audit_logs (cascade_case i d) = db_audit_logs d" "db_report_templates (cascade_case i d) = db_report_templates d"
  "db_reports (cascade_case i d) = db_reports d" "db_next_id (cascade_case i d) = db_next_id d"
  "db_session (cascade_case i d) = db_session d"
  "db_folders (cascade_case i d) = rows_where (\<lambda>_ f. f_case_id f \<noteq> i) (db_folders d)"
  by (simp_all add: cascade_case_def Let_def)

lemma cascade_ids: "ids_ok n (db_results d) \<Longrightarrow> ids_ok n (db_results (cascade_case i d))"
  "ids_ok n (db_mappings d) \<Longrightarrow> ids_ok n (db_mappings (cascade_case i d))"
  by (simp_all add: cascade_case_def Let_def)

lemma rows_where_notes_filed:
  assumes "notes_filed fs ns" "distinct (map fst fs)" "\<forall>(j, n) \<in> set ns. n_case_id n \<noteq> i"
  shows "notes_filed (rows_where (\<lambda>_ f. f_case_id f \<noteq> i) fs) ns"
  using assms by (fastforce simp: notes_filed_def row_get_where split: option.splits)

lemma rows_in_case_weaken:
  "rows_in_case T cid ten t \<Longrightarrow> \<forall>(j, r) \<in> set t. cid r \<noteq> i \<Longrightarrow>
   (\<And>c u. T c = Some u \<Longrightarrow> c \<noteq> i \<Longrightarrow> T' c = Some u) \<Longrightarrow> rows_in_case T' cid ten t"
  by (fastforce simp: rows_in_case_def)

lemma cascade_wf:
  assumes wf: "wf_db d" and ch: "childless d i" and C: "C = db_cases d \<or> C = row_del i (db_cases d)"
  shows "wf_db ((cascade_case i d)\<lparr>db_cases := C\<rparr>)"
proof -
  have ids: "wf_ids ((cascade_case i d)\<lparr>db_cases := C\<rparr>)"
    using wf C unfolding wf_db_def wf_ids_def
    by (auto simp: cascade_childless [OF ch] cascade_ids)
  have keep: "tenant_in C c = Some u" if "case_tenant d c = Some u" "c \<noteq> i" for c u
    using C that by (auto simp: tenant_in_def row_get_del)
  have "rows_in_case (case_tenant d) f_case_id f_tenant_id (db_folders d)"
    using wf by (simp add: wf_db_def wf_tenancy_def)
  then have "rows_in_case (case_tenant d) f_case_id f_tenant_id (rows_where (\<lambda>_ f. f_case_id f \<noteq> i) (db_folders d))"
    by (rule rows_in_case_where)
  then have fol: "rows_in_case (tenant_in C) f_case_id f_tenant_id (rows_where (\<lambda>_ f. f_case_id f \<noteq> i) (db_folders d))"
    by (rule rows_in_case_weaken [where i = i]) (auto, rule keep)
  have ten: "wf_tenancy ((cascade_case i d)\<lparr>db_cases := C\<rparr>)"
    using wf ch unfolding wf_db_def wf_tenancy_def childless_def
    by (auto simp: cascade_childless [OF ch] fol intro: rows_in_case_weaken [where i = i] keep)
  have "unique_rows case_key C" and "notes_filed (rows_where (\<lambda>_ f. f_case_id f \<noteq> i) (db_folders d)) (db_notes d)"
    using wf C ch unfolding wf_db_def wf_unique_def wf_ids_def ids_ok_def childless_def
    by (auto intro: rows_where_notes_filed)
  with ids ten wf show ?thesis
    unfolding wf_db_def wf_unique_def by (simp add: cascade_childless [OF ch])
qed

lemma delete_case_wf: "keeps wf_db (delete_case i)"
proof (rule keepsI)
  fix d assume wf: "wf_db d"
  have "wf_db (snd (delete_row cases_e i (cascade_case i d)))"
    if "visible_row cases_e d i = Some c" "\<not> case_has_children d i" for c
  proof (rule delete_row_post)
    note ch = no_children [OF wf that]
    have "(cascade_case i d)\<lparr>db_cases := db_cases d\<rparr> = cascade_case i d"
      by (rule db.equality) simp_all
    with cascade_wf [OF wf ch, of "db_cases d"] show "wf_db (cascade_case i d)"
      by metis
    have "(cascade_case i d)\<lparr>db_cases := row_del i (db_cases d)\<rparr> = ent_upd cases_e (row_del i) (cascade_case i d)"
      by (rule db.equality) simp_all
    with cascade_wf [OF wf ch, of "row_del i (db_cases d)"]
    show "wf_db (ent_upd cases_e (row_del i) (cascade_case i d))" for old
      by metis
  qed
  then show "wf_db (snd (delete_case i d))"
    using wf by (auto simp: delete_case_def svc_simps split: option.splits)
qed

lemma delete_case_blocked:
  assumes "visible_row cases_e d i = Some c" and "case_has_children d i"
  shows "delete_case i d = (Inl null_error, d)"
  using assms by (simp add: delete_case_def svc_simps)

text \<open>The entry of the creation is there, and the session sees the case.\<close>

lemma created_case_logged:
  assumes "broker_up env" and "wf_ids d" and "create_case env t u p d = (Inr i, d')"
  shows "visible_row cases_e d' i \<noteq> None \<and> case_has_children d' i"
  using assms(3)
proof (rule create_case_effect)
  fix template severity d1 x d2 d3
  let ?c = "case_draft t u p (next_number d t) template severity (db_now d)"
  assume ins: "insert_row cases_e ?c d = (Inr i, d1)"
    and rec: "record_event env t i ''case_created'' (''Case created: '' @ cc_title p) (Some ''lifecycle'') (Some u) [] None d1 = (Inr x, d2)"
    and specs: "for_each (enumerate 0 (case template of None \<Rightarrow> [] | Some tp \<Rightarrow> json_items (tp_tasks tp)))
        (\<lambda>(idx, spec). apply_task_spec t i u idx spec) d2 = (Inr (), d3)"
    and fired: "fire env t CASE_CREATED [(''case_id'', JId i), (''title'', JStr (cc_title p)),
         (''severity'', JStr (case_severity_str severity))] (Some u) d3 = (Inr (), d')"
  have row: "row_get (db_cases d1) i = Some ?c"
    using cases_t.insert_reads_back [OF assms(2) ins] by simp
  have ses: "db_session d1 = db_session d" "rls_standard (db_session d) t"
    using insert_row_InrD [OF ins] by (simp_all add: case_draft_def)
  from record_event_logged [OF rec] obtain evs where c2: "core d2 = core d1"
    and tl2: "db_timeline d2 = db_timeline d1 @ evs" and lg: "logged t i [''case_created''] evs"
    by blast
  have d3: "db_cases d3 = db_cases d2" "db_timeline d3 = db_timeline d2" "db_session d3 = db_session d2"
    using keepsD [OF keeps_cases_specs [of "db_cases d2"], of d2] keepsD [OF keeps_specs_frame [of "db_timeline d2" "db_session d2"], of d2] specs
    by (metis snd_conv)+
  from fire_logged [OF assms(1) fired] have c4: "core d' = core d3" and tl4: "db_timeline d' = db_timeline d3"
    by simp_all
  have s': "db_session d' = db_session d"
    using core_eqD(12) [OF c2] core_eqD(12) [OF c4] d3 ses by simp
  have "row_get (db_cases d') i = Some ?c"
    using core_eqD(3) [OF c2] core_eqD(3) [OF c4] d3 row by simp
  then have "visible_row cases_e d' i = Some ?c"
    using s' ses by (simp add: visible_row_def case_draft_def)
  moreover from lg obtain j e where "(j, e) \<in> set evs" "tl_tenant_id e = t" "tl_case_id e = i"
    by (cases evs) (fastforce simp: logged_def)+
  then have "case_has_children d' i"
    using tl2 tl4 d3 s' ses unfolding case_has_children_def by auto
  ultimately show ?thesis by simp
qed

text \<open>
  C10: the log of a case blocks its deletion. A case just created cannot be deleted, as its creation is logged; and in any
  consistent state the deletion of a case the session sees, with at least one timeline entry, fails on the column that the
  ORM would set to null, and changes nothing.
\<close>

theorem created_case_not_deletable:
  assumes "broker_up env" and "wf_ids d" and "create_case env t u p d = (Inr i, d')"
  shows "delete_case i d' = (Inl null_error, d') \<and>
    (\<forall>e k c. wf_db e \<and> visible_row cases_e e k = Some c \<and> (\<exists>(j, en) \<in> set (db_timeline e). tl_case_id en = k) \<longrightarrow>
      delete_case k e = (Inl null_error, e))"
proof (intro conjI allI impI)
  show "delete_case i d' = (Inl null_error, d')"
    using created_case_logged [OF assms] delete_case_blocked by blast
next
  fix e k c
  assume "wf_db e \<and> visible_row cases_e e k = Some c \<and> (\<exists>(j, en) \<in> set (db_timeline e). tl_case_id en = k)"
  then have wf: "wf_db e" and c: "visible_row cases_e e k = Some c" and "\<not> childless e k"
    unfolding childless_def by auto
  with no_children [OF wf c] have "case_has_children e k" by blast
  then show "delete_case k e = (Inl null_error, e)" by (rule delete_case_blocked [OF c])
qed

theorem created_case_not_deletable_witness:
  "\<exists>i d'. create_case demo_env 1 3 demo_create demo_db = (Inr i, d') \<and> delete_case i d' = (Inl null_error, d') \<and>
     delete_case 5 demo_db = (Inl null_error, demo_db)"
proof -
  obtain i d' where run: "create_case demo_env 1 3 demo_create demo_db = (Inr i, d')"
    by (simp add: demo_create_def create_run fire_run run_simps)
  have "visible_row cases_e demo_db 5 = Some (demo_case 1 1)" "\<exists>(j, en) \<in> set (db_timeline demo_db). tl_case_id en = 5"
    by (simp_all add: run_simps)
  with created_case_not_deletable [OF demo_up wf_db_ids [OF demo_wf] run] demo_wf run show ?thesis
    by blast
qed

text \<open>
  A merge takes the log of its sources away: a case just created and merged into another can be deleted.
\<close>

lemma merged_case_deletable:
  "\<exists>d1 r d2 d3. create_case demo_env 1 3 (demo_create\<lparr>cc_template_id := None\<rparr>) demo_db = (Inr 20, d1) \<and>
     merge_cases demo_env 5 [20] 3 d1 = (Inr r, d2) \<and> delete_case 20 d2 = (Inr (), d3)"
  by (simp add: demo_create_def create_run fire_run case_run merge_cases_def merge_source_def transfer_case_def close_source_def
      delete_case_def case_has_children_def case_restricted_def delete_row_def not_null_def cascade_case_def run_simps)

end
