(* ===== verification/Tasks.thy ===== *)
theory Tasks
  imports Cases
begin

text \<open>The task service (\<^verbatim>\<open>services/tasks.py\<close>, \<^verbatim>\<open>schemas/tasks.py\<close>).\<close>

record task_create =
  kc_title :: string
  kc_description :: "string option"
  kc_assignee_id :: "uuid option"
  kc_sort_order :: int

record task_update =
  ku_title :: "string upd"
  ku_description :: "string upd"
  ku_status :: "task_status upd"
  ku_assignee_id :: "uuid upd"
  ku_sort_order :: "int upd"

abbreviation task_or_404 :: "uuid \<Rightarrow> task_row service" where
  "task_or_404 \<equiv> get_or_404 tasks_e (\<lambda>i. ''Task '' @ uuid_str i @ '' not found'')"

definition list_tasks :: "uuid \<Rightarrow> nat \<Rightarrow> nat \<Rightarrow> (task_row table \<times> nat) service" where
  "list_tasks case_id limit offset =
     bind (select_rows tasks_e (\<lambda>_ k. k_case_id k = case_id)) (\<lambda>rows.
     ret (page_of limit offset (sort_key (k_sort_order \<circ> snd) (sort_key (k_created_at \<circ> snd) rows)), length rows))"

definition create_task :: "env \<Rightarrow> uuid \<Rightarrow> uuid \<Rightarrow> task_create \<Rightarrow> uuid service" where
  "create_task env case_id created_by payload =
     bind (case_or_404 case_id) (\<lambda>c. bind now_utc (\<lambda>now.
     bind (insert_row tasks_e
       \<lparr>k_tenant_id = c_tenant_id c, k_case_id = case_id, k_title = kc_title payload,
        k_description = kc_description payload, k_status = TS_TODO, k_assignee_id = kc_assignee_id payload,
        k_sort_order = kc_sort_order payload, k_created_by = created_by, k_created_at = now, k_updated_at = now\<rparr>) (\<lambda>i.
     and_then (record_event env (c_tenant_id c) case_id ''task_created'' (''Task created: '' @ kc_title payload)
        (Some ''task'') (Some created_by) [(''task_id'', JId i)] None)
     (ret i))))"

definition task_set :: "task_update \<Rightarrow> task_row \<Rightarrow> task_row" where
  "task_set data k = k
     \<lparr>k_title := set_req (ku_title data) (k_title k),
      k_description := set_opt (ku_description data) (k_description k),
      k_status := set_req (ku_status data) (k_status k),
      k_assignee_id := set_opt (ku_assignee_id data) (k_assignee_id k),
      k_sort_order := set_req (ku_sort_order data) (k_sort_order k)\<rparr>"

definition task_finished :: "task_row \<Rightarrow> bool" where
  "task_finished k \<longleftrightarrow> k_status k \<in> {TS_DONE, TS_CANCELLED}"

definition remaining_tasks :: "uuid \<Rightarrow> nat service" where
  "remaining_tasks case_id =
     bind (select_rows tasks_e (\<lambda>_ k. k_case_id k = case_id \<and> \<not> task_finished k)) (\<lambda>rows. ret (length rows))"

definition save_task :: "uuid \<Rightarrow> task_update \<Rightarrow> task_row \<Rightarrow> unit service" where
  "save_task task_id data k =
     and_then (not_null [is_null (ku_title data), is_null (ku_status data), is_null (ku_sort_order data)])
     (bind now_utc (\<lambda>now. save_changed tasks_e task_id k (task_set data k) (k_updated_at_update (\<lambda>_. now))))"

definition update_task :: "env \<Rightarrow> uuid \<Rightarrow> task_update \<Rightarrow> uuid \<Rightarrow> task_row service" where
  "update_task env task_id data actor_id =
     bind (task_or_404 task_id) (\<lambda>k.
     let new = task_set data k in
     and_then (save_task task_id data k)
     (and_then (if k_status new \<noteq> k_status k then
        and_then (record_event env (k_tenant_id k) (k_case_id k) ''task_status_changed''
           (''Task '' @ quoted (k_title new) @ '' status changed from '' @ task_status_str (k_status k) @
            '' to '' @ task_status_str (k_status new)) (Some ''task'') (Some actor_id)
           [(''task_id'', JId task_id), (''from'', JStr (task_status_str (k_status k))),
            (''to'', JStr (task_status_str (k_status new)))] None)
        (bind (remaining_tasks (k_case_id k)) (\<lambda>remaining.
           if remaining = 0 then
             bind (record_event env (k_tenant_id k) (k_case_id k) ''all_tasks_complete''
                ''All tasks for this case have been completed'' (Some ''task'') (Some actor_id) [] None) (\<lambda>_. ret ())
           else ret ()))
      else ret ())
     (task_or_404 task_id)))"

definition delete_task :: "env \<Rightarrow> uuid \<Rightarrow> uuid \<Rightarrow> unit service" where
  "delete_task env task_id actor_id =
     bind (task_or_404 task_id) (\<lambda>k.
     and_then (delete_row tasks_e task_id)
     (bind (record_event env (k_tenant_id k) (k_case_id k) ''task_deleted'' (''Task deleted: '' @ k_title k)
        (Some ''task'') (Some actor_id) [] None) (\<lambda>_. ret ())))"

section \<open>Isolation and integrity\<close>

lemma keeps_remaining_tasks [keeps_intros]: "keeps I (remaining_tasks c)"
  unfolding remaining_tasks_def by (intro keeps_intros)

lemma task_service_isolated [keeps_intros]:
  "keeps (isolated s d0) (create_task env c u p)"
  "keeps (isolated s d0) (update_task env i data a)"
  "keeps (isolated s d0) (delete_task env i a)"
  unfolding create_task_def update_task_def delete_task_def save_task_def Let_def
  by (intro keeps_intros)+

lemma task_set_keeps [simp]: "k_case_id (task_set data k) = k_case_id k" "k_tenant_id (task_set data k) = k_tenant_id k"
  by (simp_all add: task_set_def)

lemma task_service_at [keeps_intros]:
  "keeps (wf_at A) (create_task env c u p)"
  "keeps (wf_at A) (update_task env i data a)"
  "keeps (wf_at A) (delete_task env i a)"
  unfolding create_task_def update_task_def delete_task_def save_task_def Let_def
  by ((intro get_case_at get_child_at keeps_intros; simp)+)

section \<open>Behaviour\<close>

definition demo_done :: task_update where
  "demo_done = \<lparr>ku_title = None, ku_description = None, ku_status = Some (Some TS_DONE), ku_assignee_id = None,
     ku_sort_order = None\<rparr>"

lemma save_task_InrD:
  assumes "save_task i data k d = (Inr u, d')"
  shows "\<not> is_null (ku_status data) \<and> d' = (if task_set data k = k then d
    else d\<lparr>db_tasks := row_set i ((task_set data k)\<lparr>k_updated_at := db_now d\<rparr>) (db_tasks d)\<rparr>)"
  using assms unfolding save_task_def
  by (auto simp: svc_simps save_changed_def split: if_splits dest!: store_row_InrD)

definition case_finished :: "db \<Rightarrow> uuid \<Rightarrow> bool" where
  "case_finished d c \<longleftrightarrow> (\<forall>(i, k) \<in> set (db_tasks d). ent_vis tasks_e (db_session d) k \<and> k_case_id k = c \<longrightarrow> task_finished k)"

lemma remaining_tasks_apply: "remaining_tasks c d = (Inr n, d') \<longleftrightarrow> d' = d \<and>
    n = length (rows_where (\<lambda>i k. rls_standard (db_session d) (k_tenant_id k) \<and> k_case_id k = c \<and> \<not> task_finished k) (db_tasks d))"
  by (auto simp: remaining_tasks_def svc_simps)

lemma no_remaining: "rows_where (\<lambda>i k. rls_standard (db_session d) (k_tenant_id k) \<and> k_case_id k = c \<and> \<not> task_finished k) (db_tasks d) = []
    \<longleftrightarrow> case_finished d c"
  by (auto simp: rows_where_def filter_empty_conv case_finished_def)

lemmas task_run = update_task_def task_set_def save_task_def remaining_tasks_def task_finished_def case_finished_def

lemma case_finished_core: "core d' = core d \<Longrightarrow> case_finished d' c = case_finished d c"
  using core_eqD(4,12) [of d' d] by (simp add: case_finished_def)

text \<open>The log of a change of status.\<close>

lemma task_log:
  assumes "(if k_status new \<noteq> k_status k then
        and_then (record_event env (k_tenant_id k) (k_case_id k) ''task_status_changed''
           (''Task '' @ quoted (k_title new) @ '' status changed from '' @ task_status_str (k_status k) @
            '' to '' @ task_status_str (k_status new)) (Some ''task'') (Some a)
           [(''task_id'', JId i), (''from'', JStr (task_status_str (k_status k))),
            (''to'', JStr (task_status_str (k_status new)))] None)
        (bind (remaining_tasks (k_case_id k)) (\<lambda>remaining.
           if remaining = 0 then
             bind (record_event env (k_tenant_id k) (k_case_id k) ''all_tasks_complete''
                ''All tasks for this case have been completed'' (Some ''task'') (Some a) [] None) (\<lambda>_. ret ())
           else ret ()))
      else ret ()) d = (Inr u, d')"
  shows "core d' = core d \<and> (\<exists>evs. db_timeline d' = db_timeline d @ evs \<and>
       logged (k_tenant_id k) (k_case_id k)
         (if k_status new = k_status k then []
          else [''task_status_changed''] @ (if case_finished d (k_case_id k) then [''all_tasks_complete''] else [])) evs)"
proof (cases "k_status new = k_status k")
  case True
  with assms show ?thesis by simp
next
  case False
  with assms obtain j1 d1 d2 where
    r1: "record_event env (k_tenant_id k) (k_case_id k) ''task_status_changed''
           (''Task '' @ quoted (k_title new) @ '' status changed from '' @ task_status_str (k_status k) @
            '' to '' @ task_status_str (k_status new)) (Some ''task'') (Some a)
           [(''task_id'', JId i), (''from'', JStr (task_status_str (k_status k))),
            (''to'', JStr (task_status_str (k_status new)))] None d = (Inr j1, d1)"
    and r2: "if case_finished d1 (k_case_id k) then \<exists>j2. record_event env (k_tenant_id k) (k_case_id k) ''all_tasks_complete''
                ''All tasks for this case have been completed'' (Some ''task'') (Some a) [] None d1 = (Inr j2, d')
             else d' = d1"
    by (auto simp: remaining_tasks_apply no_remaining elim!: and_then_InrD bind_InrD split: if_splits)
  from record_event_logged [OF r1] obtain evs1 where c1: "core d1 = core d" and t1: "db_timeline d1 = db_timeline d @ evs1"
    and l1: "logged (k_tenant_id k) (k_case_id k) [''task_status_changed''] evs1" by blast
  from r2 obtain evs2 where c2: "core d' = core d1" and t2: "db_timeline d' = db_timeline d1 @ evs2"
    and l2: "logged (k_tenant_id k) (k_case_id k) (if case_finished d1 (k_case_id k) then [''all_tasks_complete''] else []) evs2"
    by (auto split: if_splits dest!: record_event_logged)
  from c1 c2 t1 t2 logged_append [OF l1 l2] False show ?thesis
    by (simp add: case_finished_core [OF c1])
qed

text \<open>
  C11: a successful task update stores the fields sent, and logs a change of status, followed by the
  completion of the case's tasks exactly when the change leaves no open task in the case.
\<close>

theorem update_task_correct:
  assumes "visible_row tasks_e d i = Some k" and "update_task env i data a d = (Inr r, d')"
  shows "row_get (db_tasks d') i = Some r \<and> r\<lparr>k_updated_at := k_updated_at k\<rparr> = task_set data k \<and>
    (\<forall>j. j \<noteq> i \<longrightarrow> row_get (db_tasks d') j = row_get (db_tasks d) j) \<and> core d' = core (d\<lparr>db_tasks := db_tasks d'\<rparr>) \<and>
    (\<exists>evs. db_timeline d' = db_timeline d @ evs \<and>
       logged (k_tenant_id k) (k_case_id k)
         (if k_status r = k_status k then []
          else [''task_status_changed''] @ (if case_finished d' (k_case_id k) then [''all_tasks_complete''] else [])) evs)"
proof -
  let ?new = "task_set data k"
  obtain d1 d2 where save: "save_task i data k d = (Inr (), d1)"
    and log: "(if k_status ?new \<noteq> k_status k then
        and_then (record_event env (k_tenant_id k) (k_case_id k) ''task_status_changed''
           (''Task '' @ quoted (k_title ?new) @ '' status changed from '' @ task_status_str (k_status k) @
            '' to '' @ task_status_str (k_status ?new)) (Some ''task'') (Some a)
           [(''task_id'', JId i), (''from'', JStr (task_status_str (k_status k))),
            (''to'', JStr (task_status_str (k_status ?new)))] None)
        (bind (remaining_tasks (k_case_id k)) (\<lambda>remaining.
           if remaining = 0 then
             bind (record_event env (k_tenant_id k) (k_case_id k) ''all_tasks_complete''
                ''All tasks for this case have been completed'' (Some ''task'') (Some a) [] None) (\<lambda>_. ret ())
           else ret ()))
      else ret ()) d1 = (Inr (), d2)"
    and last: "visible_row tasks_e d2 i = Some r" "d' = d2"
    using assms unfolding update_task_def Let_def
    by (elim bind_InrD) (auto simp: get_or_404_apply elim!: and_then_InrD dest!: get_or_404_InrD)
  have d1: "d1 = (if ?new = k then d else d\<lparr>db_tasks := row_set i (?new\<lparr>k_updated_at := db_now d\<rparr>) (db_tasks d)\<rparr>)"
    using save_task_InrD [OF save] by simp
  from task_log [OF log] last(2) obtain evs where core: "core d' = core d1" and tl: "db_timeline d' = db_timeline d1 @ evs"
    and lg: "logged (k_tenant_id k) (k_case_id k) (if k_status ?new = k_status k then []
          else [''task_status_changed''] @ (if case_finished d1 (k_case_id k) then [''all_tasks_complete''] else [])) evs"
    by blast
  have tasks: "db_tasks d' = db_tasks d1"
    using core_eqD(4) [OF core] .
  have k: "row_get (db_tasks d) i = Some k"
    using visible_rowD [OF assms(1)] by simp
  have "row_get (db_tasks d') i = Some r"
    using visible_rowD [OF last(1)] last(2) by simp
  then have r: "r = (if ?new = k then k else ?new\<lparr>k_updated_at := db_now d\<rparr>)"
    using k by (auto simp: tasks d1 row_get_set split: if_splits)
  have "k_updated_at ?new = k_updated_at k"
    by (simp add: task_set_def)
  then have rs: "r\<lparr>k_updated_at := k_updated_at k\<rparr> = ?new" "k_status r = k_status ?new"
    unfolding r by auto
  have cd: "core d' = core (d\<lparr>db_tasks := db_tasks d'\<rparr>)" "db_timeline d1 = db_timeline d"
    unfolding core tasks unfolding d1 by (simp_all add: core_def)
  show ?thesis
    using \<open>row_get (db_tasks d') i = Some r\<close> rs cd tl lg case_finished_core [OF core, of "k_case_id k"]
    by (auto simp: tasks d1 row_get_set)
qed

theorem update_task_correct_witness:
  "\<exists>r d'. update_task demo_env 8 demo_done 3 demo_db = (Inr r, d') \<and> k_status r = TS_DONE \<and>
     (\<exists>evs. db_timeline d' = db_timeline demo_db @ evs \<and>
        map (tl_event_type \<circ> snd) evs = [''task_status_changed'', ''all_tasks_complete''])"
proof -
  obtain r d' where run: "update_task demo_env 8 demo_done 3 demo_db = (Inr r, d')"
    and r: "k_status r = TS_DONE" "case_finished d' 5"
    by (simp add: demo_done_def task_run run_simps)
  have k: "visible_row tasks_e demo_db 8 = Some (demo_task 1 5)"
    by (simp add: run_simps)
  have "k_status (demo_task 1 5) = TS_TODO" "k_case_id (demo_task 1 5) = 5"
    by (simp_all add: demo_task_def)
  with update_task_correct [OF k run] run r show ?thesis
    by (auto simp: logged_def)
qed

end
