(* ===== verification/Python_Lib.thy ===== *)
theory Python_Lib
  imports Watari_Prelude
begin

text \<open>
  What the validators use of Python 3.12's standard library, for strings of code points below 256:
  \<^item> \<^verbatim>\<open>re.match\<close> for the constructs of the validators' patterns: \<open>ends r s i\<close> lists the positions at
    which a match of \<open>r\<close> that starts at position \<open>i\<close> of \<open>s\<close> can end (the backtracking matcher finds a
    match exactly when there is one). The end anchor also matches before a final newline.
  \<^item> \<^verbatim>\<open>ipaddress.ip_address\<close> and the text of an address. An IPv4 address is its four octets, an IPv6
    address its eight 16-bit groups.
  \<^item> \<^verbatim>\<open>urllib.parse.urlparse\<close>, as far as scheme and network location go.
\<close>

section \<open>Strings\<close>

fun split_on :: "char \<Rightarrow> string \<Rightarrow> string list" where
  "split_on c [] = [[]]"
| "split_on c (x # xs) = (if x = c then [] # split_on c xs
     else (case split_on c xs of p # ps \<Rightarrow> (x # p) # ps | [] \<Rightarrow> [[x]]))"

fun join_with :: "char \<Rightarrow> string list \<Rightarrow> string" where
  "join_with c [] = []"
| "join_with c [p] = p"
| "join_with c (p # q # ps) = p @ c # join_with c (q # ps)"

definition code :: "char \<Rightarrow> nat" where
  "code c = of_char c"

definition is_digit :: "char \<Rightarrow> bool" where
  "is_digit c \<longleftrightarrow> 48 \<le> code c \<and> code c \<le> 57"

definition is_alpha :: "char \<Rightarrow> bool" where
  "is_alpha c \<longleftrightarrow> (65 \<le> code c \<and> code c \<le> 90) \<or> (97 \<le> code c \<and> code c \<le> 122)"

definition is_hex :: "char \<Rightarrow> bool" where
  "is_hex c \<longleftrightarrow> is_digit c \<or> (65 \<le> code c \<and> code c \<le> 70) \<or> (97 \<le> code c \<and> code c \<le> 102)"

definition digit_value :: "char \<Rightarrow> nat" where
  "digit_value c = (if is_digit c then code c - 48 else if code c \<le> 70 then code c - 55 else code c - 87)"

definition int_of_base :: "nat \<Rightarrow> string \<Rightarrow> nat" where
  "int_of_base b s = foldl (\<lambda>n c. n * b + digit_value c) 0 s"

fun show_hex :: "nat \<Rightarrow> string" where
  "show_hex n = (if n < 16 then [hex_digit n] else show_hex (n div 16) @ [hex_digit (n mod 16)])"

declare show_hex.simps [simp del]

lemma split_on_not_Nil [simp]: "split_on c s \<noteq> []"
  by (induction s) (auto split: list.splits)

lemma split_on_none: "c \<notin> set s \<Longrightarrow> split_on c s = [s]"
  by (induction s) auto

lemma split_on_append: "c \<notin> set p \<Longrightarrow> split_on c (p @ c # s) = p # split_on c s"
  by (induction p) auto

lemma split_join: "ps \<noteq> [] \<Longrightarrow> (\<forall>p \<in> set ps. c \<notin> set p) \<Longrightarrow> split_on c (join_with c ps) = ps"
  by (induction c ps rule: join_with.induct) (auto simp: split_on_none split_on_append)

lemma join_split: "join_with c (split_on c s) = s"
proof (induction s)
  case (Cons x s)
  then show ?case
    by (cases "split_on c s"; cases "tl (split_on c s)") auto
qed simp

lemma split_on_parts: "p \<in> set (split_on c s) \<Longrightarrow> c \<notin> set p"
proof (induction s arbitrary: p)
  case (Cons x s)
  then show ?case
    by (cases "split_on c s") (auto split: if_splits)
qed simp

section \<open>Regular expressions\<close>

datatype re = Cls "char \<Rightarrow> bool" | Cat re re | Alt re re | Eps | Reps nat nat re | Plus re | Many re
  | Ahead_Not "char \<Rightarrow> bool" | Behind_Not "char \<Rightarrow> bool" | Finish

abbreviation Lit :: "char \<Rightarrow> re" where
  "Lit c \<equiv> Cls (\<lambda>x. x = c)"

text \<open>The positions reached by at least \<open>m\<close> and at most \<open>m + n\<close> steps of \<open>f\<close>.\<close>

fun steps :: "(nat \<Rightarrow> nat list) \<Rightarrow> nat \<Rightarrow> nat \<Rightarrow> nat \<Rightarrow> nat list" where
  "steps f (Suc m) n i = concat (map (steps f m n) (f i))"
| "steps f 0 0 i = [i]"
| "steps f 0 (Suc n) i = i # concat (map (steps f 0 n) (f i))"

text \<open>
  An unbounded repetition of a body that consumes at least one character iterates at most \<open>length s\<close>
  times.
\<close>

fun ends :: "re \<Rightarrow> string \<Rightarrow> nat \<Rightarrow> nat list" where
  "ends (Cls P) s i = (if i < length s \<and> P (s ! i) then [Suc i] else [])"
| "ends (Cat a b) s i = concat (map (ends b s) (ends a s i))"
| "ends (Alt a b) s i = ends a s i @ ends b s i"
| "ends Eps s i = [i]"
| "ends (Reps m n a) s i = steps (ends a s) m (n - m) i"
| "ends (Plus a) s i = steps (ends a s) 1 (length s) i"
| "ends (Many a) s i = steps (ends a s) 0 (length s) i"
| "ends (Ahead_Not P) s i = (if i < length s \<and> P (s ! i) then [] else [i])"
| "ends (Behind_Not P) s i = (if 0 < i \<and> i \<le> length s \<and> P (s ! (i - 1)) then [] else [i])"
| "ends Finish s i = (if i = length s \<or> (Suc i = length s \<and> s ! i = CHR 0x0A) then [i] else [])"

definition re_match :: "re \<Rightarrow> string \<Rightarrow> bool" where
  "re_match r s \<longleftrightarrow> ends r s 0 \<noteq> []"

subsection \<open>The language of a pattern\<close>

text \<open>
  \<open>denotes r L\<close>: wherever it is tried, \<open>r\<close> matches exactly the words of \<open>L\<close>. The rules build the
  language of a pattern from those of its parts.
\<close>

definition starts :: "string \<Rightarrow> nat \<Rightarrow> string \<Rightarrow> bool" where
  "starts s i w \<longleftrightarrow> i + length w \<le> length s \<and> take (length w) (drop i s) = w"

definition denotes :: "re \<Rightarrow> string set \<Rightarrow> bool" where
  "denotes r L \<longleftrightarrow> (\<forall>s i j. i \<le> length s \<longrightarrow>
     (j \<in> set (ends r s i) \<longleftrightarrow> (\<exists>w \<in> L. starts s i w \<and> j = i + length w)))"

lemma denotesD: "denotes r L \<Longrightarrow> i \<le> length s \<Longrightarrow> j \<in> set (ends r s i) \<longleftrightarrow> (\<exists>w \<in> L. starts s i w \<and> j = i + length w)"
  by (simp add: denotes_def)

lemma starts_Nil [simp]: "starts s i [] \<longleftrightarrow> i \<le> length s"
  by (simp add: starts_def)

lemma starts_append: "starts s i (v @ w) \<longleftrightarrow> starts s i v \<and> starts s (i + length v) w"
proof -
  have "take (length v + length w) (drop i s) = take (length v) (drop i s) @ take (length w) (drop (i + length v) s)"
    by (simp add: take_add add.commute)
  moreover have "i + length v \<le> length s \<Longrightarrow> length (take (length v) (drop i s)) = length v"
    by simp
  ultimately show ?thesis
    unfolding starts_def by (auto simp: append_eq_append_conv)
qed

lemma starts_le: "starts s i w \<Longrightarrow> i + length w \<le> length s"
  by (simp add: starts_def)

lemma starts_char: "starts s i [c] \<longleftrightarrow> i < length s \<and> s ! i = c"
  by (cases "i < length s") (auto simp: starts_def simp flip: Cons_nth_drop_Suc)

lemma starts_all: "starts s 0 w \<and> length w = length s \<longleftrightarrow> w = s"
  by (auto simp: starts_def)

lemma denotes_Cls: "denotes (Cls P) {[c] | c. P c}"
  by (auto simp: denotes_def starts_char)

lemma denotes_Eps: "denotes Eps {[]}"
  by (auto simp: denotes_def)

lemma denotes_Cat:
  assumes "denotes a L" and "denotes b M"
  shows "denotes (Cat a b) {v @ w | v w. v \<in> L \<and> w \<in> M}"
  unfolding denotes_def
proof (intro allI impI)
  fix s :: string and i j assume i: "i \<le> length s"
  have "j \<in> set (ends (Cat a b) s i) \<longleftrightarrow> (\<exists>k \<in> set (ends a s i). j \<in> set (ends b s k))"
    by simp
  also have "\<dots> \<longleftrightarrow> (\<exists>v \<in> L. starts s i v \<and> j \<in> set (ends b s (i + length v)))"
    unfolding Bex_def denotesD [OF assms(1) i, unfolded Bex_def] by blast
  also have "\<dots> \<longleftrightarrow> (\<exists>v \<in> L. starts s i v \<and> (\<exists>w \<in> M. starts s (i + length v) w \<and> j = i + length v + length w))"
    by (intro bex_cong refl conj_cong denotesD [OF assms(2)] starts_le)
  also have "\<dots> \<longleftrightarrow> (\<exists>w \<in> {v @ w | v w. v \<in> L \<and> w \<in> M}. starts s i w \<and> j = i + length w)"
  proof
    assume "\<exists>v \<in> L. starts s i v \<and> (\<exists>w \<in> M. starts s (i + length v) w \<and> j = i + length v + length w)"
    then obtain v w where "v \<in> L" "w \<in> M" "starts s i v" "starts s (i + length v) w" "j = i + length v + length w"
      by blast
    then show "\<exists>w \<in> {v @ w | v w. v \<in> L \<and> w \<in> M}. starts s i w \<and> j = i + length w"
      by (intro bexI [of _ "v @ w"]) (auto simp: starts_append)
  next
    assume "\<exists>w \<in> {v @ w | v w. v \<in> L \<and> w \<in> M}. starts s i w \<and> j = i + length w"
    then obtain v w where "v \<in> L" "w \<in> M" "starts s i (v @ w)" "j = i + length (v @ w)"
      by blast
    then show "\<exists>v \<in> L. starts s i v \<and> (\<exists>w \<in> M. starts s (i + length v) w \<and> j = i + length v + length w)"
      by (intro bexI [of _ v] conjI bexI [of _ w]) (auto simp: starts_append)
  qed
  finally show "j \<in> set (ends (Cat a b) s i) \<longleftrightarrow> (\<exists>w \<in> {v @ w | v w. v \<in> L \<and> w \<in> M}. starts s i w \<and> j = i + length w)" .
qed

lemma denotes_Alt: "denotes a L \<Longrightarrow> denotes b M \<Longrightarrow> denotes (Alt a b) (L \<union> M)"
  unfolding denotes_def by auto

text \<open>Repetition: \<open>lo\<close> to \<open>hi\<close> words of the language in a row.\<close>

definition reps_at :: "string set \<Rightarrow> string \<Rightarrow> nat \<Rightarrow> nat \<Rightarrow> nat \<Rightarrow> nat \<Rightarrow> bool" where
  "reps_at L s lo hi i j \<longleftrightarrow>
     (\<exists>ws. set ws \<subseteq> L \<and> lo \<le> length ws \<and> length ws \<le> hi \<and> starts s i (concat ws) \<and> j = i + length (concat ws))"

lemma reps_at_Suc:
  "reps_at L s (Suc m) (Suc k) i j \<longleftrightarrow> (\<exists>v \<in> L. starts s i v \<and> reps_at L s m k (i + length v) j)"
proof
  assume "reps_at L s (Suc m) (Suc k) i j"
  then obtain v ws where "set (v # ws) \<subseteq> L" "Suc m \<le> length (v # ws)" "length (v # ws) \<le> Suc k"
    "starts s i (concat (v # ws))" "j = i + length (concat (v # ws))"
    unfolding reps_at_def by (metis Suc_le_length_iff)
  then show "\<exists>v \<in> L. starts s i v \<and> reps_at L s m k (i + length v) j"
    unfolding reps_at_def by (intro bexI [of _ v]) (auto simp: starts_append)
next
  assume "\<exists>v \<in> L. starts s i v \<and> reps_at L s m k (i + length v) j"
  then obtain v ws where "v \<in> L" "starts s i v" "set ws \<subseteq> L" "m \<le> length ws" "length ws \<le> k"
    "starts s (i + length v) (concat ws)" "j = i + length v + length (concat ws)"
    unfolding reps_at_def by blast
  then show "reps_at L s (Suc m) (Suc k) i j"
    unfolding reps_at_def by (intro exI [of _ "v # ws"]) (simp add: starts_append)
qed

lemma reps_at_0: "i \<le> length s \<Longrightarrow> reps_at L s 0 k i i"
  unfolding reps_at_def by (intro exI [of _ "[]"]) simp

lemma reps_at_0_Suc:
  assumes "i \<le> length s"
  shows "reps_at L s 0 (Suc k) i j \<longleftrightarrow> j = i \<or> (\<exists>v \<in> L. starts s i v \<and> reps_at L s 0 k (i + length v) j)"
proof -
  have "reps_at L s 0 (Suc k) i j \<Longrightarrow> j = i \<or> reps_at L s (Suc 0) (Suc k) i j"
    by (fastforce simp: reps_at_def Suc_le_eq)
  moreover have "reps_at L s (Suc 0) (Suc k) i j \<Longrightarrow> reps_at L s 0 (Suc k) i j"
    by (auto simp: reps_at_def)
  ultimately show ?thesis using reps_at_0 [OF assms] reps_at_Suc by blast
qed

lemma steps_denote:
  assumes "denotes a L" and "i \<le> length s"
  shows "j \<in> set (steps (ends a s) m n i) \<longleftrightarrow> reps_at L s m (m + n) i j"
  using assms(2)
proof (induction "ends a s" m n i rule: steps.induct)
  case (1 m n i)
  have "j \<in> set (steps (ends a s) (Suc m) n i) \<longleftrightarrow> (\<exists>v \<in> L. starts s i v \<and> j \<in> set (steps (ends a s) m n (i + length v)))"
    using denotesD [OF assms(1) 1(2)] by auto
  also have "\<dots> \<longleftrightarrow> (\<exists>v \<in> L. starts s i v \<and> reps_at L s m (m + n) (i + length v) j)"
    using 1(1) denotesD [OF assms(1) 1(2)] starts_le by blast
  finally show ?case by (simp add: reps_at_Suc)
next
  case (2 i)
  then show ?case by (auto simp: reps_at_def)
next
  case (3 n i)
  have "j \<in> set (steps (ends a s) 0 (Suc n) i) \<longleftrightarrow> j = i \<or> (\<exists>v \<in> L. starts s i v \<and> j \<in> set (steps (ends a s) 0 n (i + length v)))"
    using denotesD [OF assms(1) 3(2)] by auto
  also have "\<dots> \<longleftrightarrow> j = i \<or> (\<exists>v \<in> L. starts s i v \<and> reps_at L s 0 (0 + n) (i + length v) j)"
    using 3(1) denotesD [OF assms(1) 3(2)] starts_le by blast
  finally show ?case using 3(2) by (simp add: reps_at_0_Suc)
qed

lemma denotes_Reps:
  "denotes a L \<Longrightarrow> m \<le> n \<Longrightarrow> denotes (Reps m n a) {concat ws | ws. set ws \<subseteq> L \<and> m \<le> length ws \<and> length ws \<le> n}"
  unfolding denotes_def using steps_denote [of a L] by (auto simp: denotes_def reps_at_def)

lemma concat_length_ge: "[] \<notin> set ws \<Longrightarrow> length ws \<le> length (concat ws)"
  by (induction ws) (auto simp: Suc_le_eq add_strict_increasing intro: le_trans)

lemma denotes_unbounded:
  assumes "denotes a L" and "[] \<notin> L"
  shows "denotes (Plus a) {concat ws | ws. set ws \<subseteq> L \<and> ws \<noteq> []}" "denotes (Many a) {concat ws | ws. set ws \<subseteq> L}"
proof -
  have "length ws \<le> length s" if "set ws \<subseteq> L" "starts s i (concat ws)" for s i ws
    using concat_length_ge [of ws] starts_le [OF that(2)] that(1) assms(2) by fastforce
  note len = this
  have nonempty: "1 \<le> length ws \<longleftrightarrow> ws \<noteq> []" for ws :: "string list"
    by (cases ws) auto
  show "denotes (Plus a) {concat ws | ws. set ws \<subseteq> L \<and> ws \<noteq> []}"
    unfolding denotes_def ends.simps
    by (auto simp: steps_denote [OF assms(1)] reps_at_def nonempty simp del: One_nat_def) (metis len le_SucI plus_1_eq_Suc)
  show "denotes (Many a) {concat ws | ws. set ws \<subseteq> L}"
    unfolding denotes_def ends.simps
    by (auto simp: steps_denote [OF assms(1)] reps_at_def) (metis len)
qed

text \<open>A pattern with the end anchor matches a word of its language, or one followed by a newline.\<close>

lemma re_match_Finish:
  assumes "denotes r L"
  shows "re_match (Cat r Finish) s \<longleftrightarrow> s \<in> L \<or> (\<exists>w \<in> L. s = w @ [CHR 0x0A])"
proof -
  have "re_match (Cat r Finish) s \<longleftrightarrow> (\<exists>w \<in> L. starts s 0 w \<and> ends Finish s (length w) \<noteq> [])"
  proof -
    have "re_match (Cat r Finish) s \<longleftrightarrow> (\<exists>k \<in> set (ends r s 0). ends Finish s k \<noteq> [])"
      unfolding re_match_def ends.simps(2) by (simp only: concat_eq_Nil_conv set_map ball_simps bex_simps)
    also have "\<dots> \<longleftrightarrow> (\<exists>w \<in> L. starts s 0 w \<and> ends Finish s (0 + length w) \<noteq> [])"
      unfolding Bex_def denotesD [OF assms le0, unfolded Bex_def] by blast
    finally show ?thesis by simp
  qed
  also have "\<dots> \<longleftrightarrow> (\<exists>w \<in> L. starts s 0 w \<and> (length w = length s \<or> (Suc (length w) = length s \<and> s ! length w = CHR 0x0A)))"
    by auto
  also have "\<dots> \<longleftrightarrow> (\<exists>w \<in> L. s = w \<or> s = w @ [CHR 0x0A])"
  proof (intro bex_cong refl)
    fix w
    have "s = w @ [CHR 0x0A]" if "take (length w) s = w" "Suc (length w) = length s" "s ! length w = CHR 0x0A"
      using take_Suc_conv_app_nth [of "length w" s] that by simp
    note nl = this
    show "starts s 0 w \<and> (length w = length s \<or> (Suc (length w) = length s \<and> s ! length w = CHR 0x0A)) \<longleftrightarrow>
        s = w \<or> s = w @ [CHR 0x0A]" (is "?L \<longleftrightarrow> ?R")
    proof
      assume L: ?L
      then have t: "take (length w) s = w"
        by (simp add: starts_def)
      from L consider "length w = length s" | "Suc (length w) = length s" "s ! length w = CHR 0x0A"
        by blast
      then show ?R
      proof cases
        case 1
        with t show ?thesis by simp
      next
        case 2
        with nl [OF t] show ?thesis by blast
      qed
    next
      assume ?R
      then show ?L
        by (elim disjE) (simp_all add: starts_def)
    qed
  qed
  finally show ?thesis by blast
qed

section \<open>IP addresses\<close>

definition parse_octet :: "string \<Rightarrow> nat option" where
  "parse_octet s = (if s = [] \<or> \<not> (\<forall>c \<in> set s. is_digit c) \<or> length s > 3 \<or> (s \<noteq> ''0'' \<and> hd s = CHR ''0'')
     then None else (let n = int_of_base 10 s in if n > 255 then None else Some n))"

fun all_some :: "'a option list \<Rightarrow> 'a list option" where
  "all_some [] = Some []"
| "all_some (None # xs) = None"
| "all_some (Some x # xs) = map_option (Cons x) (all_some xs)"

definition parse_ipv4 :: "string \<Rightarrow> nat list option" where
  "parse_ipv4 s = (let octets = split_on CHR ''.'' s in
     if length octets \<noteq> 4 then None else all_some (map parse_octet octets))"

definition show_ipv4 :: "nat list \<Rightarrow> string" where
  "show_ipv4 os = join_with CHR ''.'' (map show_nat os)"

definition parse_hextet :: "string \<Rightarrow> nat option" where
  "parse_hextet s = (if s = [] \<or> \<not> (\<forall>c \<in> set s. is_hex c) \<or> length s > 4 then None
     else Some (int_of_base 16 s))"

text \<open>The indices strictly inside the list at which a part is empty.\<close>

definition empty_inside :: "string list \<Rightarrow> nat list" where
  "empty_inside ps = filter (\<lambda>i. ps ! i = []) [1 ..< length ps - 1]"

text \<open>\<^verbatim>\<open>_ip_int_from_string\<close> on the colon-separated parts; an IPv4 suffix counts for two.\<close>

definition expand_ipv4_suffix :: "string list \<Rightarrow> string list option" where
  "expand_ipv4_suffix ps =
     (if CHR ''.'' \<in> set (last ps) then
        (case parse_ipv4 (last ps) of None \<Rightarrow> None
         | Some os \<Rightarrow> Some (butlast ps @ [show_hex (os ! 0 * 256 + os ! 1), show_hex (os ! 2 * 256 + os ! 3)]))
      else Some ps)"

definition groups_of_parts :: "string list \<Rightarrow> nat list option" where
  "groups_of_parts ps =
     (if length ps > 9 then None
      else case empty_inside ps of
        [] \<Rightarrow> if length ps \<noteq> 8 then None else all_some (map parse_hextet ps)
      | [k] \<Rightarrow>
          (let hi = (if hd ps = [] then k - 1 else k);
               lo = (if last ps = [] then length ps - k - 2 else length ps - k - 1) in
           if (hd ps = [] \<and> hi \<noteq> 0) \<or> (last ps = [] \<and> lo \<noteq> 0) \<or> hi + lo \<ge> 8 then None
           else (case (all_some (map parse_hextet (take hi ps)),
                       all_some (map parse_hextet (drop (length ps - lo) ps))) of
                   (Some a, Some b) \<Rightarrow> Some (a @ replicate (8 - (hi + lo)) 0 @ b)
                 | _ \<Rightarrow> None))
      | _ \<Rightarrow> None)"

definition parse_ipv6_groups :: "string \<Rightarrow> nat list option" where
  "parse_ipv6_groups s = (let ps = split_on CHR '':'' s in
     if length ps < 3 then None
     else case expand_ipv4_suffix ps of None \<Rightarrow> None | Some qs \<Rightarrow> groups_of_parts qs)"

text \<open>\<^verbatim>\<open>partition('%')\<close>: the address and its scope.\<close>

definition split_scope :: "string \<Rightarrow> (string \<times> string option) option" where
  "split_scope s = (if CHR ''%'' \<notin> set s then Some (s, None)
     else let addr = takeWhile (\<lambda>c. c \<noteq> CHR ''%'') s; scope = tl (dropWhile (\<lambda>c. c \<noteq> CHR ''%'') s) in
       if scope = [] \<or> CHR ''%'' \<in> set scope then None else Some (addr, Some scope))"

datatype ip = IPv4 "nat list" | IPv6 "nat list" "string option"

definition ip_address :: "string \<Rightarrow> ip option" where
  "ip_address s =
     (if CHR ''/'' \<in> set s then None
      else case parse_ipv4 s of Some os \<Rightarrow> Some (IPv4 os)
      | None \<Rightarrow> (case split_scope s of None \<Rightarrow> None
          | Some (addr, scope) \<Rightarrow> (case parse_ipv6_groups addr of None \<Rightarrow> None | Some gs \<Rightarrow> Some (IPv6 gs scope))))"

text \<open>\<^verbatim>\<open>_compress_hextets\<close>: start and length of the first longest run of zeros.\<close>

fun zero_run :: "nat list \<Rightarrow> nat \<Rightarrow> nat \<Rightarrow> nat \<Rightarrow> nat \<Rightarrow> nat \<Rightarrow> nat \<times> nat" where
  "zero_run [] i start len bstart blen = (bstart, blen)"
| "zero_run (g # gs) i start len bstart blen =
     (if g = 0 then
        (let start' = (if len = 0 then i else start); len' = len + 1 in
         if len' > blen then zero_run gs (i + 1) start' len' start' len'
         else zero_run gs (i + 1) start' len' bstart blen)
      else zero_run gs (i + 1) 0 0 bstart blen)"

definition compress_groups :: "nat list \<Rightarrow> string list" where
  "compress_groups gs = (case zero_run gs 0 0 0 0 0 of (b, n) \<Rightarrow>
     if n > 1 then (if b = 0 then [[]] else []) @ map show_hex (take b gs) @ [[]] @
       map show_hex (drop (b + n) gs) @ (if b + n = length gs then [[]] else [])
     else map show_hex gs)"

fun show_ip :: "ip \<Rightarrow> string" where
  "show_ip (IPv4 os) = show_ipv4 os"
| "show_ip (IPv6 gs scope) = join_with CHR '':'' (compress_groups gs) @
     (case scope of None \<Rightarrow> [] | Some z \<Rightarrow> CHR ''%'' # z)"

section \<open>URLs\<close>

definition c0_or_space :: "char \<Rightarrow> bool" where
  "c0_or_space c \<longleftrightarrow> code c \<le> 32"

definition url_clean :: "string \<Rightarrow> string" where
  "url_clean s = filter (\<lambda>c. c \<notin> {CHR 0x09, CHR 0x0A, CHR 0x0D}) (dropWhile c0_or_space s)"

definition scheme_char :: "char \<Rightarrow> bool" where
  "scheme_char c \<longleftrightarrow> is_alpha c \<or> is_digit c \<or> c \<in> {CHR ''+'', CHR ''-'', CHR ''.''}"

definition url_scheme :: "string \<Rightarrow> string \<times> string" where
  "url_scheme u = (let pre = takeWhile (\<lambda>c. c \<noteq> CHR '':'') u in
     if CHR '':'' \<in> set u \<and> pre \<noteq> [] \<and> is_alpha (hd pre) \<and> (\<forall>c \<in> set pre. scheme_char c)
     then (py_lower pre, drop (length pre + 1) u) else ([], u))"

definition netloc_of :: "string \<Rightarrow> string" where
  "netloc_of rest = (if take 2 rest = ''//''
     then takeWhile (\<lambda>c. c \<notin> {CHR ''/'', CHR ''?'', CHR ''#''}) (drop 2 rest) else [])"

definition future_re :: re where
  "future_re = Cat (Lit CHR ''v'') (Cat (Plus (Cls is_hex)) (Cat (Lit CHR ''.'') (Plus (Cls (\<lambda>c. c \<noteq> CHR 0x0A)))))"

definition bracketed_host :: "string \<Rightarrow> string" where
  "bracketed_host n = takeWhile (\<lambda>c. c \<noteq> CHR '']'') (tl (dropWhile (\<lambda>c. c \<noteq> CHR ''['') n))"

definition bracket_ok :: "string \<Rightarrow> bool" where
  "bracket_ok h = (if py_startswith h ''v'' then length h \<in> set (ends future_re h 0)
     else case ip_address h of Some (IPv6 gs z) \<Rightarrow> True | _ \<Rightarrow> False)"

text \<open>
  Scheme and network location, or none when \<^verbatim>\<open>urlparse\<close> raises \<^verbatim>\<open>ValueError\<close>. Its check of
  characters whose compatibility form is a delimiter concerns no character below 256.
\<close>

definition urlparse :: "string \<Rightarrow> (string \<times> string) option" where
  "urlparse s = (case url_scheme (url_clean s) of (scheme, rest) \<Rightarrow>
     (let netloc = netloc_of rest in
      if (CHR ''['' \<in> set netloc) \<noteq> (CHR '']'' \<in> set netloc) then None
      else if CHR ''['' \<in> set netloc \<and> \<not> bracket_ok (bracketed_host netloc) then None
      else Some (scheme, netloc)))"

end
