(* ===== verification/Ip_Text.thy ===== *)
theory Ip_Text
  imports Python_Lib
begin

text \<open>
  \<^verbatim>\<open>str\<close> and \<^verbatim>\<open>ipaddress.ip_address\<close>: an address reads back from its text (\<open>ip_reads_back\<close>), whichever
  run of zero groups the text of an IPv6 address leaves out, and every address read is well formed
  (\<open>ip_address_ok\<close>).
\<close>

section \<open>An address reads back from its text\<close>

lemma int_of_base_snoc: "int_of_base b (s @ [c]) = int_of_base b s * b + digit_value c"
  by (simp add: int_of_base_def)

lemma code_char_of: "n < 256 \<Longrightarrow> code (char_of n) = n"
  by (simp add: code_def)

lemma digit_char: "n < 10 \<Longrightarrow> is_digit (char_of (48 + n)) \<and> digit_value (char_of (48 + n)) = n"
  by (simp add: is_digit_def digit_value_def code_char_of)

lemma hex_char: "n < 16 \<Longrightarrow> is_hex (hex_digit n) \<and> digit_value (hex_digit n) = n"
  by (auto simp: is_hex_def is_digit_def digit_value_def code_char_of hex_digit_def)

lemma show_nat_reads: "int_of_base 10 (show_nat n) = n \<and> (\<forall>c \<in> set (show_nat n). is_digit c) \<and> show_nat n \<noteq> []"
proof (induction n rule: show_nat.induct)
  case (1 n)
  show ?case
  proof (cases "n < 10")
    case True
    then show ?thesis
      using digit_char [of n] by (subst (1 2 3) show_nat.simps) (simp add: int_of_base_def)
  next
    case False
    then have "n mod 10 < 10" by simp
    with False 1 digit_char [of "n mod 10"] show ?thesis
      by (subst (1 2 3) show_nat.simps) (simp add: int_of_base_snoc)
  qed
qed

lemma show_hex_reads: "int_of_base 16 (show_hex n) = n \<and> (\<forall>c \<in> set (show_hex n). is_hex c) \<and> show_hex n \<noteq> []"
proof (induction n rule: show_hex.induct)
  case (1 n)
  show ?case
  proof (cases "n < 16")
    case True
    then show ?thesis
      using hex_char [of n] by (subst (1 2 3) show_hex.simps) (simp add: int_of_base_def)
  next
    case False
    then have "n mod 16 < 16" by simp
    with False 1 hex_char [of "n mod 16"] show ?thesis
      by (subst (1 2 3) show_hex.simps) (simp add: int_of_base_snoc)
  qed
qed

lemma show_nat_length: "n < 10 ^ Suc k \<Longrightarrow> length (show_nat n) \<le> Suc k"
proof (induction k arbitrary: n)
  case (Suc k)
  then have "n div 10 < 10 ^ Suc k" by (simp add: div_less_iff_less_mult mult.commute)
  from Suc.IH [OF this] show ?case
    by (subst show_nat.simps) simp
qed (subst show_nat.simps, simp)

lemma show_hex_length: "n < 16 ^ Suc k \<Longrightarrow> length (show_hex n) \<le> Suc k"
proof (induction k arbitrary: n)
  case (Suc k)
  then have "n div 16 < 16 ^ Suc k" by (simp add: div_less_iff_less_mult mult.commute)
  from Suc.IH [OF this] show ?case
    by (subst show_hex.simps) simp
qed (subst show_hex.simps, simp)

lemma show_nat_hd: "0 < n \<Longrightarrow> hd (show_nat n) \<noteq> CHR ''0''"
proof (induction n rule: show_nat.induct)
  case (1 n)
  show ?case
  proof (cases "n < 10")
    case True
    then have "code (hd (show_nat n)) = 48 + n"
      by (subst show_nat.simps) (simp add: code_char_of)
    with 1(2) show ?thesis
      by (auto simp: code_def)
  next
    case False
    then show ?thesis
      using 1 show_nat_reads [of "n div 10"] by (subst show_nat.simps) (auto simp: hd_append)
  qed
qed

lemma parse_show_octet:
  assumes "n \<le> 255"
  shows "parse_octet (show_nat n) = Some n"
proof -
  have "length (show_nat n) \<le> 3"
    using show_nat_length [of n 2] assms by simp
  moreover have "show_nat n = ''0'' \<or> hd (show_nat n) \<noteq> CHR ''0''"
  proof (cases "n = 0")
    case True
    have "show_nat 0 = ''0''"
      by code_simp
    with True show ?thesis by simp
  qed (simp add: show_nat_hd)
  ultimately show ?thesis
    using show_nat_reads [of n] assms unfolding parse_octet_def Let_def by auto
qed

lemma parse_show_hextet: "n < 65536 \<Longrightarrow> parse_hextet (show_hex n) = Some n"
  using show_hex_reads [of n] show_hex_length [of n 3] by (simp add: parse_hextet_def)

lemma all_some_map: "\<forall>x \<in> set xs. f (g x) = Some x \<Longrightarrow> all_some (map f (map g xs)) = Some xs"
  by (induction xs) auto

lemma no_sep:
  "CHR ''.'' \<notin> set (show_nat n)" "CHR '':'' \<notin> set (show_hex n)" "CHR ''.'' \<notin> set (show_hex n)" "CHR ''%'' \<notin> set (show_hex n)"
  using show_nat_reads [of n] show_hex_reads [of n] by (auto simp: is_hex_def is_digit_def code_def)

definition ip_ok :: "ip \<Rightarrow> bool" where
  "ip_ok a = (case a of
     IPv4 os \<Rightarrow> length os = 4 \<and> (\<forall>n \<in> set os. n \<le> 255)
   | IPv6 gs scope \<Rightarrow> length gs = 8 \<and> (\<forall>n \<in> set gs. n < 65536) \<and>
       (\<forall>z. scope = Some z \<longrightarrow> z \<noteq> [] \<and> CHR ''%'' \<notin> set z \<and> CHR ''/'' \<notin> set z))"

lemma parse_show_ipv4: "length os = 4 \<Longrightarrow> \<forall>n \<in> set os. n \<le> 255 \<Longrightarrow> parse_ipv4 (show_ipv4 os) = Some os"
  unfolding parse_ipv4_def show_ipv4_def Let_def
  by (subst (1 2) split_join) (auto simp: no_sep all_some_map parse_show_octet simp del: map_map)

subsection \<open>Compression\<close>

lemma zero_run_spec:
  assumes "zero_run gs i start len bs bl = (b, n)"
    and "len = 0 \<or> start + len = i" and "\<forall>k. start \<le> k \<and> k < start + len \<longrightarrow> P k"
    and "\<forall>k < length gs. gs ! k = 0 \<longrightarrow> P (i + k)" and "bs + bl \<le> i" and "\<forall>k. bs \<le> k \<and> k < bs + bl \<longrightarrow> P k"
  shows "b + n \<le> i + length gs \<and> (\<forall>k. b \<le> k \<and> k < b + n \<longrightarrow> P k)"
  using assms
proof (induction gs arbitrary: i start len bs bl)
  case (Cons g gs)
  have rest: "\<forall>k < length gs. gs ! k = 0 \<longrightarrow> P (i + 1 + k)"
    using Cons.prems(4) by auto
  have now: "g = 0 \<Longrightarrow> P i"
    using Cons.prems(4) by force
  define s' where "s' = (if len = 0 then i else start)"
  have s': "s' + len = i" "\<forall>k. s' \<le> k \<and> k < s' + (len + 1) \<longrightarrow> g = 0 \<longrightarrow> P k"
    using Cons.prems(2,3) now unfolding s'_def by (auto simp: less_Suc_eq)
  consider "g = 0" "bl < len + 1" | "g = 0" "\<not> bl < len + 1" | "g \<noteq> 0"
    by blast
  then show ?case
  proof cases
    case 1
    then have "zero_run gs (i + 1) s' (len + 1) s' (len + 1) = (b, n)"
      using Cons.prems(1) by (simp add: s'_def Let_def)
    from Cons.IH [OF this] s' rest 1 show ?thesis by simp
  next
    case 2
    then have "zero_run gs (i + 1) s' (len + 1) bs bl = (b, n)"
      using Cons.prems(1) by (simp add: s'_def Let_def)
    from Cons.IH [OF this] s' rest 2 Cons.prems(5,6) show ?thesis by simp
  next
    case 3
    then have "zero_run gs (i + 1) 0 0 bs bl = (b, n)"
      using Cons.prems(1) by simp
    from Cons.IH [OF this] rest Cons.prems(5,6) show ?thesis by simp
  qed
qed auto

lemma longest_zero_run:
  assumes "zero_run gs 0 0 0 0 0 = (b, n)"
  shows "b + n \<le> length gs" and "gs = take b gs @ replicate n 0 @ drop (b + n) gs"
proof -
  have z: "b + n \<le> length gs \<and> (\<forall>k. b \<le> k \<and> k < b + n \<longrightarrow> k < length gs \<longrightarrow> gs ! k = 0)"
    using zero_run_spec [OF assms, of "\<lambda>k. k < length gs \<longrightarrow> gs ! k = 0"] by auto
  then show "b + n \<le> length gs" ..
  have "take n (drop b gs) = replicate n 0"
    using z by (intro nth_equalityI) auto
  then show "gs = take b gs @ replicate n 0 @ drop (b + n) gs"
    by (metis append_take_drop_id drop_drop add.commute)
qed

lemma groups_of_all:
  assumes "length gs = 8" and "\<forall>n \<in> set gs. n < 65536"
  shows "groups_of_parts (map show_hex gs) = Some gs"
proof -
  have "empty_inside (map show_hex gs) = []"
    using show_hex_reads by (auto simp: empty_inside_def filter_empty_conv)
  then show ?thesis
    using assms by (simp add: groups_of_parts_def all_some_map parse_show_hextet del: map_map)
qed

lemma groups_of_parts_one:
  assumes "empty_inside ps = [k]"
    and "(if hd ps = [] then k - 1 else k) = hi" and "(if last ps = [] then length ps - k - 2 else length ps - k - 1) = lo"
  shows "groups_of_parts ps = (if length ps > 9 \<or> (hd ps = [] \<and> hi \<noteq> 0) \<or> (last ps = [] \<and> lo \<noteq> 0) \<or> hi + lo \<ge> 8 then None
      else (case (all_some (map parse_hextet (take hi ps)), all_some (map parse_hextet (drop (length ps - lo) ps))) of
        (Some a, Some b) \<Rightarrow> Some (a @ replicate (8 - (hi + lo)) 0 @ b) | _ \<Rightarrow> None))"
  by (simp only: groups_of_parts_def assms list.case Let_def if_True if_False simp_thms split: if_split) blast

lemma filter_single: "i \<in> set xs \<Longrightarrow> distinct xs \<Longrightarrow> (\<And>j. j \<in> set xs \<Longrightarrow> P j \<longleftrightarrow> j = i) \<Longrightarrow> filter P xs = [i]"
  by (induction xs) (auto simp: filter_empty_conv intro!: filter_False)

lemma groups_of_compressed:
  assumes len: "length hi + length lo < 8" and "\<forall>n \<in> set (hi @ lo). n < 65536"
  shows "groups_of_parts ((if hi = [] then [[]] else []) @ map show_hex hi @ [[]] @ map show_hex lo @ (if lo = [] then [[]] else [])) =
    Some (hi @ replicate (8 - (length hi + length lo)) 0 @ lo)" (is "groups_of_parts ?ps = _")
proof -
  have ne: "show_hex n \<noteq> []" for n
    using show_hex_reads by blast
  define k where "k = (if hi = [] then 1 else length hi)"
  have len_ps: "length ?ps = (if hi = [] then 1 else 0) + length hi + 1 + length lo + (if lo = [] then 1 else 0)"
    by simp
  have nth: "?ps ! j = [] \<longleftrightarrow> j = k" if "j \<in> set [1 ..< length ?ps - 1]" for j
    using that by (auto simp: k_def nth_append ne nth_Cons' split: if_splits)
  have "k \<in> set [1 ..< length ?ps - 1]"
    using len_ps by (cases hi; cases lo; simp only: length_Cons k_def set_upt atLeastLessThan_iff) simp_all
  then have "empty_inside ?ps = [k]"
    unfolding empty_inside_def by (intro filter_single) (auto simp only: nth distinct_upt)
  moreover have hd: "hd ?ps = [] \<longleftrightarrow> hi = []"
    by (cases hi) (simp_all add: ne)
  moreover have last: "last ?ps = [] \<longleftrightarrow> lo = []"
    by (cases lo) (simp_all add: ne last_map)
  moreover have "(if hd ?ps = [] then k - 1 else k) = length hi"
    unfolding hd by (simp add: k_def)
  moreover have "(if last ?ps = [] then length ?ps - k - 2 else length ?ps - k - 1) = length lo"
    unfolding last by (simp add: k_def)
  ultimately have eq: "groups_of_parts ?ps = (if length ?ps > 9 \<or> (hi = [] \<and> length hi \<noteq> 0) \<or>
        (lo = [] \<and> length lo \<noteq> 0) \<or> length hi + length lo \<ge> 8 then None
      else (case (all_some (map parse_hextet (take (length hi) ?ps)), all_some (map parse_hextet (drop (length ?ps - length lo) ?ps))) of
        (Some a, Some b) \<Rightarrow> Some (a @ replicate (8 - (length hi + length lo)) 0 @ b) | _ \<Rightarrow> None))"
    using groups_of_parts_one [of ?ps k "length hi" "length lo"] unfolding hd last by blast
  have "take (length hi) ?ps = map show_hex hi"
    by simp
  moreover have "drop (length ?ps - length lo) ?ps = map show_hex lo"
    by (cases "lo = []") simp_all
  moreover have "\<not> 9 < length ?ps"
    using len_ps len by auto
  ultimately show ?thesis
    using assms unfolding eq by (simp add: all_some_map parse_show_hextet del: map_map)
qed


subsection \<open>Reading back\<close>

lemma set_split_on: "c \<in> set s \<Longrightarrow> c \<noteq> d \<Longrightarrow> \<exists>p \<in> set (split_on d s). c \<in> set p"
proof (induction s)
  case (Cons x s)
  then show ?case
    by (cases "split_on d s") auto
qed simp

lemma all_some_Some: "all_some xs = Some ys \<longleftrightarrow> xs = map Some ys"
proof (induction xs arbitrary: ys rule: all_some.induct)
  case (3 x xs)
  then show ?case by (cases ys) auto
qed auto

lemma parse_octet_ok: "parse_octet p = Some n \<Longrightarrow> n \<le> 255 \<and> (\<forall>c \<in> set p. is_digit c)"
  by (auto simp: parse_octet_def Let_def split: if_splits)

lemma parse_ipv4_ok:
  assumes "parse_ipv4 s = Some os"
  shows "length os = 4" and "\<forall>n \<in> set os. n \<le> 255" and "CHR '':'' \<notin> set s"
proof -
  let ?ps = "split_on CHR ''.'' s"
  have ps: "length ?ps = 4" "map parse_octet ?ps = map Some os"
    using assms by (auto simp: parse_ipv4_def Let_def all_some_Some split: if_splits)
  have image: "parse_octet ` set ?ps = Some ` set os"
    using arg_cong [OF ps(2), of set] by simp
  then have all: "\<forall>p \<in> set ?ps. \<exists>n \<in> set os. parse_octet p = Some n"
    by blast
  show "length os = 4"
    using ps by (metis length_map)
  have "\<exists>p \<in> set ?ps. parse_octet p = Some n" if "n \<in> set os" for n
    using that image by (metis imageE imageI)
  then show "\<forall>n \<in> set os. n \<le> 255"
    using parse_octet_ok by blast
  show "CHR '':'' \<notin> set s"
  proof
    assume "CHR '':'' \<in> set s"
    then obtain p where "p \<in> set ?ps" "CHR '':'' \<in> set p"
      using set_split_on [of "CHR '':''" s "CHR ''.''"] by auto
    with all parse_octet_ok show False
      by (fastforce simp: is_digit_def code_def)
  qed
qed

lemma hex_value: "is_hex c \<Longrightarrow> digit_value c < 16"
  by (auto simp: is_hex_def is_digit_def digit_value_def)

lemma int_of_base_less: "\<forall>c \<in> set s. is_hex c \<Longrightarrow> int_of_base 16 s < 16 ^ length s"
proof (induction s rule: rev_induct)
  case (snoc c s)
  then have "int_of_base 16 s + 1 \<le> 16 ^ length s" "digit_value c < 16"
    using hex_value by (simp_all add: Suc_le_eq)
  then show ?case
    by (simp add: int_of_base_snoc)
qed (simp add: int_of_base_def)

lemma parse_hextet_ok:
  assumes "parse_hextet p = Some n"
  shows "n < 65536"
proof -
  have p: "\<forall>c \<in> set p. is_hex c" "length p \<le> 4" "n = int_of_base 16 p"
    using assms by (auto simp: parse_hextet_def split: if_splits)
  have "(16 :: nat) ^ length p \<le> 16 ^ 4"
    using p(2) by (intro power_increasing) simp_all
  with int_of_base_less [OF p(1)] p(3) show ?thesis by simp
qed

lemma all_hextets: "all_some (map parse_hextet ps) = Some gs \<Longrightarrow> length gs = length ps \<and> (\<forall>n \<in> set gs. n < 65536)"
proof (induction ps arbitrary: gs)
  case (Cons p ps)
  then show ?case
    by (cases "parse_hextet p") (auto simp: parse_hextet_ok)
qed simp

lemma groups_ok:
  assumes "groups_of_parts ps = Some gs"
  shows "length gs = 8 \<and> (\<forall>n \<in> set gs. n < 65536)"
proof (cases "empty_inside ps")
  case Nil
  with assms all_hextets show ?thesis
    by (auto simp: groups_of_parts_def split: if_splits)
next
  case (Cons k ks)
  then have [simp]: "ks = []"
    using assms by (auto simp: groups_of_parts_def split: if_splits list.splits)
  define hi where "hi = (if hd ps = [] then k - 1 else k)"
  define lo where "lo = (if last ps = [] then length ps - k - 2 else length ps - k - 1)"
  have "k \<in> set [1 ..< length ps - 1]"
    using Cons by (metis empty_inside_def filter_is_subset list.set_intros(1) subsetD)
  then have k: "1 \<le> k" "k < length ps - 1" by simp_all
  note eq = groups_of_parts_one [OF Cons [unfolded \<open>ks = []\<close>] hi_def [symmetric] lo_def [symmetric]]
  from assms obtain a b where ab: "hi + lo < 8" "all_some (map parse_hextet (take hi ps)) = Some a"
    "all_some (map parse_hextet (drop (length ps - lo) ps)) = Some b" "gs = a @ replicate (8 - (hi + lo)) 0 @ b"
    unfolding eq by (auto simp: not_le split: if_splits option.splits)
  have "hi \<le> length ps" "lo \<le> length ps"
    using k by (auto simp: hi_def lo_def)
  with ab all_hextets [OF ab(2)] all_hextets [OF ab(3)] show ?thesis by auto
qed

lemma ip_address_ok:
  assumes "ip_address s = Some a"
  shows "ip_ok a"
proof (cases "parse_ipv4 s")
  case (Some os)
  with assms parse_ipv4_ok [OF Some] show ?thesis
    by (auto simp: ip_address_def ip_ok_def split: if_splits)
next
  case None
  then obtain addr scope gs where sc: "split_scope s = Some (addr, scope)" "parse_ipv6_groups addr = Some gs"
    and a: "a = IPv6 gs scope" and slash: "CHR ''/'' \<notin> set s"
    using assms by (auto simp: ip_address_def split: if_splits option.splits)
  have "length gs = 8 \<and> (\<forall>n \<in> set gs. n < 65536)"
    using sc(2) groups_ok by (auto simp: parse_ipv6_groups_def Let_def split: if_splits option.splits)
  moreover have "z \<noteq> [] \<and> CHR ''%'' \<notin> set z \<and> CHR ''/'' \<notin> set z" if "scope = Some z" for z
    using sc(1) slash that
    by (auto simp: split_scope_def Let_def split: if_splits dest!: set_dropWhileD list.set_sel(2) [rotated])
  ultimately show ?thesis
    by (simp add: a ip_ok_def)
qed

lemma show_groups:
  assumes "length gs = 8" and "\<forall>n \<in> set gs. n < 65536"
  shows "parse_ipv6_groups (join_with CHR '':'' (compress_groups gs)) = Some gs"
    and "CHR '':'' \<in> set (join_with CHR '':'' (compress_groups gs))"
    and "CHR ''%'' \<notin> set (join_with CHR '':'' (compress_groups gs))"
    and "CHR ''/'' \<notin> set (join_with CHR '':'' (compress_groups gs))"
    and "\<forall>c \<in> set (join_with CHR '':'' (compress_groups gs)). c = CHR '':'' \<or> is_hex c"
proof -
  obtain b n where bn: "zero_run gs 0 0 0 0 0 = (b, n)" by fastforce
  note run = longest_zero_run [OF bn]
  have groups: "groups_of_parts (compress_groups gs) = Some gs"
  proof (cases "1 < n")
    case True
    have "take b gs = [] \<longleftrightarrow> b = 0" "drop (b + n) gs = [] \<longleftrightarrow> b + n = length gs"
      using run(1) assms(1) True by auto
    then have "compress_groups gs = (if take b gs = [] then [[]] else []) @ map show_hex (take b gs) @ [[]] @
        map show_hex (drop (b + n) gs) @ (if drop (b + n) gs = [] then [[]] else [])"
      using True by (simp add: compress_groups_def bn)
    moreover have "length (take b gs) + length (drop (b + n) gs) < 8" "8 - (length (take b gs) + length (drop (b + n) gs)) = n"
      using run(1) assms(1) True by auto
    moreover have "\<forall>m \<in> set (take b gs @ drop (b + n) gs). m < 65536"
      using assms(2) by (auto dest: in_set_takeD in_set_dropD)
    ultimately show ?thesis
      using groups_of_compressed [of "take b gs" "drop (b + n) gs"] run(2) by simp
  next
    case False
    with groups_of_all [OF assms] show ?thesis
      by (simp add: compress_groups_def bn)
  qed
  have parts: "p = [] \<or> (\<exists>m. p = show_hex m)" if "p \<in> set (compress_groups gs)" for p
    using that by (auto simp: compress_groups_def bn split: if_splits)
  have len: "3 \<le> length (compress_groups gs)"
    using run(1) assms(1) by (auto simp: compress_groups_def bn)
  then have ne: "compress_groups gs \<noteq> []" by auto
  have split: "split_on CHR '':'' (join_with CHR '':'' (compress_groups gs)) = compress_groups gs"
    by (intro split_join ne ballI, drule parts) (auto simp: no_sep)
  have "CHR ''.'' \<notin> set (last (compress_groups gs))"
    using parts [OF last_in_set [OF ne]] by (auto simp: no_sep)
  with split len groups show "parse_ipv6_groups (join_with CHR '':'' (compress_groups gs)) = Some gs"
    by (simp add: parse_ipv6_groups_def expand_ipv4_suffix_def)
  have chars: "c = CHR '':'' \<or> is_hex c" if "c \<in> set (join_with CHR '':'' (compress_groups gs))" for c
    using set_split_on [OF that, of "CHR '':''"] parts show_hex_reads unfolding split by fastforce
  then show "\<forall>c \<in> set (join_with CHR '':'' (compress_groups gs)). c = CHR '':'' \<or> is_hex c" by blast
  from chars show "CHR ''%'' \<notin> set (join_with CHR '':'' (compress_groups gs))" "CHR ''/'' \<notin> set (join_with CHR '':'' (compress_groups gs))"
    by (fastforce simp: is_hex_def is_digit_def code_def)+
  show "CHR '':'' \<in> set (join_with CHR '':'' (compress_groups gs))"
  proof (rule ccontr)
    assume "CHR '':'' \<notin> set (join_with CHR '':'' (compress_groups gs))"
    from split_on_none [OF this] split len have "3 \<le> length [join_with CHR '':'' (compress_groups gs)]"
      by (simp only:)
    then show False by simp
  qed
qed

lemma show_ipv4_chars:
  assumes "length os = 4" and "c \<in> set (show_ipv4 os)"
  shows "c = CHR ''.'' \<or> is_digit c"
proof -
  have "split_on CHR ''.'' (show_ipv4 os) = map show_nat os"
    unfolding show_ipv4_def using assms(1) by (intro split_join) (auto simp: no_sep)
  with set_split_on [OF assms(2), of "CHR ''.''"] show_nat_reads show ?thesis
    by fastforce
qed

lemma ip_reads_back:
  assumes "ip_ok a"
  shows "ip_address (show_ip a) = Some a"
proof (cases a)
  case (IPv4 os)
  then have os: "length os = 4" "\<forall>n \<in> set os. n \<le> 255"
    using assms by (simp_all add: ip_ok_def)
  have "CHR ''/'' \<notin> set (show_ipv4 os)"
    using show_ipv4_chars [OF os(1), of "CHR ''/''"] by (auto simp: is_digit_def code_def)
  with os show ?thesis
    by (simp add: IPv4 ip_address_def parse_show_ipv4)
next
  case (IPv6 gs scope)
  then have gs: "length gs = 8" "\<forall>n \<in> set gs. n < 65536"
    and z: "\<And>z. scope = Some z \<Longrightarrow> z \<noteq> [] \<and> CHR ''%'' \<notin> set z \<and> CHR ''/'' \<notin> set z"
    using assms by (simp_all add: ip_ok_def)
  let ?t = "join_with CHR '':'' (compress_groups gs)"
  note t = show_groups [OF gs]
  have colon: "CHR '':'' \<in> set (show_ip a)"
    using t(2) by (simp add: IPv6)
  then have "parse_ipv4 (show_ip a) = None"
    using parse_ipv4_ok(3) by (cases "parse_ipv4 (show_ip a)") auto
  moreover have "split_scope (show_ip a) = Some (?t, scope)"
  proof (cases scope)
    case None
    then show ?thesis using t(3) by (simp add: IPv6 split_scope_def)
  next
    case (Some w)
    have "takeWhile (\<lambda>c. c \<noteq> CHR ''%'') (?t @ CHR ''%'' # w) = ?t" "dropWhile (\<lambda>c. c \<noteq> CHR ''%'') (?t @ CHR ''%'' # w) = CHR ''%'' # w"
      using t(3) by (auto simp: takeWhile_append dropWhile_append3)
    with z [OF Some] Some show ?thesis
      by (simp add: IPv6 split_scope_def)
  qed
  moreover have "CHR ''/'' \<notin> set (show_ip a)"
    using t(4) z by (auto simp: IPv6 split: option.splits)
  ultimately show ?thesis
    using t(1) by (simp add: ip_address_def IPv6)
qed

end
