(* ===== verification/Validators.thy ===== *)
theory Validators
  imports Ip_Text Data_Model
begin

text \<open>
  The observable validators (\<^verbatim>\<open>services/validators.py\<close>): a normalised value, or the text of the
  \<^verbatim>\<open>ValueError\<close>. In the text for an IP address the \<^verbatim>\<open>repr\<close> of the value is the value between
  quotes.
\<close>

section \<open>Patterns\<close>

definition label_char :: "char \<Rightarrow> bool" where
  "label_char c \<longleftrightarrow> is_alpha c \<or> is_digit c \<or> c = CHR ''-''"

definition alnum :: "char \<Rightarrow> bool" where
  "alnum c \<longleftrightarrow> is_alpha c \<or> is_digit c"

definition domain_label :: re where
  "domain_label = Cat (Ahead_Not (\<lambda>c. c = CHR ''-'')) (Cat (Reps 1 63 (Cls label_char)) (Behind_Not (\<lambda>c. c = CHR ''-'')))"

definition domain_re :: re where
  "domain_re = Cat (Plus (Cat domain_label (Lit CHR ''.''))) (Cat (Reps 2 63 (Cls is_alpha)) Finish)"

definition hostname_re :: re where
  "hostname_re = Cat domain_label (Cat (Many (Cat (Lit CHR ''.'') domain_label)) Finish)"

definition email_re :: re where
  "email_re = Cat (Plus (Cls (\<lambda>c. alnum c \<or> c \<in> set ''._%+-''))) (Cat (Lit CHR ''@'')
     (Cat (Plus (Cat (Cls alnum) (Cat (Alt (Cat (Reps 0 61 (Cls label_char)) (Cls alnum)) Eps) (Lit CHR ''.''))))
       (Cat (Reps 2 63 (Cls is_alpha)) Finish)))"

definition hash_re :: "nat \<Rightarrow> re" where
  "hash_re n = Cat (Reps n n (Cls is_hex)) Finish"

text \<open>\<^verbatim>\<open>re.IGNORECASE\<close>: the letters of the pattern match both cases.\<close>

definition Lit_i :: "char \<Rightarrow> re" where
  "Lit_i c = Cls (\<lambda>x. py_lower_char x = py_lower_char c)"

fun Word_i :: "string \<Rightarrow> re" where
  "Word_i [] = Eps"
| "Word_i (c # cs) = Cat (Lit_i c) (Word_i cs)"

definition registry_key_re :: re where
  "registry_key_re = Cat (Word_i ''HK'')
     (Cat (Alt (Word_i ''LM'') (Alt (Word_i ''CU'') (Alt (Word_i ''CR'') (Alt (Word_i ''U'') (Word_i ''CC'')))))
       (Cat (Lit CHR 0x5C) (Cat (Plus (Cls (\<lambda>c. c \<noteq> CHR 0x00))) Finish)))"

definition filename_re :: re where
  "filename_re = Cat (Plus (Cls (\<lambda>c. c \<notin> {CHR 0x00, CHR ''/'', CHR 0x0D, CHR 0x0A, CHR 0x09}))) Finish"

section \<open>Validators\<close>

type_synonym checked = "string + string"

definition normalize_domain :: "string \<Rightarrow> checked" where
  "normalize_domain value = (let v = py_rstrip_char CHR ''.'' (py_lower (py_strip value)) in
     if \<not> re_match domain_re v then Inl ''not a valid domain name'' else Inr v)"

definition normalize_hostname :: "string \<Rightarrow> checked" where
  "normalize_hostname value = (let v = py_rstrip_char CHR ''.'' (py_lower (py_strip value)) in
     if v = [] \<or> \<not> re_match hostname_re v then Inl ''not a valid hostname'' else Inr v)"

definition normalize_ip :: "string \<Rightarrow> checked" where
  "normalize_ip value = (let v = py_strip value in case ip_address v of
     None \<Rightarrow> Inl (quoted v @ '' does not appear to be an IPv4 or IPv6 address'') | Some ip \<Rightarrow> Inr (show_ip ip))"

definition normalize_url :: "string \<Rightarrow> checked" where
  "normalize_url value = (let v = py_strip value in
     if length v > 4096 then Inl ''URL too long''
     else case urlparse v of None \<Rightarrow> Inl ''Invalid IPv6 URL''
     | Some (scheme, netloc) \<Rightarrow>
         if scheme \<notin> {''http'', ''https'', ''ftp'', ''ftps''} then Inl ''URL must use http, https, ftp, or ftps scheme''
         else if netloc = [] then Inl ''URL is missing a network location'' else Inr v)"

definition normalize_email :: "string \<Rightarrow> checked" where
  "normalize_email value = (let v = py_lower (py_strip value) in
     if \<not> re_match email_re v then Inl ''not a valid email address'' else Inr v)"

definition normalize_hash :: "string \<Rightarrow> re \<Rightarrow> string \<Rightarrow> checked" where
  "normalize_hash value pattern label = (let v = py_lower (py_strip value) in
     if \<not> re_match pattern v then Inl (''not a valid '' @ label @ '' hash'') else Inr v)"

definition normalize_filename :: "string \<Rightarrow> checked" where
  "normalize_filename value = (let v = py_strip value in
     if v = [] \<or> \<not> re_match filename_re v \<or> length v > 500 then Inl ''not a valid filename'' else Inr v)"

definition normalize_registry_key :: "string \<Rightarrow> checked" where
  "normalize_registry_key value = (let v = py_strip value in
     if \<not> re_match registry_key_re v
     then Inl (''not a valid Windows registry key (must start with HKLM'' @ [CHR 0x5C] @ '', HKCU'' @ [CHR 0x5C] @ '', etc.)'')
     else Inr v)"

fun validate_observable :: "observable_type \<Rightarrow> string \<Rightarrow> checked" where
  "validate_observable OT_IP v = normalize_ip v"
| "validate_observable OT_DOMAIN v = normalize_domain v"
| "validate_observable OT_HOSTNAME v = normalize_hostname v"
| "validate_observable OT_URL v = normalize_url v"
| "validate_observable OT_HASH_MD5 v = normalize_hash v (hash_re 32) ''MD5''"
| "validate_observable OT_HASH_SHA1 v = normalize_hash v (hash_re 40) ''SHA1''"
| "validate_observable OT_HASH_SHA256 v = normalize_hash v (hash_re 64) ''SHA256''"
| "validate_observable OT_EMAIL v = normalize_email v"
| "validate_observable OT_FILENAME v = normalize_filename v"
| "validate_observable OT_REGISTRY_KEY v = normalize_registry_key v"

section \<open>The languages of the patterns\<close>

lemma class_words:
  "{concat ws | ws. set ws \<subseteq> {[c] | c. P c} \<and> Q (length ws)} = {w. (\<forall>c \<in> set w. P c) \<and> Q (length w)}"
proof -
  have "length (concat ws) = length ws \<and> (\<forall>c \<in> set (concat ws). P c)" if "set ws \<subseteq> {[c] | c. P c}" for ws
    using that by (induction ws) auto
  note concats = this
  have "\<exists>ws. w = concat ws \<and> set ws \<subseteq> {[c] | c. P c} \<and> length ws = length w" if "\<forall>c \<in> set w. P c" for w
    using that by (intro exI [of _ "map (\<lambda>c. [c]) w"]) auto
  note words = this
  show ?thesis
  proof (intro set_eqI iffI)
    fix w assume "w \<in> {concat ws | ws. set ws \<subseteq> {[c] | c. P c} \<and> Q (length ws)}"
    then obtain ws where "w = concat ws" "set ws \<subseteq> {[c] | c. P c}" "Q (length ws)"
      by blast
    with concats [of ws] show "w \<in> {w. (\<forall>c \<in> set w. P c) \<and> Q (length w)}"
      by simp
  next
    fix w assume "w \<in> {w. (\<forall>c \<in> set w. P c) \<and> Q (length w)}"
    then have "\<forall>c \<in> set w. P c" "Q (length w)"
      by simp_all
    with words [of w] show "w \<in> {concat ws | ws. set ws \<subseteq> {[c] | c. P c} \<and> Q (length ws)}"
      by auto
  qed
qed

lemma denotes_class_reps:
  "m \<le> n \<Longrightarrow> denotes (Reps m n (Cls P)) {w. (\<forall>c \<in> set w. P c) \<and> m \<le> length w \<and> length w \<le> n}"
  using denotes_Reps [OF denotes_Cls, of m n P] class_words [of P "\<lambda>k. m \<le> k \<and> k \<le> n"] by simp

lemma denotes_class_plus: "denotes (Plus (Cls P)) {w. (\<forall>c \<in> set w. P c) \<and> w \<noteq> []}"
  using denotes_unbounded(1) [OF denotes_Cls, of P] class_words [of P "\<lambda>k. k \<noteq> 0"] by simp

definition valid_label :: "string \<Rightarrow> bool" where
  "valid_label l \<longleftrightarrow> 1 \<le> length l \<and> length l \<le> 63 \<and> (\<forall>c \<in> set l. label_char c) \<and>
     hd l \<noteq> CHR ''-'' \<and> last l \<noteq> CHR ''-''"

definition valid_tld :: "string \<Rightarrow> bool" where
  "valid_tld t \<longleftrightarrow> 2 \<le> length t \<and> length t \<le> 63 \<and> (\<forall>c \<in> set t. is_alpha c)"

definition domain_name :: "string \<Rightarrow> bool" where
  "domain_name v \<longleftrightarrow> (let ps = split_on CHR ''.'' v in
     2 \<le> length ps \<and> (\<forall>l \<in> set (butlast ps). valid_label l) \<and> valid_tld (last ps))"

definition host_name :: "string \<Rightarrow> bool" where
  "host_name v \<longleftrightarrow> (\<forall>l \<in> set (split_on CHR ''.'' v). valid_label l)"

text \<open>A value matches a pattern with the end anchor itself, or with a newline after it.\<close>

definition or_newline :: "(string \<Rightarrow> bool) \<Rightarrow> string \<Rightarrow> bool" where
  "or_newline P v \<longleftrightarrow> P v \<or> (v \<noteq> [] \<and> last v = CHR 0x0A \<and> P (butlast v))"

lemma re_match_Finish':
  "denotes r (Collect P) \<Longrightarrow> re_match (Cat r Finish) v = or_newline P v"
  by (auto simp: re_match_Finish or_newline_def) (metis append_butlast_last_id)

lemma denotes_label: "denotes domain_label (Collect valid_label)"
  unfolding denotes_def
proof (intro allI impI)
  fix s :: string and i j assume i: "i \<le> length s"
  let ?L = "{w. (\<forall>c \<in> set w. label_char c) \<and> 1 \<le> length w \<and> length w \<le> 63}"
  have "j \<in> set (ends domain_label s i) \<longleftrightarrow> \<not> (i < length s \<and> s ! i = CHR ''-'') \<and>
      j \<in> set (ends (Reps 1 63 (Cls label_char)) s i) \<and> \<not> (0 < j \<and> j \<le> length s \<and> s ! (j - 1) = CHR ''-'')"
    unfolding domain_label_def by (auto split: if_splits)
  also have "\<dots> \<longleftrightarrow> \<not> (i < length s \<and> s ! i = CHR ''-'') \<and>
      (\<exists>w \<in> ?L. starts s i w \<and> j = i + length w) \<and> \<not> (0 < j \<and> j \<le> length s \<and> s ! (j - 1) = CHR ''-'')"
    using denotesD [OF denotes_class_reps [of 1 63 label_char] i, of j] by simp
  also have "\<dots> \<longleftrightarrow> (\<exists>w \<in> Collect valid_label. starts s i w \<and> j = i + length w)"
  proof -
    have "(\<not> (i < length s \<and> s ! i = CHR ''-'') \<and> \<not> (0 < j \<and> j \<le> length s \<and> s ! (j - 1) = CHR ''-'')) \<longleftrightarrow>
        hd w \<noteq> CHR ''-'' \<and> last w \<noteq> CHR ''-''"
      if "starts s i w" "w \<noteq> []" "j = i + length w" for w
    proof -
      have "i < length s" "0 < j" "j \<le> length s"
        using that starts_le [OF that(1)] by (auto simp: length_greater_0_conv [symmetric] simp del: length_greater_0_conv)
      moreover have at: "s ! (i + k) = w ! k" if "k < length w" for k
      proof -
        have "w ! k = take (length w) (drop i s) ! k"
          using \<open>starts s i w\<close> by (simp add: starts_def)
        also have "\<dots> = s ! (i + k)"
          using that \<open>i < length s\<close> by simp
        finally show ?thesis ..
      qed
      have "s ! i = hd w"
        using at [of 0] \<open>w \<noteq> []\<close> by (simp add: hd_conv_nth)
      moreover have "s ! (j - 1) = last w"
        using at [of "length w - 1"] that by (cases w) (simp_all add: last_conv_nth)
      ultimately show ?thesis by simp
    qed
    note edges = this
    have "w \<noteq> []" if "w \<in> ?L" for w
      using that by auto
    with edges show ?thesis
      unfolding valid_label_def by blast
  qed
  finally show "j \<in> set (ends domain_label s i) \<longleftrightarrow> (\<exists>w \<in> Collect valid_label. starts s i w \<and> j = i + length w)" .
qed

lemma valid_label_no_dot: "valid_label l \<Longrightarrow> CHR ''.'' \<notin> set l"
  by (auto simp: valid_label_def label_char_def is_alpha_def is_digit_def code_def)

lemma valid_tld_no_dot: "valid_tld t \<Longrightarrow> CHR ''.'' \<notin> set t"
  by (auto simp: valid_tld_def is_alpha_def code_def)

lemma re_match_assoc: "re_match (Cat a (Cat b c)) s = re_match (Cat (Cat a b) c) s"
  by (simp add: re_match_def)

lemma join_snoc: "join_with c (ls @ [t]) = concat (map (\<lambda>l. l @ [c]) ls) @ t"
proof (induction ls)
  case (Cons l ls)
  then show ?case by (cases ls) auto
qed simp

lemma join_Cons: "join_with c (l # ls) = l @ concat (map (Cons c) ls)"
  by (induction ls arbitrary: l) auto

lemma words_as_map: "set ws \<subseteq> {f l | l. P l} \<longleftrightarrow> (\<exists>ls. ws = map f ls \<and> (\<forall>l \<in> set ls. P l))"
proof
  assume "set ws \<subseteq> {f l | l. P l}"
  then show "\<exists>ls. ws = map f ls \<and> (\<forall>l \<in> set ls. P l)"
  proof (induction ws)
    case (Cons w ws)
    then obtain l ls where "w = f l" "P l" "ws = map f ls" "\<forall>l \<in> set ls. P l"
      by auto
    then show ?case by (intro exI [of _ "l # ls"]) simp
  qed simp
next
  assume "\<exists>ls. ws = map f ls \<and> (\<forall>l \<in> set ls. P l)"
  then show "set ws \<subseteq> {f l | l. P l}" by fastforce
qed

lemma denotes_iff: "denotes r L \<Longrightarrow> (\<And>w. w \<in> L \<longleftrightarrow> P w) \<Longrightarrow> denotes r (Collect P)"
  by (metis Collect_mem_eq Collect_cong)

lemma domain_name_iff:
  "domain_name v \<longleftrightarrow> (\<exists>ls t. v = concat (map (\<lambda>l. l @ [CHR ''.'']) ls) @ t \<and> ls \<noteq> [] \<and>
     (\<forall>l \<in> set ls. valid_label l) \<and> valid_tld t)" (is "_ \<longleftrightarrow> ?R")
proof
  assume d: "domain_name v"
  let ?ps = "split_on CHR ''.'' v"
  have "v = join_with CHR ''.'' (butlast ?ps @ [last ?ps])"
    by (simp add: join_split)
  moreover have "butlast ?ps \<noteq> []"
    using d by (cases ?ps) (auto simp: domain_name_def Let_def)
  ultimately show ?R
    using d unfolding join_snoc domain_name_def Let_def by blast
next
  assume ?R
  then obtain ls t where v: "v = join_with CHR ''.'' (ls @ [t])" and "ls \<noteq> []"
    and ls: "\<forall>l \<in> set ls. valid_label l" and t: "valid_tld t"
    by (auto simp: join_snoc)
  have "split_on CHR ''.'' v = ls @ [t]"
    unfolding v using ls t by (intro split_join) (auto dest: valid_label_no_dot valid_tld_no_dot)
  with \<open>ls \<noteq> []\<close> ls t show "domain_name v"
    by (cases ls) (simp_all add: domain_name_def)
qed

lemma host_name_iff:
  "host_name v \<longleftrightarrow> (\<exists>l ls. v = l @ concat (map (Cons CHR ''.'') ls) \<and> valid_label l \<and> (\<forall>l \<in> set ls. valid_label l))"
  (is "_ \<longleftrightarrow> ?R")
proof
  assume h: "host_name v"
  obtain l ls where ps: "split_on CHR ''.'' v = l # ls"
    by (cases "split_on CHR ''.'' v") simp_all
  then have "v = join_with CHR ''.'' (l # ls)"
    by (metis join_split)
  with h ps show ?R
    unfolding join_Cons host_name_def by auto
next
  assume ?R
  then obtain l ls where v: "v = join_with CHR ''.'' (l # ls)" and "valid_label l" "\<forall>l \<in> set ls. valid_label l"
    by (auto simp: join_Cons)
  moreover from this have "split_on CHR ''.'' v = l # ls"
    unfolding v by (intro split_join) (auto dest: valid_label_no_dot)
  ultimately show "host_name v"
    by (simp add: host_name_def)
qed

lemma denotes_dotted: "denotes (Cat domain_label (Lit CHR ''.'')) {l @ [CHR ''.''] | l. valid_label l}"
  and denotes_dot_label: "denotes (Cat (Lit CHR ''.'') domain_label) {CHR ''.'' # l | l. valid_label l}"
  using denotes_Cat [OF denotes_label denotes_Cls, of "\<lambda>x. x = CHR ''.''"]
    denotes_Cat [OF denotes_Cls denotes_label, of "\<lambda>x. x = CHR ''.''"] by simp_all

lemma denotes_domain: "denotes (Cat (Plus (Cat domain_label (Lit CHR ''.''))) (Reps 2 63 (Cls is_alpha))) (Collect domain_name)"
proof -
  have "denotes (Plus (Cat domain_label (Lit CHR ''.'')))
      {w. \<exists>ls. w = concat (map (\<lambda>l. l @ [CHR ''.'']) ls) \<and> ls \<noteq> [] \<and> (\<forall>l \<in> set ls. valid_label l)}" (is "denotes _ ?A")
    by (rule denotes_iff [OF denotes_unbounded(1) [OF denotes_dotted]])
      (simp_all only: words_as_map mem_Collect_eq, simp, metis map_is_Nil_conv)
  moreover have "denotes (Reps 2 63 (Cls is_alpha)) {t. valid_tld t}"
    by (rule denotes_iff [OF denotes_class_reps]) (auto simp: valid_tld_def)
  ultimately have "denotes (Cat (Plus (Cat domain_label (Lit CHR ''.''))) (Reps 2 63 (Cls is_alpha)))
      {v @ w | v w. v \<in> ?A \<and> w \<in> {t. valid_tld t}}"
    by (rule denotes_Cat)
  then show ?thesis
    by (rule denotes_iff) (simp only: domain_name_iff mem_Collect_eq, blast)
qed

lemma denotes_hostname: "denotes (Cat domain_label (Many (Cat (Lit CHR ''.'') domain_label))) (Collect host_name)"
proof -
  have "denotes (Many (Cat (Lit CHR ''.'') domain_label)) {w. \<exists>ls. w = concat (map (Cons CHR ''.'') ls) \<and> (\<forall>l \<in> set ls. valid_label l)}"
    by (rule denotes_iff [OF denotes_unbounded(2) [OF denotes_dot_label]])
      (simp_all only: words_as_map mem_Collect_eq, simp, blast)
  from denotes_Cat [OF denotes_label this] show ?thesis
    by (rule denotes_iff) (simp only: host_name_iff mem_Collect_eq, blast)
qed

lemma domain_language: "re_match domain_re v = or_newline domain_name v"
  unfolding domain_re_def re_match_assoc by (rule re_match_Finish' [OF denotes_domain])

lemma hostname_language: "re_match hostname_re v = or_newline host_name v"
  unfolding hostname_re_def re_match_assoc by (rule re_match_Finish' [OF denotes_hostname])

lemma hash_language: "re_match (hash_re n) v = or_newline (\<lambda>w. (\<forall>c \<in> set w. is_hex c) \<and> length w = n) v"
  unfolding hash_re_def
  using re_match_Finish' [of "Reps n n (Cls is_hex)" "\<lambda>w. (\<forall>c \<in> set w. is_hex c) \<and> length w = n" v]
    denotes_class_reps [of n n is_hex] by (simp add: eq_iff [of _ n] conj_commute)

section \<open>Properties\<close>

text \<open>
  C14: A domain observable is accepted exactly when, stripped, in lower case and without trailing dots, it is
  a domain name: at least two labels, each of 1 to 63 letters, digits and hyphens that neither starts
  nor ends with a hyphen, the last one of 2 to 63 letters. A host name needs one such label or more. The end
  anchor of the patterns also lets one final newline through.
\<close>

theorem domain_and_hostname_accepted:
  "(validate_observable OT_DOMAIN v = Inr w \<longleftrightarrow>
      w = py_rstrip_char CHR ''.'' (py_lower (py_strip v)) \<and> or_newline domain_name w) \<and>
   (validate_observable OT_HOSTNAME v = Inr w \<longleftrightarrow>
      w = py_rstrip_char CHR ''.'' (py_lower (py_strip v)) \<and> w \<noteq> [] \<and> or_newline host_name w)"
  by (auto simp: normalize_domain_def normalize_hostname_def domain_language hostname_language Let_def)

definition hash_length :: "observable_type \<Rightarrow> nat option" where
  "hash_length t = (case t of OT_HASH_MD5 \<Rightarrow> Some 32 | OT_HASH_SHA1 \<Rightarrow> Some 40 | OT_HASH_SHA256 \<Rightarrow> Some 64 | _ \<Rightarrow> None)"

lemma py_lower_char_space: "py_space (py_lower_char c) \<longleftrightarrow> py_space c"
  by (auto simp: py_space_def py_lower_char_def Let_def)

lemma lower_strip_last: "v = py_lower (py_strip u) \<Longrightarrow> v \<noteq> [] \<Longrightarrow> \<not> py_space (last v)"
  using py_strip_last [of u] by (simp add: py_lower_def last_map py_lower_char_space)

lemma validate_hash: "hash_length t = Some n \<Longrightarrow> (validate_observable t v = Inr w) = (\<exists>l. normalize_hash v (hash_re n) l = Inr w)"
  by (cases t) (auto simp: hash_length_def normalize_hash_def Let_def)

text \<open>
  C15: An MD5, SHA1 or SHA256 observable is accepted exactly when its stripped, lower-cased value consists of
  32, 40 or 64 hexadecimal digits, and this value is what is stored.
\<close>

theorem hash_accepted:
  assumes "hash_length t = Some n"
  shows "validate_observable t v = Inr w \<longleftrightarrow>
    w = py_lower (py_strip v) \<and> length w = n \<and> (\<forall>c \<in> set w. is_hex c)"
proof -
  have "last w \<noteq> CHR 0x0A" if "w = py_lower (py_strip v)" "w \<noteq> []"
    using lower_strip_last [OF that] by (auto simp: py_space_def)
  then have "or_newline (\<lambda>x. (\<forall>c \<in> set x. is_hex c) \<and> length x = n) w \<longleftrightarrow> length w = n \<and> (\<forall>c \<in> set w. is_hex c)"
    if "w = py_lower (py_strip v)"
    using that by (auto simp: or_newline_def)
  then show ?thesis
    unfolding validate_hash [OF assms] by (auto simp: normalize_hash_def hash_language Let_def)
qed

theorem hash_accepted_witness:
  "hash_length OT_HASH_MD5 = Some 32 \<and>
   validate_observable OT_HASH_MD5 '' D41D8CD98F00B204E9800998ECF8427E '' = Inr ''d41d8cd98f00b204e9800998ecf8427e''"
proof -
  have "hash_length OT_HASH_MD5 = Some 32"
    by (simp add: hash_length_def)
  moreover have "py_lower (py_strip '' D41D8CD98F00B204E9800998ECF8427E '') = ''d41d8cd98f00b204e9800998ecf8427e''"
    by code_simp
  moreover have "length ''d41d8cd98f00b204e9800998ecf8427e'' = 32 \<and> (\<forall>c \<in> set ''d41d8cd98f00b204e9800998ecf8427e''. is_hex c)"
    by code_simp
  ultimately show ?thesis
    using hash_accepted [of OT_HASH_MD5 32] by simp
qed

lemma strip_id: "s \<noteq> [] \<Longrightarrow> \<not> py_space (hd s) \<Longrightarrow> \<not> py_space (last s) \<Longrightarrow> py_strip s = s"
proof -
  have id: "dropWhile P t = t" if "t = [] \<or> \<not> P (hd t)" for P and t :: string
    using that by (cases t) auto
  assume "s \<noteq> []" "\<not> py_space (hd s)" "\<not> py_space (last s)"
  then show ?thesis
    by (simp add: py_strip_def id hd_rev)
qed

lemma no_space: "is_hex c \<or> is_digit c \<or> c = CHR '':'' \<or> c = CHR ''.'' \<Longrightarrow> \<not> py_space c"
  by (auto simp: is_hex_def is_digit_def code_def py_space_def)

lemma ip_text_edges:
  assumes ok: "ip_ok a" and z: "\<And>gs z. a = IPv6 gs (Some z) \<Longrightarrow> \<not> py_space (last z)"
  shows "py_strip (show_ip a) = show_ip a"
proof (cases a)
  case (IPv4 os)
  then have os: "length os = 4" "\<forall>n \<in> set os. n \<le> 255"
    using ok by (simp_all add: ip_ok_def)
  then have ne: "show_ipv4 os \<noteq> []"
    using parse_show_ipv4 [OF os] by (auto simp: parse_ipv4_def)
  from os have "\<forall>c \<in> set (show_ipv4 os). \<not> py_space c"
    using show_ipv4_chars no_space by blast
  with ne show ?thesis
    by (simp add: IPv4 strip_id)
next
  case (IPv6 gs scope)
  let ?t = "join_with CHR '':'' (compress_groups gs)"
  have gs: "length gs = 8" "\<forall>n \<in> set gs. n < 65536" and ne: "scope = Some y \<Longrightarrow> y \<noteq> []" for y
    using ok by (simp_all add: IPv6 ip_ok_def)
  have "?t \<noteq> []"
    using show_groups(2) [OF gs] by (rule_tac notI) simp
  moreover have "\<forall>c \<in> set ?t. \<not> py_space c"
    using show_groups(5) [OF gs] no_space by blast
  ultimately have t: "?t \<noteq> []" "\<forall>c \<in> set ?t. \<not> py_space c" .
  show ?thesis
  proof (cases scope)
    case None
    with t show ?thesis by (simp add: IPv6 strip_id)
  next
    case (Some y)
    with t ne z [of gs y] show ?thesis
      by (simp add: IPv6 strip_id)
  qed
qed

lemma scope_last:
  assumes "ip_address (py_strip v) = Some (IPv6 gs (Some z))"
  shows "\<not> py_space (last z)"
proof -
  have z: "py_strip v = a @ CHR ''%'' # z \<and> z \<noteq> []" if sc: "split_scope (py_strip v) = Some (a, Some z)" for a
  proof -
    let ?P = "\<lambda>c. c \<noteq> CHR ''%''"
    have p: "CHR ''%'' \<in> set (py_strip v)" "a = takeWhile ?P (py_strip v)" "z = tl (dropWhile ?P (py_strip v))" "z \<noteq> []"
      using sc unfolding split_scope_def Let_def by (simp_all split: if_splits)
    have ne: "dropWhile ?P (py_strip v) \<noteq> []"
      using p(1) unfolding dropWhile_eq_Nil_conv by blast
    from hd_dropWhile [OF this] have "hd (dropWhile ?P (py_strip v)) = CHR ''%''"
      by (rule notnotD)
    with ne have "dropWhile ?P (py_strip v) = CHR ''%'' # tl (dropWhile ?P (py_strip v))"
      by (cases "dropWhile ?P (py_strip v)") simp_all
    then show ?thesis
      using takeWhile_dropWhile_id [of ?P "py_strip v"] p(2-4) by simp
  qed
  obtain a where "split_scope (py_strip v) = Some (a, Some z)"
    using assms by (auto simp: ip_address_def split: if_splits option.splits)
  from z [OF this] have "last (py_strip v) = last z" "py_strip v \<noteq> []"
    by simp_all
  with py_strip_last [of v] show ?thesis by simp
qed

text \<open>
  C16: An IP observable is stored in a canonical form: the stored text denotes the address that was given, it
  is stored unchanged when it is given again, and two texts of one address are stored alike.
\<close>

theorem ip_canonical:
  assumes "validate_observable OT_IP v = Inr w"
  shows "ip_address w = ip_address (py_strip v) \<and> validate_observable OT_IP w = Inr w \<and>
    (\<forall>u. ip_address (py_strip u) = ip_address (py_strip v) \<longrightarrow> validate_observable OT_IP u = Inr w)"
proof -
  obtain a where a: "ip_address (py_strip v) = Some a" and w: "w = show_ip a"
    using assms by (auto simp: normalize_ip_def Let_def split: option.splits)
  note ok = ip_address_ok [OF a]
  have "py_strip w = w"
    unfolding w using ok scope_last a by (intro ip_text_edges) auto
  with ip_reads_back [OF ok] a w show ?thesis
    by (simp add: normalize_ip_def)
qed

theorem ip_canonical_witness:
  "validate_observable OT_IP '' 0:0:0:0:0:0:0:A'' = Inr ''::a'' \<and>
   validate_observable OT_IP ''::a'' = Inr ''::a''"
proof -
  have "validate_observable OT_IP '' 0:0:0:0:0:0:0:A'' = Inr ''::a''"
    by code_simp
  with ip_canonical [OF this] show ?thesis by blast
qed

text \<open>
  A trailing dot hides a newline from the stripping: the value is accepted and stored with the newline,
  and the stored value is not what validating it again gives.
\<close>

theorem domain_newline_stored:
  "validate_observable OT_DOMAIN (''a.com'' @ [CHR 0x0A, CHR ''.'']) = Inr (''a.com'' @ [CHR 0x0A]) \<and>
   validate_observable OT_DOMAIN (''a.com'' @ [CHR 0x0A]) = Inr ''a.com''"
  by code_simp

end
