(* ===== verification/Observables.thy ===== *)
theory Observables
  imports Cases Validators
begin

text \<open>
  The observable service (\<^verbatim>\<open>services/observables.py\<close>, \<^verbatim>\<open>schemas/observables.py\<close>): creation with
  format validation, one by one and in bulk, partial update, deletion, and the correlation of a value
  across the cases of a tenant.
\<close>

record observable_create =
  oc_type :: observable_type
  oc_value :: string
  oc_tlp :: "tlp option"
  oc_is_ioc :: bool
  oc_tags :: "string list"
  oc_description :: "string option"

record observable_update =
  ou_tlp :: "tlp upd"
  ou_is_ioc :: "bool upd"
  ou_tags :: "string list upd"
  ou_description :: "string upd"

abbreviation observable_or_404 :: "uuid \<Rightarrow> observable_row service" where
  "observable_or_404 \<equiv> get_or_404 observables_e (\<lambda>i. ''Observable '' @ uuid_str i @ '' not found'')"

definition normalize_or_400 :: "observable_type \<Rightarrow> string \<Rightarrow> string service" where
  "normalize_or_400 type value = (case validate_observable type value of
       Inr v \<Rightarrow> ret v
     | Inl exc \<Rightarrow> raise (HTTPException 400 (''Invalid '' @ observable_type_str type @ '' observable: '' @ exc)))"

definition observable_draft :: "uuid \<Rightarrow> uuid \<Rightarrow> uuid \<Rightarrow> observable_create \<Rightarrow> string \<Rightarrow> int \<Rightarrow> observable_row" where
  "observable_draft tenant_id case_id created_by payload normalized now =
     \<lparr>o_tenant_id = tenant_id, o_case_id = case_id, o_type = oc_type payload, o_value = normalized,
      o_tlp = oc_tlp payload, o_is_ioc = oc_is_ioc payload, o_tags = oc_tags payload,
      o_description = oc_description payload, o_created_by = created_by, o_created_at = now, o_updated_at = now\<rparr>"

definition create_observable :: "env \<Rightarrow> uuid \<Rightarrow> uuid \<Rightarrow> observable_create \<Rightarrow> uuid service" where
  "create_observable env case_id created_by payload =
     bind (case_or_404 case_id) (\<lambda>c.
     bind (normalize_or_400 (oc_type payload) (oc_value payload)) (\<lambda>normalized.
     bind now_utc (\<lambda>now.
     bind (insert_row observables_e (observable_draft (c_tenant_id c) case_id created_by payload normalized now)) (\<lambda>i.
     and_then (record_event env (c_tenant_id c) case_id ''observable_added''
        (''Observable added: '' @ observable_type_str (oc_type payload) @ ''='' @ normalized)
        (Some ''observable'') (Some created_by)
        [(''observable_id'', JId i), (''type'', JStr (observable_type_str (oc_type payload))), (''value'', JStr normalized)] None)
     (and_then (fire env (c_tenant_id c) OBSERVABLE_CREATED
        [(''case_id'', JId case_id), (''observable_id'', JId i),
         (''type'', JStr (observable_type_str (oc_type payload))), (''value'', JStr normalized)] (Some created_by))
     (ret i))))))"

definition create_observables_bulk :: "env \<Rightarrow> uuid \<Rightarrow> uuid \<Rightarrow> observable_create list \<Rightarrow> uuid list service" where
  "create_observables_bulk env case_id created_by payloads =
     collect payloads (create_observable env case_id created_by)"

definition list_observables :: "uuid \<Rightarrow> nat \<Rightarrow> nat \<Rightarrow> (observable_row table \<times> nat) service" where
  "list_observables case_id limit offset =
     bind (select_rows observables_e (\<lambda>_ ob. o_case_id ob = case_id)) (\<lambda>rows.
     ret (page_of limit offset (sort_desc (o_created_at \<circ> snd) rows), length rows))"

definition observable_set :: "observable_update \<Rightarrow> observable_row \<Rightarrow> observable_row" where
  "observable_set data ob = ob
     \<lparr>o_tlp := set_opt (ou_tlp data) (o_tlp ob), o_is_ioc := set_req (ou_is_ioc data) (o_is_ioc ob),
      o_tags := set_req (ou_tags data) (o_tags ob), o_description := set_opt (ou_description data) (o_description ob)\<rparr>"

definition update_observable :: "uuid \<Rightarrow> observable_update \<Rightarrow> observable_row service" where
  "update_observable observable_id data =
     bind (observable_or_404 observable_id) (\<lambda>ob.
     and_then (not_null [is_null (ou_is_ioc data), is_null (ou_tags data)])
     (bind now_utc (\<lambda>now.
     and_then (save_changed observables_e observable_id ob (observable_set data ob) (o_updated_at_update (\<lambda>_. now)))
     (observable_or_404 observable_id))))"

text \<open>
  The ORM relationship \<^verbatim>\<open>enrichment_results\<close> sets the observable of the results it loads to null
  before the delete, which that column does not take. Then the database cascades to the results the
  session does not see and to the ATT&CK mappings.
\<close>

definition cascade_observable :: "uuid \<Rightarrow> db \<Rightarrow> db" where
  "cascade_observable i d = d
     \<lparr>db_results := rows_where (\<lambda>_ r. er_observable_id r \<noteq> i) (db_results d),
      db_mappings := rows_where (\<lambda>_ m. m_observable_id m \<noteq> Some i) (db_mappings d)\<rparr>"

definition delete_observable :: "uuid \<Rightarrow> unit service" where
  "delete_observable observable_id =
     bind (observable_or_404 observable_id) (\<lambda>ob.
     bind (select_rows results_e (\<lambda>_ r. er_observable_id r = observable_id)) (\<lambda>results.
     and_then (not_null [results \<noteq> []])
     (and_then (modify (cascade_observable observable_id))
     (delete_row observables_e observable_id))))"

text \<open>\<^verbatim>\<open>count(distinct case_id)\<close> and \<^verbatim>\<open>SELECT DISTINCT case_id\<close>; the order of the latter is left open.\<close>

definition same_value :: "uuid \<Rightarrow> observable_type \<Rightarrow> string \<Rightarrow> observable_row \<Rightarrow> bool" where
  "same_value tenant_id type value ob \<longleftrightarrow> o_tenant_id ob = tenant_id \<and> o_type ob = type \<and> o_value ob = value"

definition cross_case_count :: "uuid \<Rightarrow> observable_type \<Rightarrow> string \<Rightarrow> uuid \<Rightarrow> nat service" where
  "cross_case_count tenant_id type value exclude_case_id =
     bind (select_rows observables_e (\<lambda>_ ob. same_value tenant_id type value ob \<and> o_case_id ob \<noteq> exclude_case_id)) (\<lambda>rows.
     ret (length (remdups (map (o_case_id \<circ> snd) rows))))"

definition find_correlating_cases :: "uuid \<Rightarrow> observable_type \<Rightarrow> string \<Rightarrow> uuid list service" where
  "find_correlating_cases tenant_id type value =
     bind (select_rows observables_e (\<lambda>_ ob. same_value tenant_id type value ob)) (\<lambda>rows.
     ret (remdups (map (o_case_id \<circ> snd) rows)))"

section \<open>Isolation and integrity\<close>

lemma keeps_normalize [keeps_intros]: "keeps I (normalize_or_400 t v)"
  by (auto simp: normalize_or_400_def split: sum.splits intro: keeps_intros)

lemma observable_set_keeps [simp]:
  "o_case_id (observable_set data ob) = o_case_id ob" "o_tenant_id (observable_set data ob) = o_tenant_id ob"
  by (simp_all add: observable_set_def)

lemma observable_draft_keeps [simp]: "o_case_id (observable_draft t c u p v n) = c" "o_tenant_id (observable_draft t c u p v n) = t"
  by (simp_all add: observable_draft_def)

lemma create_observable_isolated [keeps_intros]:
  "plugins_keep (isolated s d0) env \<Longrightarrow> keeps (isolated s d0) (create_observable env c u p)"
  unfolding create_observable_def by (intro keeps_intros)

lemma create_observable_at [keeps_intros]: "plugins_wf env \<Longrightarrow> keeps (wf_at A) (create_observable env c u p)"
  unfolding create_observable_def by (intro get_case_at keeps_intros; simp)

lemma update_observable_keeps [keeps_intros]:
  "keeps (isolated s d0) (update_observable i data)" "keeps (wf_at A) (update_observable i data)"
  unfolding update_observable_def by ((intro get_child_at keeps_intros; simp)+)

lemma wf_cascade_observable: "keeps (wf_at A) (modify (cascade_observable i))"
  by (rule keeps_modify)
    (auto simp: wf_at_def wf_db_def wf_ids_def wf_tenancy_def wf_unique_def cascade_observable_def)

lemma delete_observable_at [keeps_intros]: "keeps (wf_at A) (delete_observable i)"
  unfolding delete_observable_def by (intro wf_cascade_observable keeps_intros)

section \<open>Behaviour\<close>

lemma run_normalize [run_eqs]:
  "bind (normalize_or_400 t v) k d = (Inr r, d') \<longleftrightarrow> (\<exists>w. validate_observable t v = Inr w \<and> k w d = (Inr r, d'))"
  by (auto simp: normalize_or_400_def bind_apply split: sum.splits)

lemma create_observable_effect:
  assumes up: "broker_up env" and run: "create_observable env case_id u p d = (Inr i, d')"
  shows "i = db_next_id d \<and> (\<exists>c w. visible_row cases_e d case_id = Some c \<and> validate_observable (oc_type p) (oc_value p) = Inr w \<and>
    db_observables d' = row_add i (observable_draft (c_tenant_id c) case_id u p w (db_now d)) (db_observables d) \<and>
    core d' = core (d\<lparr>db_observables := db_observables d'\<rparr>) \<and>
    (\<exists>evs. db_timeline d' = db_timeline d @ evs \<and> logged (c_tenant_id c) case_id [''observable_added''] evs))"
proof -
  from run obtain c w d1 where c: "visible_row cases_e d case_id = Some c"
    and w: "validate_observable (oc_type p) (oc_value p) = Inr w"
    and ins: "insert_row observables_e (observable_draft (c_tenant_id c) case_id u p w (db_now d)) d = (Inr (db_next_id d), d1)"
    and log: "and_then (record_event env (c_tenant_id c) case_id ''observable_added''
        (''Observable added: '' @ observable_type_str (oc_type p) @ ''='' @ w) (Some ''observable'') (Some u)
        [(''observable_id'', JId (db_next_id d)), (''type'', JStr (observable_type_str (oc_type p))), (''value'', JStr w)] None)
      (and_then (fire env (c_tenant_id c) OBSERVABLE_CREATED
        [(''case_id'', JId case_id), (''observable_id'', JId (db_next_id d)),
         (''type'', JStr (observable_type_str (oc_type p))), (''value'', JStr w)] (Some u)) (ret (db_next_id d))) d1 = (Inr i, d')"
    unfolding create_observable_def run_eqs by blast
  obtain evs where core: "core d' = core d1" and tl: "db_timeline d' = db_timeline d1 @ evs"
    and lg: "logged (c_tenant_id c) case_id [''observable_added''] evs" and i: "i = db_next_id d"
    using log_fire_InrD [OF up log] by (metis Pair_inject ret_apply sum.inject(2))
  have d1: "d1 = d\<lparr>db_next_id := Suc (db_next_id d),
      db_observables := row_add i (observable_draft (c_tenant_id c) case_id u p w (db_now d)) (db_observables d)\<rparr>"
    using insert_row_InrD [OF ins] by (simp add: i)
  have "core d' = core (d\<lparr>db_observables := db_observables d'\<rparr>)"
    unfolding core core_eqD(5) [OF core] unfolding d1 by (simp add: core_def)
  moreover have "db_timeline d1 = db_timeline d"
    by (simp add: d1)
  ultimately show ?thesis
    using c w tl lg i core_eqD(5) [OF core] by (auto simp: d1)
qed

text \<open>
  C17: adding an observable to a case stores its normalised value with the case's tenant and records it on
  the case's timeline; nothing else changes.
\<close>

theorem create_observable_correct:
  assumes "broker_up env" and "create_observable env case_id u p d = (Inr i, d')" and "wf_db d"
  shows "\<exists>c w. visible_row cases_e d case_id = Some c \<and> validate_observable (oc_type p) (oc_value p) = Inr w \<and>
    row_get (db_observables d') i = Some (observable_draft (c_tenant_id c) case_id u p w (db_now d)) \<and>
    (\<forall>j. j \<noteq> i \<longrightarrow> row_get (db_observables d') j = row_get (db_observables d) j) \<and>
    core d' = core (d\<lparr>db_observables := db_observables d'\<rparr>) \<and>
    (\<exists>evs. db_timeline d' = db_timeline d @ evs \<and> logged (c_tenant_id c) case_id [''observable_added''] evs)"
proof -
  have fresh: "row_get (db_observables d) i = None"
    using create_observable_effect [OF assms(1,2)] wf_db_ids [OF assms(3)] by (simp add: wf_ids_def)
  from create_observable_effect [OF assms(1,2)] show ?thesis
    using fresh by (elim exE conjE) (auto simp: tbl.get_add)
qed

definition demo_observable_create :: "string \<Rightarrow> observable_create" where
  "demo_observable_create v = \<lparr>oc_type = OT_FILENAME, oc_value = v, oc_tlp = Some TLP_RED, oc_is_ioc = True,
     oc_tags = [], oc_description = None\<rparr>"

lemma demo_filename: "validate_observable OT_FILENAME '' b.exe '' = Inr ''b.exe''"
  by code_simp

lemmas observable_run = create_observable_def normalize_or_400_def observable_draft_def demo_observable_create_def

theorem create_observable_correct_witness:
  "\<exists>i d' ob. create_observable demo_env 5 3 (demo_observable_create '' b.exe '') demo_db = (Inr i, d') \<and>
     row_get (db_observables d') i = Some ob \<and> o_value ob = ''b.exe'' \<and> o_tenant_id ob = 1"
proof -
  obtain i d' where run: "create_observable demo_env 5 3 (demo_observable_create '' b.exe '') demo_db = (Inr i, d')"
    by (simp add: observable_run demo_filename fire_run run_simps del: validate_observable.simps)
  have "visible_row cases_e demo_db 5 = Some (demo_case 1 1)"
    by (simp add: run_simps)
  with create_observable_correct [OF demo_up run demo_wf] run show ?thesis
    by (auto simp: observable_draft_def demo_observable_create_def demo_filename demo_case_def
      simp del: validate_observable.simps)
qed

definition created_from :: "uuid \<Rightarrow> uuid \<Rightarrow> uuid \<Rightarrow> int \<Rightarrow> observable_create \<Rightarrow> uuid \<times> observable_row \<Rightarrow> bool" where
  "created_from t case_id u now p x \<longleftrightarrow>
     (\<exists>w. validate_observable (oc_type p) (oc_value p) = Inr w \<and> snd x = observable_draft t case_id u p w now)"

lemma bulk_effect:
  assumes "broker_up env" and "visible_row cases_e d case_id = Some c"
    and "collect ps (create_observable env case_id u) d = (Inr ids, d')"
  shows "\<exists>new. db_observables d' = db_observables d @ new \<and> map fst new = ids \<and>
    list_all2 (created_from (c_tenant_id c) case_id u (db_now d)) ps new"
  using assms(2,3)
proof (induction ps arbitrary: d ids)
  case Nil
  then show ?case by simp
next
  case (Cons p ps)
  from Cons.prems(2) obtain i d1 js where one: "create_observable env case_id u p d = (Inr i, d1)"
    and rest: "collect ps (create_observable env case_id u) d1 = (Inr js, d')" and ids: "ids = i # js"
    by (auto elim!: bind_InrD)
  from create_observable_effect [OF assms(1) one] Cons.prems(1) obtain w
    where w: "validate_observable (oc_type p) (oc_value p) = Inr w"
      and d1: "db_observables d1 = row_add i (observable_draft (c_tenant_id c) case_id u p w (db_now d)) (db_observables d)"
      and core: "core d1 = core (d\<lparr>db_observables := db_observables d1\<rparr>)"
    by auto
  have "visible_row cases_e d1 case_id = Some c" "db_now d1 = db_now d"
    using visible_frame [of cases_e d1 d case_id] core_eqD(3,12,14) [OF core] Cons.prems(1) by simp_all
  with Cons.IH [OF _ rest] obtain new where "db_observables d' = db_observables d1 @ new" "map fst new = js"
    "list_all2 (created_from (c_tenant_id c) case_id u (db_now d)) ps new"
    by auto
  moreover have "created_from (c_tenant_id c) case_id u (db_now d) p (i, observable_draft (c_tenant_id c) case_id u p w (db_now d))"
    using w by (simp add: created_from_def)
  ultimately show ?case
    using d1 ids by (intro exI [of _ "(i, observable_draft (c_tenant_id c) case_id u p w (db_now d)) # new"])
      (auto simp: row_add_def)
qed

text \<open>
  C18: a bulk request is all or nothing. When it succeeds, every item was stored in order with its normalised
  value; when an item is refused (or anything else fails), the transaction leaves every table as it was.
\<close>

theorem bulk_all_or_nothing:
  assumes "broker_up env" and "visible_row cases_e d case_id = Some c"
    and "get_db (create_observables_bulk env case_id u ps) d = (r, d')"
  shows "(\<forall>ids. r = Inr ids \<longrightarrow> (\<exists>new. db_observables d' = db_observables d @ new \<and> map fst new = ids \<and>
      list_all2 (created_from (c_tenant_id c) case_id u (db_now d)) ps new)) \<and>
    (\<forall>e. r = Inl e \<longrightarrow> (\<exists>ms n s obs re. d' = d\<lparr>db_published := ms, db_next_id := n, db_session := s, db_objects := obs, db_redis := re\<rparr>)) \<and>
    ((\<exists>p \<in> set ps. \<exists>e. validate_observable (oc_type p) (oc_value p) = Inl e) \<longrightarrow> (\<exists>e. r = Inl e))"
proof -
  obtain d1 where body: "create_observables_bulk env case_id u ps d = (r, d1)"
    and d': "d' = end_transaction (case r of Inl e \<Rightarrow> rollback d d1 | Inr x \<Rightarrow> d1)"
    using assms(3) by (auto simp: get_db_def split: prod.splits sum.splits)
  show ?thesis
  proof (cases r)
    case (Inl e)
    then have "d' = d\<lparr>db_published := db_published d1, db_next_id := max (db_next_id d) (db_next_id d1),
        db_session := db_session d', db_objects := db_objects d1, db_redis := db_redis d1\<rparr>"
      by (simp add: d' end_transaction_def rollback_def)
    with Inl show ?thesis by blast
  next
    case (Inr ids)
    with bulk_effect [OF assms(1,2), of ps u ids d1] body obtain new where
      new: "db_observables d1 = db_observables d @ new" "map fst new = ids"
        "list_all2 (created_from (c_tenant_id c) case_id u (db_now d)) ps new"
      by (auto simp: create_observables_bulk_def)
    have "\<exists>w. validate_observable (oc_type p) (oc_value p) = Inr w" if "p \<in> set ps" for p
      using new(3) that by (auto simp: list_all2_conv_all_nth in_set_conv_nth created_from_def)
    with Inr new d' show ?thesis
      by (fastforce simp: end_transaction_def)
  qed
qed

theorem bulk_all_or_nothing_witness:
  "\<exists>e d'. get_db (create_observables_bulk demo_env 5 3 [demo_observable_create '' b.exe '', demo_observable_create '''']) 
     demo_db = (Inl e, d') \<and> db_observables d' = db_observables demo_db"
proof -
  obtain r d' where run: "get_db (create_observables_bulk demo_env 5 3
      [demo_observable_create '' b.exe '', demo_observable_create '''']) demo_db = (r, d')"
    by fastforce
  have c: "visible_row cases_e demo_db 5 = Some (demo_case 1 1)"
    by (simp add: run_simps)
  have bad: "\<exists>p \<in> set [demo_observable_create '' b.exe '', demo_observable_create '''']. \<exists>e.
      validate_observable (oc_type p) (oc_value p) = Inl e"
    by (intro bexI [of _ "demo_observable_create ''''"] exI) (simp_all add: demo_observable_create_def normalize_filename_def py_strip_def)
  from bulk_all_or_nothing [OF demo_up c run] bad run show ?thesis
    by auto
qed

text \<open>
  C19: the number shown beside an observable is the number of other cases of the tenant, among those the
  session sees, that hold the same value, and it agrees with the list of correlating cases.
\<close>

theorem correlation_counts:
  "\<exists>cs. find_correlating_cases t ty v d = (Inr cs, d) \<and> distinct cs \<and>
     set cs = {o_case_id ob | ob i. (i, ob) \<in> set (db_observables d) \<and> ent_vis observables_e (db_session d) ob \<and> same_value t ty v ob} \<and>
     cross_case_count t ty v c d = (Inr (card (set cs - {c})), d)"
proof -
  let ?rows = "\<lambda>P. rows_where (\<lambda>i ob. ent_vis observables_e (db_session d) ob \<and> P ob) (db_observables d)"
  have "find_correlating_cases t ty v d = (Inr (remdups (map (o_case_id \<circ> snd) (?rows (same_value t ty v)))), d)"
    by (simp add: find_correlating_cases_def svc_simps)
  moreover have "(o_case_id \<circ> snd) ` set (?rows (\<lambda>ob. same_value t ty v ob \<and> o_case_id ob \<noteq> c)) =
      (o_case_id \<circ> snd) ` set (?rows (same_value t ty v)) - {c}"
    by (auto simp: image_iff)
  then have "cross_case_count t ty v c d = (Inr (card ((o_case_id \<circ> snd) ` set (?rows (same_value t ty v)) - {c})), d)"
    by (simp add: cross_case_count_def svc_simps length_remdups_card_conv)
  moreover have "(o_case_id \<circ> snd) ` set (?rows (same_value t ty v)) =
      {o_case_id ob | ob i. (i, ob) \<in> set (db_observables d) \<and> ent_vis observables_e (db_session d) ob \<and> same_value t ty v ob}"
    by (force simp: image_iff)
  ultimately show ?thesis
    by (intro exI [of _ "remdups (map (o_case_id \<circ> snd) (?rows (same_value t ty v)))"]) simp
qed

end
