(* ===== verification/Ocsf.thy ===== *)
theory Ocsf
  imports Data_Model
begin

text \<open>
  The alert schemas (\<^verbatim>\<open>schemas/alerts.py\<close>): the OCSF enumerations, the Detection Finding a producer
  sends, its constraints (\<open>finding_valid\<close>), the fields Watari computes, and the document it is dumped to
  (\<^verbatim>\<open>model_dump(mode="json")\<close>): the declared fields in their order, then the extra ones. A time
  \<^verbatim>\<open>time_dt\<close> is kept as the text Pydantic writes for it.
\<close>

section \<open>Enumerations\<close>

datatype ocsf_activity = ACT_UNKNOWN | ACT_CREATE | ACT_UPDATE | ACT_CLOSE | ACT_OTHER

datatype ocsf_severity = OSEV_UNKNOWN | OSEV_INFORMATIONAL | OSEV_LOW | OSEV_MEDIUM | OSEV_HIGH | OSEV_CRITICAL
  | OSEV_FATAL | OSEV_OTHER

datatype ocsf_status = OST_UNKNOWN | OST_NEW | OST_IN_PROGRESS | OST_SUPPRESSED | OST_RESOLVED | OST_ARCHIVED
  | OST_DELETED | OST_OTHER

datatype ocsf_confidence = OCF_UNKNOWN | OCF_LOW | OCF_MEDIUM | OCF_HIGH | OCF_OTHER

fun activity_value :: "ocsf_activity \<Rightarrow> int" where
  "activity_value ACT_UNKNOWN = 0" | "activity_value ACT_CREATE = 1" | "activity_value ACT_UPDATE = 2"
| "activity_value ACT_CLOSE = 3" | "activity_value ACT_OTHER = 99"

fun activity_title :: "ocsf_activity \<Rightarrow> string" where
  "activity_title ACT_UNKNOWN = ''Unknown''" | "activity_title ACT_CREATE = ''Create''"
| "activity_title ACT_UPDATE = ''Update''" | "activity_title ACT_CLOSE = ''Close''" | "activity_title ACT_OTHER = ''Other''"

fun severity_value :: "ocsf_severity \<Rightarrow> int" where
  "severity_value OSEV_UNKNOWN = 0" | "severity_value OSEV_INFORMATIONAL = 1" | "severity_value OSEV_LOW = 2"
| "severity_value OSEV_MEDIUM = 3" | "severity_value OSEV_HIGH = 4" | "severity_value OSEV_CRITICAL = 5"
| "severity_value OSEV_FATAL = 6" | "severity_value OSEV_OTHER = 99"

fun status_value :: "ocsf_status \<Rightarrow> int" where
  "status_value OST_UNKNOWN = 0" | "status_value OST_NEW = 1" | "status_value OST_IN_PROGRESS = 2"
| "status_value OST_SUPPRESSED = 3" | "status_value OST_RESOLVED = 4" | "status_value OST_ARCHIVED = 5"
| "status_value OST_DELETED = 6" | "status_value OST_OTHER = 99"

fun confidence_value :: "ocsf_confidence \<Rightarrow> int" where
  "confidence_value OCF_UNKNOWN = 0" | "confidence_value OCF_LOW = 1" | "confidence_value OCF_MEDIUM = 2"
| "confidence_value OCF_HIGH = 3" | "confidence_value OCF_OTHER = 99"

fun ocsf_status_caption :: "ocsf_status \<Rightarrow> string" where
  "ocsf_status_caption OST_UNKNOWN = ''Unknown''" | "ocsf_status_caption OST_NEW = ''New''"
| "ocsf_status_caption OST_IN_PROGRESS = ''In Progress''" | "ocsf_status_caption OST_SUPPRESSED = ''Suppressed''"
| "ocsf_status_caption OST_RESOLVED = ''Resolved''" | "ocsf_status_caption OST_ARCHIVED = ''Archived''"
| "ocsf_status_caption OST_DELETED = ''Deleted''" | "ocsf_status_caption OST_OTHER = ''Other''"

definition ocsf_severity_caption :: "int \<Rightarrow> string" where
  "ocsf_severity_caption n =
     (if n = 0 then ''Unknown'' else if n = 1 then ''Informational'' else if n = 2 then ''Low''
      else if n = 3 then ''Medium'' else if n = 4 then ''High'' else if n = 5 then ''Critical''
      else if n = 6 then ''Fatal'' else ''Other'')"

fun watari_status_to_ocsf :: "alert_status \<Rightarrow> ocsf_status" where
  "watari_status_to_ocsf AS_PENDING = OST_NEW"
| "watari_status_to_ocsf AS_PROMOTED = OST_IN_PROGRESS"
| "watari_status_to_ocsf AS_DISMISSED = OST_SUPPRESSED"

section \<open>The Detection Finding\<close>

record ocsf_product =
  pr_name :: string
  pr_vendor_name :: "string option"
  pr_version :: "string option"
  pr_uid :: "string option"

record ocsf_metadata =
  om_version :: string
  om_product :: ocsf_product
  om_log_level :: "string option"
  om_event_code :: "string option"
  om_original_time :: "string option"
  om_processed_time :: "string option"
  om_extra :: jobj

record ocsf_finding_info =
  fi_uid :: string
  fi_uid_alt :: "string option"
  fi_title :: "string option"
  fi_desc :: "string option"
  fi_types :: "string list option"
  fi_analytic :: "jobj option"
  fi_product_uid :: "string option"
  fi_src_url :: "string option"
  fi_extra :: jobj

record ocsf_observable =
  oo_name :: string
  oo_type :: "string option"
  oo_type_id :: int
  oo_value :: string
  oo_reputation :: "jobj option"
  oo_extra :: jobj

record ocsf_attack =
  ok_tactic :: "jobj option"
  ok_technique :: "jobj option"
  ok_sub_technique :: "jobj option"
  ok_version :: "string option"
  ok_extra :: jobj

record detection_finding =
  df_activity_id :: ocsf_activity
  df_activity_name :: "string option"
  df_category_name :: "string option"
  df_class_name :: "string option"
  df_type_uid :: "int option"
  df_type_name :: "string option"
  df_severity_id :: ocsf_severity
  df_severity :: "string option"
  df_metadata :: ocsf_metadata
  df_finding_info :: ocsf_finding_info
  df_time :: int
  df_time_dt :: "string option"
  df_is_alert :: bool
  df_message :: "string option"
  df_status_id :: "ocsf_status option"
  df_status :: "string option"
  df_confidence_id :: "ocsf_confidence option"
  df_confidence :: "string option"
  df_confidence_score :: "int option"
  df_observables :: "ocsf_observable list"
  df_attacks :: "ocsf_attack list"
  df_raw_data :: "string option"
  df_dedup_key :: "string option"
  df_extra :: jobj

definition len_in :: "nat \<Rightarrow> nat \<Rightarrow> string \<Rightarrow> bool" where
  "len_in m n s \<longleftrightarrow> m \<le> length s \<and> length s \<le> n"

definition len_opt :: "nat \<Rightarrow> string option \<Rightarrow> bool" where
  "len_opt n x = (case x of None \<Rightarrow> True | Some s \<Rightarrow> length s \<le> n)"

definition product_valid :: "ocsf_product \<Rightarrow> bool" where
  "product_valid p \<longleftrightarrow> len_in 1 255 (pr_name p) \<and> len_opt 255 (pr_vendor_name p) \<and> len_opt 100 (pr_version p) \<and>
     len_opt 255 (pr_uid p)"

definition finding_info_valid :: "ocsf_finding_info \<Rightarrow> bool" where
  "finding_info_valid f \<longleftrightarrow> len_in 1 500 (fi_uid f) \<and> len_opt 500 (fi_uid_alt f) \<and> len_opt 500 (fi_title f)"

definition ocsf_observable_valid :: "ocsf_observable \<Rightarrow> bool" where
  "ocsf_observable_valid ob \<longleftrightarrow> length (oo_name ob) \<le> 255 \<and> len_in 1 10000 (oo_value ob)"

text \<open>The names of the declared fields: an extra field has another name.\<close>

definition finding_fields :: "string list" where
  "finding_fields = [''activity_id'', ''activity_name'', ''category_uid'', ''category_name'', ''class_uid'', ''class_name'',
     ''type_uid'', ''type_name'', ''severity_id'', ''severity'', ''metadata'', ''finding_info'', ''time'', ''time_dt'',
     ''is_alert'', ''message'', ''status_id'', ''status'', ''confidence_id'', ''confidence'', ''confidence_score'',
     ''observables'', ''attacks'', ''raw_data'', ''dedup_key'']"

definition finding_valid :: "detection_finding \<Rightarrow> bool" where
  "finding_valid p \<longleftrightarrow> product_valid (om_product (df_metadata p)) \<and> finding_info_valid (df_finding_info p) \<and>
     0 < df_time p \<and> len_opt 5000 (df_message p) \<and>
     (case df_confidence_score p of None \<Rightarrow> True | Some n \<Rightarrow> 0 \<le> n \<and> n \<le> 100) \<and>
     (\<forall>ob \<in> set (df_observables p). ocsf_observable_valid ob) \<and> len_opt 500 (df_dedup_key p) \<and>
     (\<forall>(k, v) \<in> set (df_extra p). k \<notin> set finding_fields)"

text \<open>\<^verbatim>\<open>_populate_computed_fields\<close>: what validation leaves.\<close>

definition populate :: "detection_finding \<Rightarrow> detection_finding" where
  "populate p = p
     \<lparr>df_type_uid := (case df_type_uid p of None \<Rightarrow> Some (2004 * 100 + activity_value (df_activity_id p)) | Some n \<Rightarrow> Some n),
      df_severity := (case df_severity p of None \<Rightarrow> Some (ocsf_severity_caption (severity_value (df_severity_id p)))
        | Some s \<Rightarrow> if s = [] then Some (ocsf_severity_caption (severity_value (df_severity_id p))) else Some s),
      df_activity_name := (case df_activity_name p of None \<Rightarrow> Some (activity_title (df_activity_id p)) | Some s \<Rightarrow> Some s)\<rparr>"

section \<open>Dumping\<close>

definition jopt :: "('a \<Rightarrow> json) \<Rightarrow> 'a option \<Rightarrow> json" where
  "jopt f x = (case x of None \<Rightarrow> JNull | Some y \<Rightarrow> f y)"

definition dump_product :: "ocsf_product \<Rightarrow> json" where
  "dump_product p = JObj [(''name'', JStr (pr_name p)), (''vendor_name'', jopt JStr (pr_vendor_name p)),
     (''version'', jopt JStr (pr_version p)), (''uid'', jopt JStr (pr_uid p))]"

definition dump_metadata :: "ocsf_metadata \<Rightarrow> json" where
  "dump_metadata m = JObj ([(''version'', JStr (om_version m)), (''product'', dump_product (om_product m)),
     (''log_level'', jopt JStr (om_log_level m)), (''event_code'', jopt JStr (om_event_code m)),
     (''original_time'', jopt JStr (om_original_time m)), (''processed_time'', jopt JStr (om_processed_time m))] @ om_extra m)"

definition dump_finding_info :: "ocsf_finding_info \<Rightarrow> json" where
  "dump_finding_info f = JObj ([(''uid'', JStr (fi_uid f)), (''uid_alt'', jopt JStr (fi_uid_alt f)),
     (''title'', jopt JStr (fi_title f)), (''desc'', jopt JStr (fi_desc f)),
     (''types'', jopt (JList \<circ> map JStr) (fi_types f)), (''analytic'', jopt JObj (fi_analytic f)),
     (''product_uid'', jopt JStr (fi_product_uid f)), (''src_url'', jopt JStr (fi_src_url f))] @ fi_extra f)"

definition dump_observable :: "ocsf_observable \<Rightarrow> json" where
  "dump_observable ob = JObj ([(''name'', JStr (oo_name ob)), (''type'', jopt JStr (oo_type ob)),
     (''type_id'', JInt (oo_type_id ob)), (''value'', JStr (oo_value ob)), (''reputation'', jopt JObj (oo_reputation ob))] @
     oo_extra ob)"

definition dump_attack :: "ocsf_attack \<Rightarrow> json" where
  "dump_attack a = JObj ([(''tactic'', jopt JObj (ok_tactic a)), (''technique'', jopt JObj (ok_technique a)),
     (''sub_technique'', jopt JObj (ok_sub_technique a)), (''version'', jopt JStr (ok_version a))] @ ok_extra a)"

definition dump_finding :: "detection_finding \<Rightarrow> jobj" where
  "dump_finding p =
     [(''activity_id'', JInt (activity_value (df_activity_id p))), (''activity_name'', jopt JStr (df_activity_name p)),
      (''category_uid'', JInt 2), (''category_name'', jopt JStr (df_category_name p)),
      (''class_uid'', JInt 2004), (''class_name'', jopt JStr (df_class_name p)),
      (''type_uid'', jopt JInt (df_type_uid p)), (''type_name'', jopt JStr (df_type_name p)),
      (''severity_id'', JInt (severity_value (df_severity_id p))), (''severity'', jopt JStr (df_severity p)),
      (''metadata'', dump_metadata (df_metadata p)), (''finding_info'', dump_finding_info (df_finding_info p)),
      (''time'', JInt (df_time p)), (''time_dt'', jopt JStr (df_time_dt p)), (''is_alert'', JBool (df_is_alert p)),
      (''message'', jopt JStr (df_message p)), (''status_id'', jopt (JInt \<circ> status_value) (df_status_id p)),
      (''status'', jopt JStr (df_status p)), (''confidence_id'', jopt (JInt \<circ> confidence_value) (df_confidence_id p)),
      (''confidence'', jopt JStr (df_confidence p)), (''confidence_score'', jopt JInt (df_confidence_score p)),
      (''observables'', JList (map dump_observable (df_observables p))), (''attacks'', JList (map dump_attack (df_attacks p))),
      (''raw_data'', jopt JStr (df_raw_data p)), (''dedup_key'', jopt JStr (df_dedup_key p))] @ df_extra p"

end
