(* ===== verification/Alerts.thy ===== *)
theory Alerts
  imports Observables Ocsf
begin

text \<open>
  The alert service (\<^verbatim>\<open>services/alerts.py\<close>): ingestion of OCSF Detection Findings with
  deduplication, dismissal, promotion to a case, and the document returned for an alert.
\<close>

section \<open>Ingestion\<close>

definition derive_dedup_key :: "detection_finding \<Rightarrow> string" where
  "derive_dedup_key payload =
     str_or (df_dedup_key payload) (str_or (fi_uid_alt (df_finding_info payload)) (fi_uid (df_finding_info payload)))"

definition is_duplicate_payload :: "detection_finding \<Rightarrow> alert_row \<Rightarrow> bool" where
  "is_duplicate_payload payload other \<longleftrightarrow> al_status other = AS_PENDING \<and> derive_dedup_key payload \<noteq> [] \<and>
     al_dedup_key other = Some (derive_dedup_key payload)"

abbreviation alert_or_404 :: "uuid \<Rightarrow> alert_row service" where
  "alert_or_404 \<equiv> get_or_404 alerts_e (\<lambda>i. ''Alert '' @ uuid_str i @ '' not found'')"

definition alert_draft :: "uuid \<Rightarrow> detection_finding \<Rightarrow> int \<Rightarrow> alert_row" where
  "alert_draft tenant_id payload now =
     \<lparr>al_tenant_id = tenant_id, al_severity_id = severity_value (df_severity_id payload),
      al_source_product = pr_name (om_product (df_metadata payload)), al_finding_uid = fi_uid (df_finding_info payload),
      al_title = str_or (fi_title (df_finding_info payload)) (str_or (df_message payload) (fi_uid (df_finding_info payload))),
      al_message = df_message payload, al_ocsf_payload = dump_finding payload, al_status = AS_PENDING,
      al_dismiss_reason = None, al_promoted_to_case_id = None, al_dedup_key = Some (derive_dedup_key payload),
      al_created_at = now, al_updated_at = now\<rparr>"

definition find_pending :: "uuid \<Rightarrow> string \<Rightarrow> (uuid \<times> alert_row) option service" where
  "find_pending tenant_id key = (if key = [] then ret None
     else bind (select_rows alerts_e (\<lambda>_ a. al_tenant_id a = tenant_id \<and> al_dedup_key a = Some key \<and> al_status a = AS_PENDING))
       scalar_one_or_none)"

definition ingest_alert :: "env \<Rightarrow> uuid \<Rightarrow> detection_finding \<Rightarrow> (uuid \<times> bool) service" where
  "ingest_alert env tenant_id payload =
     bind (find_pending tenant_id (derive_dedup_key payload)) (\<lambda>existing.
     case existing of Some (i, a) \<Rightarrow> ret (i, True)
     | None \<Rightarrow> bind now_utc (\<lambda>now.
       bind (insert_row alerts_e (alert_draft tenant_id payload now)) (\<lambda>i.
       and_then (fire env tenant_id ALERT_INGESTED
          [(''alert_id'', JId i), (''product'', JStr (pr_name (om_product (df_metadata payload)))),
           (''severity_id'', JInt (severity_value (df_severity_id payload))),
           (''finding_uid'', JStr (fi_uid (df_finding_info payload)))] None)
       (ret (i, False)))))"

section \<open>Listing\<close>

record alert_list_filters =
  alf_workflow_status :: "alert_status option"
  alf_severity_id :: "int option"
  alf_product_name :: "string option"
  alf_created_after :: "int option"
  alf_created_before :: "int option"

definition alert_matches :: "uuid \<Rightarrow> alert_list_filters \<Rightarrow> alert_row \<Rightarrow> bool" where
  "alert_matches tenant_id f a \<longleftrightarrow> al_tenant_id a = tenant_id \<and>
     (case alf_workflow_status f of None \<Rightarrow> True | Some s \<Rightarrow> al_status a = s) \<and>
     (case alf_severity_id f of None \<Rightarrow> True | Some n \<Rightarrow> al_severity_id a = n) \<and>
     (case alf_product_name f of None \<Rightarrow> True | Some s \<Rightarrow> s = [] \<or> al_source_product a = s) \<and>
     (case alf_created_after f of None \<Rightarrow> True | Some t \<Rightarrow> t \<le> al_created_at a) \<and>
     (case alf_created_before f of None \<Rightarrow> True | Some t \<Rightarrow> al_created_at a \<le> t)"

definition list_alerts :: "uuid \<Rightarrow> alert_list_filters \<Rightarrow> nat \<Rightarrow> nat \<Rightarrow> (alert_row table \<times> nat) service" where
  "list_alerts tenant_id filters limit offset =
     bind (select_rows alerts_e (\<lambda>_ a. alert_matches tenant_id filters a)) (\<lambda>rows.
     ret (page_of limit offset (sort_desc (al_created_at \<circ> snd) rows), length rows))"

section \<open>Dismissal and promotion\<close>

definition apply_status_to_payload :: "ocsf_status \<Rightarrow> string option \<Rightarrow> alert_row \<Rightarrow> alert_row" where
  "apply_status_to_payload st detail a = a\<lparr>al_ocsf_payload :=
     (let p = AList.update ''status'' (JStr (ocsf_status_caption st))
                (AList.update ''status_id'' (JInt (status_value st)) (al_ocsf_payload a)) in
      case detail of None \<Rightarrow> p | Some d \<Rightarrow> AList.update ''status_detail'' (JStr d) p)\<rparr>"

definition dismissed :: "string \<Rightarrow> alert_row \<Rightarrow> alert_row" where
  "dismissed reason a = apply_status_to_payload OST_SUPPRESSED (Some reason)
     (a\<lparr>al_status := AS_DISMISSED, al_dismiss_reason := Some reason\<rparr>)"

definition dismiss_alert :: "uuid \<Rightarrow> string \<Rightarrow> alert_row service" where
  "dismiss_alert alert_id reason =
     bind (alert_or_404 alert_id) (\<lambda>a.
     bind now_utc (\<lambda>now.
     and_then (save_changed alerts_e alert_id a (dismissed reason a) (al_updated_at_update (\<lambda>_. now)))
     (alert_or_404 alert_id)))"

definition severity_id_to_case_severity :: "int \<Rightarrow> case_severity" where
  "severity_id_to_case_severity n =
     (if n = 1 then SEV_INFORMATIONAL else if n = 2 then SEV_LOW else if n = 3 then SEV_MEDIUM
      else if n = 4 then SEV_HIGH else if n = 5 then SEV_CRITICAL else if n = 6 then SEV_CRITICAL else SEV_MEDIUM)"

text \<open>\<^verbatim>\<open>_OCSF_TO_WATARI_OBSERVABLE\<close>, and the type a hash value has by its length.\<close>

definition ocsf_to_watari_observable :: "int \<Rightarrow> observable_type option" where
  "ocsf_to_watari_observable n =
     (if n = 1 then Some OT_HOSTNAME else if n = 2 then Some OT_IP else if n = 5 then Some OT_EMAIL
      else if n = 6 then Some OT_URL else if n = 23 then Some OT_URL else if n = 22 then Some OT_EMAIL
      else if n = 7 then Some OT_FILENAME else if n = 28 then Some OT_REGISTRY_KEY else None)"

definition watari_type :: "json option \<Rightarrow> string \<Rightarrow> observable_type option" where
  "watari_type type_id value = (case type_id of
       Some (JInt n) \<Rightarrow> if n = 8
         then (if length value = 32 then Some OT_HASH_MD5 else if length value = 40 then Some OT_HASH_SHA1
               else if length value = 64 then Some OT_HASH_SHA256 else None)
         else ocsf_to_watari_observable n
     | Some (JBool b) \<Rightarrow> ocsf_to_watari_observable (if b then 1 else 0)
     | _ \<Rightarrow> None)"

definition tlp_of :: "string \<Rightarrow> tlp option" where
  "tlp_of s = (if s = ''red'' then Some TLP_RED else if s = ''amber'' then Some TLP_AMBER
     else if s = ''green'' then Some TLP_GREEN else if s = ''clear'' then Some TLP_CLEAR else None)"

definition json_str :: "json \<Rightarrow> string option" where
  "json_str j = (case j of JStr s \<Rightarrow> Some s | JId u \<Rightarrow> Some (uuid_str u) | _ \<Rightarrow> None)"

text \<open>The truth value of a JSON value in Python.\<close>

definition truthy :: "json \<Rightarrow> bool" where
  "truthy j = (case j of JNull \<Rightarrow> False | JBool b \<Rightarrow> b | JInt n \<Rightarrow> n \<noteq> 0 | JStr s \<Rightarrow> s \<noteq> [] | JId u \<Rightarrow> True
     | JList xs \<Rightarrow> xs \<noteq> [] | JObj kvs \<Rightarrow> kvs \<noteq> [])"

definition ocsf_to_observable_create :: "json \<Rightarrow> observable_create option" where
  "ocsf_to_observable_create raw = (case raw of JObj kvs \<Rightarrow>
       (case Option.bind (map_of kvs ''value'') json_str of None \<Rightarrow> None
        | Some value \<Rightarrow> if value = [] then None
          else map_option (\<lambda>ty.
            \<lparr>oc_type = ty, oc_value = value,
             oc_tlp = Option.bind (Option.bind (map_of kvs ''tlp'') json_str) (tlp_of \<circ> py_lower),
             oc_is_ioc = (case map_of kvs ''is_ioc'' of None \<Rightarrow> False | Some j \<Rightarrow> truthy j),
             oc_tags = [], oc_description = None\<rparr>) (watari_type (map_of kvs ''type_id'') value))
     | _ \<Rightarrow> None)"

text \<open>
  \<^verbatim>\<open>alert.ocsf_payload.get("observables", []) or []\<close>, iterated: the items of a string or the keys of an
  object are no dictionaries and are skipped.
\<close>

definition payload_observables :: "jobj \<Rightarrow> json list service" where
  "payload_observables p = (case map_of p ''observables'' of
       None \<Rightarrow> ret []
     | Some (JList xs) \<Rightarrow> ret xs
     | Some (JInt n) \<Rightarrow> if n = 0 then ret [] else raise (OtherError ''TypeError'')
     | Some (JBool b) \<Rightarrow> if b then raise (OtherError ''TypeError'') else ret []
     | Some _ \<Rightarrow> ret [])"

text \<open>\<^verbatim>\<open>try: ... except HTTPException: continue\<close>\<close>

definition skip_http :: "'a service \<Rightarrow> unit service" where
  "skip_http m = catch (bind m (\<lambda>_. ret ())) (\<lambda>e. case e of HTTPException _ _ \<Rightarrow> ret () | _ \<Rightarrow> raise e)"

definition copy_observables :: "env \<Rightarrow> uuid \<Rightarrow> uuid \<Rightarrow> json list \<Rightarrow> unit service" where
  "copy_observables env case_id actor_id raws =
     for_each raws (\<lambda>raw. case ocsf_to_observable_create raw of None \<Rightarrow> ret ()
       | Some p \<Rightarrow> skip_http (create_observable env case_id actor_id p))"

definition promotion_case :: "env \<Rightarrow> alert_row \<Rightarrow> uuid option \<Rightarrow> string option \<Rightarrow> uuid \<Rightarrow> uuid service" where
  "promotion_case env a case_id new_case_title actor_id = (case case_id of
       Some cid \<Rightarrow> bind (get_or_404 cases_e (\<lambda>_. ''Target case not found'') cid) (\<lambda>c.
         and_then (guard (c_tenant_id c = al_tenant_id a)
            (HTTPException 400 ''Cannot merge alert into a case from another tenant''))
         (ret cid))
     | None \<Rightarrow> (case new_case_title of
           None \<Rightarrow> raise (HTTPException 400 ''Either case_id or new_case_title must be provided'')
         | Some title \<Rightarrow>
             and_then (guard (title \<noteq> []) (HTTPException 400 ''Either case_id or new_case_title must be provided''))
             (and_then (guard (length title \<le> 500) ValidationError)
             (create_case env (al_tenant_id a) actor_id
                \<lparr>cc_title = title, cc_description = al_message a,
                 cc_severity = severity_id_to_case_severity (al_severity_id a), cc_assignee_id = None,
                 cc_template_id = None, cc_tags = [], cc_custom_fields = []\<rparr>))))"

definition promoted :: "uuid \<Rightarrow> alert_row \<Rightarrow> alert_row" where
  "promoted case_id a = apply_status_to_payload OST_IN_PROGRESS None
     (a\<lparr>al_status := AS_PROMOTED, al_promoted_to_case_id := Some case_id\<rparr>)"

definition mark_promoted :: "env \<Rightarrow> uuid \<Rightarrow> alert_row \<Rightarrow> uuid \<Rightarrow> uuid \<Rightarrow> (alert_row \<times> uuid) service" where
  "mark_promoted env alert_id a actor_id cid =
     bind now_utc (\<lambda>now.
     and_then (save_changed alerts_e alert_id a (promoted cid a) (al_updated_at_update (\<lambda>_. now)))
     (and_then (record_event env (al_tenant_id a) cid ''alert_promoted''
        (''Alert '' @ quoted (al_title a) @ '' promoted to this case'') (Some ''alert'') (Some actor_id)
        [(''alert_id'', JId alert_id), (''product'', JStr (al_source_product a)), (''finding_uid'', JStr (al_finding_uid a))] None)
     (bind (alert_or_404 alert_id) (\<lambda>a'. ret (a', cid)))))"

definition promote_alert ::
  "env \<Rightarrow> uuid \<Rightarrow> uuid option \<Rightarrow> string option \<Rightarrow> uuid \<Rightarrow> (alert_row \<times> uuid) service" where
  "promote_alert env alert_id case_id new_case_title actor_id =
     bind (alert_or_404 alert_id) (\<lambda>a.
     bind (promotion_case env a case_id new_case_title actor_id) (\<lambda>cid.
     bind (payload_observables (al_ocsf_payload a)) (\<lambda>raws.
     and_then (copy_observables env cid actor_id raws)
     (mark_promoted env alert_id a actor_id cid))))"

section \<open>Isolation and integrity\<close>

lemma alert_store_at [keeps_intros]:
  assumes "al_status r \<noteq> AS_PENDING" and "al_status r = AS_PROMOTED \<longrightarrow> al_promoted_to_case_id r \<noteq> None"
  shows "keeps (wf_at A) (store_row alerts_e i r)"
proof (rule alerts_c.store_at)
  fix d old assume "wf_at A d"
  then have ok: "pending_unique (db_alerts d)" "promoted_has_case (db_alerts d)"
    using row_ok_at(8) by (auto simp: alerts_ok_def)
  have old: "(j, x) \<in> set (db_alerts d)" if "(j, x) \<in> set (row_set i r (db_alerts d))" "al_status x = AS_PENDING" for j x
    using row_set_mem [OF that(1)] that(2) assms(1) by auto
  have "pending_unique (row_set i r (db_alerts d))"
    unfolding pending_unique_def
  proof clarify
    fix j x k y
    assume *: "(j, x) \<in> set (row_set i r (db_alerts d))" "(k, y) \<in> set (row_set i r (db_alerts d))"
      "al_status x = AS_PENDING" "al_status y = AS_PENDING" "al_tenant_id x = al_tenant_id y"
      "al_dedup_key x = al_dedup_key y" "al_dedup_key x \<noteq> Some []"
    fix v assume "al_dedup_key x = Some v"
    with * old [OF *(1,3)] old [OF *(2,4)] ok(1) show "j = k"
      unfolding pending_unique_def by fastforce
  qed
  moreover have "promoted_has_case (row_set i r (db_alerts d))"
    using ok(2) assms(2) unfolding promoted_has_case_def by (fastforce dest: row_set_mem)
  ultimately show "alerts_ok d (row_set i r (ent_sel alerts_e d))"
    by (simp add: alerts_ok_def)
qed

lemma applied_status [simp]:
  "al_status (apply_status_to_payload st det a) = al_status a" "al_tenant_id (apply_status_to_payload st det a) = al_tenant_id a"
  "al_promoted_to_case_id (apply_status_to_payload st det a) = al_promoted_to_case_id a"
  "al_dedup_key (apply_status_to_payload st det a) = al_dedup_key a" "al_dismiss_reason (apply_status_to_payload st det a) = al_dismiss_reason a"
  by (simp_all add: apply_status_to_payload_def)

lemma dismissed_simps [simp]: "al_status (dismissed reason a) = AS_DISMISSED" "al_dismiss_reason (dismissed reason a) = Some reason"
  "al_status (promoted cid a) = AS_PROMOTED" "al_promoted_to_case_id (promoted cid a) = Some cid"
  by (simp_all add: dismissed_def promoted_def)

lemma keeps_find_pending [keeps_intros]: "keeps I (find_pending t k)"
  unfolding find_pending_def by (intro keeps_intros)

lemma keeps_payload_observables [keeps_intros]: "keeps I (payload_observables p)"
  by (auto simp: payload_observables_def split: option.splits json.splits intro: keeps_intros)

lemma keeps_skip_http [keeps_intros]: "keeps I m \<Longrightarrow> keeps I (skip_http m)"
  unfolding skip_http_def by (rule keeps_catch) (auto intro: keeps_intros split: api_error.splits)

lemma copy_observables_keeps [keeps_intros]:
  "plugins_keep (isolated s d0) env \<Longrightarrow> keeps (isolated s d0) (copy_observables env c u raws)"
  "plugins_wf env \<Longrightarrow> keeps (wf_at A) (copy_observables env c u raws)"
  unfolding copy_observables_def by (auto intro!: keeps_intros)

lemma alert_service_isolated [keeps_intros]:
  assumes "plugins_keep (isolated s d0) env"
  shows "keeps (isolated s d0) (ingest_alert env t p)" "keeps (isolated s d0) (promote_alert env i cid title u)"
    "keeps (isolated s d0) (dismiss_alert i reason)"
  unfolding ingest_alert_def promote_alert_def mark_promoted_def dismiss_alert_def promotion_case_def
  by (intro keeps_intros assms keeps_option; simp add: keeps_intros assms split: prod.splits)+

lemma dismiss_alert_at [keeps_intros]: "keeps (wf_at A) (dismiss_alert i reason)"
  unfolding dismiss_alert_def by (intro keeps_intros) simp_all


lemma find_pending_run:
  "bind (find_pending t k) f d = (Inr r, d') \<longleftrightarrow> (\<exists>x. find_pending t k d = (Inr x, d) \<and> f x d = (Inr r, d'))"
  by (auto simp: find_pending_def scalar_one_or_none_def svc_simps split: list.splits)

lemma find_pending_state: "snd (find_pending t k d) = d"
  by (auto simp: find_pending_def scalar_one_or_none_def svc_simps split: list.splits)

lemma find_pending_None:
  assumes "find_pending t k d = (Inr None, d1)" and "k \<noteq> []" and "(i, a) \<in> set (db_alerts d)"
    and "ent_vis alerts_e (db_session d) a"
  shows "\<not> (al_tenant_id a = t \<and> al_dedup_key a = Some k \<and> al_status a = AS_PENDING)"
proof
  assume a: "al_tenant_id a = t \<and> al_dedup_key a = Some k \<and> al_status a = AS_PENDING"
  have "rows_where (\<lambda>i r. rls_standard (db_session d) (al_tenant_id r) \<and>
      al_tenant_id r = t \<and> al_dedup_key r = Some k \<and> al_status r = AS_PENDING) (db_alerts d) = []"
    using assms(1,2) by (auto simp: find_pending_def scalar_one_or_none_def svc_simps split: list.splits)
  moreover have "(i, a) \<in> set (rows_where (\<lambda>i r. rls_standard (db_session d) (al_tenant_id r) \<and>
      al_tenant_id r = t \<and> al_dedup_key r = Some k \<and> al_status r = AS_PENDING) (db_alerts d))"
    using assms(3,4) a by auto
  ultimately show False by simp
qed

lemma find_pending_Some:
  assumes "find_pending t k d = (Inr (Some (i, a)), d1)"
  shows "(i, a) \<in> set (db_alerts d) \<and> al_tenant_id a = t \<and> al_dedup_key a = Some k \<and> al_status a = AS_PENDING \<and> k \<noteq> []"
proof -
  have "rows_where (\<lambda>i r. rls_standard (db_session d) (al_tenant_id r) \<and>
      al_tenant_id r = t \<and> al_dedup_key r = Some k \<and> al_status r = AS_PENDING) (db_alerts d) = [(i, a)]" (is "?L = _")
    using assms by (auto simp: find_pending_def scalar_one_or_none_def svc_simps split: list.splits if_splits)
  then have "(i, a) \<in> set ?L" by simp
  with assms show ?thesis
    by (auto simp: find_pending_def)
qed

lemma alert_draft_simps [simp]:
  "al_tenant_id (alert_draft t p now) = t" "al_status (alert_draft t p now) = AS_PENDING"
  "al_dedup_key (alert_draft t p now) = Some (derive_dedup_key p)"
  by (simp_all add: alert_draft_def)

text \<open>The insert of a new alert keeps the pending alerts unique, because none was found before it.\<close>

lemma ingest_insert_at:
  assumes at: "wf_at A d" and none: "find_pending t (derive_dedup_key p) d = (Inr None, d)"
  shows "wf_at A (snd (insert_row alerts_e (alert_draft t p now) d))"
proof -
  have "db_cases (snd (insert_row alerts_e (alert_draft t p now) d)) = db_cases d"
    by (rule insert_row_post) simp_all
  moreover have "wf_db (snd (insert_row alerts_e (alert_draft t p now) d))"
  proof (rule alerts_w.wf_insert [OF wf_at_db [OF at]])
    assume vis: "ent_vis alerts_e (db_session d) (alert_draft t p now)"
    have ok: "pending_unique (db_alerts d)" "promoted_has_case (db_alerts d)"
      using row_ok_at(8) [OF at] by (auto simp: alerts_ok_def)
    have other: "\<not> (al_tenant_id a = t \<and> al_dedup_key a = Some (derive_dedup_key p) \<and> al_status a = AS_PENDING)"
      if "(i, a) \<in> set (db_alerts d)" "derive_dedup_key p \<noteq> []" for i a
      using find_pending_None [OF none that(2,1)] vis by auto
    have "pending_unique (row_add (db_next_id d) (alert_draft t p now) (db_alerts d))"
      unfolding pending_unique_def
    proof clarify
      fix i a j b v
      assume *: "(i, a) \<in> set (row_add (db_next_id d) (alert_draft t p now) (db_alerts d))"
        "(j, b) \<in> set (row_add (db_next_id d) (alert_draft t p now) (db_alerts d))"
        "al_status a = AS_PENDING" "al_status b = AS_PENDING" "al_tenant_id a = al_tenant_id b"
        "al_dedup_key a = al_dedup_key b" "al_dedup_key a \<noteq> Some []" "al_dedup_key a = Some v"
      consider "(i, a) \<in> set (db_alerts d)" "(j, b) \<in> set (db_alerts d)"
        | "a = alert_draft t p now" "i = db_next_id d" "(j, b) \<in> set (db_alerts d)"
        | "(i, a) \<in> set (db_alerts d)" "b = alert_draft t p now" "j = db_next_id d"
        | "i = db_next_id d" "j = db_next_id d"
        using *(1,2) by auto
      then show "i = j"
      proof cases
        case 1
        with *(3-8) ok(1) show ?thesis unfolding pending_unique_def by fastforce
      next
        case 2
        with * other [of j b] show ?thesis by auto
      next
        case 3
        with * other [of i a] show ?thesis by auto
      qed simp
    qed
    moreover have "promoted_has_case (row_add (db_next_id d) (alert_draft t p now) (db_alerts d))"
      using ok(2) by (auto simp: promoted_has_case_def)
    ultimately show "alerts_ok d (row_add (db_next_id d) (alert_draft t p now) (ent_sel alerts_e d))"
      by (simp add: alerts_ok_def)
  qed
  ultimately show ?thesis
    using at by (simp add: wf_at_def)
qed

lemma ingest_alert_at [keeps_intros]: "plugins_wf env \<Longrightarrow> keeps (wf_at A) (ingest_alert env t p)"
proof (rule keepsI)
  fix d assume env: "plugins_wf env" and at: "wf_at A d"
  note fire = keepsD [OF keeps_and_then [OF fire_at [OF env] keeps_ret]]
  obtain x where "find_pending t (derive_dedup_key p) d = (x, d)"
    using find_pending_state [of t "derive_dedup_key p" d] by (metis prod.collapse)
  then show "wf_at A (snd (ingest_alert env t p d))"
    using at ingest_insert_at [of A d t p "db_now d"] unfolding ingest_alert_def
    by (auto simp: bind_apply now_utc_apply split: sum.splits option.splits prod.splits intro: fire dest: fire)
qed

lemma bind_and_then: "bind (and_then m n) k = and_then m (bind n k)"
  by (simp add: and_then_def bind_assoc)

lemma raise_bind [simp]: "bind (raise e) k = raise e"
  by (rule ext) (simp add: bind_apply)

lemma keeps_guard_then: "(b \<Longrightarrow> keeps I m) \<Longrightarrow> keeps I (and_then (guard b e) m)"
  by (auto simp: keeps_def and_then_apply)

lemma create_case_enter:
  assumes "plugins_wf env" and "\<And>i. keeps (wf_at (insert (i, t) A)) (k i)"
  shows "keeps (wf_at A) (bind (create_case env t u p) k)"
  unfolding create_case_def bind_assoc bind_and_then ret_bind next_case_number_def find_template_def
  by (intro insert_case_at keeps_intros wf_exec.fire_keeps keeps_task_spec)
    (use assms in \<open>auto intro!: keeps_intros keeps_task_spec simp: plugins_wf_def case_draft_def split: prod.splits\<close>)

lemma promote_alert_at [keeps_intros]:
  assumes "plugins_wf env"
  shows "keeps (wf_at A) (promote_alert env i cid title u)"
proof -
  have enter: "keeps (wf_at A) (bind (promotion_case env a cid title u) k)"
    if k: "\<And>c B. A \<subseteq> B \<Longrightarrow> (c, al_tenant_id a) \<in> B \<Longrightarrow> keeps (wf_at B) (k c)" for A a k
  proof (cases cid)
    case None
    then show ?thesis
      by (cases title) (auto simp: promotion_case_def raise_bind bind_and_then intro!: keeps_intros create_case_enter [OF assms] k)
  next
    case (Some c)
    show ?thesis
      unfolding promotion_case_def Some option.case bind_assoc bind_and_then ret_bind
    proof (rule get_case_at)
      fix r show "keeps (wf_at (insert (c, c_tenant_id r) A)) (and_then
          (guard (c_tenant_id r = al_tenant_id a) (HTTPException 400 ''Cannot merge alert into a case from another tenant'')) (k c))"
        by (rule keeps_guard_then) (auto intro: k)
    qed
  qed
  show ?thesis
    unfolding promote_alert_def mark_promoted_def
    by (intro enter keeps_intros) (auto intro!: keeps_intros enter assms)
qed

section \<open>Properties\<close>

text \<open>
  C20: ingestion deduplicates. The alert returned is pending, of the tenant, with the finding's key; a
  duplicate changes nothing, a new one is added when no visible pending alert had the key; sending the
  finding again returns the same alert, as a duplicate, and changes nothing.
\<close>

theorem ingest_deduplicates:
  assumes "broker_up env" and "wf_db d" and "fi_uid (df_finding_info p) \<noteq> []"
    and run: "ingest_alert env t p d = (Inr (i, dup), d')"
  shows "(\<exists>a. (i, a) \<in> set (db_alerts d') \<and> al_tenant_id a = t \<and> al_status a = AS_PENDING \<and>
      al_dedup_key a = Some (derive_dedup_key p)) \<and>
    (if dup then d' = d
     else (\<forall>(j, a) \<in> set (db_alerts d). ent_vis alerts_e (db_session d) a \<longrightarrow> \<not> is_duplicate_payload p a \<or> al_tenant_id a \<noteq> t) \<and>
       core d' = core (d\<lparr>db_alerts := row_add i (alert_draft t p (db_now d)) (db_alerts d)\<rparr>)) \<and>
    ingest_alert env t p d' = (Inr (i, True), d')"
proof -
  have key: "derive_dedup_key p \<noteq> []"
    using assms(3) by (auto simp: derive_dedup_key_def str_or_def split: option.splits)
  from run obtain x where find: "find_pending t (derive_dedup_key p) d = (Inr x, d)"
    unfolding ingest_alert_def find_pending_run by blast
  show ?thesis
  proof (cases x)
    case (Some ia)
    obtain j a where ia: "ia = (j, a)" by fastforce
    have hit: "ingest_alert env t p d = (Inr (j, True), d)"
      using find by (simp add: ingest_alert_def bind_apply Some ia)
    with run have "j = i" "dup" "d' = d" by simp_all
    with find_pending_Some [of t "derive_dedup_key p" d j a d] find Some ia hit show ?thesis
      by auto
  next
    case None
    from run find None obtain d1 where ins: "insert_row alerts_e (alert_draft t p (db_now d)) d = (Inr (db_next_id d), d1)"
      and fire: "\<exists>u. fire env t ALERT_INGESTED [(''alert_id'', JId (db_next_id d)), (''product'', JStr (pr_name (om_product (df_metadata p)))),
           (''severity_id'', JInt (severity_value (df_severity_id p))), (''finding_uid'', JStr (fi_uid (df_finding_info p)))] None d1 = (Inr u, d')"
      and i: "i = db_next_id d" "\<not> dup"
      unfolding ingest_alert_def find_pending_run
      by (auto simp: run_eqs elim!: and_then_InrD)
    from fire fire_logged [OF assms(1)] have core: "core d' = core d1" by blast
    have d1: "d1 = d\<lparr>db_next_id := Suc (db_next_id d), db_alerts := row_add i (alert_draft t p (db_now d)) (db_alerts d)\<rparr>"
      and vis: "rls_standard (db_session d) t"
      using insert_row_InrD [OF ins] by (simp_all add: i)
    have alerts: "db_alerts d' = row_add i (alert_draft t p (db_now d)) (db_alerts d)" "db_session d' = db_session d"
      using core_eqD(10,12) [OF core] by (simp_all add: d1)
    have none: "\<not> (al_tenant_id a = t \<and> al_dedup_key a = Some (derive_dedup_key p) \<and> al_status a = AS_PENDING)"
      if "(j, a) \<in> set (db_alerts d)" for j a
      using find_pending_None [OF find [unfolded None] key that] vis by auto
    have "rows_where (\<lambda>i r. rls_standard (db_session d) (al_tenant_id r) \<and> al_tenant_id r = t \<and>
        al_dedup_key r = Some (derive_dedup_key p) \<and> al_status r = AS_PENDING) (db_alerts d) = []"
      using none by (auto simp: rows_where_def filter_empty_conv)
    then have "find_pending t (derive_dedup_key p) d' = (Inr (Some (i, alert_draft t p (db_now d))), d')"
      using key vis by (simp add: find_pending_def svc_simps scalar_one_or_none_def alerts rows_where_add row_add_def [of _ _ "[]"])
    then have again: "ingest_alert env t p d' = (Inr (i, True), d')"
      by (simp add: ingest_alert_def bind_apply)
    have "core d' = core (d\<lparr>db_alerts := row_add i (alert_draft t p (db_now d)) (db_alerts d)\<rparr>)"
      unfolding core unfolding d1 by (simp add: core_def)
    with again i none alerts show ?thesis
      by (fastforce simp: is_duplicate_payload_def)
  qed
qed

definition demo_finding :: "string \<Rightarrow> detection_finding" where
  "demo_finding uid =
     \<lparr>df_activity_id = ACT_CREATE, df_activity_name = None, df_category_name = Some ''Findings'',
      df_class_name = Some ''Detection Finding'', df_type_uid = None, df_type_name = None, df_severity_id = OSEV_HIGH,
      df_severity = None,
      df_metadata = \<lparr>om_version = ''1.8.0'', om_product = \<lparr>pr_name = ''edr'', pr_vendor_name = None, pr_version = None, pr_uid = None\<rparr>,
        om_log_level = None, om_event_code = None, om_original_time = None, om_processed_time = None, om_extra = []\<rparr>,
      df_finding_info = \<lparr>fi_uid = uid, fi_uid_alt = None, fi_title = Some ''Malware'', fi_desc = None, fi_types = None,
        fi_analytic = None, fi_product_uid = None, fi_src_url = None, fi_extra = []\<rparr>,
      df_time = 1, df_time_dt = None, df_is_alert = True, df_message = None, df_status_id = None, df_status = None,
      df_confidence_id = None, df_confidence = None, df_confidence_score = None,
      df_observables = [\<lparr>oo_name = ''file'', oo_type = None, oo_type_id = 7, oo_value = ''c.exe'', oo_reputation = None, oo_extra = []\<rparr>],
      df_attacks = [], df_raw_data = None, df_dedup_key = None, df_extra = []\<rparr>"

theorem ingest_deduplicates_witness:
  "\<exists>i d'. ingest_alert demo_env 1 (demo_finding ''u1'') demo_db = (Inr (i, False), d') \<and>
     ingest_alert demo_env 1 (demo_finding ''u1'') d' = (Inr (i, True), d')"
proof -
  obtain i d' where run: "ingest_alert demo_env 1 (demo_finding ''u1'') demo_db = (Inr (i, False), d')"
    by (simp add: ingest_alert_def find_pending_def scalar_one_or_none_def demo_finding_def derive_dedup_key_def str_or_def
      alert_draft_def fire_run run_simps)
  have "fi_uid (df_finding_info (demo_finding ''u1'')) \<noteq> []"
    by (simp add: demo_finding_def)
  from ingest_deduplicates [OF demo_up demo_wf this run] run show ?thesis
    by blast
qed

text \<open>
  Dismissing an alert records the reason in the row and in the stored document, whatever state it was in.
\<close>

theorem dismiss_alert_correct:
  assumes "dismiss_alert i reason d = (Inr r, d')"
  shows "\<exists>a. visible_row alerts_e d i = Some a \<and> al_status r = AS_DISMISSED \<and> al_dismiss_reason r = Some reason \<and>
    map_of (al_ocsf_payload r) ''status_id'' = Some (JInt 3) \<and> map_of (al_ocsf_payload r) ''status_detail'' = Some (JStr reason) \<and>
    r\<lparr>al_updated_at := al_updated_at a\<rparr> = dismissed reason a \<and>
    (\<forall>j. row_get (db_alerts d') j = (if j = i then Some r else row_get (db_alerts d) j)) \<and>
    d' = d\<lparr>db_alerts := db_alerts d'\<rparr>"
proof -
  from assms obtain a where a: "visible_row alerts_e d i = Some a"
    and rest: "if dismissed reason a = a then visible_row alerts_e d i = Some r \<and> d' = d
      else \<exists>d1. store_row alerts_e i ((dismissed reason a)\<lparr>al_updated_at := db_now d\<rparr>) d = (Inr (), d1) \<and>
        visible_row alerts_e d1 i = Some r \<and> d' = d1"
    unfolding dismiss_alert_def run_eqs by blast
  note row = visible_rowD [OF a]
  have r: "r = (if dismissed reason a = a then a else (dismissed reason a)\<lparr>al_updated_at := db_now d\<rparr>) \<and>
      d' = d\<lparr>db_alerts := db_alerts d'\<rparr> \<and>
      db_alerts d' = (if dismissed reason a = a then db_alerts d else row_set i r (db_alerts d))"
  proof (cases "dismissed reason a = a")
    case True
    with rest a show ?thesis by simp
  next
    case False
    with rest obtain d1 where st: "store_row alerts_e i ((dismissed reason a)\<lparr>al_updated_at := db_now d\<rparr>) d = (Inr (), d1)"
      and vis: "visible_row alerts_e d1 i = Some r" and "d' = d1"
      by auto
    have "r = (dismissed reason a)\<lparr>al_updated_at := db_now d\<rparr>"
      using alerts_t.store_reads_back [OF st] visible_rowD [OF vis] by simp
    with store_row_InrD [OF st] False \<open>d' = d1\<close> show ?thesis by simp
  qed
  have "al_updated_at (dismissed reason a) = al_updated_at a"
    by (simp add: dismissed_def apply_status_to_payload_def)
  then have upd: "r\<lparr>al_updated_at := al_updated_at a\<rparr> = dismissed reason a"
    using conjunct1 [OF r] by auto
  have pay: "map_of (al_ocsf_payload r) ''status_id'' = Some (JInt 3) \<and> map_of (al_ocsf_payload r) ''status_detail'' = Some (JStr reason)"
  proof -
    have "al_ocsf_payload r = al_ocsf_payload (dismissed reason a)"
      using conjunct1 [OF r] by (cases "dismissed reason a = a") simp_all
    then show ?thesis
      by (simp add: dismissed_def apply_status_to_payload_def Let_def update_conv')
  qed
  have st: "al_status r = al_status (dismissed reason a) \<and> al_dismiss_reason r = al_dismiss_reason (dismissed reason a)"
    using conjunct1 [OF r] by (cases "dismissed reason a = a") simp_all
  have rows: "row_get (db_alerts d') j = (if j = i then Some r else row_get (db_alerts d) j)" for j
    using conjunct1 [OF r] conjunct2 [OF conjunct2 [OF r]] row by (auto simp: row_get_set)
  show ?thesis
    using a upd pay st rows conjunct1 [OF conjunct2 [OF r]] by (metis dismissed_simps(1,2))
qed

theorem dismiss_alert_correct_witness:
  "\<exists>r d'. dismiss_alert 13 ''noise'' demo_db = (Inr r, d') \<and> al_status r = AS_DISMISSED \<and> al_dismiss_reason r = Some ''noise''"
proof -
  obtain r d' where run: "dismiss_alert 13 ''noise'' demo_db = (Inr r, d')"
    by (simp add: dismiss_alert_def dismissed_def apply_status_to_payload_def run_simps)
  from dismiss_alert_correct [OF run] run show ?thesis by blast
qed

text \<open>What a promotion copies: the observables whose type maps and whose value validates, in order.\<close>

definition copied :: "json list \<Rightarrow> (observable_type \<times> string) list" where
  "copied raws = concat (map (\<lambda>raw. case ocsf_to_observable_create raw of None \<Rightarrow> []
     | Some p \<Rightarrow> (case validate_observable (oc_type p) (oc_value p) of Inl _ \<Rightarrow> [] | Inr w \<Rightarrow> [(oc_type p, w)])) raws)"

lemma insert_event_http: "insert_row timeline_e r d = (Inl e, d') \<Longrightarrow> e \<noteq> HTTPException n s"
  by (auto dest!: insert_row_InlD simp: timeline_e_def split: if_splits)

lemma insert_observable_http: "insert_row observables_e r d = (Inl e, d') \<Longrightarrow> e \<noteq> HTTPException n s"
  by (auto dest!: insert_row_InlD simp: observables_e_def split: if_splits)

lemma record_event_http: "record_event env t c ty de ca ac me None d = (Inl e, d') \<Longrightarrow> e \<noteq> HTTPException n s"
  by (auto simp: record_event_apply dest: insert_event_http split: prod.splits sum.splits)

lemma fire_http: "fire env t ev p a d = (Inl e, d') \<Longrightarrow> e \<noteq> HTTPException n s"
  unfolding fire_def by (auto simp: except_any_def catch_apply split: prod.splits sum.splits if_splits)

text \<open>An HTTP exception of the creation is raised before anything is written.\<close>

lemma create_observable_http:
  assumes "create_observable env c u p d = (Inl (HTTPException n s), d')"
  shows "d' = d \<and> (visible_row cases_e d c = None \<or> (\<exists>e. validate_observable (oc_type p) (oc_value p) = Inl e))"
  using assms unfolding create_observable_def normalize_or_400_def
  by (auto simp: bind_apply and_then_apply get_or_404_apply now_utc_apply
      dest: insert_observable_http record_event_http fire_http split: prod.splits sum.splits option.splits)

lemma skip_create_InrD:
  assumes up: "broker_up env" and c: "visible_row cases_e d cid = Some c"
    and run: "skip_http (create_observable env cid u p) d = (Inr v, d')"
  shows "\<exists>new. db_observables d' = db_observables d @ new \<and> (\<forall>(j, ob) \<in> set new. o_case_id ob = cid) \<and>
    map (\<lambda>(j, ob). (o_type ob, o_value ob)) new =
      (case validate_observable (oc_type p) (oc_value p) of Inl _ \<Rightarrow> [] | Inr w \<Rightarrow> [(oc_type p, w)]) \<and>
    core d' = core (d\<lparr>db_observables := db_observables d'\<rparr>)"
proof (cases "create_observable env cid u p d")
  case (Pair r d1)
  show ?thesis
  proof (cases r)
    case (Inl e)
    with run Pair obtain n s where "e = HTTPException n s" "d' = d1"
      by (auto simp: skip_http_def catch_apply bind_apply split: api_error.splits)
    with create_observable_http [of env cid u p d n s d1] Pair Inl c show ?thesis
      by (auto intro!: exI [of _ "[]"])
  next
    case (Inr i)
    with run Pair have "d' = d1"
      by (simp add: skip_http_def catch_apply bind_apply)
    moreover have "create_observable env cid u p d = (Inr i, d1)"
      using Pair Inr by simp
    from create_observable_effect [OF up this] obtain w where
      "validate_observable (oc_type p) (oc_value p) = Inr w"
      "db_observables d1 = row_add i (observable_draft (c_tenant_id c) cid u p w (db_now d)) (db_observables d)"
      "core d1 = core (d\<lparr>db_observables := db_observables d1\<rparr>)"
      using c by auto
    ultimately show ?thesis
      by (intro exI [of _ "[(i, observable_draft (c_tenant_id c) cid u p w (db_now d))]"])
        (simp add: row_add_def, simp add: observable_draft_def)
  qed
qed

lemma copy_observables_InrD:
  assumes "broker_up env" and "visible_row cases_e d cid = Some c"
    and "copy_observables env cid u raws d = (Inr v, d')"
  shows "\<exists>new. db_observables d' = db_observables d @ new \<and> (\<forall>(j, ob) \<in> set new. o_case_id ob = cid) \<and>
    map (\<lambda>(j, ob). (o_type ob, o_value ob)) new = copied raws \<and>
    core d' = core (d\<lparr>db_observables := db_observables d'\<rparr>)"
  using assms(2,3)
proof (induction raws arbitrary: d)
  case Nil
  then show ?case
    by (auto simp: copy_observables_def copied_def)
next
  case (Cons raw raws)
  from Cons.prems(2) obtain x d1 where one: "(case ocsf_to_observable_create raw of None \<Rightarrow> ret ()
       | Some p \<Rightarrow> skip_http (create_observable env cid u p)) d = (Inr x, d1)"
    and rest: "copy_observables env cid u raws d1 = (Inr v, d')"
    unfolding copy_observables_def for_each.simps by (rule and_then_InrD)
  have first: "\<exists>new. db_observables d1 = db_observables d @ new \<and> (\<forall>(j, ob) \<in> set new. o_case_id ob = cid) \<and>
    map (\<lambda>(j, ob). (o_type ob, o_value ob)) new = copied [raw] \<and>
    core d1 = core (d\<lparr>db_observables := db_observables d1\<rparr>)"
  proof (cases "ocsf_to_observable_create raw")
    case None
    with one show ?thesis by (auto simp: copied_def intro!: exI [of _ "[]"])
  next
    case (Some p)
    with skip_create_InrD [OF assms(1) Cons.prems(1)] one show ?thesis by (simp add: copied_def)
  qed
  then obtain new1 where n1: "db_observables d1 = db_observables d @ new1" "\<forall>(j, ob) \<in> set new1. o_case_id ob = cid"
    "map (\<lambda>(j, ob). (o_type ob, o_value ob)) new1 = copied [raw]" and core: "core d1 = core (d\<lparr>db_observables := db_observables d1\<rparr>)"
    by blast
  have "visible_row cases_e d1 cid = Some c"
    using visible_frame [of cases_e d1 d cid] core_eqD(3,12) [OF core] Cons.prems(1) by simp
  from Cons.IH [OF this rest] obtain new2 where n2: "db_observables d' = db_observables d1 @ new2"
    "\<forall>(j, ob) \<in> set new2. o_case_id ob = cid" "map (\<lambda>(j, ob). (o_type ob, o_value ob)) new2 = copied raws"
    "core d' = core (d1\<lparr>db_observables := db_observables d'\<rparr>)" by blast
  have "core (d1\<lparr>db_observables := db_observables d'\<rparr>) = (core d1)\<lparr>db_observables := db_observables d'\<rparr>"
    by (simp add: core_def)
  also have "\<dots> = core (d\<lparr>db_observables := db_observables d'\<rparr>)"
    unfolding core by (simp add: core_def)
  finally show ?case
    using n1 n2 by (intro exI [of _ "new1 @ new2"]) (auto simp: copied_def)
qed

lemma promotion_case_effect:
  assumes "broker_up env" and "wf_ids d" and "promotion_case env a cid title u d = (Inr k, d')"
  shows "\<exists>c. visible_row cases_e d' k = Some c \<and> c_tenant_id c = al_tenant_id a \<and>
    (case cid of Some i \<Rightarrow> k = i \<and> d' = d
      | None \<Rightarrow> \<exists>ti. title = Some ti \<and> c_title c = ti \<and> row_get (db_cases d) k = None \<and> db_cases d' = row_add k c (db_cases d)) \<and>
    core d' = core (d\<lparr>db_cases := db_cases d', db_tasks := db_tasks d'\<rparr>)"
proof (cases cid)
  case (Some i)
  with assms(3) show ?thesis
    unfolding promotion_case_def by (auto simp: run_eqs)
next
  case None
  with assms(3) obtain ti where ti: "title = Some ti" and
    run: "create_case env (al_tenant_id a) u
                \<lparr>cc_title = ti, cc_description = al_message a,
                 cc_severity = severity_id_to_case_severity (al_severity_id a), cc_assignee_id = None,
                 cc_template_id = None, cc_tags = [], cc_custom_fields = []\<rparr> d = (Inr k, d')"
    unfolding promotion_case_def by (auto simp: and_then_apply split: option.splits if_splits)
  from create_case_frame [OF assms(1) run] obtain c where c: "db_cases d' = row_add k c (db_cases d)" "k = db_next_id d"
    "c_tenant_id c = al_tenant_id a" "c_title c = ti" "rls_standard (db_session d) (al_tenant_id a)"
    and core: "core d' = core (d\<lparr>db_cases := db_cases d', db_tasks := db_tasks d'\<rparr>)" by auto
  have "row_get (db_cases d) k = None"
    using assms(2) c(2) by (simp add: wf_ids_def)
  moreover have "db_session d' = db_session d"
    using core_eqD(12) [OF core] by simp
  ultimately show ?thesis
    using c core None ti by (intro exI [of _ c]) (simp add: visible_row_def row_get_add)
qed


lemma mark_promoted_effect:
  assumes "visible_row alerts_e d i = Some a" and "mark_promoted env i a u k d = (Inr (r, k'), d')"
  shows "k' = k \<and> al_status r = AS_PROMOTED \<and> al_promoted_to_case_id r = Some k \<and>
    map_of (al_ocsf_payload r) ''status_id'' = Some (JInt 2) \<and> row_get (db_alerts d') i = Some r \<and>
    core d' = core (d\<lparr>db_alerts := db_alerts d'\<rparr>)"
proof -
  let ?a = "if promoted k a = a then a else (promoted k a)\<lparr>al_updated_at := db_now d\<rparr>"
  let ?rec = "record_event env (al_tenant_id a) k ''alert_promoted''
        (''Alert '' @ quoted (al_title a) @ '' promoted to this case'') (Some ''alert'') (Some u)
        [(''alert_id'', JId i), (''product'', JStr (al_source_product a)), (''finding_uid'', JStr (al_finding_uid a))] None"
  note row = visible_rowD [OF assms(1)]
  obtain d1 where d1: "d1 = d\<lparr>db_alerts := db_alerts d1\<rparr> \<and> row_get (db_alerts d1) i = Some ?a"
    and rest: "and_then ?rec (bind (alert_or_404 i) (\<lambda>a'. ret (a', k))) d1 = (Inr (r, k'), d')"
  proof (cases "promoted k a = a")
    case True
    with assms(2) row that [of d] show thesis
      unfolding mark_promoted_def run_eqs by simp
  next
    case False
    with assms(2) obtain d1 where st: "store_row alerts_e i ((promoted k a)\<lparr>al_updated_at := db_now d\<rparr>) d = (Inr (), d1)"
      and rest: "and_then ?rec (bind (alert_or_404 i) (\<lambda>a'. ret (a', k))) d1 = (Inr (r, k'), d')"
      unfolding mark_promoted_def run_eqs by auto
    from False that [OF _ rest] store_row_InrD [OF st] alerts_t.store_reads_back [OF st] show thesis by simp
  qed
  from rest obtain x d2 where rec: "?rec d1 = (Inr x, d2)" and "bind (alert_or_404 i) (\<lambda>a'. ret (a', k)) d2 = (Inr (r, k'), d')"
    by (rule and_then_InrD)
  then have r: "visible_row alerts_e d2 i = Some r" "k' = k" "d' = d2"
    unfolding run_eqs by auto
  have core: "core d2 = core d1"
    using record_event_logged [OF rec] by simp
  have "r = ?a"
    using visible_rowD [OF r(1)] d1 core_eqD(10) [OF core] by simp
  moreover have "al_status r = al_status (promoted k a) \<and> al_promoted_to_case_id r = al_promoted_to_case_id (promoted k a) \<and>
      al_ocsf_payload r = al_ocsf_payload (promoted k a)"
    unfolding \<open>r = ?a\<close> by (cases "promoted k a = a") simp_all
  moreover have "map_of (al_ocsf_payload (promoted k a)) ''status_id'' = Some (JInt 2)"
    by (simp add: promoted_def apply_status_to_payload_def Let_def update_conv')
  moreover have "core d' = core (d\<lparr>db_alerts := db_alerts d'\<rparr>)"
  proof -
    have "core d' = core (d\<lparr>db_alerts := db_alerts d1\<rparr>)"
      using core r(3) conjunct1 [OF d1] by metis
    then show ?thesis using core_eqD(10) [of d' "d\<lparr>db_alerts := db_alerts d1\<rparr>"] by simp
  qed
  ultimately show ?thesis
    using r visible_rowD [OF r(1)] by simp
qed

text \<open>
  C21: promoting an alert links it to a case of its own tenant, the one named or a new one with the title given, marks
  the row and the stored document, and copies to the case the document's observables that map to a type and validate,
  in order, and nothing else.
\<close>

theorem promote_alert_correct:
  assumes "broker_up env" and "wf_db d" and "promote_alert env i cid title u d = (Inr (r, k), d')"
  shows "\<exists>a c raws new. visible_row alerts_e d i = Some a \<and> visible_row cases_e d' k = Some c \<and> c_tenant_id c = al_tenant_id a \<and>
    (case cid of Some j \<Rightarrow> k = j | None \<Rightarrow> row_get (db_cases d) k = None \<and> title = Some (c_title c)) \<and>
    al_status r = AS_PROMOTED \<and> al_promoted_to_case_id r = Some k \<and>
    map_of (al_ocsf_payload r) ''status_id'' = Some (JInt 2) \<and> row_get (db_alerts d') i = Some r \<and>
    payload_observables (al_ocsf_payload a) d = (Inr raws, d) \<and> db_observables d' = db_observables d @ new \<and>
    map (\<lambda>(j, ob). (o_type ob, o_value ob)) new = copied raws \<and> (\<forall>(j, ob) \<in> set new. o_case_id ob = k)"
proof -
  let ?mark = "\<lambda>a k. mark_promoted env i a u k"
  from assms(3) obtain a where a: "visible_row alerts_e d i = Some a"
    and r1: "bind (promotion_case env a cid title u) (\<lambda>cid. bind (payload_observables (al_ocsf_payload a)) (\<lambda>raws.
     and_then (copy_observables env cid u raws) (?mark a cid))) d = (Inr (r, k), d')"
    unfolding promote_alert_def run_bind_get by blast
  from r1 obtain k' d1 where pc: "promotion_case env a cid title u d = (Inr k', d1)"
    and r2: "bind (payload_observables (al_ocsf_payload a)) (\<lambda>raws.
     and_then (copy_observables env k' u raws) (?mark a k')) d1 = (Inr (r, k), d')"
    by (rule bind_InrD)
  from r2 obtain raws d2 where po: "payload_observables (al_ocsf_payload a) d1 = (Inr raws, d2)"
    and r3: "and_then (copy_observables env k' u raws) (?mark a k') d2 = (Inr (r, k), d')"
    by (rule bind_InrD)
  have po': "d2 = d1" "payload_observables (al_ocsf_payload a) d = (Inr raws, d)"
    using po by (auto simp: payload_observables_def split: option.splits json.splits if_splits)
  from r3 obtain x d3 where cp: "copy_observables env k' u raws d1 = (Inr x, d3)" and mark: "?mark a k' d3 = (Inr (r, k), d')"
    unfolding po' by (rule and_then_InrD)
  from promotion_case_effect [OF assms(1) wf_db_ids [OF assms(2)] pc] obtain c where c: "visible_row cases_e d1 k' = Some c"
    "c_tenant_id c = al_tenant_id a" "case cid of Some j \<Rightarrow> k' = j \<and> d1 = d
      | None \<Rightarrow> \<exists>ti. title = Some ti \<and> c_title c = ti \<and> row_get (db_cases d) k' = None \<and> db_cases d1 = row_add k' c (db_cases d)"
    and core1: "core d1 = core (d\<lparr>db_cases := db_cases d1, db_tasks := db_tasks d1\<rparr>)" by blast
  from copy_observables_InrD [OF assms(1) c(1) cp] obtain new where new: "db_observables d3 = db_observables d1 @ new"
    "\<forall>(j, ob) \<in> set new. o_case_id ob = k'" "map (\<lambda>(j, ob). (o_type ob, o_value ob)) new = copied raws"
    and core3: "core d3 = core (d1\<lparr>db_observables := db_observables d3\<rparr>)" by blast
  have "visible_row alerts_e d3 i = Some a"
    using a visible_frame [of alerts_e d3 d i] core_eqD(10,12) [OF core1] core_eqD(10,12) [OF core3] by simp
  from mark_promoted_effect [OF this mark] have m: "k = k'" "al_status r = AS_PROMOTED" "al_promoted_to_case_id r = Some k'"
    "map_of (al_ocsf_payload r) ''status_id'' = Some (JInt 2)" "row_get (db_alerts d') i = Some r"
    and core': "core d' = core (d3\<lparr>db_alerts := db_alerts d'\<rparr>)" by blast+
  have "visible_row cases_e d' k' = Some c"
    using c(1) visible_frame [of cases_e d' d1 k'] core_eqD(3,12) [OF core'] core_eqD(3,12) [OF core3] by simp
  moreover have "db_observables d' = db_observables d @ new"
    using new(1) core_eqD(5) [OF core'] core_eqD(5) [OF core1] by simp
  moreover have "case cid of Some j \<Rightarrow> k = j | None \<Rightarrow> row_get (db_cases d) k = None \<and> title = Some (c_title c)"
    using c(3) m(1) by (auto split: option.splits)
  ultimately show ?thesis
    using a c(2) m new(2,3) po'(2) by blast
qed
definition demo_promotable :: db where
  "demo_promotable = demo_db\<lparr>db_alerts := [(13, (demo_alert 1 ''k'')\<lparr>al_ocsf_payload :=
     [(''observables'', JList [JObj [(''type_id'', JInt 7), (''value'', JStr '' b.exe '')], JObj [(''type_id'', JInt 99)]])]\<rparr>)]\<rparr>"

lemma demo_promotable_wf: "wf_db demo_promotable"
  by (simp add: demo_promotable_def wf_db_def wf_ids_def wf_tenancy_def wf_unique_def ids_ok_def rows_in_case_def tenant_in_def
      unique_rows_def notes_filed_def pending_unique_def promoted_has_case_def row_get_def demo_defs)

theorem promote_alert_correct_witness:
  "\<exists>r d' new. promote_alert demo_env 13 (Some 5) None 3 demo_promotable = (Inr (r, 5), d') \<and> al_promoted_to_case_id r = Some 5 \<and>
     db_observables d' = db_observables demo_promotable @ new \<and> map (\<lambda>(j, ob). (o_type ob, o_value ob)) new = [(OT_FILENAME, ''b.exe'')]"
proof -
  obtain r k d' where run: "promote_alert demo_env 13 (Some 5) None 3 demo_promotable = (Inr (r, k), d')"
    by (simp add: promote_alert_def promotion_case_def payload_observables_def copy_observables_def ocsf_to_observable_create_def
      json_str_def watari_type_def ocsf_to_watari_observable_def skip_http_def promoted_def apply_status_to_payload_def mark_promoted_def
      observable_run demo_filename fire_run demo_promotable_def run_simps del: validate_observable.simps)
  from promote_alert_correct [OF demo_up demo_promotable_wf run] obtain a raws new where
    "visible_row alerts_e demo_promotable 13 = Some a" "k = 5" "al_promoted_to_case_id r = Some k"
    "payload_observables (al_ocsf_payload a) demo_promotable = (Inr raws, demo_promotable)"
    "db_observables d' = db_observables demo_promotable @ new" "map (\<lambda>(j, ob). (o_type ob, o_value ob)) new = copied raws" by auto
  moreover from this(1) have "al_ocsf_payload a = [(''observables'', JList [JObj [(''type_id'', JInt 7), (''value'', JStr '' b.exe '')], JObj [(''type_id'', JInt 99)]])]"
    by (auto simp: visible_row_def demo_promotable_def demo_alert_def row_get_def split: if_splits)
  moreover have "copied [JObj [(''type_id'', JInt 7), (''value'', JStr '' b.exe '')], JObj [(''type_id'', JInt 99)]] = [(OT_FILENAME, ''b.exe'')]"
    by (simp add: copied_def ocsf_to_observable_create_def json_str_def watari_type_def ocsf_to_watari_observable_def demo_filename
      del: validate_observable.simps)
  ultimately show ?thesis using run by (auto simp: payload_observables_def)
qed
section \<open>The document returned\<close>

text \<open>
  \<^verbatim>\<open>alert_to_response\<close>: the stored document under the current workflow state, and the envelope. \<open>isotext\<close> is the
  text of a time stamp. The type check of \<^verbatim>\<open>AlertResponse\<close> is the one of documents that ingestion stored: the nested
  objects were validated then, and pydantic's coercions between JSON types do not arise.
\<close>

definition set_default :: "string \<Rightarrow> json \<Rightarrow> jobj \<Rightarrow> jobj" where
  "set_default k v p = (if map_of p k = None then p @ [(k, v)] else p)"

definition or_null :: "string \<Rightarrow> json \<Rightarrow> jobj \<Rightarrow> jobj" where
  "or_null k v p = (case map_of p k of None \<Rightarrow> AList.update k v p | Some JNull \<Rightarrow> AList.update k v p | Some _ \<Rightarrow> p)"

definition json_caption :: "json \<Rightarrow> string" where
  "json_caption j = (case j of JInt n \<Rightarrow> ocsf_severity_caption n | _ \<Rightarrow> ''Other'')"

definition with_type_uid :: "jobj \<Rightarrow> api_error + jobj" where
  "with_type_uid p = (case (map_of p ''class_uid'', map_of p ''activity_id'') of
       (Some (JInt c), Some (JInt x)) \<Rightarrow> Inr (set_default ''type_uid'' (JInt (c * 100 + x)) p)
     | _ \<Rightarrow> Inl (OtherError ''TypeError''))"

definition classified :: "jobj \<Rightarrow> jobj" where
  "classified p = set_default ''activity_name'' (JStr ''Create'') (set_default ''activity_id'' (JInt 1)
     (set_default ''category_name'' (JStr ''Findings'') (set_default ''category_uid'' (JInt 2)
     (set_default ''class_name'' (JStr ''Detection Finding'') (set_default ''class_uid'' (JInt 2004) p)))))"

definition stated :: "alert_status \<Rightarrow> jobj \<Rightarrow> jobj" where
  "stated st p = AList.update ''status'' (JStr (ocsf_status_caption (watari_status_to_ocsf st)))
     (AList.update ''status_id'' (JInt (status_value (watari_status_to_ocsf st))) p)"

definition severity_shown :: "int \<Rightarrow> jobj \<Rightarrow> jobj" where
  "severity_shown n p = (let sev = (case map_of p ''severity_id'' of None \<Rightarrow> JInt n | Some j \<Rightarrow> j) in
     AList.update ''severity'' (JStr (json_caption sev)) (AList.update ''severity_id'' sev p))"

definition response_document :: "(int \<Rightarrow> string) \<Rightarrow> alert_row \<Rightarrow> api_error + jobj" where
  "response_document isotext a = map_sum id (\<lambda>p. set_default ''attacks'' (JList []) (set_default ''observables'' (JList [])
       (or_null ''time'' (JInt (al_created_at a div 1000)) (or_null ''time_dt'' (JStr (isotext (al_created_at a)))
       (severity_shown (al_severity_id a) p)))))
     (with_type_uid (classified (stated (al_status a) (al_ocsf_payload a))))"

fun is_int :: "json \<Rightarrow> bool" where
  "is_int (JInt n) = True" | "is_int _ = False"

fun is_str :: "json \<Rightarrow> bool" where
  "is_str (JStr s) = True" | "is_str _ = False"

fun is_obj :: "json \<Rightarrow> bool" where
  "is_obj (JObj s) = True" | "is_obj _ = False"

fun is_list :: "json \<Rightarrow> bool" where
  "is_list (JList s) = True" | "is_list _ = False"

fun is_bool :: "json \<Rightarrow> bool" where
  "is_bool (JBool s) = True" | "is_bool _ = False"

definition or_none :: "(json \<Rightarrow> bool) \<Rightarrow> json \<Rightarrow> bool" where
  "or_none P j \<longleftrightarrow> j = JNull \<or> P j"

definition response_fields :: "(string \<times> (json \<Rightarrow> bool)) list" where
  "response_fields = [(''activity_id'', is_int), (''activity_name'', is_str), (''category_uid'', is_int), (''category_name'', is_str),
     (''class_uid'', is_int), (''class_name'', is_str), (''type_uid'', is_int), (''type_name'', or_none is_str),
     (''severity_id'', is_int), (''severity'', is_str), (''metadata'', is_obj), (''finding_info'', is_obj),
     (''time'', is_int), (''time_dt'', is_str), (''is_alert'', is_bool), (''message'', or_none is_str),
     (''status_id'', is_int), (''status'', is_str), (''confidence_id'', or_none is_int), (''confidence'', or_none is_str),
     (''confidence_score'', or_none is_int), (''observables'', is_list), (''attacks'', is_list), (''raw_data'', or_none is_str)]"

definition response_valid :: "jobj \<Rightarrow> bool" where
  "response_valid doc \<longleftrightarrow> (\<forall>(k, ok) \<in> set response_fields. case map_of doc k of None \<Rightarrow> False | Some j \<Rightarrow> ok j)"

record alert_envelope =
  we_id :: uuid
  we_tenant_id :: uuid
  we_workflow_status :: alert_status
  we_dismiss_reason :: "string option"
  we_promoted_to_case_id :: "uuid option"
  we_dedup_key :: "string option"
  we_created_at :: int
  we_updated_at :: int

definition alert_to_response :: "(int \<Rightarrow> string) \<Rightarrow> uuid \<Rightarrow> alert_row \<Rightarrow> api_error + (jobj \<times> alert_envelope)" where
  "alert_to_response isotext i a = (case response_document isotext a of Inl e \<Rightarrow> Inl e
     | Inr doc \<Rightarrow>
       if map_of doc ''watari'' \<noteq> None then Inl (OtherError ''TypeError'')
       else if \<not> response_valid doc then Inl ValidationError
       else Inr (doc, \<lparr>we_id = i, we_tenant_id = al_tenant_id a, we_workflow_status = al_status a,
              we_dismiss_reason = al_dismiss_reason a, we_promoted_to_case_id = al_promoted_to_case_id a,
              we_dedup_key = al_dedup_key a, we_created_at = al_created_at a, we_updated_at = al_updated_at a\<rparr>))"

lemma set_default_of [simp]: "map_of (set_default k v p) x = (if x = k \<and> map_of p k = None then Some v else map_of p x)"
  by (auto simp: set_default_def map_add_def split: option.splits)

lemma or_null_of: "map_of (or_null k v p) x = (if x = k \<and> (map_of p k = None \<or> map_of p k = Some JNull) then Some v else map_of p x)"
  by (auto simp: or_null_def update_conv' split: option.splits json.splits)

lemma dump_finding_of:
  "map_of (dump_finding p) ''class_uid'' = Some (JInt 2004)" "map_of (dump_finding p) ''activity_id'' = Some (JInt (activity_value (df_activity_id p)))"
  by (simp_all add: dump_finding_def)

text \<open>What the document holds at a key, when ingestion stored it.\<close>

definition shown_value :: "(int \<Rightarrow> string) \<Rightarrow> alert_row \<Rightarrow> detection_finding \<Rightarrow> string \<Rightarrow> json option" where
  "shown_value isotext a p k =
     (if k = ''status_id'' then Some (JInt (status_value (watari_status_to_ocsf (al_status a))))
      else if k = ''status'' then Some (JStr (ocsf_status_caption (watari_status_to_ocsf (al_status a))))
      else if k = ''severity'' then Some (JStr (ocsf_severity_caption (severity_value (df_severity_id p))))
      else if k = ''time_dt'' \<and> df_time_dt p = None then Some (JStr (isotext (al_created_at a)))
      else map_of (al_ocsf_payload a) k)"

lemma response_document_shown:
  assumes "\<forall>k. k \<notin> {''status_id'', ''status'', ''status_detail''} \<longrightarrow> map_of (al_ocsf_payload a) k = map_of (dump_finding p) k"
  shows "\<exists>doc. response_document isotext a = Inr doc \<and> (\<forall>k. map_of doc k = shown_value isotext a p k)"
proof -
  have v: "map_of (al_ocsf_payload a) ''class_uid'' = Some (JInt 2004)"
    "map_of (al_ocsf_payload a) ''activity_id'' = Some (JInt (activity_value (df_activity_id p)))"
    "map_of (al_ocsf_payload a) ''class_name'' = Some (jopt JStr (df_class_name p))"
    "map_of (al_ocsf_payload a) ''category_name'' = Some (jopt JStr (df_category_name p))"
    "map_of (al_ocsf_payload a) ''category_uid'' = Some (JInt 2)"
    "map_of (al_ocsf_payload a) ''activity_name'' = Some (jopt JStr (df_activity_name p))"
    "map_of (al_ocsf_payload a) ''type_uid'' = Some (jopt JInt (df_type_uid p))"
    "map_of (al_ocsf_payload a) ''severity_id'' = Some (JInt (severity_value (df_severity_id p)))"
    "map_of (al_ocsf_payload a) ''time'' = Some (JInt (df_time p))"
    "map_of (al_ocsf_payload a) ''time_dt'' = Some (jopt JStr (df_time_dt p))"
    "map_of (al_ocsf_payload a) ''observables'' = Some (JList (map dump_observable (df_observables p)))"
    "map_of (al_ocsf_payload a) ''attacks'' = Some (JList (map dump_attack (df_attacks p)))"
    using assms by (simp_all add: dump_finding_def)
  have c: "map_of (classified (stated (al_status a) (al_ocsf_payload a))) k =
      (if k = ''status_id'' then Some (JInt (status_value (watari_status_to_ocsf (al_status a))))
       else if k = ''status'' then Some (JStr (ocsf_status_caption (watari_status_to_ocsf (al_status a))))
       else map_of (al_ocsf_payload a) k)" for k
    by (simp add: classified_def stated_def update_conv' v)
  obtain q where t: "with_type_uid (classified (stated (al_status a) (al_ocsf_payload a))) = Inr q"
    and p: "map_of q k = map_of (classified (stated (al_status a) (al_ocsf_payload a))) k" for k
    by (simp add: with_type_uid_def c v)
  have sh: "map_of (severity_shown n q) k = (if k = ''severity'' then Some (JStr (ocsf_severity_caption (severity_value (df_severity_id p))))
      else map_of q k)" for n k
    by (simp add: severity_shown_def Let_def p c v update_conv' json_caption_def)
  show ?thesis
    unfolding response_document_def t
    by (intro exI conjI) (simp, simp add: or_null_of sh p c v shown_value_def jopt_def split: option.split)
qed

lemma jopt_checks [simp]:
  "or_none is_str (jopt JStr x)" "or_none is_int (jopt JInt n)" "or_none is_int (jopt (JInt \<circ> f) y)"
  "is_str (jopt JStr x) \<longleftrightarrow> x \<noteq> None" "is_int (jopt JInt n) \<longleftrightarrow> n \<noteq> None"
  by (auto simp: or_none_def jopt_def split: option.splits)

lemma populate_simps [simp]:
  "df_category_name (populate q) = df_category_name q" "df_class_name (populate q) = df_class_name q" "df_extra (populate q) = df_extra q"
  "df_type_uid (populate q) \<noteq> None" "df_activity_name (populate q) \<noteq> None"
  by (auto simp: populate_def split: option.splits)

lemma shown_valid:
  assumes "p = populate q" and "\<forall>k. k \<notin> {''status_id'', ''status'', ''status_detail''} \<longrightarrow> map_of (al_ocsf_payload a) k = map_of (dump_finding p) k"
    and "\<forall>k. map_of doc k = shown_value isotext a p k"
  shows "response_valid doc \<longleftrightarrow> df_category_name q \<noteq> None \<and> df_class_name q \<noteq> None"
  unfolding response_valid_def response_fields_def using assms(2)
  by (simp add: assms(1,3) shown_value_def dump_finding_def dump_metadata_def dump_finding_info_def)

text \<open>
  C22: an alert that ingestion stored, and that was perhaps promoted or dismissed since, is returned exactly when the finding
  had a category name, a class name and no field named watari. The document returned is then the stored one, except that
  its status is the current workflow state, its severity caption that of its severity, and a missing time stamp that of
  the row.
\<close>

theorem alert_response_round_trip:
  assumes "p = populate q" and "\<forall>k. k \<notin> {''status_id'', ''status'', ''status_detail''} \<longrightarrow> map_of (al_ocsf_payload a) k = map_of (dump_finding p) k"
  shows "((\<exists>r. alert_to_response isotext i a = Inr r) \<longleftrightarrow>
      df_category_name q \<noteq> None \<and> df_class_name q \<noteq> None \<and> ''watari'' \<notin> fst ` set (df_extra q)) \<and>
    (\<forall>doc envelope. alert_to_response isotext i a = Inr (doc, envelope) \<longrightarrow> we_workflow_status envelope = al_status a \<and>
      we_tenant_id envelope = al_tenant_id a \<and> (\<forall>k. map_of doc k = shown_value isotext a p k))"
proof -
  from response_document_shown [OF assms(2)] obtain doc where doc: "response_document isotext a = Inr doc"
    and shown: "\<forall>k. map_of doc k = shown_value isotext a p k" by blast
  note valid = shown_valid [OF assms shown]
  have "map_of doc ''watari'' = None \<longleftrightarrow> ''watari'' \<notin> fst ` set (df_extra q)"
    using assms(2) by (simp add: shown shown_value_def assms(1)) (simp add: dump_finding_def map_of_eq_None_iff)
  with doc valid shown show ?thesis
    by (auto simp: alert_to_response_def)
qed

theorem alert_response_round_trip_witness:
  "\<exists>r. alert_to_response (\<lambda>_. ''now'') 13 (dismissed ''noise'' (alert_draft 1 (populate (demo_finding ''u1'')) 0)) = Inr r"
proof -
  have "\<forall>k. k \<notin> {''status_id'', ''status'', ''status_detail''} \<longrightarrow>
      map_of (al_ocsf_payload (dismissed ''noise'' (alert_draft 1 (populate (demo_finding ''u1'')) 0))) k = map_of (dump_finding (populate (demo_finding ''u1''))) k"
    by (simp add: dismissed_def apply_status_to_payload_def Let_def alert_draft_def update_conv')
  from alert_response_round_trip [OF refl this, of "\<lambda>_. ''now''" 13] show ?thesis
    by (simp add: demo_finding_def)
qed
end
