(* ===== verification/Notes.thy ===== *)
theory Notes
  imports Cases
begin

text \<open>
  Notes and note folders (\<^verbatim>\<open>services/notes.py\<close>, \<^verbatim>\<open>schemas/notes.py\<close>): the folder tree of a case and the notes
  filed in it.
\<close>

section \<open>Folders\<close>

record folder_create =
  fc_name :: string
  fc_parent_id :: "uuid option"
  fc_sort_order :: int

record folder_update =
  fu_name :: "string upd"
  fu_parent_id :: "uuid upd"
  fu_sort_order :: "int upd"

record note_create =
  nc_title :: string
  nc_content :: string
  nc_folder_id :: "uuid option"

record note_update =
  nu_title :: "string upd"
  nu_content :: "string upd"
  nu_folder_id :: "uuid upd"

abbreviation folder_or_404 :: "uuid \<Rightarrow> folder_row service" where
  "folder_or_404 \<equiv> get_or_404 folders_e (\<lambda>i. ''Folder '' @ uuid_str i @ '' not found'')"

abbreviation note_or_404 :: "uuid \<Rightarrow> note_row service" where
  "note_or_404 \<equiv> get_or_404 notes_e (\<lambda>i. ''Note '' @ uuid_str i @ '' not found'')"

text \<open>
  \<^verbatim>\<open>_would_create_cycle\<close>: up the chain of parents, until it ends, meets the folder moved, or meets a folder visited
  before. Each turn visits a folder of the finite table not visited before, which bounds the loop.
\<close>

type_synonym parents = "(uuid \<times> uuid option) list"

definition visible_parents :: "db \<Rightarrow> parents" where
  "visible_parents d = map (\<lambda>(i, f). (i, f_parent_id f))
     (rows_where (\<lambda>_ f. ent_vis folders_e (db_session d) f) (db_folders d))"

function cycle_from :: "parents \<Rightarrow> uuid \<Rightarrow> uuid \<Rightarrow> uuid set \<Rightarrow> bool" where
  "cycle_from ps folder_id current visited =
     (if current = folder_id \<or> current \<in> visited then True
      else case map_of ps current of
        Some (Some parent) \<Rightarrow> cycle_from ps folder_id parent (insert current visited)
      | _ \<Rightarrow> False)"
  by pat_completeness auto
termination
proof (relation "measure (\<lambda>(ps, folder_id, current, visited). card (fst ` set ps - visited))", goal_cases)
  case (2 ps folder_id current visited x parent)
  have "current \<in> fst ` set ps"
    using 2 by (auto simp: image_iff dest: map_of_SomeD intro: rev_bexI)
  with 2(1) have "fst ` set ps - insert current visited \<subset> fst ` set ps - visited"
    by auto
  from psubset_card_mono [OF _ this] show ?case
    by simp
qed simp

declare cycle_from.simps [simp del]

definition would_create_cycle :: "uuid \<Rightarrow> uuid \<Rightarrow> bool service" where
  "would_create_cycle folder_id new_parent_id =
     reads (\<lambda>d. folder_id = new_parent_id \<or> cycle_from (visible_parents d) folder_id new_parent_id {})"

text \<open>\<open>collate\<close> orders names as the database's collation does.\<close>

definition list_folders :: "(string \<Rightarrow> 'k::linorder) \<Rightarrow> uuid \<Rightarrow> folder_row table service" where
  "list_folders collate case_id =
     bind (select_rows folders_e (\<lambda>_ f. f_case_id f = case_id)) (\<lambda>rows.
     ret (sort_key (f_sort_order \<circ> snd) (sort_key (collate \<circ> f_name \<circ> snd) rows)))"

definition folder_draft :: "uuid \<Rightarrow> uuid \<Rightarrow> folder_create \<Rightarrow> int \<Rightarrow> folder_row" where
  "folder_draft tenant_id case_id payload now =
     \<lparr>f_tenant_id = tenant_id, f_case_id = case_id, f_parent_id = fc_parent_id payload, f_name = fc_name payload,
      f_sort_order = fc_sort_order payload, f_created_at = now\<rparr>"

definition create_folder :: "uuid \<Rightarrow> folder_create \<Rightarrow> uuid service" where
  "create_folder case_id payload =
     bind (case_or_404 case_id) (\<lambda>c.
     and_then (case fc_parent_id payload of None \<Rightarrow> ret ()
       | Some p \<Rightarrow> bind (folder_or_404 p) (\<lambda>parent.
           guard (f_case_id parent = case_id) (HTTPException 400 ''Parent folder belongs to a different case'')))
     (bind now_utc (\<lambda>now. insert_row folders_e (folder_draft (c_tenant_id c) case_id payload now))))"

definition folder_set :: "folder_update \<Rightarrow> folder_row \<Rightarrow> folder_row" where
  "folder_set data f = f
     \<lparr>f_name := set_req (fu_name data) (f_name f), f_parent_id := set_opt (fu_parent_id data) (f_parent_id f),
      f_sort_order := set_req (fu_sort_order data) (f_sort_order f)\<rparr>"

definition update_folder :: "uuid \<Rightarrow> folder_update \<Rightarrow> folder_row service" where
  "update_folder folder_id data =
     bind (folder_or_404 folder_id) (\<lambda>f.
     and_then (case fu_parent_id data of
         Some (Some p) \<Rightarrow> bind (would_create_cycle folder_id p) (\<lambda>b.
           guard (\<not> b) (HTTPException 400 ''Moving this folder would create a cycle in the folder tree''))
       | _ \<Rightarrow> ret ())
     (and_then (not_null [is_null (fu_name data), is_null (fu_sort_order data)])
     (and_then (save_changed folders_e folder_id f (folder_set data f) id)
     (folder_or_404 folder_id))))"

text \<open>
  \<^verbatim>\<open>db.delete(folder)\<close>: the ORM detaches the subfolders and the notes it sees, then deletes the row; a reference
  it does not see restricts the deletion.
\<close>

definition detach_subfolders :: "uuid \<Rightarrow> unit service" where
  "detach_subfolders folder_id =
     bind (select_rows folders_e (\<lambda>_ g. f_parent_id g = Some folder_id)) (\<lambda>rows.
     for_each rows (\<lambda>(j, g). store_row folders_e j (g\<lparr>f_parent_id := None\<rparr>)))"

definition detach_notes :: "uuid \<Rightarrow> unit service" where
  "detach_notes folder_id =
     bind now_utc (\<lambda>now.
     bind (select_rows notes_e (\<lambda>_ n. n_folder_id n = Some folder_id)) (\<lambda>rows.
     for_each rows (\<lambda>(j, n). store_row notes_e j (n\<lparr>n_folder_id := None, n_updated_at := now\<rparr>))))"

definition folder_restricted :: "db \<Rightarrow> uuid \<Rightarrow> bool" where
  "folder_restricted d i \<longleftrightarrow> (\<exists>(j, g) \<in> set (db_folders d). f_parent_id g = Some i) \<or>
     (\<exists>(j, n) \<in> set (db_notes d). n_folder_id n = Some i)"

definition delete_folder :: "uuid \<Rightarrow> unit service" where
  "delete_folder folder_id =
     bind (folder_or_404 folder_id) (\<lambda>f.
     and_then (detach_subfolders folder_id)
     (and_then (detach_notes folder_id)
     (bind (reads (\<lambda>d. folder_restricted d folder_id)) (\<lambda>restricted.
     and_then (guard (\<not> restricted) fk_error)
     (delete_row folders_e folder_id)))))"

section \<open>Notes\<close>

definition list_notes :: "uuid \<Rightarrow> uuid option \<Rightarrow> nat \<Rightarrow> nat \<Rightarrow> (note_row table \<times> nat) service" where
  "list_notes case_id folder_id limit offset =
     bind (select_rows notes_e (\<lambda>_ n. n_case_id n = case_id \<and>
       (case folder_id of None \<Rightarrow> True | Some f \<Rightarrow> n_folder_id n = Some f))) (\<lambda>rows.
     ret (page_of limit offset (sort_desc (n_updated_at \<circ> snd) rows), length rows))"

definition filed_in_case :: "uuid option \<Rightarrow> uuid \<Rightarrow> unit service" where
  "filed_in_case folder_id case_id = (case folder_id of None \<Rightarrow> ret ()
     | Some f \<Rightarrow> bind (folder_or_404 f) (\<lambda>folder.
         guard (f_case_id folder = case_id) (HTTPException 400 ''Folder belongs to a different case'')))"

definition note_draft :: "uuid \<Rightarrow> uuid \<Rightarrow> uuid \<Rightarrow> note_create \<Rightarrow> int \<Rightarrow> note_row" where
  "note_draft tenant_id case_id author_id payload now =
     \<lparr>n_tenant_id = tenant_id, n_case_id = case_id, n_folder_id = nc_folder_id payload, n_title = nc_title payload,
      n_content = nc_content payload, n_author_id = author_id, n_created_at = now, n_updated_at = now\<rparr>"

definition create_note :: "uuid \<Rightarrow> uuid \<Rightarrow> note_create \<Rightarrow> uuid service" where
  "create_note case_id author_id payload =
     bind (case_or_404 case_id) (\<lambda>c.
     and_then (filed_in_case (nc_folder_id payload) case_id)
     (bind now_utc (\<lambda>now. insert_row notes_e (note_draft (c_tenant_id c) case_id author_id payload now))))"

definition note_set :: "note_update \<Rightarrow> note_row \<Rightarrow> note_row" where
  "note_set data n = n
     \<lparr>n_title := set_req (nu_title data) (n_title n), n_content := set_req (nu_content data) (n_content n),
      n_folder_id := set_opt (nu_folder_id data) (n_folder_id n)\<rparr>"

definition update_note :: "uuid \<Rightarrow> note_update \<Rightarrow> note_row service" where
  "update_note note_id data =
     bind (note_or_404 note_id) (\<lambda>n.
     and_then (filed_in_case (case nu_folder_id data of Some (Some f) \<Rightarrow> Some f | _ \<Rightarrow> None) (n_case_id n))
     (and_then (not_null [is_null (nu_title data), is_null (nu_content data)])
     (bind now_utc (\<lambda>now.
     and_then (save_changed notes_e note_id n (note_set data n) (n_updated_at_update (\<lambda>_. now)))
     (note_or_404 note_id)))))"

definition delete_note :: "uuid \<Rightarrow> unit service" where
  "delete_note note_id = bind (note_or_404 note_id) (\<lambda>n. delete_row notes_e note_id)"

section \<open>Isolation and integrity\<close>

lemma keeps_would_create_cycle [keeps_intros]: "keeps I (would_create_cycle i p)"
  unfolding would_create_cycle_def by (rule keeps_reads)

lemma keeps_filed_in_case [keeps_intros]: "keeps I (filed_in_case f c)"
  unfolding filed_in_case_def by (intro keeps_intros)

lemma note_service_isolated [keeps_intros]:
  "keeps (isolated s d0) (create_folder c fp)" "keeps (isolated s d0) (update_folder i fu)"
  "keeps (isolated s d0) (delete_folder i)" "keeps (isolated s d0) (create_note c u np)"
  "keeps (isolated s d0) (update_note i nu)" "keeps (isolated s d0) (delete_note i)"
  unfolding create_folder_def update_folder_def delete_folder_def create_note_def update_note_def delete_note_def
    detach_subfolders_def detach_notes_def
  by (intro keeps_intros; auto intro!: keeps_intros split: prod.splits option.splits)+


lemma folder_insert_at [keeps_intros]:
  "(f_case_id r, f_tenant_id r) \<in> A \<Longrightarrow> keeps (wf_at A) (insert_row folders_e r)"
  by (rule folders_c.insert_at; frule row_ok_at;
      auto simp: folders_ok_def wf_atD fresh_at notes_filed_folder_add)

lemma notes_filed_note_add:
  "notes_filed fs ns \<Longrightarrow> (\<And>f. n_folder_id n = Some f \<Longrightarrow> map_option f_case_id (row_get fs f) = Some (n_case_id n)) \<Longrightarrow>
   notes_filed fs (row_add i n ns)"
  by (auto simp: notes_filed_def)

lemma notes_filed_note_set:
  "notes_filed fs ns \<Longrightarrow> (\<And>f. n_folder_id n = Some f \<Longrightarrow> map_option f_case_id (row_get fs f) = Some (n_case_id n)) \<Longrightarrow>
   notes_filed fs (row_set i n ns)"
  by (fastforce simp: notes_filed_def dest: row_set_mem)

lemma notes_filed_folder_del:
  "notes_filed fs ns \<Longrightarrow> (\<And>j n. (j, n) \<in> set ns \<Longrightarrow> n_folder_id n \<noteq> Some i) \<Longrightarrow> notes_filed (row_del i fs) ns"
  by (fastforce simp: notes_filed_def tbl.get_del)


text \<open>What the state says of the rows a service has read, and single writes in it.\<close>

lemma folder_case_at: "wf_at A d \<Longrightarrow> visible_row folders_e d i = Some f \<Longrightarrow> case_tenant d (f_case_id f) = Some (f_tenant_id f)"
  using wf_row_case(6) wf_at_db by blast

lemma note_case_at:
  assumes "wf_at A d" and "visible_row notes_e d i = Some n"
  shows "case_tenant d (n_case_id n) = Some (n_tenant_id n)"
    and "n_folder_id n = Some f \<Longrightarrow> map_option f_case_id (row_get (db_folders d) f) = Some (n_case_id n)"
proof -
  show "case_tenant d (n_case_id n) = Some (n_tenant_id n)"
    using wf_row_case(7) wf_at_db [OF assms(1)] assms(2) by blast
  have "(i, n) \<in> set (db_notes d)"
    using visible_rowD [OF assms(2)] by (auto simp: row_get_in)
  then show "n_folder_id n = Some f \<Longrightarrow> map_option f_case_id (row_get (db_folders d) f) = Some (n_case_id n)"
    using wf_at_db [OF assms(1)] by (auto simp: wf_db_def notes_filed_def)
qed

lemma folder_store_state:
  assumes "wf_at A d" and "visible_row folders_e d i = Some f" and "f_case_id r = f_case_id f" "f_tenant_id r = f_tenant_id f"
  shows "wf_at A (snd (store_row folders_e i r d))"
  using assms visible_rowD [OF assms(2)] folder_case_at [OF assms(1,2)] row_ok_at(6) [OF assms(1)]
  by (intro folders_c.store_state_at) (auto simp: folders_ok_def notes_filed_folder_set)

lemma note_store_state:
  assumes "wf_at A d" and "case_tenant d (n_case_id r) = Some (n_tenant_id r)"
    and "\<And>f. n_folder_id r = Some f \<Longrightarrow> map_option f_case_id (row_get (db_folders d) f) = Some (n_case_id r)"
  shows "wf_at A (snd (store_row notes_e i r d))"
  using assms row_ok_at(7) [OF assms(1)]
  by (intro notes_c.store_state_at) (auto simp: notes_ok_def notes_filed_note_set)

lemma note_insert_state:
  assumes "wf_at A d" and "case_tenant d (n_case_id r) = Some (n_tenant_id r)"
    and "\<And>f. n_folder_id r = Some f \<Longrightarrow> map_option f_case_id (row_get (db_folders d) f) = Some (n_case_id r)"
  shows "wf_at A (snd (insert_row notes_e r d))"
  using assms row_ok_at(7) [OF assms(1)]
  by (intro notes_c.insert_state_at) (auto simp: notes_ok_def notes_filed_note_add)

lemma and_then_post:
  "I (snd (m d)) \<Longrightarrow> (\<And>x d'. m d = (Inr x, d') \<Longrightarrow> I (snd (n d'))) \<Longrightarrow> I (snd (and_then m n d))"
  by (auto simp: and_then_apply split: prod.splits sum.splits)

lemma and_then_keeps: "I (snd (m d)) \<Longrightarrow> keeps I n \<Longrightarrow> I (snd (and_then m n d))"
  by (rule and_then_post [where I = I]) (auto dest: keepsD)

lemma filed_in_case_apply:
  "filed_in_case x c d = (r, d') \<Longrightarrow> d' = d \<and> (r = Inr u \<longrightarrow> (\<forall>f. x = Some f \<longrightarrow> map_option f_case_id (row_get (db_folders d) f) = Some c))"
  by (auto simp: filed_in_case_def bind_apply get_or_404_apply split: option.splits if_splits dest!: visible_rowD)

lemma create_note_at [keeps_intros]: "keeps (wf_at A) (create_note c u p)"
proof (rule keepsI)
  fix d assume at: "wf_at A d"
  show "wf_at A (snd (create_note c u p d))"
    unfolding create_note_def
  proof (rule get_or_404_post [where I = "wf_at A", OF at])
    fix r assume r: "visible_row cases_e d c = Some r"
    obtain x d1 where f: "filed_in_case (nc_folder_id p) c d = (x, d1)" by fastforce
    note filed = filed_in_case_apply [OF f, of "()"]
    show "wf_at A (snd (and_then (filed_in_case (nc_folder_id p) c)
       (bind now_utc (\<lambda>now. insert_row notes_e (note_draft (c_tenant_id r) c u p now))) d))"
      using f filed at case_tenant_visible [OF r]
      by (auto simp: and_then_apply bind_apply now_utc_apply note_draft_def split: sum.splits intro!: note_insert_state)
  qed
qed

lemma update_note_at [keeps_intros]: "keeps (wf_at A) (update_note i data)"
proof (rule keepsI)
  fix d assume at: "wf_at A d"
  show "wf_at A (snd (update_note i data d))"
    unfolding update_note_def
  proof (rule get_or_404_post [where I = "wf_at A", OF at])
    fix n assume n: "visible_row notes_e d i = Some n"
    let ?x = "case nu_folder_id data of Some (Some f) \<Rightarrow> Some f | _ \<Rightarrow> None"
    obtain x d1 where f: "filed_in_case ?x (n_case_id n) d = (x, d1)" by fastforce
    note filed = filed_in_case_apply [OF f, of "()"]
    have "map_option f_case_id (row_get (db_folders d) fo) = Some (n_case_id n)"
      if "x = Inr ()" "n_folder_id (note_set data n) = Some fo" for fo
      using that filed note_case_at(2) [OF at n] by (cases "nu_folder_id data") (auto simp: note_set_def split: option.splits)
    then have store: "wf_at A (snd (store_row notes_e i ((note_set data n)\<lparr>n_updated_at := now\<rparr>) d))" if "x = Inr ()" for now
      using that note_case_at(1) [OF at n] by (intro note_store_state [OF at]) (auto simp: note_set_def)
    then have "wf_at A (snd (save_changed notes_e i n (note_set data n) (n_updated_at_update (\<lambda>_. now)) d))" if "x = Inr ()" for now
      using that at by (simp add: save_changed_def)
    then have save: "wf_at A (snd (and_then (save_changed notes_e i n (note_set data n) (n_updated_at_update (\<lambda>_. now))) (note_or_404 i) d))"
      if "x = Inr ()" for now
      using that by (intro and_then_keeps [where I = "wf_at A"] keeps_get_or_404)
    have "wf_at A (snd (and_then (not_null ns) (bind now_utc (\<lambda>now.
        and_then (save_changed notes_e i n (note_set data n) (n_updated_at_update (\<lambda>_. now))) (note_or_404 i))) d))"
      if "x = Inr ()" for ns
      using save [OF that] at by (simp add: and_then_apply [of "not_null ns"] not_null_apply bind_apply now_utc_apply)
    then show "wf_at A (snd (and_then (filed_in_case ?x (n_case_id n))
       (and_then (not_null [is_null (nu_title data), is_null (nu_content data)])
       (bind now_utc (\<lambda>now. and_then (save_changed notes_e i n (note_set data n) (n_updated_at_update (\<lambda>_. now)))
       (note_or_404 i)))) d))"
      using f filed at by (cases x) (simp_all add: and_then_apply [of "filed_in_case ?x (n_case_id n)"])
  qed
qed

lemma create_folder_at [keeps_intros]: "keeps (wf_at A) (create_folder c p)"
  unfolding create_folder_def
  by (intro get_case_at keeps_intros) (auto simp: folder_draft_def)

lemma update_folder_at [keeps_intros]: "keeps (wf_at A) (update_folder i data)"
proof (rule keepsI)
  fix d assume at: "wf_at A d"
  show "wf_at A (snd (update_folder i data d))"
    unfolding update_folder_def
  proof (rule get_or_404_post [where I = "wf_at A", OF at])
    fix f assume f: "visible_row folders_e d i = Some f"
    let ?save = "and_then (save_changed folders_e i f (folder_set data f) id) (folder_or_404 i)"
    have save: "wf_at A (snd (?save d))"
      using at folder_store_state [OF at f, of "folder_set data f"]
      by (intro and_then_keeps [where I = "wf_at A"] keeps_get_or_404) (simp add: save_changed_def folder_set_def)
    have "wf_at A (snd (and_then (not_null ns) ?save d))" for ns
      using save at by (simp add: and_then_apply [of "not_null ns"] not_null_apply)
    then show "wf_at A (snd (and_then (case fu_parent_id data of
         Some (Some p) \<Rightarrow> bind (would_create_cycle i p) (\<lambda>b.
           guard (\<not> b) (HTTPException 400 ''Moving this folder would create a cycle in the folder tree''))
       | _ \<Rightarrow> ret ()) (and_then (not_null [is_null (fu_name data), is_null (fu_sort_order data)]) ?save) d))"
      using at by (cases "fu_parent_id data")
        (auto simp: and_then_apply [of "ret ()"] and_then_apply [of "bind m k" for m k] would_create_cycle_def bind_apply split: option.split)
  qed
qed

definition folder_cases :: "folder_row table \<Rightarrow> db \<Rightarrow> bool" where
  "folder_cases rows d \<longleftrightarrow> (\<forall>j g. (j, g) \<in> set rows \<longrightarrow> map_option (\<lambda>f. (f_case_id f, f_tenant_id f)) (row_get (db_folders d) j) =
     Some (f_case_id g, f_tenant_id g))"

lemma folder_casesD:
  "folder_cases rows d \<Longrightarrow> (j, g) \<in> set rows \<Longrightarrow>
   map_option (\<lambda>f. (f_case_id f, f_tenant_id f)) (row_get (db_folders d) j) = Some (f_case_id g, f_tenant_id g)"
  by (simp add: folder_cases_def)

lemma detach_store_keeps:
  assumes "(j, g) \<in> set rows"
  shows "keeps (\<lambda>d. wf_at A d \<and> folder_cases rows d) (store_row folders_e j (g\<lparr>f_parent_id := None\<rparr>))"
proof (rule keepsI)
  fix d assume I: "wf_at A d \<and> folder_cases rows d"
  show "wf_at A (snd (store_row folders_e j (g\<lparr>f_parent_id := None\<rparr>) d)) \<and>
      folder_cases rows (snd (store_row folders_e j (g\<lparr>f_parent_id := None\<rparr>) d))"
  proof (cases "visible_row folders_e d j")
    case None
    with I show ?thesis by (simp add: store_row_def)
  next
    case (Some f)
    then have "(f_case_id f, f_tenant_id f) = (f_case_id g, f_tenant_id g)"
      using I assms visible_rowD [OF Some] by (fastforce simp: folder_cases_def)
    then have "wf_at A (snd (store_row folders_e j (g\<lparr>f_parent_id := None\<rparr>) d))"
      using I by (intro folder_store_state [OF _ Some]) auto
    moreover have "folder_cases rows (snd (store_row folders_e j (g\<lparr>f_parent_id := None\<rparr>) d))"
    proof (rule store_row_post)
      have same: "f_case_id h = f_case_id g \<and> f_tenant_id h = f_tenant_id g" if "(j, h) \<in> set rows" for h
        using folder_casesD [OF conjunct2 [OF I] assms] folder_casesD [OF conjunct2 [OF I] that] by simp
      have "map_option (\<lambda>f. (f_case_id f, f_tenant_id f)) (row_get (row_set j (g\<lparr>f_parent_id := None\<rparr>) (db_folders d)) k) =
          Some (f_case_id h, f_tenant_id h)" if "(k, h) \<in> set rows" for k h
        using I same [of h] that visible_rowD [OF Some] by (cases "k = j") (auto simp: folder_cases_def row_get_set)
      then show "folder_cases rows (ent_upd folders_e (row_set j (g\<lparr>f_parent_id := None\<rparr>)) d)"
        by (auto simp: folder_cases_def)
    qed (use I in simp)
    ultimately show ?thesis ..
  qed
qed

lemma detach_subfolders_at [keeps_intros]: "keeps (wf_at A) (detach_subfolders i)"
proof (rule keepsI)
  fix d assume at: "wf_at A d"
  let ?rows = "rows_where (\<lambda>j g. ent_vis folders_e (db_session d) g \<and> f_parent_id g = Some i) (db_folders d)"
  have "ids_ok (db_next_id d) (db_folders d)"
    using wf_db_ids [OF wf_at_db [OF at]] by (simp add: wf_ids_def)
  then have "folder_cases ?rows d"
    by (auto simp: folder_cases_def row_get_iff ids_ok_distinct)
  with at have "wf_at A (snd (for_each ?rows (\<lambda>(j, g). store_row folders_e j (g\<lparr>f_parent_id := None\<rparr>)) d)) \<and>
      folder_cases ?rows (snd (for_each ?rows (\<lambda>(j, g). store_row folders_e j (g\<lparr>f_parent_id := None\<rparr>)) d))"
    by (intro keepsD [where I = "\<lambda>d. wf_at A d \<and> folder_cases ?rows d" for d] keeps_for_each)
      (auto intro: detach_store_keeps)
  then show "wf_at A (snd (detach_subfolders i d))"
    by (simp add: detach_subfolders_def bind_apply select_rows_apply)
qed

lemma note_detach_at [keeps_intros]:
  assumes "(n_case_id r, n_tenant_id r) \<in> A" and "n_folder_id r = None"
  shows "keeps (wf_at A) (store_row notes_e i r)"
  by (rule keepsI, rule note_store_state) (use assms in \<open>auto simp: wf_atD\<close>)

lemma detach_notes_at [keeps_intros]: "keeps (wf_at A) (detach_notes i)"
  unfolding detach_notes_def
proof (rule keeps_bind [OF keeps_now_utc], rule wf_at_enter)
  fix now d assume at: "wf_at A d"
  let ?rows = "rows_where (\<lambda>j n. ent_vis notes_e (db_session d) n \<and> n_folder_id n = Some i) (db_notes d)"
  let ?B = "A \<union> (\<lambda>(j, n). (n_case_id n, n_tenant_id n)) ` set ?rows"
  have "\<forall>(j, n) \<in> set (db_notes d). case_tenant d (n_case_id n) = Some (n_tenant_id n)"
    using wf_at_db [OF at] by (auto simp: wf_db_def wf_tenancy_def rows_in_case_def)
  with at have "wf_at ?B d"
    by (auto simp: wf_at_def)
  moreover have "keeps (wf_at ?B) (for_each ?rows (\<lambda>(j, n). store_row notes_e j (n\<lparr>n_folder_id := None, n_updated_at := now\<rparr>)))"
    by (intro keeps_for_each) (auto intro!: note_detach_at rev_image_eqI)
  ultimately show "(\<exists>x. select_rows notes_e (\<lambda>_ n. n_folder_id n = Some i) d = (Inr x, d) \<and>
      (\<exists>B. wf_at B d \<and> A \<subseteq> B \<and> keeps (wf_at B) (for_each x (\<lambda>(j, n). store_row notes_e j (n\<lparr>n_folder_id := None, n_updated_at := now\<rparr>))))) \<or>
      (\<exists>e. select_rows notes_e (\<lambda>_ n. n_folder_id n = Some i) d = (Inl e, d))"
    by (auto simp: select_rows_apply)
qed

lemma folder_delete_at: "wf_at A d \<Longrightarrow> \<not> folder_restricted d i \<Longrightarrow> wf_at A (snd (delete_row folders_e i d))"
  using row_ok_at(6) [of A d]
  by (intro folders_c.delete_state_at) (auto simp: folders_ok_def folder_restricted_def intro!: notes_filed_folder_del)

lemma delete_folder_at [keeps_intros]: "keeps (wf_at A) (delete_folder i)"
proof -
  have "keeps (wf_at A) (bind (reads (\<lambda>d. folder_restricted d i)) (\<lambda>restricted.
     and_then (guard (\<not> restricted) fk_error) (delete_row folders_e i)))"
    by (rule keepsI) (simp add: bind_apply and_then_apply folder_delete_at)
  then show ?thesis
    unfolding delete_folder_def
    by (intro keeps_bind [OF keeps_get_or_404] keeps_and_then detach_subfolders_at detach_notes_at)
qed

lemma delete_note_at [keeps_intros]: "keeps (wf_at A) (delete_note i)"
  unfolding delete_note_def
  by (intro keeps_intros notes_c.delete_at) (auto dest: row_ok_at(7) simp: notes_ok_def)

section \<open>The folder tree\<close>

text \<open>
  The parent relation of the folders. In a forest every parent is a folder of the same tenant and no folder is its own
  ancestor.
\<close>

definition parent_rel :: "folder_row table \<Rightarrow> (uuid \<times> uuid) set" where
  "parent_rel fs = {(i, p). \<exists>f. (i, f) \<in> set fs \<and> f_parent_id f = Some p}"

definition folder_forest :: "db \<Rightarrow> bool" where
  "folder_forest d \<longleftrightarrow> acyclic (parent_rel (db_folders d)) \<and>
     (\<forall>(i, f) \<in> set (db_folders d). \<forall>p. f_parent_id f = Some p \<longrightarrow>
        map_option f_tenant_id (row_get (db_folders d) p) = Some (f_tenant_id f))"

lemma cycle_from_complete:
  assumes "\<not> cycle_from ps i cur V"
  shows "(cur, i) \<notin> {(j, p). map_of ps j = Some (Some p)}\<^sup>*"
  using assms
proof (induction ps i cur V rule: cycle_from.induct)
  case (1 ps i cur V)
  show ?case
  proof
    assume "(cur, i) \<in> {(j, p). map_of ps j = Some (Some p)}\<^sup>*"
    then show False
    proof (cases rule: converse_rtranclE)
      case base
      with 1(2) show False by (simp add: cycle_from.simps)
    next
      case (step p)
      then have p: "map_of ps cur = Some (Some p)" by simp
      have nc: "\<not> (cur = i \<or> cur \<in> V)" and "\<not> cycle_from ps i p (insert cur V)"
        using 1(2) p by (auto simp: cycle_from.simps [of ps i cur] split: if_splits)
      from 1(1) [OF nc p refl this(2)] step(2) show False by simp
    qed
  qed
qed
lemma parent_rel_iff: "ids_ok n fs \<Longrightarrow> (i, p) \<in> parent_rel fs \<longleftrightarrow> (\<exists>f. row_get fs i = Some f \<and> f_parent_id f = Some p)"
  by (auto simp: parent_rel_def row_get_iff ids_ok_distinct)

text \<open>Among folders of a forest, the ancestors of a visible folder are visible.\<close>

lemma map_of_map_rows: "map_of (map (\<lambda>(i, f). (i, g f)) t) i = map_option g (map_of t i)"
  by (induction t) auto

lemma visible_parents_of:
  assumes "ids_ok n (db_folders d)"
  shows "map_of (visible_parents d) i = map_option f_parent_id (visible_row folders_e d i)"
proof -
  have "map_of (rows_where (\<lambda>_ f. ent_vis folders_e (db_session d) f) (db_folders d)) i = visible_row folders_e d i"
  proof (cases "visible_row folders_e d i")
    case None
    have "\<not> ent_vis folders_e (db_session d) f" if "(i, f) \<in> set (db_folders d)" for f
      using None row_get_iff [OF ids_ok_distinct [OF assms], of i f] that by (simp add: visible_row_def split: if_splits)
    then show ?thesis
      using None by (auto simp: map_of_eq_None_iff)
  next
    case (Some f)
    have "distinct (map fst (rows_where (\<lambda>_ f. ent_vis folders_e (db_session d) f) (db_folders d)))"
      using ids_ok_distinct [OF assms] by (simp add: rows_where_def distinct_map_filter)
    then show ?thesis
      using visible_rowD [OF Some] Some by (simp add: row_get_in)
  qed
  then show ?thesis
    by (simp add: visible_parents_def map_of_map_rows)
qed

lemma visible_chain:
  assumes forest: "folder_forest d" and ids: "ids_ok n (db_folders d)"
    and "(p, i) \<in> (parent_rel (db_folders d))\<^sup>*" and "visible_row folders_e d p \<noteq> None"
  shows "(p, i) \<in> {(j, q). map_of (visible_parents d) j = Some (Some q)}\<^sup>*"
  using assms(3,4)
proof (induction rule: converse_rtrancl_induct)
  case (step p q)
  then obtain f where f: "visible_row folders_e d p = Some f" by auto
  note row = visible_rowD [OF f]
  have q: "f_parent_id f = Some q"
    using step(1) row by (simp add: parent_rel_iff [OF ids])
  have "map_option f_tenant_id (row_get (db_folders d) q) = Some (f_tenant_id f)"
    using forest q row row_get_in [of "db_folders d" p f] by (fastforce simp: folder_forest_def)
  then have "visible_row folders_e d q \<noteq> None"
    using row by (auto simp: visible_row_def)
  then have "(q, i) \<in> {(j, q). map_of (visible_parents d) j = Some (Some q)}\<^sup>*"
    by (rule step.IH)
  then show ?case
    by (rule converse_rtrancl_into_rtrancl [rotated]) (simp add: visible_parents_of [OF ids] f q)
qed simp

lemma run_move_check:
  "and_then (case x of Some (Some p) \<Rightarrow> bind (would_create_cycle i p) (\<lambda>b. guard (\<not> b) e) | _ \<Rightarrow> ret ()) m d = (Inr r, d') \<longleftrightarrow>
   (\<forall>p. x = Some (Some p) \<longrightarrow> p \<noteq> i \<and> \<not> cycle_from (visible_parents d) i p {}) \<and> m d = (Inr r, d')"
  by (cases x) (auto simp: and_then_apply bind_apply would_create_cycle_def split: option.split)

lemma update_folder_InrD:
  assumes "update_folder i data d = (Inr r, d')"
  obtains f where "visible_row folders_e d i = Some f"
    and "\<And>p. fu_parent_id data = Some (Some p) \<Longrightarrow> p \<noteq> i \<and> \<not> cycle_from (visible_parents d) i p {}"
    and "d' = d \<or> db_folders d' = row_set i (folder_set data f) (db_folders d)"
proof -
  from assms obtain f where "visible_row folders_e d i = Some f"
    and "\<forall>p. fu_parent_id data = Some (Some p) \<longrightarrow> p \<noteq> i \<and> \<not> cycle_from (visible_parents d) i p {}"
    and "and_then (save_changed folders_e i f (folder_set data f) id) (folder_or_404 i) d = (Inr r, d')"
    unfolding update_folder_def run_bind_get run_move_check run_not_null by blast
  with that show thesis
    by (auto simp: run_eqs split: if_splits dest!: store_row_InrD)
qed

text \<open>Moving a folder replaces at most its own arrow of the parent relation.\<close>

definition moved_rel :: "uuid \<Rightarrow> folder_update \<Rightarrow> (uuid \<times> uuid) set \<Rightarrow> (uuid \<times> uuid) set" where
  "moved_rel i data R = (case fu_parent_id data of Some (Some p) \<Rightarrow> insert (i, p) R | _ \<Rightarrow> R)"

lemma moved_parents:
  assumes "ids_ok n (db_folders d)" and "row_get (db_folders d) i = Some f"
  shows "parent_rel (row_set i (folder_set data f) (db_folders d)) \<subseteq> moved_rel i data (parent_rel (db_folders d))"
proof -
  have ids': "ids_ok n (row_set i (folder_set data f) (db_folders d))"
    using assms(1) by simp
  have "(a, b) \<in> moved_rel i data (parent_rel (db_folders d))"
    if "(a, b) \<in> parent_rel (row_set i (folder_set data f) (db_folders d))" for a b
    using that [unfolded parent_rel_iff [OF ids']] assms(2) unfolding moved_rel_def
    by (auto simp: parent_rel_iff [OF assms(1)] row_get_set folder_set_def
        split: option.splits if_splits)
  then show ?thesis by auto
qed

lemma moved_acyclic:
  assumes "folder_forest d" and ids: "ids_ok n (db_folders d)" and "row_get (db_folders d) i = Some f"
    and "\<And>p. fu_parent_id data = Some (Some p) \<Longrightarrow> visible_row folders_e d p \<noteq> None"
    and "\<And>p. fu_parent_id data = Some (Some p) \<Longrightarrow> \<not> cycle_from (visible_parents d) i p {}"
  shows "acyclic (parent_rel (row_set i (folder_set data f) (db_folders d)))"
proof -
  have "(p, i) \<notin> (parent_rel (db_folders d))\<^sup>*" if "fu_parent_id data = Some (Some p)" for p
    using assms(5) [OF that] visible_chain [OF assms(1) ids _ assms(4) [OF that]] cycle_from_complete by blast
  then have "acyclic (moved_rel i data (parent_rel (db_folders d)))"
    using assms(1) by (auto simp: moved_rel_def folder_forest_def split: option.split)
  then show ?thesis
    by (rule acyclic_subset [OF _ moved_parents [OF ids assms(3)]])
qed

text \<open>The parent of every folder stays in the folder's tenant, when the new parent is one the tenant sees.\<close>

lemma moved_tenants:
  assumes "folder_forest d" and ids: "ids_ok n (db_folders d)" and "db_session d = tenant_session t"
    and f: "visible_row folders_e d i = Some f"
    and vis: "\<And>p. fu_parent_id data = Some (Some p) \<Longrightarrow> visible_row folders_e d p \<noteq> None"
    and g: "(j, g) \<in> set (row_set i (folder_set data f) (db_folders d))" "f_parent_id g = Some p"
  shows "map_option f_tenant_id (row_get (row_set i (folder_set data f) (db_folders d)) p) = Some (f_tenant_id g)"
proof -
  note row = visible_rowD [OF f]
  have same: "map_option f_tenant_id (row_get (row_set i (folder_set data f) (db_folders d)) q) =
      map_option f_tenant_id (row_get (db_folders d) q)" for q
    using row by (simp add: row_get_set) (simp add: folder_set_def)
  have parents: "map_option f_tenant_id (row_get (db_folders d) p) = Some (f_tenant_id h)"
    if "row_get (db_folders d) k = Some h" "f_parent_id h = Some p" for k h
    using assms(1) that row_get_in [of "db_folders d" k h] by (fastforce simp: folder_forest_def)
  from row_set_mem [OF g(1)] consider "j \<noteq> i" "(j, g) \<in> set (db_folders d)"
    | "g = folder_set data f" "f_parent_id f = Some p" | "g = folder_set data f" "fu_parent_id data = Some (Some p)"
    using g(2) by (cases "fu_parent_id data") (auto simp: folder_set_def)
  then show ?thesis
  proof cases
    case 1
    with parents [of j g] g(2) row_get_iff [OF ids_ok_distinct [OF ids]] show ?thesis unfolding same by blast
  next
    case 2
    with parents [of i f] row show ?thesis unfolding same by (simp add: folder_set_def)
  next
    case 3
    from vis [OF this(2)] obtain h where "visible_row folders_e d p = Some h" by auto
    with visible_rowD [OF this] row 3 show ?thesis
      unfolding same by (simp add: assms(3) folder_set_def)
  qed
qed

text \<open>
  C23: moving a folder keeps the tree. In a forest, an update in a tenant's session that succeeds and whose new parent, if
  any, is a folder the session sees leaves a forest: the check that walks up the parents is complete.
\<close>

theorem folder_update_keeps_forest:
  assumes "folder_forest d" and "wf_db d" and "db_session d = tenant_session t" and "update_folder i data d = (Inr r, d')"
    and "\<And>p. fu_parent_id data = Some (Some p) \<Longrightarrow> visible_row folders_e d p \<noteq> None"
  shows "folder_forest d'"
proof -
  have ids: "ids_ok (db_next_id d) (db_folders d)"
    using wf_db_ids [OF assms(2)] by (simp add: wf_ids_def)
  from assms(4) obtain f where f: "visible_row folders_e d i = Some f"
    and chk: "\<And>p. fu_parent_id data = Some (Some p) \<Longrightarrow> p \<noteq> i \<and> \<not> cycle_from (visible_parents d) i p {}"
    and fs: "d' = d \<or> db_folders d' = row_set i (folder_set data f) (db_folders d)"
    using update_folder_InrD by blast
  have "row_get (db_folders d) i = Some f"
    using visible_rowD [OF f] by simp
  then have "acyclic (parent_rel (row_set i (folder_set data f) (db_folders d)))"
    using moved_acyclic [OF assms(1) ids _ assms(5)] chk by blast
  with fs moved_tenants [OF assms(1) ids assms(3) f assms(5)] assms(1) show ?thesis
    by (auto simp: folder_forest_def)
qed

definition demo_folder :: "uuid \<Rightarrow> uuid \<Rightarrow> uuid option \<Rightarrow> folder_row" where
  "demo_folder t c p = \<lparr>f_tenant_id = t, f_case_id = c, f_parent_id = p, f_name = ''notes'', f_sort_order = 0, f_created_at = 0\<rparr>"

definition demo_tree :: db where
  "demo_tree = demo_db\<lparr>db_folders := [(16, demo_folder 1 5 None), (17, demo_folder 1 5 (Some 16)), (18, demo_folder 1 5 None),
     (19, demo_folder 2 7 None)]\<rparr>"

definition demo_move :: "uuid \<Rightarrow> folder_update" where
  "demo_move p = \<lparr>fu_name = None, fu_parent_id = Some (Some p), fu_sort_order = None\<rparr>"

lemma demo_tree_wf: "wf_db demo_tree"
  by (simp add: demo_tree_def demo_folder_def wf_db_def wf_ids_def wf_tenancy_def wf_unique_def ids_ok_def rows_in_case_def tenant_in_def
      unique_rows_def notes_filed_def pending_unique_def promoted_has_case_def row_get_def demo_defs)

lemma parent_rel_list [simp]:
  "parent_rel [] = {}"
  "parent_rel ((i, f) # fs) = (case f_parent_id f of None \<Rightarrow> parent_rel fs | Some p \<Rightarrow> insert (i, p) (parent_rel fs))"
  by (auto simp: parent_rel_def split: option.split)

lemma demo_tree_forest: "folder_forest demo_tree"
proof -
  have "parent_rel (db_folders demo_tree) = {(17, 16)}"
    by (simp add: demo_tree_def demo_folder_def)
  moreover have "acyclic ({} :: (uuid \<times> uuid) set)"
    by (simp add: acyclic_def)
  ultimately show ?thesis
    by (simp add: folder_forest_def acyclic_insert) (simp add: demo_tree_def demo_folder_def row_get_def)
qed

lemma cycle_from_steps:
  "cur \<noteq> i \<Longrightarrow> cur \<notin> V \<Longrightarrow> map_of ps cur = None \<Longrightarrow> \<not> cycle_from ps i cur V"
  "cur \<noteq> i \<Longrightarrow> cur \<notin> V \<Longrightarrow> map_of ps cur = Some None \<Longrightarrow> \<not> cycle_from ps i cur V"
  "cur \<noteq> i \<Longrightarrow> cur \<notin> V \<Longrightarrow> map_of ps cur = Some (Some p) \<Longrightarrow> cycle_from ps i cur V = cycle_from ps i p (insert cur V)"
  by (simp_all add: cycle_from.simps [of ps i cur V])

lemmas folder_run = update_folder_def would_create_cycle_def visible_parents_def cycle_from_steps folder_set_def demo_move_def
  demo_tree_def demo_folder_def

theorem folder_update_keeps_forest_witness:
  "\<exists>r d'. update_folder 18 (demo_move 17) demo_tree = (Inr r, d') \<and> folder_forest d'"
proof -
  obtain r d' where run: "update_folder 18 (demo_move 17) demo_tree = (Inr r, d')"
    by (simp add: folder_run run_simps)
  have "db_session demo_tree = tenant_session 1" and "visible_row folders_e demo_tree 17 \<noteq> None"
    by (simp_all add: demo_tree_def demo_folder_def visible_row_def row_get_def demo_db_def empty_db_def)
  with folder_update_keeps_forest [OF demo_tree_forest demo_tree_wf _ run, of 1] run show ?thesis
    by (auto simp: demo_move_def)
qed

text \<open>
  The check sees only the session's tenant, and an update does not ask that the parent is of the folder's case. Two
  tenants that each name the other's folder as parent both succeed, and their folders are each other's ancestors.
\<close>

theorem cross_tenant_cycle:
  "\<exists>r1 d1 r2 d2. update_folder 16 (demo_move 19) demo_tree = (Inr r1, d1) \<and>
     update_folder 19 (demo_move 16) (d1\<lparr>db_session := tenant_session 2\<rparr>) = (Inr r2, d2) \<and>
     (16, 19) \<in> parent_rel (db_folders d2) \<and> (19, 16) \<in> parent_rel (db_folders d2)"
  by (simp add: folder_run run_simps)

section \<open>The cycle check ends\<close>

text \<open>
  The loop as it stands: \<open>current\<close> may become null, each turn asks the database for one parent, and nothing in it says
  that it ends. The last component counts the queries.
\<close>

partial_function (option) cycle_walk :: "parents \<Rightarrow> uuid \<Rightarrow> uuid option \<Rightarrow> uuid set \<Rightarrow> nat \<Rightarrow> (bool \<times> nat) option" where
  "cycle_walk ps folder_id current visited queries = (case current of
       None \<Rightarrow> Some (False, queries)
     | Some c \<Rightarrow> if c = folder_id then Some (True, queries)
         else if c \<in> visited then Some (True, queries)
         else cycle_walk ps folder_id (case map_of ps c of Some parent \<Rightarrow> parent | None \<Rightarrow> None) (insert c visited) (Suc queries))"

definition above :: "parents \<Rightarrow> (uuid \<times> uuid) set" where
  "above ps = {(j, p). map_of ps j = Some (Some p)}"

lemma cycle_walk_end [simp]:
  "cycle_walk ps i None V q = Some (False, q)"
  "cycle_walk ps i (Some c) V q = (if c = i \<or> c \<in> V then Some (True, q)
     else cycle_walk ps i (case map_of ps c of Some parent \<Rightarrow> parent | None \<Rightarrow> None) (insert c V) (Suc q))"
  by (simp_all add: cycle_walk.simps [of ps i])

lemma cycle_walk_from:
  "\<exists>n. cycle_walk ps i (Some c) V q = Some (cycle_from ps i c V, n) \<and> n \<le> Suc (q + card (fst ` set ps - V))"
proof (induction ps i c V arbitrary: q rule: cycle_from.induct)
  case (1 ps i c V)
  show ?case
  proof (cases "c = i \<or> c \<in> V")
    case False
    show ?thesis
    proof (cases "\<exists>p. map_of ps c = Some (Some p)")
      case True
      then obtain p where p: "map_of ps c = Some (Some p)" by blast
      from 1 [OF False p refl, of "Suc q"] obtain n where
        n: "cycle_walk ps i (Some p) (insert c V) (Suc q) = Some (cycle_from ps i p (insert c V), n)"
          "n \<le> Suc (Suc q + card (fst ` set ps - insert c V))" by blast
      have "c \<in> fst ` set ps" using p by (force dest: map_of_SomeD)
      with False have "Suc (card (fst ` set ps - insert c V)) = card (fst ` set ps - V)"
        by (metis DiffI List.finite_set card_Suc_Diff1 Diff_insert finite_Diff finite_imageI)
      with n False p show ?thesis by (auto simp del: cycle_walk_end simp add: cycle_walk_end(2) [of ps i c] cycle_from.simps [of ps i c])
    next
      case none: False
      then have "map_of ps c = None \<or> map_of ps c = Some None" by (metis not_None_eq)
      with False show ?thesis by (auto simp: cycle_from.simps [of ps i c])
    qed
  qed (auto simp: cycle_from.simps)
qed

lemma above_step: "(c, x) \<in> (above ps)\<^sup>* \<Longrightarrow> c \<noteq> x \<Longrightarrow> (c, p) \<in> above ps \<Longrightarrow> (p, x) \<in> (above ps)\<^sup>*"
  by (erule converse_rtranclE) (auto simp: above_def)

lemma above_loop_step: "(x, x) \<in> (above ps)\<^sup>+ \<Longrightarrow> (x, p) \<in> above ps \<Longrightarrow> (p, p) \<in> (above ps)\<^sup>+"
proof -
  assume l: "(x, x) \<in> (above ps)\<^sup>+" and p: "(x, p) \<in> above ps"
  from l obtain y where "(x, y) \<in> above ps" "(y, x) \<in> (above ps)\<^sup>*" by (blast dest: tranclD)
  with p show "(p, p) \<in> (above ps)\<^sup>+" by (auto simp: above_def intro: rtrancl_into_trancl1)
qed

lemma cycle_from_loop: "\<not> cycle_from ps i c V \<Longrightarrow> (c, x) \<in> (above ps)\<^sup>* \<Longrightarrow> (x, x) \<notin> (above ps)\<^sup>+"
proof (induction ps i c V arbitrary: x rule: cycle_from.induct)
  case (1 ps i c V)
  have nc: "\<not> (c = i \<or> c \<in> V)" using 1(2) by (auto simp: cycle_from.simps [of ps i c])
  show ?case
  proof
    assume loop: "(x, x) \<in> (above ps)\<^sup>+"
    have "\<exists>p. (c, p) \<in> above ps"
      using 1(3) loop by (blast dest: tranclD elim: converse_rtranclE)
    then obtain p where p: "map_of ps c = Some (Some p)" by (auto simp: above_def)
    then have step: "(c, p) \<in> above ps" by (simp add: above_def)
    have "\<not> cycle_from ps i p (insert c V)" using 1(2) nc p by (simp add: cycle_from.simps [of ps i c])
    note IH = 1(1) [OF nc p refl this]
    show False
    proof (cases "c = x")
      case True
      with IH [of p] above_loop_step [OF loop] step show ?thesis by simp
    next
      case False
      from IH [OF above_step [OF 1(3) False step]] loop show ?thesis by simp
    qed
  qed
qed

lemma cycle_from_sound:
  assumes "cycle_from ps i c V" and "\<forall>v\<in>V. (v, c) \<in> (above ps)\<^sup>+"
  shows "(c, i) \<in> (above ps)\<^sup>* \<or> (\<exists>x. (c, x) \<in> (above ps)\<^sup>* \<and> (x, x) \<in> (above ps)\<^sup>+)"
  using assms
proof (induction ps i c V rule: cycle_from.induct)
  case (1 ps i c V)
  show ?case
  proof (cases "c = i \<or> c \<in> V")
    case False
    with 1(2) obtain p where p: "map_of ps c = Some (Some p)" and r: "cycle_from ps i p (insert c V)"
      by (auto simp: cycle_from.simps [of ps i c] split: option.splits)
    then have step: "(c, p) \<in> above ps" by (simp add: above_def)
    with 1(3) have "\<forall>v\<in>insert c V. (v, p) \<in> (above ps)\<^sup>+" by (auto intro: trancl_into_trancl)
    from 1(1) [OF False p refl r this] step show ?thesis by (blast intro: converse_rtrancl_into_rtrancl)
  qed (use 1(3) in auto)
qed

text \<open>
  C24: the cycle check ends. Whatever parents the session sees, cyclic ones included, the loop comes to an answer with at
  most one query for each visible folder and one more; it answers that the move would create a cycle exactly when the
  folder moved is the new parent or one of its ancestors, or the ancestors run into a cycle that is there already.
\<close>

theorem cycle_check_ends:
  "\<exists>b n. cycle_walk (visible_parents d) i (Some p) {} 0 = Some (b, n) \<and> n \<le> Suc (length (visible_parents d)) \<and>
     would_create_cycle i p d = (Inr b, d) \<and>
     (b \<longleftrightarrow> (p, i) \<in> (above (visible_parents d))\<^sup>* \<or>
        (\<exists>x. (p, x) \<in> (above (visible_parents d))\<^sup>* \<and> (x, x) \<in> (above (visible_parents d))\<^sup>+))"
proof -
  let ?ps = "visible_parents d"
  obtain n where w: "cycle_walk ?ps i (Some p) {} 0 = Some (cycle_from ?ps i p {}, n)" and n: "n \<le> Suc (card (fst ` set ?ps))"
    using cycle_walk_from [of ?ps i p "{}" 0] by auto
  have "card (fst ` set ?ps) \<le> length ?ps" by (metis card_length length_map list.set_map)
  with n have "n \<le> Suc (length ?ps)" by simp
  moreover have "i = p \<Longrightarrow> cycle_from ?ps i p {}" by (simp add: cycle_from.simps)
  then have "would_create_cycle i p d = (Inr (cycle_from ?ps i p {}), d)"
    by (auto simp: would_create_cycle_def)
  moreover have "cycle_from ?ps i p {} \<longleftrightarrow> (p, i) \<in> (above ?ps)\<^sup>* \<or> (\<exists>x. (p, x) \<in> (above ?ps)\<^sup>* \<and> (x, x) \<in> (above ?ps)\<^sup>+)"
    using cycle_from_sound [of ?ps i p "{}"] cycle_from_loop [of ?ps i p "{}"] cycle_from_complete [of ?ps i p "{}"]
    by (auto simp: above_def)
  ultimately show ?thesis using w by (intro exI [of _ "cycle_from ?ps i p {}"] exI [of _ n] conjI)
qed

end
