(* ===== verification/Clustering.thy ===== *)
theory Clustering
  imports Watari_Prelude
begin

text \<open>
  Temporal clustering (\<^verbatim>\<open>services/clustering.py\<close>): entries, here pairs of an id and a time stamp in microseconds, are
  sorted by time and cut where the gap exceeds the threshold; the groups of two and more are the clusters. The
  reference definition is a partition of the sorted entries in runs.
\<close>

type_synonym timed = "uuid \<times> int"

record cluster =
  cl_start :: int
  cl_end :: int
  cl_entry_ids :: "uuid list"

definition cluster_of :: "timed list \<Rightarrow> cluster" where
  "cluster_of es = \<lparr>cl_start = snd (hd es), cl_end = snd (last es), cl_entry_ids = map fst es\<rparr>"

text \<open>The loop: the clusters emitted and the current group.\<close>

definition flush_group :: "cluster list \<times> timed list \<Rightarrow> cluster list" where
  "flush_group = (\<lambda>(clusters, current). if 2 \<le> length current then clusters @ [cluster_of current] else clusters)"

definition cluster_step :: "int \<Rightarrow> timed \<Rightarrow> cluster list \<times> timed list \<Rightarrow> cluster list \<times> timed list" where
  "cluster_step threshold e st = (case st of (clusters, current) \<Rightarrow>
     if snd e - snd (last current) \<le> threshold then (clusters, current @ [e])
     else (flush_group (clusters, current), [e]))"

definition find_clusters :: "int \<Rightarrow> timed list \<Rightarrow> cluster list" where
  "find_clusters threshold_seconds entries = (case sort_key snd entries of [] \<Rightarrow> []
     | e # es \<Rightarrow> flush_group (fold (cluster_step (threshold_seconds * 1000000)) es ([], [e])))"

section \<open>Runs\<close>

definition close_in :: "int \<Rightarrow> timed list \<Rightarrow> bool" where
  "close_in thr es \<longleftrightarrow> successively (\<lambda>a b. snd b - snd a \<le> thr) es"

definition apart :: "int \<Rightarrow> timed list list \<Rightarrow> bool" where
  "apart thr runs \<longleftrightarrow> successively (\<lambda>r s. snd (hd s) - snd (last r) > thr) runs"

definition clusters_of :: "timed list list \<Rightarrow> cluster list" where
  "clusters_of runs = map cluster_of (filter (\<lambda>r. 2 \<le> length r) runs)"

lemma flush_clusters: "flush_group (clusters_of runs, current) = clusters_of (runs @ [current])"
  by (simp add: flush_group_def clusters_of_def)

lemma close_in_snoc: "es \<noteq> [] \<Longrightarrow> close_in thr (es @ [e]) \<longleftrightarrow> close_in thr es \<and> snd e - snd (last es) \<le> thr"
  by (auto simp: close_in_def successively_append_iff)

lemma apart_snoc: "apart thr (runs @ [r, [e]]) \<longleftrightarrow> apart thr (runs @ [r]) \<and> snd e - snd (last r) > thr"
  unfolding apart_def by (cases runs rule: rev_cases) (auto simp: successively_append_iff)

lemma apart_last: "r \<noteq> [] \<Longrightarrow> apart thr (runs @ [r @ [e]]) \<longleftrightarrow> apart thr (runs @ [r])"
  by (auto simp: apart_def successively_append_iff)

lemma cluster_step_pair:
  "cluster_step thr e (clusters, current) = (if snd e - snd (last current) \<le> thr then (clusters, current @ [e])
     else (flush_group (clusters, current), [e]))"
  by (simp add: cluster_step_def)

text \<open>The loop builds the runs.\<close>

lemma cluster_loop:
  assumes "current \<noteq> []" and "[] \<notin> set runs" and "\<forall>r \<in> set (runs @ [current]). close_in thr r" and "apart thr (runs @ [current])"
  shows "\<exists>runs'. concat runs' = concat runs @ current @ es \<and> [] \<notin> set runs' \<and> (\<forall>r \<in> set runs'. close_in thr r) \<and>
    apart thr runs' \<and> flush_group (fold (cluster_step thr) es (clusters_of runs, current)) = clusters_of runs'"
  using assms
proof (induction es arbitrary: runs current)
  case Nil
  then show ?case
    by (intro exI [of _ "runs @ [current]"]) (simp add: flush_clusters)
next
  case (Cons e es)
  show ?case
  proof (cases "snd e - snd (last current) \<le> thr")
    case True
    with Cons.prems have "\<exists>runs'. concat runs' = concat runs @ (current @ [e]) @ es \<and> [] \<notin> set runs' \<and>
        (\<forall>r \<in> set runs'. close_in thr r) \<and> apart thr runs' \<and>
        flush_group (fold (cluster_step thr) es (clusters_of runs, current @ [e])) = clusters_of runs'"
      by (intro Cons.IH) (auto simp: close_in_snoc apart_last)
    with True show ?thesis by (simp add: cluster_step_pair)
  next
    case False
    with Cons.prems have "\<exists>runs'. concat runs' = concat (runs @ [current]) @ [e] @ es \<and> [] \<notin> set runs' \<and>
        (\<forall>r \<in> set runs'. close_in thr r) \<and> apart thr runs' \<and>
        flush_group (fold (cluster_step thr) es (clusters_of (runs @ [current]), [e])) = clusters_of runs'"
      by (intro Cons.IH) (auto simp: apart_snoc close_in_def)
    with False show ?thesis by (simp add: cluster_step_pair flush_clusters)
  qed
qed

text \<open>
  C25: the clusters are those of the partition of the sorted entries in runs: inside a run no gap exceeds the threshold,
  between two runs the gap exceeds it, and the runs of two and more entries are the clusters. An entry is thus in at
  most one cluster, and a gap equal to the threshold does not cut.
\<close>

theorem find_clusters_are_runs:
  "\<exists>runs. concat runs = sort_key snd entries \<and> [] \<notin> set runs \<and>
     list_all (successively (\<lambda>a b. snd b - snd a \<le> s * 1000000)) runs \<and>
     successively (\<lambda>r r'. snd (hd r') - snd (last r) > s * 1000000) runs \<and>
     find_clusters s entries = map cluster_of (filter (\<lambda>r. 2 \<le> length r) runs)"
proof (cases "sort_key snd entries")
  case Nil
  then show ?thesis
    by (intro exI [of _ "[]"]) (simp add: find_clusters_def)
next
  case (Cons e es)
  have "\<exists>runs'. concat runs' = concat [] @ [e] @ es \<and> [] \<notin> set runs' \<and> (\<forall>r \<in> set runs'. close_in (s * 1000000) r) \<and>
    apart (s * 1000000) runs' \<and> flush_group (fold (cluster_step (s * 1000000)) es (clusters_of [], [e])) = clusters_of runs'"
    by (rule cluster_loop) (simp_all add: close_in_def apart_def)
  then show ?thesis
    by (simp add: Cons find_clusters_def close_in_def apart_def clusters_of_def list_all_iff)
qed

end
