(* ===== verification/Timeline.thy ===== *)
theory Timeline
  imports Cases Clustering
begin

text \<open>
  The timeline service (\<^verbatim>\<open>services/timeline.py\<close>, \<^verbatim>\<open>schemas/timeline.py\<close>): manual entries and their assets,
  filtering, and the swimlane view.
\<close>

record entry_create =
  tc_event_type :: string
  tc_event_timestamp :: int
  tc_description :: string
  tc_category :: "string option"
  tc_metadata :: jobj
  tc_linked_asset_ids :: "uuid list"

record entry_update =
  tu_description :: "string upd"
  tu_category :: "string upd"
  tu_metadata :: "json upd"
  tu_linked_asset_ids :: "uuid list upd"

record timeline_filters =
  tf_event_type :: "string option"
  tf_category :: "string option"
  tf_actor_id :: "uuid option"
  tf_event_after :: "int option"
  tf_event_before :: "int option"
  tf_ascending :: bool

abbreviation entry_or_404 :: "uuid \<Rightarrow> timeline_row service" where
  "entry_or_404 \<equiv> get_or_404 timeline_e (\<lambda>i. ''Timeline entry '' @ uuid_str i @ '' not found'')"

text \<open>
  \<^verbatim>\<open>timeline_asset_links\<close> has no row policy; its constraints are the primary key and the two foreign keys, which
  the database checks against all rows.
\<close>

definition insert_link :: "uuid \<Rightarrow> uuid \<Rightarrow> unit service" where
  "insert_link entry_id asset_id =
     bind (reads (\<lambda>d. (entry_id, asset_id) \<notin> set (db_asset_links d))) (\<lambda>fresh.
     and_then (guard fresh unique_error)
     (bind (reads (\<lambda>d. fk (db_timeline d) entry_id \<and> fk (db_assets d) asset_id)) (\<lambda>known.
     and_then (guard known fk_error)
     (modify (\<lambda>d. d\<lparr>db_asset_links := db_asset_links d @ [(entry_id, asset_id)]\<rparr>)))))"

definition replace_asset_links :: "uuid \<Rightarrow> uuid list \<Rightarrow> unit service" where
  "replace_asset_links entry_id asset_ids =
     and_then (modify (\<lambda>d. d\<lparr>db_asset_links := filter (\<lambda>(e, a). e \<noteq> entry_id) (db_asset_links d)\<rparr>))
     (for_each asset_ids (insert_link entry_id))"

definition entry_draft :: "uuid \<Rightarrow> uuid \<Rightarrow> uuid \<Rightarrow> entry_create \<Rightarrow> int \<Rightarrow> timeline_row" where
  "entry_draft tenant_id case_id actor_id payload now =
     \<lparr>tl_tenant_id = tenant_id, tl_case_id = case_id, tl_event_type = tc_event_type payload,
      tl_event_timestamp = tc_event_timestamp payload, tl_description = tc_description payload,
      tl_category = tc_category payload, tl_actor_id = Some actor_id, tl_is_automatic = False,
      tl_metadata = JObj (tc_metadata payload), tl_created_at = now\<rparr>"

definition create_manual_entry :: "uuid \<Rightarrow> uuid \<Rightarrow> entry_create \<Rightarrow> uuid service" where
  "create_manual_entry case_id actor_id payload =
     bind (case_or_404 case_id) (\<lambda>c.
     bind now_utc (\<lambda>now.
     bind (insert_row timeline_e (entry_draft (c_tenant_id c) case_id actor_id payload now)) (\<lambda>i.
     and_then (if tc_linked_asset_ids payload = [] then ret () else replace_asset_links i (tc_linked_asset_ids payload))
     (ret i))))"

definition entry_set :: "entry_update \<Rightarrow> timeline_row \<Rightarrow> timeline_row" where
  "entry_set data en = en
     \<lparr>tl_description := set_req (tu_description data) (tl_description en),
      tl_category := set_opt (tu_category data) (tl_category en),
      tl_metadata := set_json (tu_metadata data) (tl_metadata en)\<rparr>"

definition update_entry :: "uuid \<Rightarrow> entry_update \<Rightarrow> timeline_row service" where
  "update_entry entry_id data =
     bind (entry_or_404 entry_id) (\<lambda>en.
     and_then (not_null [is_null (tu_description data)])
     (and_then (save_changed timeline_e entry_id en (entry_set data en) id)
     (and_then (case tu_linked_asset_ids data of Some (Some ids) \<Rightarrow> replace_asset_links entry_id ids | _ \<Rightarrow> ret ())
     (entry_or_404 entry_id))))"

text \<open>Deleting an entry: the database cascades to its links and to the ATT&CK mappings of the entry.\<close>

definition cascade_entry :: "uuid \<Rightarrow> db \<Rightarrow> db" where
  "cascade_entry i d = d
     \<lparr>db_asset_links := filter (\<lambda>(e, a). e \<noteq> i) (db_asset_links d),
      db_mappings := rows_where (\<lambda>_ m. m_timeline_entry_id m \<noteq> Some i) (db_mappings d)\<rparr>"

definition delete_entry :: "uuid \<Rightarrow> unit service" where
  "delete_entry entry_id =
     bind (entry_or_404 entry_id) (\<lambda>en.
     and_then (guard (\<not> tl_is_automatic en) (HTTPException 403 ''Automatic timeline entries cannot be deleted''))
     (and_then (modify (cascade_entry entry_id)) (delete_row timeline_e entry_id)))"

section \<open>Views\<close>

definition truthy_eq :: "string option \<Rightarrow> string option \<Rightarrow> bool" where
  "truthy_eq x y = (case x of None \<Rightarrow> True | Some s \<Rightarrow> s = [] \<or> y = Some s)"

definition entry_matches :: "uuid \<Rightarrow> timeline_filters \<Rightarrow> timeline_row \<Rightarrow> bool" where
  "entry_matches case_id f en \<longleftrightarrow> tl_case_id en = case_id \<and>
     truthy_eq (tf_event_type f) (Some (tl_event_type en)) \<and> truthy_eq (tf_category f) (tl_category en) \<and>
     (case tf_actor_id f of None \<Rightarrow> True | Some a \<Rightarrow> tl_actor_id en = Some a) \<and>
     (case tf_event_after f of None \<Rightarrow> True | Some t \<Rightarrow> t \<le> tl_event_timestamp en) \<and>
     (case tf_event_before f of None \<Rightarrow> True | Some t \<Rightarrow> tl_event_timestamp en \<le> t)"

definition list_entries :: "uuid \<Rightarrow> timeline_filters \<Rightarrow> nat \<Rightarrow> nat \<Rightarrow> (timeline_row table \<times> nat) service" where
  "list_entries case_id filters limit offset =
     bind (select_rows timeline_e (\<lambda>_ en. entry_matches case_id filters en)) (\<lambda>rows.
     ret (page_of limit offset (if tf_ascending filters then sort_key (tl_event_timestamp \<circ> snd) rows
            else sort_desc (tl_event_timestamp \<circ> snd) rows), length rows))"

text \<open>A \<^verbatim>\<open>defaultdict(list)\<close>, filled in order.\<close>

definition lane_add :: "'k \<Rightarrow> uuid \<Rightarrow> ('k \<times> uuid list) list \<Rightarrow> ('k \<times> uuid list) list" where
  "lane_add k i lanes = AList.update k ((case map_of lanes k of None \<Rightarrow> [] | Some is \<Rightarrow> is) @ [i]) lanes"

definition get_asset_links :: "uuid list \<Rightarrow> (uuid \<times> uuid list) list service" where
  "get_asset_links entry_ids = reads (\<lambda>d.
     fold (\<lambda>(e, a). lane_add e a) (filter (\<lambda>(e, a). e \<in> set entry_ids) (db_asset_links d)) [])"

definition lane_keys :: "(uuid \<times> uuid list) list \<Rightarrow> uuid \<times> timeline_row \<Rightarrow> string list" where
  "lane_keys links = (\<lambda>(i, en). case map_of links i of
       Some (a # as) \<Rightarrow> map (\<lambda>a. ''asset:'' @ uuid_str a) (a # as)
     | _ \<Rightarrow> (case tl_actor_id en of Some u \<Rightarrow> [''user:'' @ uuid_str u]
         | None \<Rightarrow> [''category:'' @ str_or (tl_category en) ''other'']))"

definition assign_lanes :: "(uuid \<times> uuid list) list \<Rightarrow> timeline_row table \<Rightarrow> (string \<times> uuid list) list" where
  "assign_lanes links entries = fold (\<lambda>e lanes. fold (\<lambda>k. lane_add k (fst e)) (lane_keys links e) lanes) entries []"

definition build_swimlane ::
  "uuid \<Rightarrow> timeline_filters \<Rightarrow> int \<Rightarrow> (timeline_row table \<times> cluster list \<times> (string \<times> uuid list) list) service" where
  "build_swimlane case_id filters cluster_threshold_seconds =
     bind (list_entries case_id filters 2000 0) (\<lambda>(entries, _).
     bind (get_asset_links (map fst entries)) (\<lambda>links.
     ret (entries, find_clusters cluster_threshold_seconds (map (\<lambda>(i, en). (i, tl_event_timestamp en)) entries),
          assign_lanes links entries)))"

section \<open>Isolation and integrity\<close>

lemma keeps_links:
  "keeps (isolated s d0) (modify (\<lambda>d. d\<lparr>db_asset_links := f d\<rparr>))" "keeps (wf_at A) (modify (\<lambda>d. d\<lparr>db_asset_links := f d\<rparr>))"
  by (rule keeps_modify; simp add: isolated_def hidden_def wf_ids_def wf_at_def wf_db_def wf_tenancy_def wf_unique_def)+

lemma keeps_replace_links [keeps_intros]:
  "keeps (isolated s d0) (replace_asset_links e as)" "keeps (wf_at A) (replace_asset_links e as)"
  unfolding replace_asset_links_def insert_link_def by (intro keeps_intros keeps_links)+

lemma timeline_service_isolated [keeps_intros]:
  "keeps (isolated s d0) (create_manual_entry c u p)" "keeps (isolated s d0) (update_entry i data)"
  unfolding create_manual_entry_def update_entry_def by (intro keeps_intros)+

lemma wf_cascade_entry: "keeps (wf_at A) (modify (cascade_entry i))"
  by (rule keeps_modify) (auto simp: wf_at_def wf_db_def wf_ids_def wf_tenancy_def wf_unique_def cascade_entry_def)

lemma timeline_service_at [keeps_intros]:
  "keeps (wf_at A) (create_manual_entry c u p)" "keeps (wf_at A) (update_entry i data)" "keeps (wf_at A) (delete_entry i)"
  unfolding create_manual_entry_def update_entry_def delete_entry_def
  by (intro get_case_at get_child_at keeps_intros wf_cascade_entry; simp add: entry_draft_def entry_set_def)+

section \<open>Properties\<close>

lemma lane_add_of: "map_of (lane_add k i lanes) j = (if j = k then Some ((case map_of lanes k of None \<Rightarrow> [] | Some is \<Rightarrow> is) @ [i]) else map_of lanes j)"
  by (simp add: lane_add_def update_conv')

lemma lanes_filled:
  "map_of (fold (\<lambda>(k, i). lane_add k i) kis lanes) j =
     (let new = map snd (filter (\<lambda>(k, i). k = j) kis) in
      case map_of lanes j of None \<Rightarrow> if new = [] then None else Some new | Some is \<Rightarrow> Some (is @ new))"
  by (induction kis arbitrary: lanes) (auto simp: Let_def lane_add_of split: option.splits if_splits)

lemma assign_lanes_pairs:
  "assign_lanes links entries = fold (\<lambda>(k, i). lane_add k i) (concat (map (\<lambda>e. map (\<lambda>k. (k, fst e)) (lane_keys links e)) entries)) []"
proof -
  have inner: "fold (\<lambda>k. lane_add k i) ks lanes = fold (\<lambda>(k, i). lane_add k i) (map (\<lambda>k. (k, i)) ks) lanes"
    for ks :: "string list" and i lanes
    by (induction ks arbitrary: lanes) auto
  have "fold (\<lambda>e lanes. fold (\<lambda>k. lane_add k (fst e)) (lane_keys links e) lanes) es lanes =
      fold (\<lambda>(k, i). lane_add k i) (concat (map (\<lambda>e. map (\<lambda>k. (k, fst e)) (lane_keys links e)) es)) lanes" for es lanes
    by (induction es arbitrary: lanes) (simp_all add: inner)
  then show ?thesis by (simp add: assign_lanes_def)
qed

text \<open>The dictionary of links: the assets of each listed entry, in the order of the link table.\<close>

lemma links_of:
  assumes "i \<in> set ids" and "get_asset_links ids d = (Inr links, d')"
  shows "(case map_of links i of None \<Rightarrow> [] | Some as \<Rightarrow> as) = map snd (filter (\<lambda>(e, a). e = i) (db_asset_links d))"
proof -
  have "map snd (filter (\<lambda>(k, a). k = i) (filter (\<lambda>(e, a). e \<in> set ids) (db_asset_links d))) =
      map snd (filter (\<lambda>(e, a). e = i) (db_asset_links d))"
    using assms(1) by (auto simp: filter_filter intro!: arg_cong [where f = "map snd"] filter_cong)
  moreover have "links = fold (\<lambda>(e, a). lane_add e a) (filter (\<lambda>(e, a). e \<in> set ids) (db_asset_links d)) []"
    using assms(2) by (auto simp: get_asset_links_def)
  ultimately show ?thesis by (simp add: lanes_filled Let_def del: filter_filter)
qed

lemma lane_keys_links:
  assumes "i \<in> set ids" and "get_asset_links ids d = (Inr links, d')"
  shows "lane_keys links (i, en) = (let as = map snd (filter (\<lambda>(e, a). e = i) (db_asset_links d)) in
     if as \<noteq> [] then map (\<lambda>a. ''asset:'' @ uuid_str a) as
     else case tl_actor_id en of Some u \<Rightarrow> [''user:'' @ uuid_str u]
       | None \<Rightarrow> [''category:'' @ (case tl_category en of Some s \<Rightarrow> if s = [] then ''other'' else s | None \<Rightarrow> ''other'')])"
  unfolding links_of [OF assms, symmetric] lane_keys_def
  by (auto simp: Let_def str_or_def split: option.split list.split)

text \<open>Whether an entry belongs in a lane, as the view's comment puts it: its assets, else its actor, else its category.\<close>

definition in_lane :: "db \<Rightarrow> uuid \<Rightarrow> timeline_row \<Rightarrow> string \<Rightarrow> bool" where
  "in_lane d i en k \<longleftrightarrow>
     (\<exists>a. (i, a) \<in> set (db_asset_links d) \<and> k = ''asset:'' @ uuid_str a) \<or>
     (\<forall>a. (i, a) \<notin> set (db_asset_links d)) \<and>
       (case tl_actor_id en of Some u \<Rightarrow> k = ''user:'' @ uuid_str u
        | None \<Rightarrow> k = ''category:'' @ (case tl_category en of Some s \<Rightarrow> if s = [] then ''other'' else s | None \<Rightarrow> ''other''))"

lemma lane_keys_in_lane:
  assumes "i \<in> set ids" and "get_asset_links ids d = (Inr links, d')"
  shows "k \<in> set (lane_keys links (i, en)) \<longleftrightarrow> in_lane d i en k"
proof -
  have "map snd (filter (\<lambda>(e, a). e = i) (db_asset_links d)) = [] \<longleftrightarrow> (\<forall>a. (i, a) \<notin> set (db_asset_links d))"
    by (auto simp: filter_empty_conv)
  then show ?thesis
    unfolding lane_keys_links [OF assms] in_lane_def Let_def by (auto simp: image_iff split: option.split)
qed

text \<open>What a listing returns.\<close>

lemma listed_entries:
  assumes "list_entries c f limit 0 d = (Inr (entries, n), d')"
  shows "n = length (rows_where (\<lambda>_ en. ent_vis timeline_e (db_session d) en \<and> entry_matches c f en) (db_timeline d))"
    "length entries = min limit n"
    "(i, en) \<in> set entries \<Longrightarrow> (i, en) \<in> set (db_timeline d) \<and> ent_vis timeline_e (db_session d) en \<and> entry_matches c f en"
    "if tf_ascending f then sorted (map (tl_event_timestamp \<circ> snd) entries) else sorted (rev (map (tl_event_timestamp \<circ> snd) entries))"
proof -
  let ?rows = "rows_where (\<lambda>_ en. ent_vis timeline_e (db_session d) en \<and> entry_matches c f en) (db_timeline d)"
  let ?sorted = "if tf_ascending f then sort_key (tl_event_timestamp \<circ> snd) ?rows else sort_desc (tl_event_timestamp \<circ> snd) ?rows"
  have "list_entries c f limit 0 d = (Inr (page_of limit 0 ?sorted, length ?rows), d)"
    by (simp add: list_entries_def bind_apply select_rows_apply ret_def)
  from trans [OF sym [OF assms] this] have "entries = page_of limit 0 ?sorted \<and> n = length ?rows"
    unfolding prod.inject sum.inject by blast
  then have e: "entries = page_of limit 0 ?sorted" and n: "n = length ?rows" by blast+
  show "n = length ?rows" by (rule n)
  show "length entries = min limit n" by (simp add: e n page_of_def min.commute)
  show "(i, en) \<in> set entries \<Longrightarrow> (i, en) \<in> set (db_timeline d) \<and> ent_vis timeline_e (db_session d) en \<and> entry_matches c f en"
    unfolding e page_of_def rows_where_def by (auto dest!: in_set_takeD split: if_splits)
  show "if tf_ascending f then sorted (map (tl_event_timestamp \<circ> snd) entries) else sorted (rev (map (tl_event_timestamp \<circ> snd) entries))"
  proof (cases "tf_ascending f")
    case True
    then show ?thesis by (simp add: e page_of_def take_map [symmetric] sorted_wrt_take)
  next
    case False
    have "sorted (map (\<lambda>r. - (tl_event_timestamp \<circ> snd) r) (take limit (sort_desc (tl_event_timestamp \<circ> snd) ?rows)))"
      using sorted_sort_desc [of "tl_event_timestamp \<circ> snd" ?rows] unfolding take_map [symmetric] by (rule sorted_wrt_take)
    with False show ?thesis by (simp add: e page_of_def sorted_map sorted_wrt_rev sorted_wrt_map rev_map)
  qed
qed

text \<open>
  C26: the swimlane lists the case's entries that the session sees and the filter takes, two thousand at most, in the
  order asked for, and puts each into the lanes it belongs to: those of its linked assets (\<^verbatim>\<open>asset:\<close>id); without any,
  that of its actor (\<^verbatim>\<open>user:\<close>id); without one, that of its category (\<^verbatim>\<open>category:\<close>name, or \<^verbatim>\<open>other\<close>). A lane
  holds exactly the listed entries that belong there, no lane is empty, and no entry is in none.
\<close>

theorem swimlane_lanes:
  "\<exists>entries lanes n. list_entries c f 2000 0 d = (Inr (entries, n), d) \<and>
     build_swimlane c f s d = (Inr (entries, find_clusters s (map (\<lambda>(i, en). (i, tl_event_timestamp en)) entries), lanes), d) \<and>
     length entries = min 2000 n \<and> n = length (rows_where (\<lambda>_ en. ent_vis timeline_e (db_session d) en \<and> entry_matches c f en) (db_timeline d)) \<and>
     (\<forall>(i, en) \<in> set entries. (i, en) \<in> set (db_timeline d) \<and> ent_vis timeline_e (db_session d) en \<and> entry_matches c f en) \<and>
     (if tf_ascending f then sorted (map (tl_event_timestamp \<circ> snd) entries) else sorted (rev (map (tl_event_timestamp \<circ> snd) entries))) \<and>
     (\<forall>k i. (\<exists>is. map_of lanes k = Some is \<and> i \<in> set is) \<longleftrightarrow> (\<exists>en. (i, en) \<in> set entries \<and> in_lane d i en k)) \<and>
     (\<forall>k. map_of lanes k \<noteq> Some []) \<and>
     (\<forall>(i, en) \<in> set entries. \<exists>k is. map_of lanes k = Some is \<and> i \<in> set is)"
proof -
  obtain entries n where le: "list_entries c f 2000 0 d = (Inr (entries, n), d)"
    by (simp add: list_entries_def svc_simps)
  obtain links where gl: "get_asset_links (map fst entries) d = (Inr links, d)"
    by (simp add: get_asset_links_def)
  let ?lanes = "assign_lanes links entries"
  have lane: "(\<exists>is. map_of ?lanes k = Some is \<and> i \<in> set is) \<longleftrightarrow> (\<exists>en. (i, en) \<in> set entries \<and> in_lane d i en k)" for k i
  proof -
    have "(\<exists>is. map_of ?lanes k = Some is \<and> i \<in> set is) \<longleftrightarrow> (\<exists>en. (i, en) \<in> set entries \<and> k \<in> set (lane_keys links (i, en)))"
      by (auto simp: assign_lanes_pairs lanes_filled Let_def image_iff filter_empty_conv)
    also have "\<dots> \<longleftrightarrow> (\<exists>en. (i, en) \<in> set entries \<and> in_lane d i en k)"
      using lane_keys_in_lane [OF _ gl] by (metis fst_conv image_eqI set_map)
    finally show ?thesis .
  qed
  have some: "\<exists>k. in_lane d i en k" for i en
    unfolding in_lane_def by (cases "\<exists>a. (i, a) \<in> set (db_asset_links d)"; cases "tl_actor_id en") auto
  have "\<exists>k is. map_of ?lanes k = Some is \<and> i \<in> set is" if "(i, en) \<in> set entries" for i en
    using lane some that by blast
  moreover have "map_of ?lanes k \<noteq> Some []" for k
    by (auto simp: assign_lanes_pairs lanes_filled Let_def)
  moreover have "build_swimlane c f s d = (Inr (entries, find_clusters s (map (\<lambda>(i, en). (i, tl_event_timestamp en)) entries), ?lanes), d)"
    using le gl by (simp add: build_swimlane_def bind_apply)
  moreover note listed_entries [OF le]
  ultimately show ?thesis
    using le lane by (intro exI [of _ entries] exI [of _ ?lanes] exI [of _ n]) auto
qed

text \<open>An entry with an asset, one with an actor and one with neither.\<close>

definition demo_lanes :: db where
  "demo_lanes = demo_db\<lparr>db_timeline := [(11, demo_event 1 5 100 False), (12, (demo_event 1 5 90 True)\<lparr>tl_actor_id := Some 3\<rparr>),
     (13, demo_event 1 5 95 False)], db_asset_links := [(11, 30)]\<rparr>"

theorem swimlane_lanes_witness:
  "\<exists>entries cs lanes is js ks.
     build_swimlane 5 \<lparr>tf_event_type = None, tf_category = None, tf_actor_id = None, tf_event_after = None, tf_event_before = None,
       tf_ascending = True\<rparr> 60 demo_lanes = (Inr (entries, cs, lanes), demo_lanes) \<and>
     map fst entries = [12, 13, 11] \<and>
     map_of lanes (''asset:'' @ uuid_str 30) = Some is \<and> 11 \<in> set is \<and>
     map_of lanes (''user:'' @ uuid_str 3) = Some js \<and> 12 \<in> set js \<and>
     map_of lanes ''category:other'' = Some ks \<and> 13 \<in> set ks"
proof -
  let ?f = "\<lparr>tf_event_type = None, tf_category = None, tf_actor_id = None, tf_event_after = None, tf_event_before = None, tf_ascending = True\<rparr>"
  let ?es = "[(12, (demo_event 1 5 90 True)\<lparr>tl_actor_id := Some 3\<rparr>), (13, demo_event 1 5 95 False), (11, demo_event 1 5 100 False)]"
  have le: "list_entries 5 ?f 2000 0 demo_lanes = (Inr (?es, 3), demo_lanes)"
    by (simp add: list_entries_def demo_lanes_def page_of_def entry_matches_def truthy_eq_def run_simps)
  obtain entries lanes n where run: "list_entries 5 ?f 2000 0 demo_lanes = (Inr (entries, n), demo_lanes)"
    "build_swimlane 5 ?f 60 demo_lanes = (Inr (entries, find_clusters 60 (map (\<lambda>(i, en). (i, tl_event_timestamp en)) entries), lanes), demo_lanes)"
    and lane: "\<And>k i. (\<exists>is. map_of lanes k = Some is \<and> i \<in> set is) \<longleftrightarrow> (\<exists>en. (i, en) \<in> set entries \<and> in_lane demo_lanes i en k)"
    using swimlane_lanes [of 5 ?f demo_lanes 60] by blast
  from le run(1) have es: "entries = ?es" by simp
  have "\<exists>en. (11, en) \<in> set entries \<and> in_lane demo_lanes 11 en (''asset:'' @ uuid_str 30)"
    "\<exists>en. (12, en) \<in> set entries \<and> in_lane demo_lanes 12 en (''user:'' @ uuid_str 3)"
    "\<exists>en. (13, en) \<in> set entries \<and> in_lane demo_lanes 13 en ''category:other''"
    unfolding es by (simp_all add: in_lane_def demo_lanes_def demo_event_def)
  from this [folded lane] run(2) es show ?thesis by auto
qed

text \<open>
  An automatic entry cannot be deleted. The deletion of a manual one removes that entry and its links, and no
  other entry.
\<close>

theorem delete_entry_correct:
  assumes "visible_row timeline_e d i = Some en"
  shows "if tl_is_automatic en then delete_entry i d = (Inl (HTTPException 403 ''Automatic timeline entries cannot be deleted''), d)
    else \<exists>d'. delete_entry i d = (Inr (), d') \<and> (\<forall>j. row_get (db_timeline d') j = (if j = i then None else row_get (db_timeline d) j)) \<and>
      db_asset_links d' = filter (\<lambda>(e, a). e \<noteq> i) (db_asset_links d)"
proof -
  have "visible_row timeline_e (cascade_entry i d) i = Some en"
    using assms visible_frame [of timeline_e "cascade_entry i d" d i] by (simp add: cascade_entry_def)
  with assms show ?thesis
    by (simp add: delete_entry_def bind_apply and_then_apply get_or_404_apply delete_row_def tbl.get_del) (simp add: cascade_entry_def)
qed

theorem delete_entry_correct_witness:
  "\<exists>d'. delete_entry 12 demo_db = (Inl (HTTPException 403 ''Automatic timeline entries cannot be deleted''), demo_db) \<and>
     delete_entry 11 demo_db = (Inr (), d') \<and> row_get (db_timeline d') 11 = None"
proof -
  have "visible_row timeline_e demo_db 12 = Some (demo_event 1 6 200 True)" "visible_row timeline_e demo_db 11 = Some (demo_event 1 5 100 False)"
    by (simp_all add: visible_row_def row_get_def demo_db_def empty_db_def demo_event_def)
  from this [THEN delete_entry_correct] show ?thesis
    by (auto simp: demo_event_def)
qed

end
