(* ===== verification/Assets.thy ===== *)
theory Assets
  imports Cases
begin

text \<open>The asset service (\<^verbatim>\<open>services/assets.py\<close>, \<^verbatim>\<open>schemas/assets.py\<close>).\<close>

record asset_create =
  ac_name :: string
  ac_type :: asset_type
  ac_ip_address :: "string option"
  ac_domain :: "string option"
  ac_is_compromised :: bool
  ac_description :: "string option"
  ac_custom_attributes :: jobj

record asset_update =
  au_name :: "string upd"
  au_type :: "asset_type upd"
  au_ip_address :: "string upd"
  au_domain :: "string upd"
  au_is_compromised :: "bool upd"
  au_description :: "string upd"
  au_custom_attributes :: "json upd"

abbreviation asset_or_404 :: "uuid \<Rightarrow> asset_row service" where
  "asset_or_404 \<equiv> get_or_404 assets_e (\<lambda>i. ''Asset '' @ uuid_str i @ '' not found'')"

definition list_assets :: "uuid \<Rightarrow> nat \<Rightarrow> nat \<Rightarrow> (asset_row table \<times> nat) service" where
  "list_assets case_id limit offset =
     bind (select_rows assets_e (\<lambda>_ a. a_case_id a = case_id)) (\<lambda>rows.
     ret (page_of limit offset (sort_desc (a_created_at \<circ> snd) rows), length rows))"

text \<open>\<^verbatim>\<open>except IntegrityError as exc: raise HTTPException(409, ...)\<close>\<close>

definition conflict_409 :: "string \<Rightarrow> 'a service \<Rightarrow> 'a service" where
  "conflict_409 detail m = catch m (\<lambda>e. case e of IntegrityError _ \<Rightarrow> raise (HTTPException 409 detail) | _ \<Rightarrow> raise e)"

definition asset_draft :: "uuid \<Rightarrow> uuid \<Rightarrow> uuid \<Rightarrow> asset_create \<Rightarrow> int \<Rightarrow> asset_row" where
  "asset_draft tenant_id case_id created_by payload now =
     \<lparr>a_tenant_id = tenant_id, a_case_id = case_id, a_name = ac_name payload, a_type = ac_type payload,
      a_ip_address = ac_ip_address payload, a_domain = ac_domain payload, a_is_compromised = ac_is_compromised payload,
      a_description = ac_description payload, a_custom_attributes = JObj (ac_custom_attributes payload),
      a_created_by = created_by, a_created_at = now, a_updated_at = now\<rparr>"

abbreviation asset_exists :: "string \<Rightarrow> string" where
  "asset_exists name \<equiv> ''Asset with name '' @ quoted name @ '' already exists in this case''"

definition create_asset :: "env \<Rightarrow> uuid \<Rightarrow> uuid \<Rightarrow> asset_create \<Rightarrow> uuid service" where
  "create_asset env case_id created_by payload =
     bind (case_or_404 case_id) (\<lambda>c.
     bind now_utc (\<lambda>now.
     bind (conflict_409 (asset_exists (ac_name payload))
        (insert_row assets_e (asset_draft (c_tenant_id c) case_id created_by payload now))) (\<lambda>i.
     and_then (record_event env (c_tenant_id c) case_id ''asset_added''
        (''Asset added: '' @ ac_name payload @ '' ('' @ asset_type_str (ac_type payload) @ '')'') (Some ''asset'') (Some created_by)
        [(''asset_id'', JId i), (''name'', JStr (ac_name payload))] None)
     (ret i))))"

definition asset_set :: "asset_update \<Rightarrow> asset_row \<Rightarrow> asset_row" where
  "asset_set data a = a
     \<lparr>a_name := set_req (au_name data) (a_name a), a_type := set_req (au_type data) (a_type a),
      a_ip_address := set_opt (au_ip_address data) (a_ip_address a), a_domain := set_opt (au_domain data) (a_domain a),
      a_is_compromised := set_req (au_is_compromised data) (a_is_compromised a),
      a_description := set_opt (au_description data) (a_description a),
      a_custom_attributes := set_json (au_custom_attributes data) (a_custom_attributes a)\<rparr>"

definition save_asset :: "uuid \<Rightarrow> asset_update \<Rightarrow> asset_row \<Rightarrow> unit service" where
  "save_asset asset_id data a =
     and_then (not_null [is_null (au_name data), is_null (au_type data), is_null (au_is_compromised data)])
     (bind now_utc (\<lambda>now. save_changed assets_e asset_id a (asset_set data a) (a_updated_at_update (\<lambda>_. now))))"

definition update_asset :: "env \<Rightarrow> uuid \<Rightarrow> asset_update \<Rightarrow> uuid \<Rightarrow> asset_row service" where
  "update_asset env asset_id data actor_id =
     bind (asset_or_404 asset_id) (\<lambda>a.
     let new = asset_set data a in
     and_then (conflict_409 ''Asset name must be unique within a case'' (save_asset asset_id data a))
     (and_then (if a_is_compromised new \<noteq> a_is_compromised a then
         bind (record_event env (a_tenant_id a) (a_case_id a) ''asset_compromise_changed''
           (''Asset '' @ quoted (a_name new) @ '' marked '' @ (if a_is_compromised new then ''compromised'' else ''not compromised''))
           (Some ''asset'') (Some actor_id)
           [(''asset_id'', JId asset_id), (''is_compromised'', JBool (a_is_compromised new))] None) (\<lambda>_. ret ())
       else ret ())
     (asset_or_404 asset_id)))"

text \<open>The database cascades to the links of the asset; the ORM's relationship over them is view-only.\<close>

definition delete_asset :: "uuid \<Rightarrow> unit service" where
  "delete_asset asset_id =
     bind (asset_or_404 asset_id) (\<lambda>a.
     and_then (modify (\<lambda>d. d\<lparr>db_asset_links := filter (\<lambda>(e, x). x \<noteq> asset_id) (db_asset_links d)\<rparr>))
     (delete_row assets_e asset_id))"

definition search_assets_in_tenant :: "uuid \<Rightarrow> string \<Rightarrow> nat \<Rightarrow> asset_row table service" where
  "search_assets_in_tenant tenant_id query limit =
     (let pattern = ''%'' @ query @ ''%'' in
      bind (select_rows assets_e (\<lambda>_ a. a_tenant_id a = tenant_id \<and>
        (ilike pattern (a_name a) \<or> (case a_ip_address a of None \<Rightarrow> False | Some ip \<Rightarrow> ilike pattern ip)))) (\<lambda>rows.
      ret (take limit rows)))"

section \<open>Isolation and integrity\<close>

lemma keeps_conflict [keeps_intros]: "keeps I m \<Longrightarrow> keeps I (conflict_409 s m)"
  unfolding conflict_409_def by (rule keeps_catch) (auto intro: keeps_intros split: api_error.splits)

lemma keeps_asset_links:
  "keeps (isolated s d0) (modify (\<lambda>d. d\<lparr>db_asset_links := f d\<rparr>))" "keeps (wf_at A) (modify (\<lambda>d. d\<lparr>db_asset_links := f d\<rparr>))"
  by (rule keeps_modify; simp add: isolated_def hidden_def wf_ids_def wf_at_def wf_db_def wf_tenancy_def wf_unique_def)+

lemma asset_keeps [simp]:
  "a_case_id (asset_set data a) = a_case_id a" "a_tenant_id (asset_set data a) = a_tenant_id a"
  "a_case_id (asset_draft t c u p n) = c" "a_tenant_id (asset_draft t c u p n) = t" "a_name (asset_draft t c u p n) = ac_name p"
  by (simp_all add: asset_set_def asset_draft_def)

lemma asset_service_isolated [keeps_intros]:
  "keeps (isolated s d0) (create_asset env c u p)" "keeps (isolated s d0) (update_asset env i data a)"
  "keeps (isolated s d0) (delete_asset i)"
  unfolding create_asset_def update_asset_def delete_asset_def save_asset_def Let_def
  by (intro keeps_intros keeps_asset_links)+

lemma asset_service_at [keeps_intros]:
  "keeps (wf_at A) (create_asset env c u p)" "keeps (wf_at A) (update_asset env i data a)"
  "keeps (wf_at A) (delete_asset i)"
  unfolding create_asset_def update_asset_def delete_asset_def save_asset_def Let_def
  by (intro get_case_at get_child_at keeps_intros keeps_asset_links; simp)+

section \<open>Properties\<close>

lemma conflict_InrD: "conflict_409 s m d = (Inr r, d') \<Longrightarrow> m d = (Inr r, d')"
  by (auto simp: conflict_409_def catch_apply split: prod.splits sum.splits api_error.splits)

text \<open>
  Asset names are unique in a case. A creation with a name that an asset of the case has, whose values fit their
  columns, answers 409 and leaves everything as it was; one that succeeds had a fresh name, stores the asset with the
  tenant of the case, touches no other table but the log, and leaves the names of the case unique.
\<close>

theorem asset_names_unique:
  assumes "wf_db d" and "visible_row cases_e d c = Some k"
    and "length (ac_name p) \<le> 255" and "case ac_ip_address p of None \<Rightarrow> True | Some s \<Rightarrow> length s \<le> 45"
    and "case ac_domain p of None \<Rightarrow> True | Some s \<Rightarrow> length s \<le> 255"
  shows "if \<exists>(j, a) \<in> set (db_assets d). a_case_id a = c \<and> a_name a = ac_name p
    then create_asset env c u p d = (Inl (HTTPException 409 (asset_exists (ac_name p))), d)
    else \<forall>i d'. create_asset env c u p d = (Inr i, d') \<longrightarrow>
      db_assets d' = row_add i (asset_draft (c_tenant_id k) c u p (db_now d)) (db_assets d) \<and>
      core d' = core (d\<lparr>db_assets := db_assets d'\<rparr>) \<and> unique_rows asset_key (db_assets d')"
proof -
  let ?a = "asset_draft (c_tenant_id k) c u p (db_now d)"
  have vis: "ent_vis assets_e (db_session d) ?a"
    using visible_rowD [OF assms(2)] by simp
  have fits: "varchar 255 (a_name ?a) \<and> varchar_opt 45 (a_ip_address ?a) \<and> varchar_opt 255 (a_domain ?a)"
    using assms(3-5) by (auto simp: asset_draft_def varchar_def varchar_opt_def split: option.splits)
  show ?thesis
  proof (cases "\<exists>(j, a) \<in> set (db_assets d). a_case_id a = c \<and> a_name a = ac_name p")
    case True
    then obtain j a where a: "(j, a) \<in> set (db_assets d)" "a_case_id a = c" "a_name a = ac_name p" by blast
    have "ids_ok (db_next_id d) (db_assets d)"
      using wf_db_ids [OF assms(1)] by (simp add: wf_ids_def)
    then have "j \<noteq> db_next_id d"
      using a(1) ids_ok_fresh [of "db_next_id d" "db_assets d"] by (auto simp: row_get_def map_of_eq_None_iff image_iff)
    then have "\<not> unique_for asset_key (db_assets d) (db_next_id d) ?a"
      using a by (auto simp: unique_for_def)
    then have "ent_check assets_e d (db_next_id d) ?a = Some unique_error"
      using fits by (simp add: assets_e_def)
    then have "insert_row assets_e ?a d = (Inl unique_error, d)"
      using vis by (simp add: insert_row_def)
    with True assms(2) show ?thesis
      by (simp add: create_asset_def bind_apply get_or_404_apply now_utc_apply conflict_409_def catch_apply)
  next
    case False
    have "db_assets d' = row_add i ?a (db_assets d) \<and> core d' = core (d\<lparr>db_assets := db_assets d'\<rparr>) \<and> unique_rows asset_key (db_assets d')"
      if run: "create_asset env c u p d = (Inr i, d')" for i d'
    proof -
      from run assms(2) obtain j d1 where "conflict_409 (asset_exists (ac_name p)) (insert_row assets_e ?a) d = (Inr j, d1)"
        and "and_then (record_event env (c_tenant_id k) c ''asset_added''
          (''Asset added: '' @ ac_name p @ '' ('' @ asset_type_str (ac_type p) @ '')'') (Some ''asset'') (Some u)
          [(''asset_id'', JId j), (''name'', JStr (ac_name p))] None) (ret j) d1 = (Inr i, d')"
        unfolding create_asset_def run_bind_get run_now by (auto elim!: bind_InrD)
      then obtain x where ins: "insert_row assets_e ?a d = (Inr i, d1)"
        and rec: "record_event env (c_tenant_id k) c ''asset_added''
          (''Asset added: '' @ ac_name p @ '' ('' @ asset_type_str (ac_type p) @ '')'') (Some ''asset'') (Some u)
          [(''asset_id'', JId i), (''name'', JStr (ac_name p))] None d1 = (Inr x, d')"
        by (auto elim!: and_then_InrD dest!: conflict_InrD)
      have core: "core d' = core d1"
        using record_event_logged [OF rec] by simp
      have d1: "d1 = d\<lparr>db_next_id := Suc i, db_assets := row_add i ?a (db_assets d)\<rparr>"
        using insert_row_InrD [OF ins] by simp
      have as: "db_assets d' = row_add i ?a (db_assets d)"
        using core_eqD(6) [OF core] by (simp add: d1)
      have "core d' = core (d\<lparr>db_assets := row_add i ?a (db_assets d)\<rparr>)"
        unfolding core unfolding d1 by (simp add: core_def)
      moreover have "unique_rows asset_key (db_assets d')"
        using keepsD [OF asset_service_at(1), of "{}" d env c u p] assms(1) run
        by (simp add: wf_at_empty wf_db_def wf_unique_def)
      ultimately show ?thesis
        using as by simp
    qed
    then show ?thesis unfolding if_not_P [OF False] by blast
  qed
qed

definition demo_asset :: asset_create where
  "demo_asset = \<lparr>ac_name = ''dc01'', ac_type = AT_SERVER, ac_ip_address = Some ''10.0.0.1'', ac_domain = None,
     ac_is_compromised = False, ac_description = None, ac_custom_attributes = []\<rparr>"

theorem asset_names_unique_witness:
  "\<exists>i d'. create_asset demo_env 5 3 demo_asset demo_db = (Inr i, d') \<and>
     db_assets d' = row_add i (asset_draft 1 5 3 demo_asset 1000) (db_assets demo_db)"
proof -
  obtain i d' where run: "create_asset demo_env 5 3 demo_asset demo_db = (Inr i, d')"
    by (simp add: create_asset_def conflict_409_def asset_draft_def demo_asset_def run_simps)
  have c: "visible_row cases_e demo_db 5 = Some (demo_case 1 1)"
    by (simp add: visible_row_def row_get_def demo_db_def empty_db_def demo_case_def)
  have "db_assets demo_db = []" "db_now demo_db = 1000" "c_tenant_id (demo_case 1 1) = 1"
    by (simp_all add: demo_db_def empty_db_def demo_case_def)
  with asset_names_unique [OF demo_wf c, of demo_asset demo_env 3] run show ?thesis
    by (auto simp: demo_asset_def)
qed

end
