(* ===== verification/Templates.thy ===== *)
theory Templates
  imports Cases
begin

text \<open>The case template service (\<^verbatim>\<open>services/templates.py\<close>, \<^verbatim>\<open>schemas/templates.py\<close>).\<close>

record template_create =
  pc_name :: string
  pc_description :: "string option"
  pc_default_severity :: "string option"
  pc_default_tags :: "string list"
  pc_tasks :: "jobj list"
  pc_custom_fields :: jobj

record template_update =
  pu_name :: "string upd"
  pu_description :: "string upd"
  pu_default_severity :: "string upd"
  pu_default_tags :: "string list upd"
  pu_tasks :: "json upd"
  pu_custom_fields :: "json upd"

definition list_templates :: "uuid \<Rightarrow> nat \<Rightarrow> nat \<Rightarrow> (template_row table \<times> nat) service" where
  "list_templates tenant_id limit offset =
     bind (select_rows templates_e (\<lambda>_ tp. tp_tenant_id tp = Some tenant_id)) (\<lambda>rows.
     ret (page_of limit offset (sort_desc (tp_created_at \<circ> snd) rows), length rows))"

definition get_template :: "uuid \<Rightarrow> uuid \<Rightarrow> template_row service" where
  "get_template tenant_id template_id =
     bind (get_or_404 templates_e (\<lambda>i. ''Case template '' @ uuid_str i @ '' not found'') template_id) (\<lambda>tp.
     and_then (guard (tp_tenant_id tp = Some tenant_id)
        (HTTPException 404 (''Case template '' @ uuid_str template_id @ '' not found'')))
     (ret tp))"

definition create_template :: "uuid \<Rightarrow> uuid \<Rightarrow> template_create \<Rightarrow> uuid service" where
  "create_template tenant_id created_by payload =
     bind now_utc (\<lambda>now. insert_row templates_e
       \<lparr>tp_tenant_id = Some tenant_id, tp_name = pc_name payload, tp_description = pc_description payload,
        tp_default_severity = pc_default_severity payload, tp_default_tags = pc_default_tags payload,
        tp_tasks = JList (map JObj (pc_tasks payload)), tp_custom_fields = JObj (pc_custom_fields payload),
        tp_created_by = created_by, tp_created_at = now, tp_updated_at = now\<rparr>)"

definition template_set :: "template_update \<Rightarrow> template_row \<Rightarrow> template_row" where
  "template_set data tp = tp
     \<lparr>tp_name := set_req (pu_name data) (tp_name tp), tp_description := set_opt (pu_description data) (tp_description tp),
      tp_default_severity := set_opt (pu_default_severity data) (tp_default_severity tp),
      tp_default_tags := set_req (pu_default_tags data) (tp_default_tags tp),
      tp_tasks := set_json (pu_tasks data) (tp_tasks tp), tp_custom_fields := set_json (pu_custom_fields data) (tp_custom_fields tp)\<rparr>"

definition update_template :: "uuid \<Rightarrow> uuid \<Rightarrow> template_update \<Rightarrow> template_row service" where
  "update_template tenant_id template_id data =
     bind (get_template tenant_id template_id) (\<lambda>tp.
     and_then (not_null [is_null (pu_name data), is_null (pu_default_tags data)])
     (bind now_utc (\<lambda>now.
     and_then (save_changed templates_e template_id tp (template_set data tp) (tp_updated_at_update (\<lambda>_. now)))
     (get_template tenant_id template_id))))"

definition template_used :: "db \<Rightarrow> uuid \<Rightarrow> bool" where
  "template_used d i \<longleftrightarrow> (\<exists>(j, c) \<in> set (db_cases d). c_template_id c = Some i)"

text \<open>The foreign key of the cases restricts the deletion of a template.\<close>

definition delete_template :: "uuid \<Rightarrow> uuid \<Rightarrow> unit service" where
  "delete_template tenant_id template_id =
     bind (get_template tenant_id template_id) (\<lambda>tp.
     bind (reads (\<lambda>d. template_used d template_id)) (\<lambda>used.
     and_then (guard (\<not> used) fk_error)
     (delete_row templates_e template_id)))"

lemma template_service_keeps [keeps_intros]:
  "keeps (isolated s d0) (create_template t u p)" "keeps (isolated s d0) (update_template t i data)"
  "keeps (isolated s d0) (delete_template t i)"
  "keeps (wf_at A) (create_template t u p)" "keeps (wf_at A) (update_template t i data)" "keeps (wf_at A) (delete_template t i)"
  unfolding create_template_def update_template_def delete_template_def get_template_def by (intro keeps_intros)+

text \<open>
  A template in use stays. Deleting a template that a case, of whatever state, was created from fails with the
  database's integrity error and changes nothing: the case keeps its template.
\<close>

theorem used_template_stays:
  assumes "visible_row templates_e d i = Some tp" and "tp_tenant_id tp = Some t"
    and "(j, c) \<in> set (db_cases d)" and "c_template_id c = Some i"
  shows "delete_template t i d = (Inl fk_error, d)"
proof -
  have "get_template t i d = (Inr tp, d)"
    using assms(1,2) by (simp add: get_template_def bind_apply and_then_apply get_or_404_apply)
  moreover have "template_used d i"
    using assms(3,4) by (auto simp: template_used_def)
  ultimately show ?thesis
    by (simp add: delete_template_def bind_apply and_then_apply)
qed

theorem used_template_stays_witness:
  "\<exists>d. visible_row templates_e d 15 \<noteq> None \<and> delete_template 1 15 d = (Inl fk_error, d)"
proof -
  let ?d = "demo_db\<lparr>db_cases := [(5, (demo_case 1 1)\<lparr>c_template_id := Some 15\<rparr>)]\<rparr>"
  have v: "visible_row templates_e ?d 15 = Some demo_template"
    by (simp add: visible_row_def row_get_def demo_db_def empty_db_def demo_template_def)
  with used_template_stays [OF v, of 1 5 "(demo_case 1 1)\<lparr>c_template_id := Some 15\<rparr>"] show ?thesis
    by (intro exI [of _ ?d]) (simp add: demo_template_def)
qed

end
