(* ===== verification/Attack.thy ===== *)
theory Attack
  imports Cases "HOL-Library.List_Lexorder" "HOL-Library.Product_Lexorder" "HOL-Library.Char_ord"
begin

text \<open>
  ATT&CK mappings (\<^verbatim>\<open>services/attack.py\<close>, \<^verbatim>\<open>schemas/attack.py\<close>): tagging cases, observables and timeline entries,
  and the heat map of a tenant. Python compares strings by code points, as the lexicographic order here does.
\<close>

record mapping_create =
  mc_case_id :: "uuid option"
  mc_observable_id :: "uuid option"
  mc_timeline_entry_id :: "uuid option"
  mc_tactic_id :: string
  mc_technique_id :: string
  mc_sub_technique_id :: "string option"

definition create_mapping :: "uuid \<Rightarrow> mapping_create \<Rightarrow> uuid \<Rightarrow> uuid service" where
  "create_mapping tenant_id payload created_by =
     and_then (guard (mc_case_id payload \<noteq> None \<or> mc_observable_id payload \<noteq> None \<or> mc_timeline_entry_id payload \<noteq> None)
       (HTTPException 400 ''At least one of case_id, observable_id, or timeline_entry_id is required''))
     (bind now_utc (\<lambda>now. insert_row mappings_e
       \<lparr>m_tenant_id = tenant_id, m_case_id = mc_case_id payload, m_observable_id = mc_observable_id payload,
        m_timeline_entry_id = mc_timeline_entry_id payload, m_tactic_id = mc_tactic_id payload,
        m_technique_id = mc_technique_id payload, m_sub_technique_id = mc_sub_technique_id payload,
        m_created_by = created_by, m_created_at = now\<rparr>))"

definition delete_mapping :: "uuid \<Rightarrow> unit service" where
  "delete_mapping mapping_id =
     bind (get_or_404 mappings_e (\<lambda>i. ''Mapping '' @ uuid_str i @ '' not found'') mapping_id) (\<lambda>m.
     delete_row mappings_e mapping_id)"

definition list_mappings_for_case :: "uuid \<Rightarrow> mapping_row table service" where
  "list_mappings_for_case case_id = select_rows mappings_e (\<lambda>_ m. m_case_id m = Some case_id)"

text \<open>\<^verbatim>\<open>attack_reference\<close> has no row policy.\<close>

definition list_reference :: "reference_row list service" where
  "list_reference = reads (\<lambda>d. sort_key ar_technique_id (db_attack_reference d))"

section \<open>The heat map\<close>

definition severity_rank :: "string \<Rightarrow> int" where
  "severity_rank s = (if s = ''critical'' then 4 else if s = ''high'' then 3 else if s = ''medium'' then 2
     else if s = ''low'' then 1 else if s = ''informational'' then 0 else - 1)"

record heat_cell =
  hc_tactic_id :: string
  hc_technique_id :: string
  hc_case_count :: nat
  hc_max_severity :: "string option"
  hc_linked_case_ids :: "uuid list"

type_synonym heat_row = "string \<times> string \<times> uuid option \<times> string option"

text \<open>The dictionary of cells: for each pair, in the order of first appearance, the case ids and the severities.\<close>

type_synonym heat_dict = "((string \<times> string) \<times> (uuid list \<times> string list)) list"

definition heat_add :: "heat_row \<Rightarrow> heat_dict \<Rightarrow> heat_dict" where
  "heat_add = (\<lambda>(tactic, technique, case_id, severity) cells.
     let (cs, ss) = (case map_of cells (tactic, technique) of None \<Rightarrow> ([], []) | Some x \<Rightarrow> x) in
     AList.update (tactic, technique)
       (case case_id of None \<Rightarrow> cs | Some c \<Rightarrow> List.insert c cs,
        case severity of None \<Rightarrow> ss | Some s \<Rightarrow> if s = [] then ss else List.insert s ss) cells)"

text \<open>\<^verbatim>\<open>max(sevs, key=...)\<close>: the first of the greatest.\<close>

fun max_by_rank :: "string list \<Rightarrow> string option" where
  "max_by_rank [] = None"
| "max_by_rank (s # ss) = Some (fold (\<lambda>x m. if severity_rank x > severity_rank m then x else m) ss s)"

definition heat_cell_of :: "(string \<times> string) \<times> (uuid list \<times> string list) \<Rightarrow> heat_cell" where
  "heat_cell_of = (\<lambda>((tactic, technique), (cs, ss)).
     \<lparr>hc_tactic_id = tactic, hc_technique_id = technique, hc_case_count = length cs,
      hc_max_severity = max_by_rank ss, hc_linked_case_ids = sort cs\<rparr>)"

definition compute_heatmap_cells :: "heat_row list \<Rightarrow> heat_cell list" where
  "compute_heatmap_cells mappings =
     sort_key (\<lambda>c. (hc_tactic_id c, hc_technique_id c)) (map heat_cell_of (fold heat_add mappings []))"

record heat_filters =
  hf_created_after :: "int option"
  hf_created_before :: "int option"
  hf_case_severity :: "string option"
  hf_case_status :: "string option"

text \<open>A filter on a column of the outer-joined case: nothing to join is no match.\<close>

definition joined_eq :: "string option \<Rightarrow> string option \<Rightarrow> bool" where
  "joined_eq wanted value = (case wanted of None \<Rightarrow> True | Some w \<Rightarrow> w = [] \<or> value = Some w)"

definition joined_case :: "db \<Rightarrow> mapping_row \<Rightarrow> case_row option" where
  "joined_case d m = Option.bind (m_case_id m) (visible_row cases_e d)"

definition heat_match :: "db \<Rightarrow> uuid \<Rightarrow> heat_filters \<Rightarrow> mapping_row \<Rightarrow> bool" where
  "heat_match d tenant_id f m \<longleftrightarrow> m_tenant_id m = tenant_id \<and>
     (case hf_created_after f of None \<Rightarrow> True | Some t \<Rightarrow> t \<le> m_created_at m) \<and>
     (case hf_created_before f of None \<Rightarrow> True | Some t \<Rightarrow> m_created_at m \<le> t) \<and>
     joined_eq (hf_case_severity f) (map_option (case_severity_str \<circ> c_severity) (joined_case d m)) \<and>
     joined_eq (hf_case_status f) (map_option (case_status_str \<circ> c_status) (joined_case d m))"

definition heat_rows :: "db \<Rightarrow> uuid \<Rightarrow> heat_filters \<Rightarrow> heat_row list" where
  "heat_rows d tenant_id f = map (\<lambda>(i, m). (m_tactic_id m, m_technique_id m, m_case_id m,
       map_option (case_severity_str \<circ> c_severity) (joined_case d m)))
     (rows_where (\<lambda>_ m. ent_vis mappings_e (db_session d) m \<and> heat_match d tenant_id f m) (db_mappings d))"

definition build_heatmap :: "uuid \<Rightarrow> heat_filters \<Rightarrow> heat_cell list service" where
  "build_heatmap tenant_id f = bind (reads (\<lambda>d. heat_rows d tenant_id f)) (\<lambda>rows.
     let cells = fold heat_add rows [] in
     ret (sort_key (\<lambda>c. (hc_tactic_id c, hc_technique_id c)) (map heat_cell_of cells)))"

lemma attack_service_keeps [keeps_intros]:
  "keeps (isolated s d0) (create_mapping t p u)" "keeps (isolated s d0) (delete_mapping i)"
  "keeps (wf_at A) (create_mapping t p u)" "keeps (wf_at A) (delete_mapping i)"
  unfolding create_mapping_def delete_mapping_def by (intro keeps_intros)+

section \<open>What a cell says\<close>

definition row_cases :: "heat_row list \<Rightarrow> string \<times> string \<Rightarrow> uuid set" where
  "row_cases rows k = {c. \<exists>s. (fst k, snd k, Some c, s) \<in> set rows}"

definition row_severities :: "heat_row list \<Rightarrow> string \<times> string \<Rightarrow> string set" where
  "row_severities rows k = {s. s \<noteq> [] \<and> (\<exists>c. (fst k, snd k, c, Some s) \<in> set rows)}"

definition heat_keys :: "heat_row list \<Rightarrow> (string \<times> string) set" where
  "heat_keys rows = (\<lambda>(t, q, c, s). (t, q)) ` set rows"

definition dict_ok :: "heat_row list \<Rightarrow> heat_dict \<Rightarrow> bool" where
  "dict_ok rows cells \<longleftrightarrow> distinct (map fst cells) \<and> fst ` set cells = heat_keys rows \<and>
     (\<forall>k cs ss. map_of cells k = Some (cs, ss) \<longrightarrow> distinct cs \<and> set cs = row_cases rows k \<and> set ss = row_severities rows k)"

lemma dict_ok_add:
  assumes "dict_ok rows cells"
  shows "dict_ok (rows @ [r]) (heat_add r cells)"
proof -
  obtain t q c s where r: "r = (t, q, c, s)" by (cases r)
  have none: "row_cases rows (t, q) = {} \<and> row_severities rows (t, q) = {}" if "map_of cells (t, q) = None"
  proof -
    have "(t, q) \<notin> heat_keys rows"
      using that assms by (auto simp: dict_ok_def map_of_eq_None_iff)
    then show ?thesis
      by (force simp: heat_keys_def row_cases_def row_severities_def image_iff)
  qed
  obtain cs ss where acc: "(case map_of cells (t, q) of None \<Rightarrow> ([], []) | Some x \<Rightarrow> x) = (cs, ss)" by fastforce
  have old: "distinct cs \<and> set cs = row_cases rows (t, q) \<and> set ss = row_severities rows (t, q)"
    using acc none assms by (cases "map_of cells (t, q)") (auto simp: dict_ok_def)
  have new: "heat_add r cells = AList.update (t, q) (case c of None \<Rightarrow> cs | Some c \<Rightarrow> List.insert c cs,
      case s of None \<Rightarrow> ss | Some s \<Rightarrow> if s = [] then ss else List.insert s ss) cells"
    by (simp add: heat_add_def r acc)
  have cases': "row_cases (rows @ [r]) k = row_cases rows k \<union> (if k = (t, q) then set_option c else {})" for k
    by (cases k) (auto simp: row_cases_def r)
  have sevs': "row_severities (rows @ [r]) k = row_severities rows k \<union> (if k = (t, q) then set_option s - {[]} else {})" for k
    by (cases k) (auto simp: row_severities_def r)
  have "heat_keys (rows @ [r]) = insert (t, q) (heat_keys rows)"
    by (simp add: heat_keys_def r)
  moreover have "fst ` set (heat_add r cells) = insert (t, q) (fst ` set cells)"
    by (simp add: new dom_update [symmetric] dom_map_of_conv_image_fst [symmetric] update_conv')
  moreover have "distinct (map fst (heat_add r cells))"
    using assms by (simp add: new dict_ok_def distinct_update)
  ultimately show ?thesis
    using assms old unfolding dict_ok_def new
    by (auto simp: update_conv' cases' sevs' split: option.splits if_splits)
qed

lemma dict_ok_fold: "dict_ok rows (fold heat_add rows [])"
proof -
  have "dict_ok (rows0 @ rows) (fold heat_add rows cells)" if "dict_ok rows0 cells" for rows0 cells
    using that
  proof (induction rows arbitrary: rows0 cells)
    case (Cons r rows)
    from Cons.IH [OF dict_ok_add [OF Cons.prems]] show ?case by simp
  qed simp
  from this [of "[]" "[]"] show ?thesis
    by (simp add: dict_ok_def heat_keys_def)
qed

lemma fold_max_rank:
  "fold (\<lambda>x m. if severity_rank x > severity_rank m then x else m) ss s \<in> insert s (set ss) \<and>
   (\<forall>x \<in> insert s (set ss). severity_rank x \<le> severity_rank (fold (\<lambda>x m. if severity_rank x > severity_rank m then x else m) ss s))"
proof (induction ss arbitrary: s)
  case (Cons x ss)
  show ?case
    using Cons.IH [of x] Cons.IH [of s] by (cases "severity_rank x > severity_rank s") auto
qed simp

lemma max_by_rank_ok:
  "(max_by_rank ss = None \<longleftrightarrow> ss = []) \<and> (\<forall>s. max_by_rank ss = Some s \<longrightarrow> s \<in> set ss \<and> (\<forall>x \<in> set ss. severity_rank x \<le> severity_rank s))"
  using fold_max_rank [of "tl ss" "hd ss"] by (cases ss) auto

definition cell_ok :: "heat_row list \<Rightarrow> heat_cell \<Rightarrow> bool" where
  "cell_ok rows c = (let k = (hc_tactic_id c, hc_technique_id c) in
     set (hc_linked_case_ids c) = row_cases rows k \<and> sorted (hc_linked_case_ids c) \<and>
     hc_case_count c = card (row_cases rows k) \<and>
     (case hc_max_severity c of None \<Rightarrow> row_severities rows k = {}
      | Some s \<Rightarrow> s \<in> row_severities rows k \<and> (\<forall>x \<in> row_severities rows k. severity_rank x \<le> severity_rank s)))"

text \<open>
  C27: the heat map has one cell for each tactic and technique that a matching mapping of the tenant names, in
  increasing order; a cell counts and lists, each once and in order, the cases of its mappings, and shows the highest
  severity among the joined cases, none when there is none.
\<close>

theorem heatmap_cells:
  "\<exists>cells. build_heatmap t f d = (Inr cells, d) \<and>
     sorted (map (\<lambda>c. (hc_tactic_id c, hc_technique_id c)) cells) \<and> distinct (map (\<lambda>c. (hc_tactic_id c, hc_technique_id c)) cells) \<and>
     (\<lambda>c. (hc_tactic_id c, hc_technique_id c)) ` set cells = heat_keys (heat_rows d t f) \<and>
     list_all (cell_ok (heat_rows d t f)) cells"
proof -
  let ?rows = "heat_rows d t f" and ?key = "\<lambda>c. (hc_tactic_id c, hc_technique_id c)"
  let ?dict = "fold heat_add (heat_rows d t f) []"
  let ?cells = "sort_key ?key (map heat_cell_of ?dict)"
  have ok: "distinct (map fst ?dict)" "fst ` set ?dict = heat_keys ?rows"
    "\<And>k cs ss. map_of ?dict k = Some (cs, ss) \<Longrightarrow> distinct cs \<and> set cs = row_cases ?rows k \<and> set ss = row_severities ?rows k"
    using dict_ok_fold [of ?rows] by (auto simp: dict_ok_def)
  have key: "?key (heat_cell_of x) = fst x" for x
    by (auto simp: heat_cell_of_def split: prod.split)
  have "distinct (map ?key ?cells)"
  proof -
    have "distinct (map ?key (map heat_cell_of ?dict))"
      using ok(1) by (simp add: comp_def key)
    then show ?thesis
      by (simp only: distinct_map [of ?key] set_sort distinct_sort)
  qed
  moreover have "?key ` set ?cells = heat_keys ?rows"
    by (simp add: image_image key ok(2))
  moreover have "cell_ok ?rows c"
    if "c \<in> set ?cells" for c
  proof -
    from that obtain tq cs ss where m: "(tq, (cs, ss)) \<in> set ?dict" and c: "c = heat_cell_of (tq, (cs, ss))" by auto
    have "distinct cs \<and> set cs = row_cases ?rows tq \<and> set ss = row_severities ?rows tq"
      using ok(1) m by (intro ok(3)) (simp add: map_of_is_SomeI)
    then show ?thesis
      using max_by_rank_ok [of ss]
      by (auto simp: c cell_ok_def heat_cell_of_def Let_def distinct_card [symmetric] split: prod.split option.split)
  qed
  ultimately show ?thesis
    by (intro exI [of _ ?cells]) (simp add: build_heatmap_def bind_apply Let_def list_all_iff)
qed

end
