(* ===== verification/Enrichment.thy ===== *)
theory Enrichment
  imports Observables
begin

text \<open>
  Enrichment (\<^verbatim>\<open>services/enrichment.py\<close>, \<^verbatim>\<open>schemas/enrichment.py\<close>, the task \<^verbatim>\<open>enrichment.execute\<close> of
  \<^verbatim>\<open>worker/tasks.py\<close>): the sources of a tenant, and the queueing of one job per observable and source.
\<close>

record source_create =
  sc_name :: string
  sc_type :: string
  sc_config :: jobj
  sc_supported_observable_types :: "observable_type list"
  sc_is_enabled :: bool
  sc_timeout_seconds :: int

record source_update =
  su_name :: "string upd"
  su_config :: "json upd"
  su_supported_observable_types :: "observable_type list upd"
  su_is_enabled :: "bool upd"
  su_timeout_seconds :: "int upd"

record enrichment_request =
  eq_observable_ids :: "uuid list"
  eq_source_ids :: "uuid list option"

abbreviation source_or_404 :: "uuid \<Rightarrow> source_row service" where
  "source_or_404 \<equiv> get_or_404 sources_e (\<lambda>i. ''Enrichment source '' @ uuid_str i @ '' not found'')"

definition list_sources :: "uuid \<Rightarrow> nat \<Rightarrow> nat \<Rightarrow> (source_row table \<times> nat) service" where
  "list_sources tenant_id limit offset =
     bind (select_rows sources_e (\<lambda>_ s. es_tenant_id s = tenant_id)) (\<lambda>rows.
     ret (page_of limit offset (sort_desc (es_created_at \<circ> snd) rows), length rows))"

definition create_source :: "uuid \<Rightarrow> source_create \<Rightarrow> uuid service" where
  "create_source tenant_id payload =
     bind now_utc (\<lambda>now. insert_row sources_e
       \<lparr>es_tenant_id = tenant_id, es_name = sc_name payload, es_type = sc_type payload, es_config = JObj (sc_config payload),
        es_supported_observable_types = sc_supported_observable_types payload, es_is_enabled = sc_is_enabled payload,
        es_timeout_seconds = sc_timeout_seconds payload, es_created_at = now, es_updated_at = now\<rparr>)"

definition source_set :: "source_update \<Rightarrow> source_row \<Rightarrow> source_row" where
  "source_set data s = s
     \<lparr>es_name := set_req (su_name data) (es_name s), es_config := set_json (su_config data) (es_config s),
      es_supported_observable_types := set_req (su_supported_observable_types data) (es_supported_observable_types s),
      es_is_enabled := set_req (su_is_enabled data) (es_is_enabled s),
      es_timeout_seconds := set_req (su_timeout_seconds data) (es_timeout_seconds s)\<rparr>"

definition update_source :: "uuid \<Rightarrow> source_update \<Rightarrow> source_row service" where
  "update_source source_id data =
     bind (source_or_404 source_id) (\<lambda>s.
     and_then (not_null [is_null (su_name data), is_null (su_supported_observable_types data), is_null (su_is_enabled data),
       is_null (su_timeout_seconds data)])
     (bind now_utc (\<lambda>now.
     and_then (save_changed sources_e source_id s (source_set data s) (es_updated_at_update (\<lambda>_. now)))
     (source_or_404 source_id))))"

text \<open>
  \<^verbatim>\<open>db.delete(source)\<close>: the ORM sets the source of the results it loads to null, which that column does not take;
  the foreign key restricts for those it does not see.
\<close>

definition source_used :: "db \<Rightarrow> uuid \<Rightarrow> bool" where
  "source_used d i \<longleftrightarrow> (\<exists>(j, r) \<in> set (db_results d). er_source_id r = i)"

definition delete_source :: "uuid \<Rightarrow> unit service" where
  "delete_source source_id =
     bind (source_or_404 source_id) (\<lambda>s.
     bind (select_rows results_e (\<lambda>_ r. er_source_id r = source_id)) (\<lambda>results.
     and_then (not_null [results \<noteq> []])
     (bind (reads (\<lambda>d. source_used d source_id)) (\<lambda>used.
     and_then (guard (\<not> used) fk_error)
     (delete_row sources_e source_id)))))"

definition list_results :: "uuid \<Rightarrow> nat \<Rightarrow> nat \<Rightarrow> (result_row table \<times> nat) service" where
  "list_results observable_id limit offset =
     bind (select_rows results_e (\<lambda>_ r. er_observable_id r = observable_id)) (\<lambda>rows.
     ret (page_of limit offset (sort_desc (er_queried_at \<circ> snd) rows), length rows))"

section \<open>Triggering\<close>

definition fallback_result :: "uuid \<Rightarrow> uuid \<Rightarrow> observable_row \<Rightarrow> uuid \<Rightarrow> source_row \<Rightarrow> int \<Rightarrow> result_row" where
  "fallback_result tenant_id oid ob sid s now =
     \<lparr>er_tenant_id = tenant_id, er_observable_id = oid, er_source_id = sid, er_status = ES_SUCCESS,
      er_result_data = JObj [(''stub'', JBool True), (''source'', JStr (es_name s)), (''value'', JStr (o_value ob))],
      er_error_message = None, er_queried_at = now\<rparr>"

text \<open>One job: the id of the Celery task, or a result written in its place when the broker refuses.\<close>

definition queue_job :: "env \<Rightarrow> uuid \<Rightarrow> uuid \<times> observable_row \<Rightarrow> uuid \<times> source_row \<Rightarrow> string list service" where
  "queue_job env tenant_id = (\<lambda>(oid, ob) (sid, s).
     case env_delay env ''enrichment.execute'' [JId oid, JId sid] of
       Some task \<Rightarrow> ret [task]
     | None \<Rightarrow> bind now_utc (\<lambda>now.
         bind (insert_row results_e (fallback_result tenant_id oid ob sid s now)) (\<lambda>_. ret [])))"

definition enrich_one :: "env \<Rightarrow> uuid \<Rightarrow> uuid \<Rightarrow> source_row table \<Rightarrow> uuid \<times> observable_row \<Rightarrow> string list service" where
  "enrich_one env tenant_id actor_id sources ob =
     (let matching = filter (\<lambda>(sid, s). o_type (snd ob) \<in> set (es_supported_observable_types s)) sources in
      bind (collect matching (queue_job env tenant_id ob)) (\<lambda>jobs.
      and_then (if matching = [] then ret () else
        bind (record_event env tenant_id (o_case_id (snd ob)) ''enrichment_triggered''
          (''Enrichment triggered for '' @ observable_type_str (o_type (snd ob)) @ ''='' @ o_value (snd ob)) (Some ''enrichment'')
          (Some actor_id) [(''observable_id'', JId (fst ob)), (''source_ids'', JList (map (JId \<circ> fst) matching))] None) (\<lambda>_. ret ()))
      (ret (concat jobs))))"

definition trigger_enrichment :: "env \<Rightarrow> uuid \<Rightarrow> enrichment_request \<Rightarrow> uuid \<Rightarrow> string list service" where
  "trigger_enrichment env tenant_id payload actor_id =
     bind (select_rows observables_e (\<lambda>i _. i \<in> set (eq_observable_ids payload))) (\<lambda>observables.
     and_then (guard (observables \<noteq> []) (HTTPException 404 ''No observables found''))
     (bind (select_rows sources_e (\<lambda>i s. es_tenant_id s = tenant_id \<and> es_is_enabled s \<and>
        (case eq_source_ids payload of None \<Rightarrow> True | Some [] \<Rightarrow> True | Some ids \<Rightarrow> i \<in> set ids))) (\<lambda>sources.
     bind (collect observables (enrich_one env tenant_id actor_id sources)) (\<lambda>jobs. ret (concat jobs)))))"

text \<open>The Celery task, on the owner's connection: it stores a placeholder result.\<close>

definition execute_enrichment :: "uuid \<Rightarrow> uuid \<Rightarrow> jobj service" where
  "execute_enrichment observable_id source_id =
     bind (find_row observables_e observable_id) (\<lambda>obs.
     bind (find_row sources_e source_id) (\<lambda>source.
     case (obs, source) of
       (Some ob, Some s) \<Rightarrow> bind now_utc (\<lambda>now.
         bind (insert_row results_e
           \<lparr>er_tenant_id = o_tenant_id ob, er_observable_id = observable_id, er_source_id = source_id, er_status = ES_SUCCESS,
            er_result_data = JObj [(''source'', JStr (es_type s)), (''observable'', JStr (o_value ob)),
              (''note'', JStr ''stub enrichment result'')], er_error_message = None, er_queried_at = now\<rparr>) (\<lambda>i.
         ret [(''status'', JStr ''success''), (''result_id'', JId i)]))
     | _ \<Rightarrow> ret [(''status'', JStr ''error''), (''detail'', JStr ''observable or source not found'')]))"

section \<open>Isolation and integrity\<close>

lemma source_service_keeps [keeps_intros]:
  "keeps (isolated s d0) (create_source t sc)" "keeps (isolated s d0) (update_source i su)" "keeps (isolated s d0) (delete_source i)"
  "keeps (wf_at A) (create_source t sc)" "keeps (wf_at A) (update_source i su)" "keeps (wf_at A) (delete_source i)"
  unfolding create_source_def update_source_def delete_source_def by (intro keeps_intros)+

lemma keeps_queue_job:
  "(\<And>r. keeps I (insert_row results_e r)) \<Longrightarrow> keeps I (queue_job env t ob s)"
  unfolding queue_job_def by (cases ob; cases s) (auto intro!: keeps_intros)

lemma trigger_isolated [keeps_intros]: "keeps (isolated s d0) (trigger_enrichment env t p a)"
  unfolding trigger_enrichment_def enrich_one_def Let_def by (intro keeps_intros keeps_queue_job)

lemma execute_enrichment_keeps [keeps_intros]:
  "keeps (isolated s d0) (execute_enrichment i j)" "keeps (wf_at A) (execute_enrichment i j)"
  unfolding execute_enrichment_def by (intro keeps_intros; auto intro!: keeps_intros split: option.split)+

text \<open>
  The timeline entry carries the tenant of the path. In a session of that tenant all the observables found are its own,
  so the entries agree with their cases; an administrator of the platform can name observables of another tenant.
\<close>

lemma trigger_enrichment_at:
  assumes "wf_at A d" and "\<And>u. rls_standard (db_session d) u \<Longrightarrow> u = t"
  shows "wf_at A (snd (trigger_enrichment env t p a d))"
proof -
  let ?obs = "rows_where (\<lambda>i ob. ent_vis observables_e (db_session d) ob \<and> i \<in> set (eq_observable_ids p)) (db_observables d)"
  let ?B = "A \<union> (\<lambda>(i, ob). (o_case_id ob, t)) ` set ?obs"
  have "case_tenant d (o_case_id ob) = Some t" if "(i, ob) \<in> set ?obs" for i ob
    using that assms wf_at_db [OF assms(1)] by (fastforce simp: wf_db_def wf_tenancy_def rows_in_case_def)
  then have B: "wf_at ?B d"
    using assms(1) by (auto simp: wf_at_def)
  have "keeps (wf_at ?B) (enrich_one env t a sources ob)" if "ob \<in> set ?obs" for sources ob
    unfolding enrich_one_def Let_def using that
    by (intro keeps_intros keeps_queue_job) (auto intro!: rev_image_eqI)
  note one = this
  have "keeps (wf_at ?B) (and_then (guard (?obs \<noteq> []) (HTTPException 404 ''No observables found''))
     (bind (select_rows sources_e (\<lambda>i s. es_tenant_id s = t \<and> es_is_enabled s \<and>
        (case eq_source_ids p of None \<Rightarrow> True | Some [] \<Rightarrow> True | Some ids \<Rightarrow> i \<in> set ids))) (\<lambda>sources.
     bind (collect ?obs (enrich_one env t a sources)) (\<lambda>jobs. ret (concat jobs)))))"
    by (intro keeps_and_then keeps_guard keeps_bind keeps_select_rows keeps_collect keeps_ret one)
  from keepsD [OF this B] have "wf_at ?B (snd (trigger_enrichment env t p a d))"
    by (simp add: trigger_enrichment_def bind_apply [of "select_rows observables_e P" for P] select_rows_apply)
  then show ?thesis
    by (rule wf_at_mono) auto
qed


section \<open>Properties\<close>

text \<open>What a run wrote: results and timeline entries, appended in this order, besides drawing ids and publishing messages.\<close>

definition wrote :: "result_row list \<Rightarrow> timeline_row list \<Rightarrow> db \<Rightarrow> db \<Rightarrow> bool" where
  "wrote res evs d d' \<longleftrightarrow> (\<exists>rs es n ms. map snd rs = res \<and> map snd es = evs \<and>
     d' = d\<lparr>db_results := db_results d @ rs, db_timeline := db_timeline d @ es, db_next_id := n,
       db_published := db_published d @ ms\<rparr>)"

lemma wrote_refl: "wrote [] [] d d"
  unfolding wrote_def by (rule exI [of _ "[]"], rule exI [of _ "[]"], rule exI [of _ "db_next_id d"], rule exI [of _ "[]"]) simp

lemma wrote_trans:
  assumes "wrote r e d d1" and "wrote r' e' d1 d2"
  shows "wrote (r @ r') (e @ e') d d2"
proof -
  obtain rs es n ms rs' es' n' ms' where "map snd rs = r" "map snd es = e" "map snd rs' = r'" "map snd es' = e'"
    and d1: "d1 = d\<lparr>db_results := db_results d @ rs, db_timeline := db_timeline d @ es, db_next_id := n,
      db_published := db_published d @ ms\<rparr>"
    and d2: "d2 = d1\<lparr>db_results := db_results d1 @ rs', db_timeline := db_timeline d1 @ es', db_next_id := n',
      db_published := db_published d1 @ ms'\<rparr>"
    using assms unfolding wrote_def by blast
  then show ?thesis
    unfolding wrote_def
    by (intro exI [of _ "rs @ rs'"] exI [of _ "es @ es'"] exI [of _ n'] exI [of _ "ms @ ms'"]) (simp add: d2 d1)
qed

lemma wrote_now: "wrote r e d d' \<Longrightarrow> db_now d' = db_now d"
  by (auto simp: wrote_def)

type_synonym enrichment_pair = "(uuid \<times> observable_row) \<times> (uuid \<times> source_row)"

text \<open>What Celery answers to the job of a pair, and the result row that stands in for a job it refuses.\<close>

definition pair_task :: "env \<Rightarrow> enrichment_pair \<Rightarrow> string option" where
  "pair_task env = (\<lambda>((oid, ob), (sid, s)). env_delay env ''enrichment.execute'' [JId oid, JId sid])"

definition stand_in :: "uuid \<Rightarrow> int \<Rightarrow> enrichment_pair \<Rightarrow> result_row" where
  "stand_in t now = (\<lambda>((oid, ob), (sid, s)).
     \<lparr>er_tenant_id = t, er_observable_id = oid, er_source_id = sid, er_status = ES_SUCCESS,
      er_result_data = JObj [(''stub'', JBool True), (''source'', JStr (es_name s)), (''value'', JStr (o_value ob))],
      er_error_message = None, er_queried_at = now\<rparr>)"

definition tasks_of :: "env \<Rightarrow> enrichment_pair list \<Rightarrow> string list" where
  "tasks_of env ps = map (\<lambda>p. the (pair_task env p)) (filter (\<lambda>p. pair_task env p \<noteq> None) ps)"

definition refused :: "env \<Rightarrow> enrichment_pair list \<Rightarrow> enrichment_pair list" where
  "refused env ps = filter (\<lambda>p. pair_task env p = None) ps"

lemma tasks_append [simp]: "tasks_of env (ps @ qs) = tasks_of env ps @ tasks_of env qs" "refused env (ps @ qs) = refused env ps @ refused env qs"
  by (simp_all add: tasks_of_def refused_def)

lemma queue_job_InrD:
  assumes "queue_job env t ob s d = (Inr js, d')"
  shows "js = tasks_of env [(ob, s)] \<and> wrote (map (stand_in t (db_now d)) (refused env [(ob, s)])) [] d d'"
proof (cases "pair_task env (ob, s)")
  case None
  obtain oid o' sid s' where eqs: "ob = (oid, o')" "s = (sid, s')" by fastforce
  from assms None obtain i where i: "insert_row results_e (fallback_result t oid o' sid s' (db_now d)) d = (Inr i, d')" and js: "js = []"
    by (auto simp: queue_job_def pair_task_def eqs svc_simps elim!: bind_InrD split: prod.splits sum.splits)
  have "fallback_result t oid o' sid s' (db_now d) = stand_in t (db_now d) (ob, s)"
    by (simp add: fallback_result_def stand_in_def eqs)
  with insert_row_InrD [OF i] have "d' = d\<lparr>db_results := db_results d @ [(db_next_id d, stand_in t (db_now d) (ob, s))], db_next_id := Suc (db_next_id d)\<rparr>"
    by (simp add: results_e_def row_add_def)
  then have "wrote [stand_in t (db_now d) (ob, s)] [] d d'"
    unfolding wrote_def
    by (intro exI [of _ "[(db_next_id d, stand_in t (db_now d) (ob, s))]"] exI [of _ "[]"] exI [of _ "Suc (db_next_id d)"]) simp
  with None js show ?thesis by (simp add: tasks_of_def refused_def)
next
  case (Some task)
  with assms show ?thesis
    by (cases ob; cases s) (simp add: queue_job_def pair_task_def tasks_of_def refused_def wrote_refl)
qed

lemma collect_queue_InrD:
  "collect ms (queue_job env t ob) d = (Inr jss, d') \<Longrightarrow>
   concat jss = tasks_of env (map (Pair ob) ms) \<and> wrote (map (stand_in t (db_now d)) (refused env (map (Pair ob) ms))) [] d d'"
proof (induction ms arbitrary: d jss)
  case Nil
  then show ?case by (simp add: tasks_of_def refused_def wrote_refl)
next
  case (Cons m ms)
  from Cons.prems obtain js jss' d1 where run: "queue_job env t ob m d = (Inr js, d1)" "collect ms (queue_job env t ob) d1 = (Inr jss', d')"
    and jss: "jss = js # jss'"
    by (auto elim!: bind_InrD)
  note A = queue_job_InrD [OF run(1)] and B = Cons.IH [OF run(2)]
  from A have "db_now d1 = db_now d" by (blast dest: wrote_now)
  with A B wrote_trans [of _ "[]" d d1 _ "[]" d'] jss show ?case
    using tasks_append [of env "[(ob, m)]" "map (Pair ob) ms"] by simp
qed

lemma record_event_wrote:
  assumes "record_event env t c ty de ca ac me None d = (Inr i, d')"
  shows "wrote [] [event_entry t c ty de ca ac me (db_now d)] d d'"
proof -
  obtain ms where "d' = d\<lparr>db_next_id := Suc (db_next_id d),
       db_timeline := row_add (db_next_id d) (event_entry t c ty de ca ac me (db_now d)) (db_timeline d),
       db_published := db_published d @ ms\<rparr>"
    using record_event_InrD [OF assms] by blast
  then show ?thesis
    unfolding wrote_def
    by (intro exI [of _ "[]"] exI [of _ "[(db_next_id d, event_entry t c ty de ca ac me (db_now d))]"]
        exI [of _ "Suc (db_next_id d)"] exI [of _ ms]) (simp add: row_add_def)
qed

text \<open>The pairs of a request: each observable with the sources that support its type.\<close>

definition pairs_of :: "observable_row table \<Rightarrow> source_row table \<Rightarrow> enrichment_pair list" where
  "pairs_of obs sources = [(ob, s). ob \<leftarrow> obs, s \<leftarrow> sources, o_type (snd ob) \<in> set (es_supported_observable_types (snd s))]"

text \<open>The entry that logs the sources asked about one observable.\<close>

definition trigger_entries :: "uuid \<Rightarrow> uuid \<Rightarrow> int \<Rightarrow> source_row table \<Rightarrow> uuid \<times> observable_row \<Rightarrow> timeline_row list" where
  "trigger_entries t u now sources ob = (let ms = map snd (pairs_of [ob] sources) in
     if ms = [] then [] else
     [event_entry t (o_case_id (snd ob)) ''enrichment_triggered''
        (''Enrichment triggered for '' @ observable_type_str (o_type (snd ob)) @ ''='' @ o_value (snd ob)) (Some ''enrichment'') (Some u)
        [(''observable_id'', JId (fst ob)), (''source_ids'', JList (map (JId \<circ> fst) ms))] now])"

lemma pairs_one: "pairs_of [ob] sources = map (Pair ob) (filter (\<lambda>(sid, s). o_type (snd ob) \<in> set (es_supported_observable_types s)) sources)"
  by (induction sources) (auto simp: pairs_of_def)

lemma pairs_Cons: "pairs_of (ob # obs) sources = pairs_of [ob] sources @ pairs_of obs sources"
  by (simp add: pairs_of_def)

lemma enrich_one_InrD:
  assumes "enrich_one env t u sources ob d = (Inr js, d')"
  shows "js = tasks_of env (pairs_of [ob] sources) \<and>
    wrote (map (stand_in t (db_now d)) (refused env (pairs_of [ob] sources))) (trigger_entries t u (db_now d) sources ob) d d'"
proof -
  let ?ms = "filter (\<lambda>(sid, s). o_type (snd ob) \<in> set (es_supported_observable_types s)) sources"
  let ?log = "if ?ms = [] then ret () else
        bind (record_event env t (o_case_id (snd ob)) ''enrichment_triggered''
          (''Enrichment triggered for '' @ observable_type_str (o_type (snd ob)) @ ''='' @ o_value (snd ob)) (Some ''enrichment'')
          (Some u) [(''observable_id'', JId (fst ob)), (''source_ids'', JList (map (JId \<circ> fst) ?ms))] None) (\<lambda>_. ret ())"
  from assms obtain jss d1 where run: "collect ?ms (queue_job env t ob) d = (Inr jss, d1)" and log: "?log d1 = (Inr (), d')"
    and js: "js = concat jss"
    unfolding enrich_one_def Let_def by (elim bind_InrD and_then_InrD) simp
  note A = collect_queue_InrD [OF run]
  from A have now: "db_now d1 = db_now d" by (blast dest: wrote_now)
  have ms: "map snd (pairs_of [ob] sources) = ?ms" by (simp add: pairs_one comp_def)
  have "wrote [] (trigger_entries t u (db_now d) sources ob) d1 d'"
  proof (cases "?ms = []")
    case True
    with log show ?thesis unfolding trigger_entries_def ms by (simp add: wrote_refl)
  next
    case False
    with log obtain i where "record_event env t (o_case_id (snd ob)) ''enrichment_triggered''
          (''Enrichment triggered for '' @ observable_type_str (o_type (snd ob)) @ ''='' @ o_value (snd ob)) (Some ''enrichment'')
          (Some u) [(''observable_id'', JId (fst ob)), (''source_ids'', JList (map (JId \<circ> fst) ?ms))] None d1 = (Inr i, d')"
      by (auto elim!: bind_InrD)
    note R = record_event_wrote [OF this]
    from False have entries: "trigger_entries t u (db_now d) sources ob = [event_entry t (o_case_id (snd ob)) ''enrichment_triggered''
          (''Enrichment triggered for '' @ observable_type_str (o_type (snd ob)) @ ''='' @ o_value (snd ob)) (Some ''enrichment'')
          (Some u) [(''observable_id'', JId (fst ob)), (''source_ids'', JList (map (JId \<circ> fst) ?ms))] (db_now d1)]"
      unfolding trigger_entries_def ms now Let_def by (simp only: if_False)
    show ?thesis unfolding entries by (rule R)
  qed
  with wrote_trans [OF conjunct2 [OF A] this] A js show ?thesis
    by (simp add: pairs_one)
qed

text \<open>
  C28: triggering takes the named observables the session sees (at least one, else the call fails) with the enabled sources
  of the tenant it sees (those named, when some are) that support their type. For each such pair, in order, it returns the
  task the broker queued, or, where the broker refuses, stores one successful stand-in result for that pair; each observable
  with a source gets one timeline entry that lists its sources. Nothing else is written.
\<close>

theorem trigger_queues_each_pair:
  assumes "trigger_enrichment env t p u d = (Inr jobs, d')"
  shows "\<exists>obs sources ps.
    obs = rows_where (\<lambda>i ob. ent_vis observables_e (db_session d) ob \<and> i \<in> set (eq_observable_ids p)) (db_observables d) \<and> obs \<noteq> [] \<and>
    sources = rows_where (\<lambda>i s. ent_vis sources_e (db_session d) s \<and> es_tenant_id s = t \<and> es_is_enabled s \<and>
      (\<forall>ids. eq_source_ids p = Some ids \<and> ids \<noteq> [] \<longrightarrow> i \<in> set ids)) (db_sources d) \<and>
    ps = [(ob, s). ob \<leftarrow> obs, s \<leftarrow> sources, o_type (snd ob) \<in> set (es_supported_observable_types (snd s))] \<and>
    jobs = tasks_of env ps \<and>
    wrote (map (stand_in t (db_now d)) (refused env ps)) (concat (map (trigger_entries t u (db_now d) sources) obs)) d d'"
proof -
  define obs where "obs = rows_where (\<lambda>i ob. ent_vis observables_e (db_session d) ob \<and> i \<in> set (eq_observable_ids p)) (db_observables d)"
  define sources where "sources = rows_where (\<lambda>i s. ent_vis sources_e (db_session d) s \<and> es_tenant_id s = t \<and> es_is_enabled s \<and>
      (\<forall>ids. eq_source_ids p = Some ids \<and> ids \<noteq> [] \<longrightarrow> i \<in> set ids)) (db_sources d)"
  have src: "(case eq_source_ids p of None \<Rightarrow> True | Some [] \<Rightarrow> True | Some ids \<Rightarrow> i \<in> set ids) \<longleftrightarrow>
      (\<forall>ids. eq_source_ids p = Some ids \<and> ids \<noteq> [] \<longrightarrow> i \<in> set ids)" for i
    by (auto split: option.split list.split)
  from assms have ne: "obs \<noteq> []" and "bind (collect obs (enrich_one env t u sources)) (\<lambda>jobs. ret (concat jobs)) d = (Inr jobs, d')"
    unfolding trigger_enrichment_def run_select run_guard src by (simp_all add: obs_def sources_def)
  then obtain js where js: "collect obs (enrich_one env t u sources) d = (Inr js, d')" "jobs = concat js"
    by (auto elim!: bind_InrD)
  have "concat js = tasks_of env (pairs_of os sources) \<and>
      wrote (map (stand_in t (db_now d)) (refused env (pairs_of os sources))) (concat (map (trigger_entries t u (db_now d) sources) os)) d d'"
    if "collect os (enrich_one env t u sources) d = (Inr js, d')" for os d js
    using that
  proof (induction os arbitrary: d js)
    case Nil
    then show ?case by (simp add: pairs_of_def tasks_of_def refused_def wrote_refl)
  next
    case (Cons x xs)
    from Cons.prems obtain y ys d1 where run: "enrich_one env t u sources x d = (Inr y, d1)"
      "collect xs (enrich_one env t u sources) d1 = (Inr ys, d')" and "js = y # ys"
      by (auto elim!: bind_InrD)
    moreover note A = enrich_one_InrD [OF run(1)] and B = Cons.IH [OF run(2)]
    moreover from A have "db_now d1 = db_now d" by (blast dest: wrote_now)
    ultimately show ?case
      using wrote_trans [OF conjunct2 [OF A]] by (simp add: pairs_Cons [of x xs])
  qed
  from this [OF js(1)] js(2) ne show ?thesis
    unfolding obs_def sources_def pairs_of_def by blast
qed

definition demo_sources :: db where
  "demo_sources = demo_db\<lparr>db_sources := [(16, \<lparr>es_tenant_id = 1, es_name = ''vt'', es_type = ''virustotal'', es_config = JObj [],
     es_supported_observable_types = [OT_FILENAME], es_is_enabled = True, es_timeout_seconds = 30, es_created_at = 0, es_updated_at = 0\<rparr>)]\<rparr>"

text \<open>With the broker up the job is queued; with the broker down a result is stored.\<close>

theorem trigger_queues_each_pair_witness:
  "\<exists>d1 d2 r. trigger_enrichment demo_env 1 \<lparr>eq_observable_ids = [9, 10], eq_source_ids = None\<rparr> 3 demo_sources = (Inr [''task''], d1) \<and>
     db_results d1 = [] \<and>
     trigger_enrichment (demo_env\<lparr>env_delay := \<lambda>_ _. None\<rparr>) 1 \<lparr>eq_observable_ids = [9, 10], eq_source_ids = None\<rparr> 3 demo_sources = (Inr [], d2) \<and>
     map snd (db_results d2) = [r] \<and> er_observable_id r = 9 \<and> er_source_id r = 16 \<and> er_status r = ES_SUCCESS"
proof -
  let ?p = "\<lparr>eq_observable_ids = [9, 10], eq_source_ids = None\<rparr>"
  obtain jobs1 d1 where run1: "trigger_enrichment demo_env 1 ?p 3 demo_sources = (Inr jobs1, d1)"
    by (simp add: trigger_enrichment_def enrich_one_def queue_job_def demo_sources_def run_simps)
  obtain jobs2 d2 where run2: "trigger_enrichment (demo_env\<lparr>env_delay := \<lambda>_ _. None\<rparr>) 1 ?p 3 demo_sources = (Inr jobs2, d2)"
    by (simp add: trigger_enrichment_def enrich_one_def queue_job_def demo_sources_def fallback_result_def run_simps)
  note T = trigger_queues_each_pair [OF run1] trigger_queues_each_pair [OF run2]
  have "jobs1 = [''task''] \<and> db_results d1 = []"
    using T(1) by (auto simp: wrote_def tasks_of_def refused_def pair_task_def demo_sources_def rows_where_def demo_defs entity_defs
      rls_standard_def rls_nullable_def is_admin_policy_def)
  moreover have "jobs2 = [] \<and> map snd (db_results d2) = [stand_in 1 1000 ((9, demo_observable 1 6 ''a.exe''), hd (db_sources demo_sources))]"
    using T(2) by (auto simp: wrote_def tasks_of_def refused_def pair_task_def demo_sources_def rows_where_def demo_defs entity_defs
      rls_standard_def rls_nullable_def is_admin_policy_def)
  ultimately show ?thesis
    using run1 run2 by (auto simp: stand_in_def demo_sources_def)
qed

end
