(* ===== verification/Storage.thy ===== *)
theory Storage
  imports Platform_Modules
begin

text \<open>
  Object storage and password protection (\<^verbatim>\<open>services/storage.py\<close>).

  Byte strings are strings. The library calls are the parameters of a \<open>vault\<close>: \<^verbatim>\<open>hashlib.sha256\<close>, \<^verbatim>\<open>Scrypt\<close>,
  \<^verbatim>\<open>AESGCM\<close> (decryption fails with \<open>None\<close>), \<^verbatim>\<open>os.urandom\<close> (the bytes of a draw, named by a fresh id), and
  whether the bucket takes a write. The bucket itself is \<open>db_objects\<close>. \<open>aead\<close> is what the documentation of AES-GCM
  says: decrypting under the same key and nonce gives the plain text back, and the output is 16 bytes longer.
\<close>

record vault =
  v_sha256 :: "string \<Rightarrow> string"
  v_scrypt :: "string \<Rightarrow> string \<Rightarrow> nat \<Rightarrow> nat \<Rightarrow> nat \<Rightarrow> nat \<Rightarrow> string"
  v_encrypt :: "string \<Rightarrow> string \<Rightarrow> string \<Rightarrow> string"
  v_decrypt :: "string \<Rightarrow> string \<Rightarrow> string \<Rightarrow> string option"
  v_urandom :: "uuid \<Rightarrow> nat \<Rightarrow> string"
  v_accepts :: "string \<Rightarrow> bool"

definition aead :: "vault \<Rightarrow> bool" where
  "aead v \<longleftrightarrow> (\<forall>k n p. v_decrypt v k n (v_encrypt v k n p) = Some p \<and> length (v_encrypt v k n p) = length p + 16) \<and>
     (\<forall>u n. length (v_urandom v u n) = n)"

definition build_key :: "string \<Rightarrow> string \<Rightarrow> string \<Rightarrow> string" where
  "build_key tenant_id case_id storage_uuid = ''evidence/'' @ tenant_id @ ''/'' @ case_id @ ''/'' @ storage_uuid"

text \<open>UTF-8, on characters below 256.\<close>

definition utf8 :: "string \<Rightarrow> string" where
  "utf8 s = concat (map (\<lambda>c. let n = (of_char c :: nat) in
     if n < 128 then [c] else [char_of (192 + n div 64), char_of (128 + n mod 64)]) s)"

definition derive_key :: "vault \<Rightarrow> string \<Rightarrow> string \<Rightarrow> string" where
  "derive_key v password salt = v_scrypt v (utf8 password) salt 32 32768 8 1"

definition new_uuid :: "uuid service" where
  "new_uuid = (\<lambda>d. (Inr (db_next_id d), d\<lparr>db_next_id := Suc (db_next_id d)\<rparr>))"

definition urandom :: "vault \<Rightarrow> nat \<Rightarrow> string service" where
  "urandom v n = bind new_uuid (\<lambda>u. ret (v_urandom v u n))"

definition encrypt_with_password :: "vault \<Rightarrow> string \<Rightarrow> string \<Rightarrow> string service" where
  "encrypt_with_password v plaintext password =
     bind (urandom v 16) (\<lambda>salt.
     bind (urandom v 12) (\<lambda>nonce.
     ret (salt @ nonce @ v_encrypt v (derive_key v password salt) nonce plaintext)))"

text \<open>\<open>None\<close> is an exception: \<^verbatim>\<open>ValueError\<close> for a text too short, \<^verbatim>\<open>InvalidTag\<close>.\<close>

definition decrypt_with_password :: "vault \<Rightarrow> string \<Rightarrow> string \<Rightarrow> string option" where
  "decrypt_with_password v ciphertext password =
     (if length ciphertext < 16 + 12 + 16 then None
      else v_decrypt v (derive_key v password (take 16 ciphertext)) (take 12 (drop 16 ciphertext)) (drop 28 ciphertext))"

definition upload_bytes :: "vault \<Rightarrow> string \<Rightarrow> string \<Rightarrow> unit service" where
  "upload_bytes v key data =
     and_then (guard (v_accepts v key) (OtherError ''ClientError''))
     (modify (\<lambda>d. d\<lparr>db_objects := AList.update key data (db_objects d)\<rparr>))"

definition download_bytes :: "string \<Rightarrow> string service" where
  "download_bytes key = bind (reads (\<lambda>d. map_of (db_objects d) key))
     (\<lambda>x. case x of None \<Rightarrow> raise (OtherError ''ClientError'') | Some data \<Rightarrow> ret data)"

definition delete_object :: "string \<Rightarrow> unit service" where
  "delete_object key = modify (\<lambda>d. d\<lparr>db_objects := AList.delete key (db_objects d)\<rparr>)"

definition object_exists :: "string \<Rightarrow> bool service" where
  "object_exists key = reads (\<lambda>d. map_of (db_objects d) key \<noteq> None)"

lemma new_uuid_apply [svc_simps]: "new_uuid d = (Inr (db_next_id d), d\<lparr>db_next_id := Suc (db_next_id d)\<rparr>)"
  by (simp add: new_uuid_def)

lemma next_id_isolated: "isolated s d0 d \<Longrightarrow> isolated s d0 (d\<lparr>db_next_id := Suc (db_next_id d)\<rparr>)"
  by (simp add: isolated_def hidden_def)

lemma next_id_wf_at: "wf_at A d \<Longrightarrow> wf_at A (d\<lparr>db_next_id := Suc (db_next_id d)\<rparr>)"
  by (simp add: wf_at_def wf_db_def wf_tenancy_def wf_unique_def)

lemma new_uuid_keeps [keeps_intros]: "keeps (isolated s d0) new_uuid" "keeps (wf_at A) new_uuid"
  by (rule keepsI, simp add: new_uuid_def next_id_isolated next_id_wf_at)+

lemma objects_keeps [keeps_intros]:
  "keeps (isolated s d0) (modify (\<lambda>d. d\<lparr>db_objects := f d\<rparr>))" "keeps (wf_at A) (modify (\<lambda>d. d\<lparr>db_objects := f d\<rparr>))"
  by (rule keeps_modify; simp add: isolated_def hidden_def wf_ids_def wf_at_def wf_db_def wf_tenancy_def wf_unique_def)+

lemma storage_keeps [keeps_intros]:
  "keeps (isolated s d0) (encrypt_with_password v p pw)" "keeps (isolated s d0) (upload_bytes v k x)"
  "keeps (isolated s d0) (delete_object k)" "keeps I (download_bytes k)"
  "keeps (wf_at A) (encrypt_with_password v p pw)" "keeps (wf_at A) (upload_bytes v k x)" "keeps (wf_at A) (delete_object k)"
  unfolding encrypt_with_password_def urandom_def upload_bytes_def delete_object_def download_bytes_def
  by (intro keeps_intros)+

lemma encrypt_apply:
  "encrypt_with_password v p pw d =
     (let salt = v_urandom v (db_next_id d) 16; nonce = v_urandom v (Suc (db_next_id d)) 12 in
      (Inr (salt @ nonce @ v_encrypt v (derive_key v pw salt) nonce p), d\<lparr>db_next_id := Suc (Suc (db_next_id d))\<rparr>))"
  by (simp add: encrypt_with_password_def urandom_def bind_apply new_uuid_apply Let_def)

lemma decrypt_encrypted:
  assumes "aead v" and "encrypt_with_password v p pw d = (Inr ct, d')"
  shows "decrypt_with_password v ct pw = Some p"
proof -
  let ?salt = "v_urandom v (db_next_id d) 16" and ?nonce = "v_urandom v (Suc (db_next_id d)) 12"
  have ct: "ct = ?salt @ ?nonce @ v_encrypt v (derive_key v pw ?salt) ?nonce p"
    using assms(2) by (simp add: encrypt_apply Let_def)
  have len: "length ?salt = 16" "length ?nonce = 12"
    "length (v_encrypt v (derive_key v pw ?salt) ?nonce p) = length p + 16"
    using assms(1) by (simp_all add: aead_def)
  have "take 16 ct = ?salt" "take 12 (drop 16 ct) = ?nonce" "drop 28 ct = v_encrypt v (derive_key v pw ?salt) ?nonce p"
    by (simp_all add: ct len)
  with assms(1) len show ?thesis
    by (simp add: decrypt_with_password_def aead_def ct)
qed

end
