(* ===== verification/Evidence.thy ===== *)
theory Evidence
  imports Cases Storage
begin

text \<open>The evidence service (\<^verbatim>\<open>services/evidence.py\<close>, \<^verbatim>\<open>schemas/evidence.py\<close>).\<close>

record evidence_register =
  ec_filename :: string
  ec_type :: evidence_type
  ec_file_hash_sha256 :: string
  ec_file_size :: int
  ec_description :: "string option"
  ec_tags :: "string list"

record evidence_update =
  eu_description :: "string upd"
  eu_tags :: "string list upd"

abbreviation evidence_or_404 :: "uuid \<Rightarrow> evidence_row service" where
  "evidence_or_404 \<equiv> get_or_404 evidence_e (\<lambda>i. ''Evidence '' @ uuid_str i @ '' not found'')"

definition list_evidence :: "uuid \<Rightarrow> nat \<Rightarrow> nat \<Rightarrow> (evidence_row table \<times> nat) service" where
  "list_evidence case_id limit offset =
     bind (select_rows evidence_e (\<lambda>_ e. e_case_id e = case_id)) (\<lambda>rows.
     ret (page_of limit offset (sort_desc (e_registered_at \<circ> snd) rows), length rows))"

definition evidence_draft :: "uuid \<Rightarrow> uuid \<Rightarrow> uuid \<Rightarrow> evidence_register \<Rightarrow> int \<Rightarrow> evidence_row" where
  "evidence_draft tenant_id case_id registered_by payload now =
     \<lparr>e_tenant_id = tenant_id, e_case_id = case_id, e_filename = ec_filename payload, e_type = ec_type payload,
      e_file_hash_sha256 = py_lower (ec_file_hash_sha256 payload), e_file_size = ec_file_size payload,
      e_description = ec_description payload, e_storage_path = None, e_is_uploaded = False, e_is_encrypted = False,
      e_integrity_verified = None, e_integrity_mismatch = False, e_tags = ec_tags payload, e_registered_by = registered_by,
      e_registered_at = now, e_updated_at = now\<rparr>"

definition register_evidence :: "env \<Rightarrow> uuid \<Rightarrow> uuid \<Rightarrow> evidence_register \<Rightarrow> uuid service" where
  "register_evidence env case_id registered_by payload =
     bind (case_or_404 case_id) (\<lambda>c.
     bind now_utc (\<lambda>now.
     bind (insert_row evidence_e (evidence_draft (c_tenant_id c) case_id registered_by payload now)) (\<lambda>i.
     and_then (record_event env (c_tenant_id c) case_id ''evidence_registered''
        (''Evidence registered: '' @ ec_filename payload) (Some ''evidence'') (Some registered_by)
        [(''evidence_id'', JId i), (''sha256'', JStr (py_lower (ec_file_hash_sha256 payload))), (''size'', JInt (ec_file_size payload))] None)
     (ret i))))"

definition protects :: "string option \<Rightarrow> bool" where
  "protects password \<longleftrightarrow> (case password of None \<Rightarrow> False | Some pw \<Rightarrow> py_strip pw \<noteq> [])"

definition evidence_body :: "vault \<Rightarrow> string \<Rightarrow> string option \<Rightarrow> string service" where
  "evidence_body v raw password = (case password of None \<Rightarrow> ret raw
     | Some pw \<Rightarrow> if py_strip pw \<noteq> [] then encrypt_with_password v raw pw else ret raw)"

definition uploaded :: "string \<Rightarrow> bool \<Rightarrow> bool \<Rightarrow> evidence_row \<Rightarrow> evidence_row" where
  "uploaded storage_key is_encrypted integrity_match e = e
     \<lparr>e_storage_path := Some storage_key, e_is_uploaded := True, e_is_encrypted := is_encrypted,
      e_integrity_verified := Some integrity_match, e_integrity_mismatch := \<not> integrity_match\<rparr>"

definition log_upload :: "env \<Rightarrow> vault \<Rightarrow> uuid \<Rightarrow> evidence_row \<Rightarrow> string \<Rightarrow> uuid \<Rightarrow> unit service" where
  "log_upload env v evidence_id e raw actor_id =
     (let computed_hash = v_sha256 v raw; declared_hash = py_lower (e_file_hash_sha256 e);
          integrity_match = (computed_hash = declared_hash) in
      and_then (record_event env (e_tenant_id e) (e_case_id e)
        (if integrity_match then ''evidence_uploaded'' else ''evidence_integrity_mismatch'')
        (if integrity_match then ''Evidence file uploaded: '' @ e_filename e else ''Evidence hash mismatch detected for '' @ e_filename e)
        (Some ''evidence'') (Some actor_id)
        [(''evidence_id'', JId evidence_id), (''declared_sha256'', JStr declared_hash), (''computed_sha256'', JStr computed_hash),
         (''integrity_verified'', JBool integrity_match)] None)
      (fire env (e_tenant_id e) EVIDENCE_UPLOADED
        [(''case_id'', JId (e_case_id e)), (''evidence_id'', JId evidence_id), (''filename'', JStr (e_filename e)),
         (''type'', JStr (evidence_type_str (e_type e)))] (Some actor_id)))"

definition upload_evidence_file ::
  "env \<Rightarrow> vault \<Rightarrow> uuid \<Rightarrow> string \<Rightarrow> string option \<Rightarrow> uuid \<Rightarrow> evidence_row service" where
  "upload_evidence_file env v evidence_id raw password actor_id =
     bind (evidence_or_404 evidence_id) (\<lambda>e.
     let integrity_match = (v_sha256 v raw = py_lower (e_file_hash_sha256 e)) in
     bind (evidence_body v raw password) (\<lambda>body.
     bind new_uuid (\<lambda>storage_uuid.
     let key = build_key (uuid_str (e_tenant_id e)) (uuid_str (e_case_id e)) (uuid_str storage_uuid) in
     and_then (upload_bytes v key body)
     (bind now_utc (\<lambda>now.
     and_then (save_changed evidence_e evidence_id e (uploaded key (protects password) integrity_match e) (e_updated_at_update (\<lambda>_. now)))
     (and_then (log_upload env v evidence_id e raw actor_id)
     (evidence_or_404 evidence_id)))))))"

definition download_evidence_file :: "vault \<Rightarrow> uuid \<Rightarrow> string option \<Rightarrow> (evidence_row \<times> string) service" where
  "download_evidence_file v evidence_id password =
     bind (evidence_or_404 evidence_id) (\<lambda>e.
     case (if e_is_uploaded e then e_storage_path e else None) of
       None \<Rightarrow> raise (HTTPException 404 ''Evidence not yet uploaded'')
     | Some path \<Rightarrow> bind (download_bytes path) (\<lambda>data.
         if e_is_encrypted e then
           (case password of None \<Rightarrow> raise (HTTPException 400 ''Password required for encrypted evidence'')
            | Some pw \<Rightarrow> and_then (guard (pw \<noteq> []) (HTTPException 400 ''Password required for encrypted evidence''))
                (case decrypt_with_password v data pw of None \<Rightarrow> raise (HTTPException 400 ''Invalid password'')
                 | Some plain \<Rightarrow> ret (e, plain)))
         else ret (e, data)))"

definition evidence_set :: "evidence_update \<Rightarrow> evidence_row \<Rightarrow> evidence_row" where
  "evidence_set data e = e\<lparr>e_description := set_opt (eu_description data) (e_description e), e_tags := set_req (eu_tags data) (e_tags e)\<rparr>"

definition update_evidence :: "uuid \<Rightarrow> evidence_update \<Rightarrow> evidence_row service" where
  "update_evidence evidence_id data =
     bind (evidence_or_404 evidence_id) (\<lambda>e.
     and_then (not_null [is_null (eu_tags data)])
     (bind now_utc (\<lambda>now.
     and_then (save_changed evidence_e evidence_id e (evidence_set data e) (e_updated_at_update (\<lambda>_. now)))
     (evidence_or_404 evidence_id))))"

text \<open>The object goes before the row: a rollback does not bring it back.\<close>

definition delete_evidence :: "uuid \<Rightarrow> unit service" where
  "delete_evidence evidence_id =
     bind (evidence_or_404 evidence_id) (\<lambda>e.
     and_then (case e_storage_path e of None \<Rightarrow> ret () | Some path \<Rightarrow> if path = [] then ret () else delete_object path)
     (delete_row evidence_e evidence_id))"

section \<open>Isolation and integrity\<close>

lemma evidence_keeps [simp]:
  "e_case_id (uploaded k b m e) = e_case_id e" "e_tenant_id (uploaded k b m e) = e_tenant_id e"
  "e_case_id (evidence_set data e) = e_case_id e" "e_tenant_id (evidence_set data e) = e_tenant_id e"
  "e_case_id (evidence_draft t c u p n) = c" "e_tenant_id (evidence_draft t c u p n) = t"
  by (simp_all add: uploaded_def evidence_set_def evidence_draft_def)

lemma keeps_evidence_body [keeps_intros]:
  "keeps (isolated s d0) (evidence_body v raw pw)" "keeps (wf_at A) (evidence_body v raw pw)"
  unfolding evidence_body_def by (intro keeps_intros)+

lemma evidence_service_isolated [keeps_intros]:
  assumes "plugins_keep (isolated s d0) env"
  shows "keeps (isolated s d0) (register_evidence env c u p)" "keeps (isolated s d0) (upload_evidence_file env v i raw pw a)"
    "keeps (isolated s d0) (update_evidence i data)" "keeps (isolated s d0) (delete_evidence i)"
  unfolding register_evidence_def upload_evidence_file_def log_upload_def update_evidence_def delete_evidence_def Let_def
  by (intro keeps_intros assms)+

lemma evidence_service_at [keeps_intros]:
  assumes "plugins_wf env"
  shows "keeps (wf_at A) (register_evidence env c u p)" "keeps (wf_at A) (upload_evidence_file env v i raw pw a)"
    "keeps (wf_at A) (update_evidence i data)" "keeps (wf_at A) (delete_evidence i)"
  unfolding register_evidence_def upload_evidence_file_def log_upload_def update_evidence_def delete_evidence_def Let_def
  by (intro get_case_at get_child_at keeps_intros assms; simp)+

section \<open>Properties\<close>

lemma evidence_body_InrD:
  assumes "evidence_body v raw pw d = (Inr body, d')"
  shows "(\<exists>n. d' = d\<lparr>db_next_id := n\<rparr>) \<and> (aead v \<longrightarrow>
    (if protects pw then decrypt_with_password v body (the pw) = Some raw else body = raw))"
proof (cases "protects pw")
  case True
  then obtain p where p: "pw = Some p" "py_strip p \<noteq> []"
    by (auto simp: protects_def split: option.splits)
  with assms have enc: "encrypt_with_password v raw p d = (Inr body, d')"
    by (simp add: evidence_body_def)
  then have "\<exists>n. d' = d\<lparr>db_next_id := n\<rparr>"
    by (auto simp: encrypt_apply Let_def)
  with True p decrypt_encrypted [OF _ enc] show ?thesis
    by simp
next
  case False
  with assms have "body = raw \<and> d' = d"
    by (auto simp: evidence_body_def protects_def split: option.splits if_splits)
  with False show ?thesis
    by (intro conjI exI [of _ "db_next_id d"]) simp_all
qed

lemma core_objects:
  assumes "core d' = core d"
  shows "db_objects d' = db_objects d"
  using arg_cong [OF assms, of db_objects] by (simp add: core_def)

lemma log_upload_core:
  assumes "broker_up env" and "log_upload env v i e raw u d = (Inr x, d')"
  shows "core d' = core d"
  using assms(2) unfolding log_upload_def Let_def
  by (auto elim!: and_then_InrD dest!: record_event_logged fire_logged [OF assms(1)])

text \<open>An upload that returns: the body that is stored, the key, and what is left to run.\<close>

lemma upload_steps:
  assumes run: "upload_evidence_file env v i raw pw u d = (Inr r, d')"
  obtains e body d1 key where "visible_row evidence_e d i = Some e" and "evidence_body v raw pw d = (Inr body, d1)"
    and "and_then (save_changed evidence_e i e (uploaded key (protects pw) (v_sha256 v raw = py_lower (e_file_hash_sha256 e)) e)
           (e_updated_at_update (\<lambda>_. db_now d1)))
         (and_then (log_upload env v i e raw u) (evidence_or_404 i))
         (d1\<lparr>db_next_id := Suc (db_next_id d1), db_objects := AList.update key body (db_objects d1)\<rparr>) = (Inr r, d')"
proof -
  from run obtain e where e: "visible_row evidence_e d i = Some e"
    and r1: "bind (evidence_body v raw pw) (\<lambda>body. bind new_uuid (\<lambda>su.
       and_then (upload_bytes v (build_key (uuid_str (e_tenant_id e)) (uuid_str (e_case_id e)) (uuid_str su)) body)
       (bind now_utc (\<lambda>now.
       and_then (save_changed evidence_e i e (uploaded (build_key (uuid_str (e_tenant_id e)) (uuid_str (e_case_id e)) (uuid_str su))
          (protects pw) (v_sha256 v raw = py_lower (e_file_hash_sha256 e)) e) (e_updated_at_update (\<lambda>_. now)))
       (and_then (log_upload env v i e raw u) (evidence_or_404 i)))))) d = (Inr r, d')"
    unfolding upload_evidence_file_def run_bind_get Let_def by blast
  from r1 obtain body d1 where body: "evidence_body v raw pw d = (Inr body, d1)"
    and r2: "bind new_uuid (\<lambda>su.
       and_then (upload_bytes v (build_key (uuid_str (e_tenant_id e)) (uuid_str (e_case_id e)) (uuid_str su)) body)
       (bind now_utc (\<lambda>now.
       and_then (save_changed evidence_e i e (uploaded (build_key (uuid_str (e_tenant_id e)) (uuid_str (e_case_id e)) (uuid_str su))
          (protects pw) (v_sha256 v raw = py_lower (e_file_hash_sha256 e)) e) (e_updated_at_update (\<lambda>_. now)))
       (and_then (log_upload env v i e raw u) (evidence_or_404 i))))) d1 = (Inr r, d')"
    by (rule bind_InrD)
  let ?key = "build_key (uuid_str (e_tenant_id e)) (uuid_str (e_case_id e)) (uuid_str (db_next_id d1))"
  let ?new = "uploaded ?key (protects pw) (v_sha256 v raw = py_lower (e_file_hash_sha256 e)) e"
  let ?d2 = "d1\<lparr>db_next_id := Suc (db_next_id d1), db_objects := AList.update ?key body (db_objects d1)\<rparr>"
  from r2 have "and_then (save_changed evidence_e i e ?new (e_updated_at_update (\<lambda>_. db_now d1)))
       (and_then (log_upload env v i e raw u) (evidence_or_404 i)) ?d2 = (Inr r, d')"
    by (auto simp: bind_apply [of new_uuid] new_uuid_apply upload_bytes_def run_eqs and_then_apply [of "and_then m n" for m n]
        and_then_apply [of "guard b x" for b x] split: if_splits)
  from that [OF e body this] show thesis .
qed

lemma upload_effect:
  assumes up: "broker_up env" and run: "upload_evidence_file env v i raw pw u d = (Inr r, d')"
  obtains e body key where "visible_row evidence_e d i = Some e"
    and "r\<lparr>e_updated_at := e_updated_at e\<rparr> = uploaded key (protects pw) (v_sha256 v raw = py_lower (e_file_hash_sha256 e)) e"
    and "visible_row evidence_e d' i = Some r" and "map_of (db_objects d') key = Some body"
    and "aead v \<longrightarrow> (if protects pw then decrypt_with_password v body (the pw) = Some raw else body = raw)"
proof -
  from upload_steps [OF run] obtain e body d1 key where e: "visible_row evidence_e d i = Some e"
    and body: "evidence_body v raw pw d = (Inr body, d1)"
    and r3: "and_then (save_changed evidence_e i e (uploaded key (protects pw) (v_sha256 v raw = py_lower (e_file_hash_sha256 e)) e)
           (e_updated_at_update (\<lambda>_. db_now d1)))
         (and_then (log_upload env v i e raw u) (evidence_or_404 i))
         (d1\<lparr>db_next_id := Suc (db_next_id d1), db_objects := AList.update key body (db_objects d1)\<rparr>) = (Inr r, d')" .
  let ?new = "uploaded key (protects pw) (v_sha256 v raw = py_lower (e_file_hash_sha256 e)) e"
  let ?d2 = "d1\<lparr>db_next_id := Suc (db_next_id d1), db_objects := AList.update key body (db_objects d1)\<rparr>"
  note row = visible_rowD [OF e]
  have ev1: "db_evidence d1 = db_evidence d" "db_session d1 = db_session d"
    using evidence_body_InrD [OF body] by auto
  obtain d3 where d3: "db_objects d3 = AList.update key body (db_objects d1)" "db_session d3 = db_session d"
      "row_get (db_evidence d3) i = Some (if ?new = e then e else ?new\<lparr>e_updated_at := db_now d1\<rparr>)"
    and r4: "and_then (log_upload env v i e raw u) (evidence_or_404 i) d3 = (Inr r, d')"
  proof (cases "?new = e")
    case True
    with r3 row ev1 that [of ?d2] show thesis
      by (simp add: run_eqs)
  next
    case False
    with r3 obtain d3 where st: "store_row evidence_e i (?new\<lparr>e_updated_at := db_now d1\<rparr>) ?d2 = (Inr (), d3)"
      and "and_then (log_upload env v i e raw u) (evidence_or_404 i) d3 = (Inr r, d')"
      by (auto simp: run_save)
    with that [of d3] False store_row_InrD [OF st] evidence_t.store_reads_back [OF st] ev1 show thesis by simp
  qed
  from r4 obtain x d4 where "log_upload env v i e raw u d3 = (Inr x, d4)" and "evidence_or_404 i d4 = (Inr r, d')"
    by (rule and_then_InrD)
  then have core: "core d4 = core d3" and r: "visible_row evidence_e d4 i = Some r" "d' = d4"
    using log_upload_core [OF up] by (auto simp: run_get)
  have "r = (if ?new = e then e else ?new\<lparr>e_updated_at := db_now d1\<rparr>)"
    using visible_rowD [OF r(1)] d3(3) core_eqD(7) [OF core] by simp
  moreover have "e_updated_at ?new = e_updated_at e"
    by (simp add: uploaded_def)
  ultimately have "r\<lparr>e_updated_at := e_updated_at e\<rparr> = ?new"
    by (cases "?new = e") simp_all
  moreover have "map_of (db_objects d') key = Some body"
    using core_objects [OF core] by (simp add: r d3(1) update_conv')
  ultimately show thesis
    using that e r conjunct2 [OF evidence_body_InrD [OF body]] by blast
qed

text \<open>
  C29: what is uploaded comes back. After a successful upload a download with the same password returns the very bytes
  and the row as stored, under the documented behaviour of AES-GCM; the row says that the file is uploaded, whether it
  is encrypted (exactly when the password is not blank), and whether its SHA-256 is the one declared at registration.
\<close>

theorem evidence_round_trip:
  assumes "aead v" and "broker_up env" and "upload_evidence_file env v i raw pw u d = (Inr r, d')"
  shows "download_evidence_file v i pw d' = (Inr (r, raw), d') \<and> e_is_uploaded r \<and> e_is_encrypted r = protects pw \<and>
    e_integrity_verified r = Some (v_sha256 v raw = py_lower (e_file_hash_sha256 r)) \<and>
    e_integrity_mismatch r = (v_sha256 v raw \<noteq> py_lower (e_file_hash_sha256 r))"
proof -
  from upload_effect [OF assms(2,3)] obtain e body key where
    r: "r\<lparr>e_updated_at := e_updated_at e\<rparr> = uploaded key (protects pw) (v_sha256 v raw = py_lower (e_file_hash_sha256 e)) e"
    and vis: "visible_row evidence_e d' i = Some r" and obj: "map_of (db_objects d') key = Some body"
    and dec: "if protects pw then decrypt_with_password v body (the pw) = Some raw else body = raw"
    using assms(1) by metis
  have eqs: "e_is_uploaded r = True" "e_storage_path r = Some key" "e_is_encrypted r = protects pw"
    "e_file_hash_sha256 r = e_file_hash_sha256 e"
    "e_integrity_verified r = Some (v_sha256 v raw = py_lower (e_file_hash_sha256 e))"
    "e_integrity_mismatch r = (v_sha256 v raw \<noteq> py_lower (e_file_hash_sha256 e))"
    using arg_cong [OF r, of e_is_uploaded] arg_cong [OF r, of e_storage_path] arg_cong [OF r, of e_is_encrypted]
      arg_cong [OF r, of e_file_hash_sha256] arg_cong [OF r, of e_integrity_verified] arg_cong [OF r, of e_integrity_mismatch]
    by (simp_all add: uploaded_def)
  have "download_evidence_file v i pw d' = (Inr (r, raw), d')"
  proof (cases "protects pw")
    case True
    then obtain p where "pw = Some p" "py_strip p \<noteq> []"
      by (auto simp: protects_def split: option.splits)
    moreover from this have "p \<noteq> []"
      by (auto simp: py_strip_def)
    ultimately obtain p where "pw = Some p" "p \<noteq> []"
      by blast
    with True dec vis obj eqs show ?thesis
      by (simp add: download_evidence_file_def bind_apply get_or_404_apply download_bytes_def and_then_apply)
  next
    case False
    with dec vis obj eqs show ?thesis
      by (simp add: download_evidence_file_def bind_apply get_or_404_apply download_bytes_def)
  qed
  with eqs show ?thesis by simp
qed

lemma length_build_key: "length (build_key a b c) = 11 + length a + length b + length c"
  by (simp add: build_key_def)

definition demo_vault :: vault where
  "demo_vault = \<lparr>v_sha256 = (\<lambda>s. ''00''), v_scrypt = (\<lambda>p s n c r q. p), v_encrypt = (\<lambda>k n p. p @ replicate 16 CHR ''x''),
     v_decrypt = (\<lambda>k n c. Some (take (length c - 16) c)), v_urandom = (\<lambda>u n. replicate n CHR ''r''), v_accepts = (\<lambda>_. True)\<rparr>"

lemma demo_aead: "aead demo_vault"
  by (simp add: aead_def demo_vault_def)

definition demo_evidence :: db where
  "demo_evidence = demo_db\<lparr>db_evidence := [(16, \<lparr>e_tenant_id = 1, e_case_id = 5, e_filename = ''disk.img'', e_type = ET_DISK_IMAGE,
     e_file_hash_sha256 = ''00'', e_file_size = 3, e_description = None, e_storage_path = None, e_is_uploaded = False,
     e_is_encrypted = False, e_integrity_verified = None, e_integrity_mismatch = False, e_tags = [], e_registered_by = 3,
     e_registered_at = 0, e_updated_at = 0\<rparr>)]\<rparr>"

theorem evidence_round_trip_witness:
  "\<exists>r d'. upload_evidence_file demo_env demo_vault 16 ''abc'' (Some ''pw'') 3 demo_evidence = (Inr r, d') \<and>
     download_evidence_file demo_vault 16 (Some ''pw'') d' = (Inr (r, ''abc''), d')"
proof -
  have pw: "py_strip ''pw'' \<noteq> []" "py_lower ''00'' = ''00''"
    by (simp_all add: py_strip_def py_space_def py_lower_def py_lower_char_def)
  obtain r d' where run: "upload_evidence_file demo_env demo_vault 16 ''abc'' (Some ''pw'') 3 demo_evidence = (Inr r, d')"
    using pw by (simp add: upload_evidence_file_def evidence_body_def encrypt_with_password_def urandom_def new_uuid_def upload_bytes_def
      uploaded_def protects_def log_upload_def demo_vault_def demo_evidence_def length_build_key pg_bigint_def fire_run run_simps)
  with evidence_round_trip [OF demo_aead demo_up run] show ?thesis
    by blast
qed

end
