(* ===== verification/Rbac.thy ===== *)
theory Rbac
  imports Orm
begin

text \<open>
  Roles and permissions (\<^verbatim>\<open>auth/context.py\<close>, \<^verbatim>\<open>auth/rbac.py\<close>): the authenticated principal, the permission
  matrix and the guards the routers put before a service.
\<close>

record auth_context =
  ac_user_id :: uuid
  ac_tenant_id :: uuid
  ac_username :: string
  ac_display_name :: string
  ac_role :: role
  ac_session_id :: string
  ac_is_service_account :: bool

definition is_platform_admin :: "auth_context \<Rightarrow> bool" where
  "is_platform_admin auth \<longleftrightarrow> ac_role auth = PLATFORM_ADMIN"

datatype action = A_CREATE | A_READ | A_UPDATE | A_DELETE | A_EXECUTE

datatype resource = R_TENANT | R_USER | R_CASE | R_TASK | R_OBSERVABLE | R_ASSET | R_EVIDENCE | R_NOTE | R_TIMELINE
  | R_ALERT | R_ENRICHMENT | R_ENRICHMENT_SOURCE | R_ATTACK_MAPPING | R_REPORT | R_REPORT_TEMPLATE | R_CASE_TEMPLATE
  | R_MODULE | R_AUDIT_LOG | R_DASHBOARD | R_SEARCH

fun action_str :: "action \<Rightarrow> string" where
  "action_str A_CREATE = ''create''"
| "action_str A_READ = ''read''"
| "action_str A_UPDATE = ''update''"
| "action_str A_DELETE = ''delete''"
| "action_str A_EXECUTE = ''execute''"

fun resource_str :: "resource \<Rightarrow> string" where
  "resource_str R_TENANT = ''tenant''"
| "resource_str R_USER = ''user''"
| "resource_str R_CASE = ''case''"
| "resource_str R_TASK = ''task''"
| "resource_str R_OBSERVABLE = ''observable''"
| "resource_str R_ASSET = ''asset''"
| "resource_str R_EVIDENCE = ''evidence''"
| "resource_str R_NOTE = ''note''"
| "resource_str R_TIMELINE = ''timeline''"
| "resource_str R_ALERT = ''alert''"
| "resource_str R_ENRICHMENT = ''enrichment''"
| "resource_str R_ENRICHMENT_SOURCE = ''enrichment_source''"
| "resource_str R_ATTACK_MAPPING = ''attack_mapping''"
| "resource_str R_REPORT = ''report''"
| "resource_str R_REPORT_TEMPLATE = ''report_template''"
| "resource_str R_CASE_TEMPLATE = ''case_template''"
| "resource_str R_MODULE = ''module''"
| "resource_str R_AUDIT_LOG = ''audit_log''"
| "resource_str R_DASHBOARD = ''dashboard''"
| "resource_str R_SEARCH = ''search''"

section \<open>The matrix\<close>

type_synonym permission = "resource \<times> action"

text \<open>The frozen sets of the source, as lists.\<close>

definition perms_read_only :: "permission list" where
  "perms_read_only = map (\<lambda>res. (res, A_READ))
     [R_CASE, R_TASK, R_OBSERVABLE, R_ASSET, R_EVIDENCE, R_NOTE, R_TIMELINE, R_ALERT, R_ATTACK_MAPPING, R_REPORT,
      R_DASHBOARD, R_SEARCH]"

definition perms_analyst_extra :: "permission list" where
  "perms_analyst_extra =
     List.product [R_CASE, R_TASK, R_OBSERVABLE, R_ASSET, R_EVIDENCE, R_NOTE, R_TIMELINE, R_ALERT, R_ATTACK_MAPPING, R_REPORT]
       [A_CREATE, A_UPDATE, A_DELETE] @
     [(R_ENRICHMENT, A_EXECUTE), (R_ENRICHMENT, A_READ), (R_ENRICHMENT_SOURCE, A_READ), (R_CASE_TEMPLATE, A_READ),
      (R_REPORT_TEMPLATE, A_READ), (R_MODULE, A_READ), (R_MODULE, A_EXECUTE)]"

definition perms_analyst :: "permission list" where
  "perms_analyst = perms_read_only @ perms_analyst_extra"

definition perms_tenant_admin_extra :: "permission list" where
  "perms_tenant_admin_extra =
     map (\<lambda>a. (R_USER, a)) [A_CREATE, A_READ, A_UPDATE, A_DELETE] @
     map (\<lambda>a. (R_CASE_TEMPLATE, a)) [A_CREATE, A_UPDATE, A_DELETE] @
     map (\<lambda>a. (R_REPORT_TEMPLATE, a)) [A_CREATE, A_UPDATE, A_DELETE] @
     map (\<lambda>a. (R_ENRICHMENT_SOURCE, a)) [A_CREATE, A_UPDATE, A_DELETE] @
     [(R_AUDIT_LOG, A_READ), (R_TENANT, A_READ), (R_TENANT, A_UPDATE)]"

definition perms_tenant_admin :: "permission list" where
  "perms_tenant_admin = perms_analyst @ perms_tenant_admin_extra"

fun permission_matrix :: "role \<Rightarrow> permission list" where
  "permission_matrix READ_ONLY = perms_read_only"
| "permission_matrix ANALYST = perms_analyst"
| "permission_matrix TENANT_ADMIN = perms_tenant_admin"
| "permission_matrix PLATFORM_ADMIN = []"
| "permission_matrix API_SERVICE_ACCOUNT = perms_analyst"

definition permissions_for :: "role \<Rightarrow> permission list" where
  "permissions_for role =
     (if role = PLATFORM_ADMIN then perms_tenant_admin @ perms_analyst @ perms_read_only else permission_matrix role)"

definition has_permission :: "auth_context \<Rightarrow> resource \<Rightarrow> action \<Rightarrow> bool" where
  "has_permission auth res act \<longleftrightarrow> is_platform_admin auth \<or> (res, act) \<in> set (permissions_for (ac_role auth))"

text \<open>The dependencies a route is guarded with. They run before the handler and return the principal.\<close>

definition require_permission :: "resource \<Rightarrow> action \<Rightarrow> auth_context \<Rightarrow> auth_context service" where
  "require_permission res act auth =
     (if has_permission auth res act then ret auth
      else raise (HTTPException 403 (''Role '' @ quoted (role_str (ac_role auth)) @ '' is not permitted to '' @
        action_str act @ '' on '' @ resource_str res)))"

definition require_any_permission :: "permission list \<Rightarrow> auth_context \<Rightarrow> auth_context service" where
  "require_any_permission perms auth =
     (if is_platform_admin auth \<or> list_ex (\<lambda>(r, a). has_permission auth r a) perms then ret auth
      else raise (HTTPException 403 (''Role '' @ quoted (role_str (ac_role auth)) @
        '' does not satisfy any of the required permissions'')))"

section \<open>What the matrix allows\<close>

lemmas matrix_defs = perms_read_only_def perms_analyst_extra_def perms_analyst_def perms_tenant_admin_extra_def
  perms_tenant_admin_def permissions_for_def

text \<open>The resources of an investigation, and those of a tenant's configuration.\<close>

definition investigation :: "resource \<Rightarrow> bool" where
  "investigation r \<longleftrightarrow> r \<in> {R_CASE, R_TASK, R_OBSERVABLE, R_ASSET, R_EVIDENCE, R_NOTE, R_TIMELINE, R_ALERT,
     R_ATTACK_MAPPING, R_REPORT}"

definition configuration :: "resource \<Rightarrow> bool" where
  "configuration r \<longleftrightarrow> r \<in> {R_CASE_TEMPLATE, R_REPORT_TEMPLATE, R_ENRICHMENT_SOURCE}"

text \<open>The rights of the roles, by what they are for.\<close>

definition viewer_may :: "resource \<Rightarrow> action \<Rightarrow> bool" where
  "viewer_may r a \<longleftrightarrow> a = A_READ \<and> (investigation r \<or> r \<in> {R_DASHBOARD, R_SEARCH})"

definition analyst_may :: "resource \<Rightarrow> action \<Rightarrow> bool" where
  "analyst_may r a \<longleftrightarrow> viewer_may r a \<or> investigation r \<and> a \<noteq> A_EXECUTE \<or>
     r \<in> {R_ENRICHMENT, R_MODULE} \<and> a \<in> {A_READ, A_EXECUTE} \<or> configuration r \<and> a = A_READ"

fun allowed :: "role \<Rightarrow> resource \<Rightarrow> action \<Rightarrow> bool" where
  "allowed READ_ONLY r a = viewer_may r a"
| "allowed ANALYST r a = analyst_may r a"
| "allowed API_SERVICE_ACCOUNT r a = analyst_may r a"
| "allowed TENANT_ADMIN r a = (analyst_may r a \<or> configuration r \<and> a \<noteq> A_EXECUTE \<or> r = R_USER \<and> a \<noteq> A_EXECUTE \<or>
     r = R_AUDIT_LOG \<and> a = A_READ \<or> r = R_TENANT \<and> a \<in> {A_READ, A_UPDATE})"
| "allowed PLATFORM_ADMIN r a = True"

lemma permissions_allowed: "(r, a) \<in> set (permissions_for role) \<longleftrightarrow> allowed role r a"
  if "role \<noteq> PLATFORM_ADMIN"
  using that
  by (cases role; cases r; cases a; simp add: matrix_defs viewer_may_def analyst_may_def investigation_def configuration_def)

lemma has_permission_allowed: "has_permission auth r a \<longleftrightarrow> allowed (ac_role auth) r a"
  by (cases "ac_role auth") (simp_all add: has_permission_def is_platform_admin_def permissions_allowed)

lemma require_permission_apply [svc_simps]:
  "require_permission r a auth d = (if allowed (ac_role auth) r a then (Inr auth, d)
     else (Inl (HTTPException 403 (''Role '' @ quoted (role_str (ac_role auth)) @ '' is not permitted to '' @
        action_str a @ '' on '' @ resource_str r)), d))"
  by (simp add: require_permission_def has_permission_allowed)

lemma keeps_require_permission [keeps_intros]: "keeps I (require_permission r a auth)"
  by (simp add: require_permission_def keeps_ret keeps_raise)

text \<open>
  C30: the permission matrix. A read-only user reads investigations, the dashboard and the search. An analyst also
  creates, changes and deletes what an investigation is made of, runs and reads enrichments and modules, and reads the
  configuration; a service account has exactly the rights of an analyst. A tenant administrator also changes the
  configuration, manages users, reads the audit log, and reads and changes tenants, but neither creates nor deletes
  one. A platform administrator may do everything. Without the right the guard of a route answers 403.
\<close>

theorem permission_matrix_meaning:
  "require_permission r a auth d =
     (if allowed (ac_role auth) r a then Inr auth
      else Inl (HTTPException 403 (''Role '' @ quoted (role_str (ac_role auth)) @ '' is not permitted to '' @
        action_str a @ '' on '' @ resource_str r)), d) \<and>
   set (permissions_for READ_ONLY) \<subset> set (permissions_for ANALYST) \<and>
   set (permissions_for API_SERVICE_ACCOUNT) = set (permissions_for ANALYST) \<and>
   set (permissions_for ANALYST) \<subset> set (permissions_for TENANT_ADMIN)"
proof -
  have perms: "set (permissions_for role) = {(r, a). allowed role r a}" if "role \<noteq> PLATFORM_ADMIN" for role
    using permissions_allowed [OF that] by auto
  have "(R_CASE, A_CREATE) \<in> set (permissions_for ANALYST) - set (permissions_for READ_ONLY)"
    "(R_USER, A_CREATE) \<in> set (permissions_for TENANT_ADMIN) - set (permissions_for ANALYST)"
    by (simp_all add: perms viewer_may_def analyst_may_def investigation_def configuration_def)
  then show ?thesis
    by (auto simp: require_permission_apply perms analyst_may_def)
qed

end
