(* ===== verification/Auth.thy ===== *)
theory Auth
  imports Rbac Storage Demo Py_Datetime "HOL-Library.Countable"
begin

text \<open>
  Authentication (\<^verbatim>\<open>auth/\<close>, \<^verbatim>\<open>api/routers/auth.py\<close>): passwords, API keys, Redis sessions, tokens, the
  resolution of a request's principal and the scoping of its database session, login, refresh and logout.

  The libraries are the parameters of \<open>auth_lib\<close>: \<^verbatim>\<open>bcrypt.gensalt\<close> (the salt of a draw), \<^verbatim>\<open>hashpw\<close>, \<^verbatim>\<open>checkpw\<close>
  (\<open>None\<close> for the \<^verbatim>\<open>ValueError\<close> of a malformed hash), \<^verbatim>\<open>hashlib.sha256\<close>, \<^verbatim>\<open>secrets.token_urlsafe\<close>, and \<^verbatim>\<open>jose\<close>'s
  \<^verbatim>\<open>encode\<close> and \<^verbatim>\<open>decode\<close> under the configured secret (\<open>None\<close> for a \<^verbatim>\<open>JWTError\<close> at that time). \<open>lib_ok\<close> is what
  their documentation says: a password matches its own hash, and a token decodes to its claims until its
  \<^verbatim>\<open>exp\<close> has passed.
\<close>

record auth_lib =
  lib_gensalt :: "uuid \<Rightarrow> string"
  lib_hashpw :: "string \<Rightarrow> string \<Rightarrow> string"
  lib_checkpw :: "string \<Rightarrow> string \<Rightarrow> bool option"
  lib_sha256 :: "string \<Rightarrow> string"
  lib_token :: "uuid \<Rightarrow> string"
  lib_jwt_encode :: "jobj \<Rightarrow> string"
  lib_jwt_decode :: "int \<Rightarrow> string \<Rightarrow> jobj option"
  lib_access_minutes :: int

definition not_expired :: "int \<Rightarrow> jobj \<Rightarrow> bool" where
  "not_expired now p \<longleftrightarrow> (case map_of p ''exp'' of Some (JInt e) \<Rightarrow> now \<le> e | _ \<Rightarrow> False)"

definition lib_ok :: "auth_lib \<Rightarrow> bool" where
  "lib_ok lib \<longleftrightarrow> (\<forall>p s. lib_checkpw lib p (lib_hashpw lib p s) = Some True) \<and>
     (\<forall>now p. not_expired now p \<longrightarrow> lib_jwt_decode lib now (lib_jwt_encode lib p) = Some p)"

section \<open>Passwords\<close>

definition encode_password :: "string \<Rightarrow> string" where
  "encode_password password = take 72 (utf8 password)"

definition hash_password :: "auth_lib \<Rightarrow> string \<Rightarrow> string service" where
  "hash_password lib password = bind new_uuid (\<lambda>u. ret (lib_hashpw lib (encode_password password) (lib_gensalt lib u)))"

definition verify_password :: "auth_lib \<Rightarrow> string \<Rightarrow> string \<Rightarrow> bool" where
  "verify_password lib plain hashed = (case lib_checkpw lib (encode_password plain) hashed of None \<Rightarrow> False | Some b \<Rightarrow> b)"

section \<open>API keys\<close>

definition api_key_prefix :: string where
  "api_key_prefix = ''wat_''"

definition generate_api_key :: "auth_lib \<Rightarrow> string service" where
  "generate_api_key lib = bind new_uuid (\<lambda>u. ret (api_key_prefix @ lib_token lib u))"

definition hash_api_key :: "auth_lib \<Rightarrow> string \<Rightarrow> string" where
  "hash_api_key lib api_key = lib_sha256 lib (utf8 api_key)"

definition verify_api_key :: "auth_lib \<Rightarrow> string \<Rightarrow> string \<Rightarrow> bool" where
  "verify_api_key lib plain hashed \<longleftrightarrow> hash_api_key lib plain = hashed"

section \<open>Redis\<close>

text \<open>String keys with an expiry. A key whose time has come is gone for every command.\<close>

definition redis_live :: "db \<Rightarrow> string \<Rightarrow> string option" where
  "redis_live d k = (case map_of (db_redis d) k of None \<Rightarrow> None | Some (v, e) \<Rightarrow> if db_now d < e then Some v else None)"

definition redis_up :: "env \<Rightarrow> unit service" where
  "redis_up env = guard (env_redis env) (OtherError ''ConnectionError'')"

definition redis_set :: "env \<Rightarrow> string \<Rightarrow> string \<Rightarrow> int \<Rightarrow> unit service" where
  "redis_set env k v ex = and_then (redis_up env) (and_then (guard (0 < ex) (OtherError ''ResponseError''))
     (modify (\<lambda>d. d\<lparr>db_redis := AList.update k (v, db_now d + ex * 1000000) (db_redis d)\<rparr>)))"

definition redis_get :: "env \<Rightarrow> string \<Rightarrow> string option service" where
  "redis_get env k = and_then (redis_up env) (reads (\<lambda>d. redis_live d k))"

definition redis_expire :: "env \<Rightarrow> string \<Rightarrow> int \<Rightarrow> bool service" where
  "redis_expire env k ttl = and_then (redis_up env) (bind (redis_get env k) (\<lambda>x. case x of
     None \<Rightarrow> ret False
   | Some v \<Rightarrow> and_then (modify (\<lambda>d. d\<lparr>db_redis := (if 0 < ttl then AList.update k (v, db_now d + ttl * 1000000) (db_redis d)
       else AList.delete k (db_redis d))\<rparr>)) (ret True)))"

definition redis_delete :: "env \<Rightarrow> string \<Rightarrow> unit service" where
  "redis_delete env k = and_then (redis_up env) (modify (\<lambda>d. d\<lparr>db_redis := AList.delete k (db_redis d)\<rparr>))"

definition redis_scan :: "env \<Rightarrow> string \<Rightarrow> string list service" where
  "redis_scan env prefix = and_then (redis_up env)
     (reads (\<lambda>d. filter (\<lambda>k. py_startswith k prefix \<and> redis_live d k \<noteq> None) (remdups (map fst (db_redis d)))))"

section \<open>Sessions\<close>

record session_record =
  sr_user_id :: uuid
  sr_session_id :: string
  sr_created_at :: int
  sr_source_ip :: "string option"
  sr_user_agent :: "string option"

definition session_key :: "uuid \<Rightarrow> string \<Rightarrow> string" where
  "session_key user_id session_id = ''session:'' @ uuid_str user_id @ '':'' @ session_id"

definition serialize :: "session_record \<Rightarrow> string" where
  "serialize rec = uuid_str (sr_user_id rec) @ ''|'' @ sr_session_id rec @ ''|'' @ isoformat (sr_created_at rec) @ ''|'' @
     str_or (sr_source_ip rec) [] @ ''|'' @ str_or (sr_user_agent rec) []"

definition create_session :: "env \<Rightarrow> uuid \<Rightarrow> int \<Rightarrow> string option \<Rightarrow> string option \<Rightarrow> session_record service" where
  "create_session env user_id inactivity_timeout_minutes source_ip user_agent =
     bind new_uuid (\<lambda>sid. bind now_utc (\<lambda>now.
     let rec = \<lparr>sr_user_id = user_id, sr_session_id = uuid_str sid, sr_created_at = now, sr_source_ip = source_ip,
       sr_user_agent = user_agent\<rparr> in
     and_then (redis_set env (session_key user_id (uuid_str sid)) (serialize rec) (inactivity_timeout_minutes * 60))
     (ret rec)))"

definition is_session_active :: "env \<Rightarrow> uuid \<Rightarrow> string \<Rightarrow> bool service" where
  "is_session_active env user_id session_id =
     bind (redis_get env (session_key user_id session_id)) (\<lambda>x. ret (x \<noteq> None))"

definition touch_session :: "env \<Rightarrow> uuid \<Rightarrow> string \<Rightarrow> int \<Rightarrow> bool service" where
  "touch_session env user_id session_id inactivity_timeout_minutes =
     redis_expire env (session_key user_id session_id) (inactivity_timeout_minutes * 60)"

definition invalidate_session :: "env \<Rightarrow> uuid \<Rightarrow> string \<Rightarrow> unit service" where
  "invalidate_session env user_id session_id = redis_delete env (session_key user_id session_id)"

definition invalidate_all_sessions :: "env \<Rightarrow> uuid \<Rightarrow> nat service" where
  "invalidate_all_sessions env user_id =
     bind (redis_scan env (session_key user_id [])) (\<lambda>keys.
     and_then (for_each keys (redis_delete env)) (ret (length keys)))"

section \<open>Tokens\<close>

record token_payload =
  jp_sub :: uuid
  jp_tenant_id :: uuid
  jp_role :: string
  jp_session_id :: string
  jp_token_type :: string
  jp_iat :: int
  jp_exp :: int
  jp_jti :: string

fun json_uuid :: "json option \<Rightarrow> uuid option" where
  "json_uuid (Some (JId u)) = Some u"
| "json_uuid _ = None"

fun json_str :: "json option \<Rightarrow> string option" where
  "json_str (Some (JStr s)) = Some s"
| "json_str (Some (JId u)) = Some (uuid_str u)"
| "json_str _ = None"

fun json_int :: "json option \<Rightarrow> int option" where
  "json_int (Some (JInt n)) = Some n"
| "json_int _ = None"

definition validate_payload :: "jobj \<Rightarrow> token_payload option" where
  "validate_payload raw = (case (json_uuid (map_of raw ''sub''), json_uuid (map_of raw ''tenant_id''), json_str (map_of raw ''role''),
       json_str (map_of raw ''session_id''), json_str (map_of raw ''token_type''), json_int (map_of raw ''iat''),
       json_int (map_of raw ''exp''), json_str (map_of raw ''jti'')) of
     (Some s, Some t, Some r, Some sid, Some ty, Some i, Some e, Some j) \<Rightarrow>
       Some \<lparr>jp_sub = s, jp_tenant_id = t, jp_role = r, jp_session_id = sid, jp_token_type = ty, jp_iat = i, jp_exp = e, jp_jti = j\<rparr>
   | _ \<Rightarrow> None)"

text \<open>The time left is in microseconds; \<^verbatim>\<open>int(timestamp())\<close> is the whole seconds.\<close>

definition build_payload :: "jobj \<Rightarrow> string \<Rightarrow> int \<Rightarrow> jobj service" where
  "build_payload subject token_type expires_delta =
     bind now_utc (\<lambda>now. bind new_uuid (\<lambda>jti.
     ret (AList.update ''jti'' (JId jti) (AList.update ''exp'' (JInt ((now + expires_delta) div 1000000))
       (AList.update ''iat'' (JInt (now div 1000000)) (AList.update ''token_type'' (JStr token_type) subject))))))"

definition create_access_token :: "auth_lib \<Rightarrow> jobj \<Rightarrow> int option \<Rightarrow> string service" where
  "create_access_token lib subject expires_delta =
     (let delta = (case expires_delta of Some x \<Rightarrow> if x \<noteq> 0 then x else lib_access_minutes lib * 60000000
        | None \<Rightarrow> lib_access_minutes lib * 60000000) in
     bind (build_payload subject ''access'' delta) (\<lambda>payload. ret (lib_jwt_encode lib payload)))"

definition create_refresh_token :: "auth_lib \<Rightarrow> jobj \<Rightarrow> string service" where
  "create_refresh_token lib subject =
     bind (build_payload subject ''refresh'' (7 * 86400000000)) (\<lambda>payload. ret (lib_jwt_encode lib payload))"

definition decode_token :: "auth_lib \<Rightarrow> string \<Rightarrow> token_payload service" where
  "decode_token lib token = bind now_utc (\<lambda>now.
     case lib_jwt_decode lib (now div 1000000) token of
       None \<Rightarrow> raise (OtherError ''JWTError'')
     | Some raw \<Rightarrow> (case validate_payload raw of None \<Rightarrow> raise ValidationError | Some p \<Rightarrow> ret p))"

section \<open>The principal of a request\<close>

abbreviation credentials_error :: api_error where
  "credentials_error \<equiv> HTTPException 401 ''Invalid authentication credentials''"

abbreviation session_expired_error :: api_error where
  "session_expired_error \<equiv> HTTPException 401 ''Session expired due to inactivity''"

abbreviation api_key_error :: api_error where
  "api_key_error \<equiv> HTTPException 401 ''Invalid or missing API key''"

text \<open>\<^verbatim>\<open>get_db_unscoped\<close>: the owner connection, in a transaction of its own.\<close>

definition owner_session :: session where
  "owner_session = \<lparr>s_bypass = True, s_tenant = Guc_empty, s_platform_admin = Guc_empty\<rparr>"

definition get_db_unscoped :: "'a service \<Rightarrow> 'a service" where
  "get_db_unscoped m = (\<lambda>d. case m (d\<lparr>db_session := owner_session\<rparr>) of
       (Inr x, d') \<Rightarrow> (Inr x, d'\<lparr>db_session := db_session d\<rparr>)
     | (Inl e, d') \<Rightarrow> (Inl e, (rollback d d')\<lparr>db_session := db_session d\<rparr>))"

definition load_user_from_token :: "env \<Rightarrow> auth_lib \<Rightarrow> string \<Rightarrow> auth_context service" where
  "load_user_from_token env lib token =
     bind (catch (decode_token lib token) (\<lambda>e. raise (if e = OtherError ''JWTError'' then credentials_error else e))) (\<lambda>payload.
     and_then (guard (jp_token_type payload = ''access'') credentials_error)
     (bind (find_row users_e (jp_sub payload)) (\<lambda>x. case x of
        None \<Rightarrow> raise credentials_error
      | Some user \<Rightarrow>
        and_then (guard (u_is_active user) credentials_error)
        (bind (is_session_active env (jp_sub payload) (jp_session_id payload)) (\<lambda>active.
         and_then (guard active session_expired_error)
         (bind (touch_session env (jp_sub payload) (jp_session_id payload) (u_inactivity_timeout_minutes user)) (\<lambda>_.
          ret \<lparr>ac_user_id = jp_sub payload, ac_tenant_id = u_tenant_id user, ac_username = u_username user,
            ac_display_name = u_display_name user, ac_role = u_role user, ac_session_id = jp_session_id payload,
            ac_is_service_account = u_is_service_account user\<rparr>)))))))"

definition load_service_account :: "auth_lib \<Rightarrow> string \<Rightarrow> auth_context service" where
  "load_service_account lib key =
     and_then (guard (key \<noteq> [] \<and> py_startswith key api_key_prefix) api_key_error)
     (let key_hash = hash_api_key lib key in
      bind (select_rows users_e (\<lambda>i u. u_api_key_hash u = Some key_hash \<and> u_is_service_account u \<and> u_is_active u)) (\<lambda>rows.
      bind (scalar_one_or_none rows) (\<lambda>x. case x of
        None \<Rightarrow> raise api_key_error
      | Some (uid, user) \<Rightarrow>
        and_then (guard (u_api_key_hash user \<noteq> None) (OtherError ''AssertionError''))
        (and_then (guard (Some key_hash = u_api_key_hash user) api_key_error)
        (ret \<lparr>ac_user_id = uid, ac_tenant_id = u_tenant_id user, ac_username = u_username user,
            ac_display_name = u_display_name user, ac_role = u_role user, ac_session_id = ''apikey:'' @ uuid_str uid,
            ac_is_service_account = True\<rparr>)))))"

definition scope_session :: "auth_context \<Rightarrow> unit service" where
  "scope_session auth = apply_tenant_context \<lparr>tc_tenant_id = ac_tenant_id auth, tc_is_platform_admin = is_platform_admin auth\<rparr>"

definition scoped :: "auth_context service \<Rightarrow> auth_context service" where
  "scoped load = bind (get_db_unscoped load) (\<lambda>auth. and_then (scope_session auth) (ret auth))"

definition get_current_user :: "env \<Rightarrow> auth_lib \<Rightarrow> string option \<Rightarrow> auth_context service" where
  "get_current_user env lib token = (case token of None \<Rightarrow> raise credentials_error
     | Some t \<Rightarrow> scoped (load_user_from_token env lib t))"

text \<open>\<^verbatim>\<open>except HTTPException: return None\<close>.\<close>

definition none_on_http :: "auth_context service \<Rightarrow> auth_context option service" where
  "none_on_http m = catch (bind m (\<lambda>auth. ret (Some auth)))
     (\<lambda>e. case e of HTTPException c s \<Rightarrow> ret None | _ \<Rightarrow> raise e)"

definition scoped_optional :: "auth_context service \<Rightarrow> auth_context option service" where
  "scoped_optional load = bind (get_db_unscoped (none_on_http load)) (\<lambda>x. case x of
     None \<Rightarrow> ret None | Some auth \<Rightarrow> and_then (scope_session auth) (ret (Some auth)))"

definition get_current_user_optional :: "env \<Rightarrow> auth_lib \<Rightarrow> string option \<Rightarrow> auth_context option service" where
  "get_current_user_optional env lib token = (case token of None \<Rightarrow> ret None
     | Some t \<Rightarrow> scoped_optional (load_user_from_token env lib t))"

definition get_service_account :: "auth_lib \<Rightarrow> string option \<Rightarrow> auth_context service" where
  "get_service_account lib api_key = (case api_key of None \<Rightarrow> raise api_key_error
     | Some k \<Rightarrow> scoped (load_service_account lib k))"

definition get_service_account_optional :: "auth_lib \<Rightarrow> string option \<Rightarrow> auth_context option service" where
  "get_service_account_optional lib api_key = (case api_key of None \<Rightarrow> ret None
     | Some k \<Rightarrow> scoped_optional (load_service_account lib k))"

text \<open>The credentials of a request: the bearer token and the API key header. A token decides alone.\<close>

record credentials =
  cr_token :: "string option"
  cr_api_key :: "string option"

definition get_principal :: "env \<Rightarrow> auth_lib \<Rightarrow> credentials \<Rightarrow> auth_context service" where
  "get_principal env lib cred = (case cr_token cred of
     Some t \<Rightarrow> scoped (load_user_from_token env lib t)
   | None \<Rightarrow> (case cr_api_key cred of
       Some k \<Rightarrow> scoped (load_service_account lib k)
     | None \<Rightarrow> raise (HTTPException 401 ''Authentication required'')))"

section \<open>The endpoints\<close>

text \<open>\<^verbatim>\<open>UserResponse.model_validate\<close>: the stored permissions have to be a list of objects.\<close>

fun is_obj :: "json \<Rightarrow> bool" where
  "is_obj (JObj _) = True"
| "is_obj _ = False"

definition user_response :: "uuid \<Rightarrow> user_row \<Rightarrow> (uuid \<times> user_row) service" where
  "user_response uid user = (case u_permissions user of
     JList ps \<Rightarrow> and_then (guard (list_all is_obj ps) ValidationError) (ret (uid, user))
   | _ \<Rightarrow> raise ValidationError)"

record login_response =
  lr_access_token :: string
  lr_refresh_token :: string
  lr_expires_in :: int
  lr_user :: "uuid \<times> user_row"

definition login_subject :: "uuid \<Rightarrow> user_row \<Rightarrow> string \<Rightarrow> jobj" where
  "login_subject uid user session_id = [(''sub'', JId uid), (''tenant_id'', JId (u_tenant_id user)),
     (''role'', JStr (role_str (u_role user))), (''session_id'', JStr session_id)]"

definition login :: "env \<Rightarrow> auth_lib \<Rightarrow> string \<Rightarrow> string \<Rightarrow> string option \<Rightarrow> string option \<Rightarrow> login_response service" where
  "login env lib username password source_ip user_agent =
     bind (select_rows users_e (\<lambda>i u. u_username u = username)) (\<lambda>rows.
     bind (scalar_one_or_none rows) (\<lambda>x. case x of
       None \<Rightarrow> raise (HTTPException 401 ''Invalid username or password'')
     | Some (uid, user) \<Rightarrow>
       and_then (guard (u_is_active user \<and> u_password_hash user \<noteq> None \<and> \<not> u_is_service_account user \<and>
           verify_password lib password (the (u_password_hash user))) (HTTPException 401 ''Invalid username or password''))
       (bind now_utc (\<lambda>now.
        let user' = user\<lparr>u_last_login_at := Some now\<rparr> in
        and_then (save_changed users_e uid user user' (\<lambda>u. u\<lparr>u_updated_at := now\<rparr>))
        (bind (get_or_404 users_e (\<lambda>i. ''refresh'') uid) (\<lambda>fresh.
        bind (create_session env uid (u_inactivity_timeout_minutes fresh) source_ip user_agent) (\<lambda>session.
        let subject = login_subject uid fresh (sr_session_id session) in
        bind (create_access_token lib subject None) (\<lambda>access.
        bind (create_refresh_token lib subject) (\<lambda>refresh.
        bind (user_response uid fresh) (\<lambda>resp.
        ret \<lparr>lr_access_token = access, lr_refresh_token = refresh, lr_expires_in = lib_access_minutes lib * 60,
          lr_user = resp\<rparr>))))))))))"

definition refresh_token :: "auth_lib \<Rightarrow> string \<Rightarrow> (string \<times> int) service" where
  "refresh_token lib token =
     bind (catch (decode_token lib token) (\<lambda>e. raise (HTTPException 401 ''Invalid refresh token''))) (\<lambda>decoded.
     and_then (guard (jp_token_type decoded = ''refresh'') (HTTPException 401 ''Not a refresh token''))
     (bind (create_access_token lib [(''sub'', JId (jp_sub decoded)), (''tenant_id'', JId (jp_tenant_id decoded)),
         (''role'', JStr (jp_role decoded)), (''session_id'', JStr (jp_session_id decoded))] None) (\<lambda>access.
      ret (access, lib_access_minutes lib * 60))))"

definition logout :: "env \<Rightarrow> auth_lib \<Rightarrow> string option \<Rightarrow> unit service" where
  "logout env lib token = bind (get_current_user env lib token)
     (\<lambda>auth. invalidate_session env (ac_user_id auth) (ac_session_id auth))"

definition get_me :: "env \<Rightarrow> auth_lib \<Rightarrow> string option \<Rightarrow> (uuid \<times> user_row) service" where
  "get_me env lib token = bind (get_current_user env lib token)
     (\<lambda>auth. get_db_unscoped (bind (find_row users_e (ac_user_id auth)) (\<lambda>x. case x of
        None \<Rightarrow> raise NoResultFound | Some user \<Rightarrow> user_response (ac_user_id auth) user)))"

section \<open>What authentication does to the state\<close>

text \<open>Only Redis: the lookup leaves the database as it is.\<close>

definition redis_only :: "db \<Rightarrow> db \<Rightarrow> bool" where
  "redis_only d d' \<longleftrightarrow> (\<exists>re. d' = d\<lparr>db_redis := re\<rparr>)"

lemma redis_only_refl: "redis_only d d"
  unfolding redis_only_def by (metis db.surjective db.update_convs(28))

lemma redis_only_upd: "redis_only d d' \<Longrightarrow> redis_only d (d'\<lparr>db_redis := re\<rparr>)"
  by (auto simp: redis_only_def)

lemma keeps_redis [keeps_intros]:
  "keeps (redis_only d) (redis_up env)" "keeps (redis_only d) (redis_get env k)"
  "keeps (redis_only d) (redis_expire env k ttl)" "keeps (redis_only d) (redis_delete env k)"
  unfolding redis_up_def redis_get_def redis_expire_def redis_delete_def
  by (intro keeps_intros keeps_modify redis_only_upd; assumption?)+

lemma keeps_load_user: "keeps (redis_only d) (load_user_from_token env lib t)"
  unfolding load_user_from_token_def decode_token_def is_session_active_def touch_session_def
  by (intro keeps_intros)

lemma keeps_load_service_account: "keeps (redis_only d) (load_service_account lib k)"
  unfolding load_service_account_def Let_def by (intro keeps_intros) (auto intro!: keeps_intros)

text \<open>The context of a user.\<close>

definition context_of :: "uuid \<Rightarrow> user_row \<Rightarrow> string \<Rightarrow> auth_context" where
  "context_of uid u sid = \<lparr>ac_user_id = uid, ac_tenant_id = u_tenant_id u, ac_username = u_username u,
     ac_display_name = u_display_name u, ac_role = u_role u, ac_session_id = sid, ac_is_service_account = u_is_service_account u\<rparr>"

lemma load_user_InrD:
  assumes "load_user_from_token env lib t d = (Inr auth, d')"
  shows "\<exists>uid u p. visible_row users_e d uid = Some u \<and> u_is_active u \<and> auth = context_of uid u (jp_session_id p) \<and>
    decode_token lib t d = (Inr p, d) \<and> jp_token_type p = ''access'' \<and> jp_sub p = uid \<and>
    redis_live d (session_key uid (jp_session_id p)) \<noteq> None"
proof -
  obtain p where dec: "decode_token lib t d = (Inr p, d)"
    using assms unfolding load_user_from_token_def
    by (auto simp: decode_token_def svc_simps split: option.splits prod.splits sum.splits)
  then show ?thesis
    using assms unfolding load_user_from_token_def
    by (auto simp: svc_simps is_session_active_def redis_get_def redis_up_def context_of_def
        split: option.splits prod.splits sum.splits if_splits)
qed

lemma load_service_account_InrD:
  assumes "load_service_account lib k d = (Inr auth, d')"
  shows "d' = d \<and> (\<exists>uid u. (uid, u) \<in> set (db_users d) \<and> ent_vis users_e (db_session d) u \<and> u_is_active u \<and> u_is_service_account u \<and>
    u_api_key_hash u = Some (hash_api_key lib k) \<and> auth = context_of uid u (''apikey:'' @ uuid_str uid))"
proof -
  have mem: "x \<in> set t \<and> P (fst x) (snd x)" if "rows_where P t = [x]" for P x and t :: "user_row table"
  proof -
    have "x \<in> set (rows_where P t)" by (simp add: that)
    then show ?thesis by (auto simp: rows_where_def)
  qed
  show ?thesis
    using assms unfolding load_service_account_def Let_def scalar_one_or_none_def
    by (auto simp: svc_simps context_of_def split: list.splits if_splits option.splits dest!: mem) blast
qed

section \<open>The session store\<close>

text \<open>
  What the store promises, without keys' values and expiry mechanics: \<open>deadlines\<close> maps a session's key to the time
  until which it is active.
\<close>

record session_spec =
  deadlines :: "string \<Rightarrow> int option"
  clock :: int
  next_session :: uuid

definition session_abs :: "db \<Rightarrow> session_spec" where
  "session_abs d = \<lparr>deadlines = (\<lambda>k. case map_of (db_redis d) k of None \<Rightarrow> None
       | Some (v, e) \<Rightarrow> if db_now d < e then Some e else None),
     clock = db_now d, next_session = db_next_id d\<rparr>"

text \<open>The events of a history: a login with the user's inactivity timeout in minutes, a use, the two logouts, time passing.\<close>

datatype session_event = Ev_login uuid int | Ev_use uuid string int | Ev_logout uuid string | Ev_logout_all uuid | Ev_wait nat

fun session_step :: "env \<Rightarrow> session_event \<Rightarrow> db \<Rightarrow> db" where
  "session_step env (Ev_login u m) d = snd (create_session env u m None None d)"
| "session_step env (Ev_use u s m) d = snd (touch_session env u s m d)"
| "session_step env (Ev_logout u s) d = snd (invalidate_session env u s d)"
| "session_step env (Ev_logout_all u) d = snd (invalidate_all_sessions env u d)"
| "session_step env (Ev_wait n) d = d\<lparr>db_now := db_now d + int n\<rparr>"

definition extended :: "session_spec \<Rightarrow> int \<Rightarrow> int option" where
  "extended a m = (if 0 < m then Some (clock a + m * 60000000) else None)"

fun session_spec_step :: "session_event \<Rightarrow> session_spec \<Rightarrow> session_spec" where
  "session_spec_step (Ev_login u m) a = a\<lparr>next_session := Suc (next_session a),
     deadlines := (if 0 < m then (deadlines a)(session_key u (uuid_str (next_session a)) := extended a m) else deadlines a)\<rparr>"
| "session_spec_step (Ev_use u s m) a = a\<lparr>deadlines :=
     (if deadlines a (session_key u s) = None then deadlines a else (deadlines a)(session_key u s := extended a m))\<rparr>"
| "session_spec_step (Ev_logout u s) a = a\<lparr>deadlines := (deadlines a)(session_key u s := None)\<rparr>"
| "session_spec_step (Ev_logout_all u) a = a\<lparr>deadlines :=
     (\<lambda>k. if py_startswith k (session_key u []) then None else deadlines a k)\<rparr>"
| "session_spec_step (Ev_wait n) a = a\<lparr>clock := clock a + int n,
     deadlines := (\<lambda>k. case deadlines a k of None \<Rightarrow> None | Some e \<Rightarrow> if clock a + int n < e then Some e else None)\<rparr>"

lemma for_each_delete:
  "env_redis env \<Longrightarrow> for_each ks (redis_delete env) d = (Inr (), d\<lparr>db_redis := filter (\<lambda>(k, x). k \<notin> set ks) (db_redis d)\<rparr>)"
proof (induction ks arbitrary: d)
  case Nil
  then show ?case by simp
next
  case (Cons k ks)
  have "filter (\<lambda>(k', x). k' \<notin> set ks) (AList.delete k (db_redis d)) = filter (\<lambda>(k', x). k' \<notin> set (k # ks)) (db_redis d)"
    by (auto simp: AList.delete_eq intro!: filter_cong)
  with Cons show ?case
    by (simp add: redis_delete_def redis_up_def svc_simps)
qed

lemma map_of_filter_keys: "map_of (filter (\<lambda>(k, x). P k) xs) k = (if P k then map_of xs k else None)"
  by (induction xs) auto

lemma redis_expire_up:
  "env_redis env \<Longrightarrow> redis_expire env k ttl d = (case redis_live d k of None \<Rightarrow> (Inr False, d)
     | Some v \<Rightarrow> (Inr True, d\<lparr>db_redis := (if 0 < ttl then AList.update k (v, db_now d + ttl * 1000000) (db_redis d)
         else AList.delete k (db_redis d))\<rparr>))"
  by (simp add: redis_expire_def redis_get_def redis_up_def svc_simps split: option.split)

lemma session_step_refines:
  assumes "env_redis env"
  shows "session_abs (session_step env e d) = session_spec_step e (session_abs d)"
proof (cases e)
  case (Ev_login u m)
  with assms show ?thesis
    by (cases "0 < m") (simp_all add: create_session_def redis_set_def redis_up_def svc_simps Let_def session_abs_def
        extended_def update_conv' fun_eq_iff split: option.split)
next
  case (Ev_use u s m)
  with assms show ?thesis
    by (auto simp: touch_session_def redis_expire_up redis_live_def session_abs_def extended_def update_conv' delete_conv'
        fun_eq_iff split: option.splits)
next
  case (Ev_logout u s)
  with assms show ?thesis
    by (auto simp: invalidate_session_def redis_delete_def redis_up_def svc_simps session_abs_def delete_conv' fun_eq_iff split: option.splits)
next
  case (Ev_logout_all u)
  have "x \<in> fst ` set (db_redis d)" if "map_of (db_redis d) x = Some y" for x y
    using map_of_SomeD [OF that] by force
  with Ev_logout_all assms show ?thesis
    by (auto simp: invalidate_all_sessions_def redis_scan_def redis_up_def svc_simps for_each_delete session_abs_def
        redis_live_def map_of_filter_keys fun_eq_iff split: option.splits)
next
  case (Ev_wait n)
  then show ?thesis
    by (auto simp: session_abs_def fun_eq_iff split: option.splits)
qed

text \<open>
  C31: the Redis keys implement the session store: whatever the history of logins, uses, logouts and waiting, the store
  knows exactly the sessions of the abstract store, where a login and a use move a session's deadline to the user's
  timeout from now, a logout forgets it and a deadline that passes ends it. \<open>is_session_active\<close> answers whether the
  session has a deadline there.
\<close>

theorem session_store_refines:
  assumes "env_redis env"
  shows "session_abs (fold (session_step env) es d) = fold session_spec_step es (session_abs d) \<and>
    is_session_active env u s (fold (session_step env) es d) =
      (Inr (session_key u s \<in> dom (deadlines (fold session_spec_step es (session_abs d)))), fold (session_step env) es d)"
proof -
  have abs: "session_abs (fold (session_step env) es d) = fold session_spec_step es (session_abs d)"
    by (induction es arbitrary: d) (simp_all add: session_step_refines [OF assms])
  moreover have "redis_live d' k \<noteq> None \<longleftrightarrow> k \<in> dom (deadlines (session_abs d'))" for d' k
    by (auto simp: redis_live_def session_abs_def dom_def split: option.splits)
  ultimately show ?thesis
    using assms by (simp add: is_session_active_def redis_get_def redis_up_def svc_simps)
qed

text \<open>A session of 30 minutes, used just before its end and left for half an hour.\<close>

lemma session_store_refines_witness:
  "let es = [Ev_login 3 30, Ev_wait 1799000000, Ev_use 3 (uuid_str 20) 30, Ev_wait 1799000000] in
   fst (is_session_active demo_env 3 (uuid_str 20) (fold (session_step demo_env) es demo_db)) = Inr True \<and>
   fst (is_session_active demo_env 3 (uuid_str 20) (fold (session_step demo_env) (es @ [Ev_wait 1000000]) demo_db)) = Inr False"
proof -
  have up: "env_redis demo_env" by (simp add: demo_env_def)
  have abs: "session_abs demo_db = \<lparr>deadlines = Map.empty, clock = 1000, next_session = 20\<rparr>"
    by (simp add: session_abs_def demo_db_def empty_db_def)
  let ?es = "[Ev_login 3 30, Ev_wait 1799000000, Ev_use 3 (uuid_str 20) 30, Ev_wait 1799000000]"
  show ?thesis
    using session_store_refines [OF up, of ?es demo_db 3 "uuid_str 20"]
      session_store_refines [OF up, of "?es @ [Ev_wait 1000000]" demo_db 3 "uuid_str 20"]
    by (simp add: Let_def abs extended_def domIff cong: option.case_cong if_cong del: session_step.simps)
qed

section \<open>Login\<close>

definition access_payload :: "auth_lib \<Rightarrow> jobj \<Rightarrow> int \<Rightarrow> uuid \<Rightarrow> jobj" where
  "access_payload lib subject now jti = AList.update ''jti'' (JId jti)
     (AList.update ''exp'' (JInt ((now + lib_access_minutes lib * 60000000) div 1000000))
       (AList.update ''iat'' (JInt (now div 1000000)) (AList.update ''token_type'' (JStr ''access'') subject)))"

lemma login_InrD:
  assumes "login env lib name pw ip ua d = (Inr resp, d')"
  shows "\<exists>uid user u d1. (uid, user) \<in> set (db_users d) \<and> u_username user = name \<and> u_is_active user \<and>
    u_password_hash user \<noteq> None \<and> \<not> u_is_service_account user \<and> verify_password lib pw (the (u_password_hash user)) \<and>
    save_changed users_e uid user (user\<lparr>u_last_login_at := Some (db_now d)\<rparr>) (\<lambda>u. u\<lparr>u_updated_at := db_now d\<rparr>) d = (Inr (), d1) \<and>
    visible_row users_e d1 uid = Some u \<and> lr_user resp = (uid, u) \<and> env_redis env \<and> 0 < u_inactivity_timeout_minutes u \<and>
    lr_access_token resp = lib_jwt_encode lib (access_payload lib (login_subject uid u (uuid_str (db_next_id d1))) (db_now d1) (Suc (db_next_id d1))) \<and>
    (\<exists>v. d' = d1\<lparr>db_redis := AList.update (session_key uid (uuid_str (db_next_id d1)))
      (v, db_now d1 + 60000000 * u_inactivity_timeout_minutes u) (db_redis d1), db_next_id := Suc (Suc (Suc (db_next_id d1)))\<rparr>)"
proof -
  have mem: "x \<in> set t \<and> P (fst x) (snd x)" if "rows_where P t = [x]" for P x and t :: "user_row table"
  proof -
    have "x \<in> set (rows_where P t)" by (simp add: that)
    then show ?thesis by (auto simp: rows_where_def)
  qed
  from assms obtain uid user where x: "(uid, user) \<in> set (db_users d)" "u_username user = name"
    and rest: "and_then (guard (u_is_active user \<and> u_password_hash user \<noteq> None \<and> \<not> u_is_service_account user \<and>
           verify_password lib pw (the (u_password_hash user))) (HTTPException 401 ''Invalid username or password''))
       (bind now_utc (\<lambda>now.
        let user' = user\<lparr>u_last_login_at := Some now\<rparr> in
        and_then (save_changed users_e uid user user' (\<lambda>u. u\<lparr>u_updated_at := now\<rparr>))
        (bind (get_or_404 users_e (\<lambda>i. ''refresh'') uid) (\<lambda>fresh.
        bind (create_session env uid (u_inactivity_timeout_minutes fresh) ip ua) (\<lambda>session.
        let subject = login_subject uid fresh (sr_session_id session) in
        bind (create_access_token lib subject None) (\<lambda>access.
        bind (create_refresh_token lib subject) (\<lambda>refresh.
        bind (user_response uid fresh) (\<lambda>resp.
        ret \<lparr>lr_access_token = access, lr_refresh_token = refresh, lr_expires_in = lib_access_minutes lib * 60,
          lr_user = resp\<rparr>)))))))) d = (Inr resp, d')"
    unfolding login_def scalar_one_or_none_def run_select
    by (auto split: list.splits prod.splits dest!: mem simp: svc_simps)
  from rest have g: "u_is_active user \<and> u_password_hash user \<noteq> None \<and> \<not> u_is_service_account user \<and>
      verify_password lib pw (the (u_password_hash user))"
    unfolding run_guard by blast
  from rest obtain d1 u where d1: "save_changed users_e uid user (user\<lparr>u_last_login_at := Some (db_now d)\<rparr>) (\<lambda>u. u\<lparr>u_updated_at := db_now d\<rparr>) d = (Inr (), d1)"
    and u: "visible_row users_e d1 uid = Some u"
    and tail: "bind (create_session env uid (u_inactivity_timeout_minutes u) ip ua) (\<lambda>session.
        let subject = login_subject uid u (sr_session_id session) in
        bind (create_access_token lib subject None) (\<lambda>access.
        bind (create_refresh_token lib subject) (\<lambda>refresh.
        bind (user_response uid u) (\<lambda>resp.
        ret \<lparr>lr_access_token = access, lr_refresh_token = refresh, lr_expires_in = lib_access_minutes lib * 60,
          lr_user = resp\<rparr>)))) d1 = (Inr resp, d')"
    unfolding run_guard run_now Let_def
    by (elim conjE and_then_InrD) (simp add: run_bind_get; blast)
  from tail have "env_redis env \<and> 0 < u_inactivity_timeout_minutes u \<and> lr_user resp = (uid, u) \<and>
    lr_access_token resp = lib_jwt_encode lib (access_payload lib (login_subject uid u (uuid_str (db_next_id d1))) (db_now d1) (Suc (db_next_id d1))) \<and>
    (\<exists>v. d' = d1\<lparr>db_redis := AList.update (session_key uid (uuid_str (db_next_id d1)))
      (v, db_now d1 + 60000000 * u_inactivity_timeout_minutes u) (db_redis d1), db_next_id := Suc (Suc (Suc (db_next_id d1)))\<rparr>)"
    by (auto simp: svc_simps create_session_def redis_set_def redis_up_def create_access_token_def create_refresh_token_def
        build_payload_def access_payload_def user_response_def Let_def split: if_splits json.splits)
  with x g d1 u show ?thesis by blast
qed

text \<open>A save that returned touches its table only.\<close>

lemma save_users_InrD:
  assumes "save_changed users_e uid old new touch d = (Inr (), d1)"
  shows "\<exists>t. d1 = d\<lparr>db_users := t\<rparr> \<and> (new \<noteq> old \<longrightarrow> t = row_set uid (touch new) (db_users d)) \<and> (new = old \<longrightarrow> t = db_users d)"
proof (cases "new = old")
  case True
  with assms show ?thesis
    by (intro exI [of _ "db_users d"]) (simp add: save_changed_def)
next
  case False
  with assms show ?thesis
    by (auto simp: save_changed_def dest!: store_row_InrD)
qed

lemma validate_access_payload:
  "validate_payload (access_payload lib (login_subject uid u sid) now jti) =
     Some \<lparr>jp_sub = uid, jp_tenant_id = u_tenant_id u, jp_role = role_str (u_role u), jp_session_id = sid, jp_token_type = ''access'',
       jp_iat = now div 1000000, jp_exp = (now + lib_access_minutes lib * 60000000) div 1000000, jp_jti = uuid_str jti\<rparr>"
  by (simp add: validate_payload_def access_payload_def login_subject_def update_conv')

lemma exp_access_payload:
  "not_expired t (access_payload lib s now jti) \<longleftrightarrow> t \<le> (now + lib_access_minutes lib * 60000000) div 1000000"
  by (simp add: not_expired_def access_payload_def update_conv')

text \<open>
  C32: what a login hands out works. The user who logged in has that name, is active and no service account, and the
  password is theirs. Until the token expires (\<open>jwt_access_token_expire_minutes\<close>) and unless the session stays
  unused for the user's timeout, a request that presents the access token runs as exactly this user, with the role the
  user table holds, and the request's session is scoped to the user's tenant.
\<close>

theorem login_then_principal:
  assumes "lib_ok lib" and "wf_db d"
    and "get_db_unscoped (login env lib name password ip agent) d = (Inr resp, d')"
    and "later div 1000000 \<le> (db_now d + lib_access_minutes lib * 60000000) div 1000000"
    and "later < db_now d + 60000000 * u_inactivity_timeout_minutes (snd (lr_user resp))"
  shows "\<exists>uid u sid d3. lr_user resp = (uid, u) \<and> u_username u = name \<and> u_is_active u \<and> \<not> u_is_service_account u \<and>
    verify_password lib password (the (u_password_hash u)) \<and> row_get (db_users d') uid = Some u \<and>
    get_principal env lib \<lparr>cr_token = Some (lr_access_token resp), cr_api_key = key\<rparr> (d'\<lparr>db_now := later\<rparr>) =
      (Inr (context_of uid u sid), d3) \<and> s_tenant (db_session d3) = Guc_val (u_tenant_id u)"
proof -
  let ?o = "d\<lparr>db_session := owner_session\<rparr>"
  obtain de where run: "login env lib name password ip agent ?o = (Inr resp, de)" and d': "d' = de\<lparr>db_session := db_session d\<rparr>"
    using assms(3) by (auto simp: get_db_unscoped_def split: prod.splits sum.splits)
  obtain uid user u d1 v where mem: "(uid, user) \<in> set (db_users ?o)" and user: "u_username user = name" "u_is_active user"
      "\<not> u_is_service_account user" "verify_password lib password (the (u_password_hash user))"
    and save: "save_changed users_e uid user (user\<lparr>u_last_login_at := Some (db_now ?o)\<rparr>) (\<lambda>u. u\<lparr>u_updated_at := db_now ?o\<rparr>) ?o = (Inr (), d1)"
    and fresh: "visible_row users_e d1 uid = Some u" and resp: "lr_user resp = (uid, u)" and up: "env_redis env"
    and pos: "0 < u_inactivity_timeout_minutes u"
    and tok: "lr_access_token resp = lib_jwt_encode lib (access_payload lib (login_subject uid u (uuid_str (db_next_id d1))) (db_now d1) (Suc (db_next_id d1)))"
    and de: "de = d1\<lparr>db_redis := AList.update (session_key uid (uuid_str (db_next_id d1)))
      (v, db_now d1 + 60000000 * u_inactivity_timeout_minutes u) (db_redis d1), db_next_id := Suc (Suc (Suc (db_next_id d1)))\<rparr>"
    using login_InrD [OF run] by blast
  obtain t where d1: "d1 = ?o\<lparr>db_users := t\<rparr>"
    and t: "user\<lparr>u_last_login_at := Some (db_now ?o)\<rparr> \<noteq> user \<longrightarrow> t = row_set uid (user\<lparr>u_last_login_at := Some (db_now ?o), u_updated_at := db_now ?o\<rparr>) (db_users ?o)"
      "user\<lparr>u_last_login_at := Some (db_now ?o)\<rparr> = user \<longrightarrow> t = db_users ?o"
    using save_users_InrD [OF save] by auto
  have ids: "ids_ok (db_next_id d) (db_users d)"
    using assms(2) by (simp add: wf_db_def wf_ids_def)
  have old: "row_get (db_users d) uid = Some user"
    using mem row_get_iff [of "db_users d" uid user] ids by (simp add: ids_ok_def)
  have "u = user\<lparr>u_last_login_at := Some (db_now d), u_updated_at := db_now d\<rparr> \<or> u = user"
    using t old visible_rowD [OF fresh] by (cases "user\<lparr>u_last_login_at := Some (db_now d)\<rparr> = user") (auto simp: d1 row_get_set)
  then have u: "u_username u = name" "u_is_active u" "\<not> u_is_service_account u" "verify_password lib password (the (u_password_hash u))"
    using user by auto
  let ?sid = "uuid_str (db_next_id d1)" and ?d2 = "d'\<lparr>db_now := later\<rparr>"
  have row: "row_get (db_users d') uid = Some u"
    using visible_rowD [OF fresh] by (simp add: d' de)
  have dec: "lib_jwt_decode lib (later div 1000000) (lr_access_token resp) =
      Some (access_payload lib (login_subject uid u ?sid) (db_now d1) (Suc (db_next_id d1)))"
    using assms(1,4) unfolding lib_ok_def tok by (simp add: exp_access_payload d1)
  have live: "redis_live (?d2\<lparr>db_session := owner_session\<rparr>) (session_key uid ?sid) = Some v"
    using assms(5) by (simp add: redis_live_def d' de update_conv' d1 resp)
  have vis: "visible_row users_e (?d2\<lparr>db_session := owner_session\<rparr>) uid = Some u"
    using row by (simp add: visible_row_def rls_standard_def owner_session_def)
  let ?re = "AList.update (session_key uid ?sid) (v, later + u_inactivity_timeout_minutes u * 60 * 1000000) (db_redis d')"
  have "load_user_from_token env lib (lr_access_token resp) (?d2\<lparr>db_session := owner_session\<rparr>) =
      (Inr (context_of uid u ?sid), ?d2\<lparr>db_session := owner_session, db_redis := ?re\<rparr>)"
    using up pos u(2) live vis
    by (simp add: load_user_from_token_def decode_token_def svc_simps dec validate_access_payload is_session_active_def redis_get_def
        redis_up_def touch_session_def redis_expire_up context_of_def)
  then show ?thesis
    using u row resp by (auto simp: get_principal_def scoped_def get_db_unscoped_def svc_simps scope_session_def
        apply_tenant_context_def context_of_def)
qed

instance json :: countable
  by countable_datatype

text \<open>Libraries that meet \<open>lib_ok\<close>: a token is its claims, numbered.\<close>

definition demo_lib :: auth_lib where
  "demo_lib = \<lparr>lib_gensalt = (\<lambda>u. show_nat u), lib_hashpw = (\<lambda>p s. ''$'' @ p), lib_checkpw = (\<lambda>p h. Some (h = ''$'' @ p)),
     lib_sha256 = (\<lambda>s. ''#'' @ s), lib_token = show_nat, lib_jwt_encode = (\<lambda>p. replicate (to_nat p) CHR ''.''),
     lib_jwt_decode = (\<lambda>now s. let p = from_nat (length s) in if not_expired now p then Some p else None), lib_access_minutes = 60\<rparr>"

lemma demo_lib_ok: "lib_ok demo_lib"
  by (simp add: lib_ok_def demo_lib_def)

definition login_db :: db where
  "login_db = demo_db\<lparr>db_users := [(3, (demo_user 1 ''alice'' ANALYST)\<lparr>u_password_hash := Some ''$secret''\<rparr>), (4, demo_user 2 ''bob'' TENANT_ADMIN)]\<rparr>"

lemma login_db_wf: "wf_db login_db"
  by (simp add: login_db_def wf_db_def wf_ids_def wf_tenancy_def wf_unique_def ids_ok_def rows_in_case_def tenant_in_def
      unique_rows_def notes_filed_def pending_unique_def promoted_has_case_def row_get_def demo_defs)

lemma login_then_principal_witness:
  "\<exists>resp d' u sid d3. get_db_unscoped (login demo_env demo_lib ''alice'' ''secret'' None None) login_db = (Inr resp, d') \<and>
     get_principal demo_env demo_lib \<lparr>cr_token = Some (lr_access_token resp), cr_api_key = None\<rparr> (d'\<lparr>db_now := 1700000000\<rparr>) =
       (Inr (context_of 3 u sid), d3) \<and> u_username u = ''alice''"
proof -
  let ?d = "login_db\<lparr>db_session := owner_session\<rparr>"
  obtain resp d' where run: "get_db_unscoped (login demo_env demo_lib ''alice'' ''secret'' None None) login_db = (Inr resp, d')"
    and resp: "fst (lr_user resp) = 3" "u_inactivity_timeout_minutes (snd (lr_user resp)) = 30"
    by (simp add: get_db_unscoped_def login_def scalar_one_or_none_def create_session_def redis_set_def redis_up_def
        create_access_token_def create_refresh_token_def build_payload_def user_response_def verify_password_def
        encode_password_def utf8_def get_or_404_def find_row_def now_utc_def new_uuid_def
        login_db_def owner_session_def demo_lib_def run_simps)
  have "db_now login_db = 1000" "lib_access_minutes demo_lib = 60"
    by (simp_all add: login_db_def demo_db_def demo_lib_def)
  then show ?thesis
    using login_then_principal [OF demo_lib_ok login_db_wf run, of 1700000000 None] resp run by force
qed

section \<open>Who a request runs as\<close>

definition scope :: "auth_context \<Rightarrow> session \<Rightarrow> session" where
  "scope auth s = s\<lparr>s_tenant := Guc_val (ac_tenant_id auth),
     s_platform_admin := (if is_platform_admin auth then Guc_val True else s_platform_admin s)\<rparr>"

lemma redis_only_unscoped:
  assumes "\<And>d. keeps (redis_only d) m"
  shows "get_db_unscoped m d = (r, d') \<Longrightarrow> \<exists>re. d' = d\<lparr>db_redis := re\<rparr> \<and>
    fst (m (d\<lparr>db_session := owner_session\<rparr>)) = r"
proof -
  have "redis_only (d\<lparr>db_session := owner_session\<rparr>) (snd (m (d\<lparr>db_session := owner_session\<rparr>)))"
    using keepsD [OF assms redis_only_refl] .
  then show "get_db_unscoped m d = (r, d') \<Longrightarrow> ?thesis"
    by (auto simp: get_db_unscoped_def redis_only_def rollback_def split: prod.splits sum.splits)
qed

lemma scoped_state:
  assumes "\<And>d. keeps (redis_only d) m" and "scoped m d = (r, d')"
  shows "(\<exists>re. case r of Inl e \<Rightarrow> d' = d\<lparr>db_redis := re\<rparr>
    | Inr auth \<Rightarrow> d' = d\<lparr>db_redis := re, db_session := scope auth (db_session d)\<rparr> \<and>
        fst (m (d\<lparr>db_session := owner_session\<rparr>)) = Inr auth)"
proof -
  obtain r1 d1 where m: "get_db_unscoped m d = (r1, d1)" by (cases "get_db_unscoped m d")
  obtain re where d1: "d1 = d\<lparr>db_redis := re\<rparr>" and r1: "fst (m (d\<lparr>db_session := owner_session\<rparr>)) = r1"
    using redis_only_unscoped [OF assms(1) m] by blast
  show ?thesis
    using assms(2) m r1 unfolding scoped_def
    by (intro exI [of _ re]) (auto simp: svc_simps d1 scope_session_def apply_tenant_context_def scope_def split: sum.splits)
qed

lemma get_principal_state:
  assumes "get_principal env lib cred d = (r, d')"
  shows "\<exists>re. case r of Inl e \<Rightarrow> d' = d\<lparr>db_redis := re\<rparr>
    | Inr auth \<Rightarrow> d' = d\<lparr>db_redis := re, db_session := scope auth (db_session d)\<rparr> \<and>
        (\<exists>uid u sid. (uid, u) \<in> set (db_users d) \<and> u_is_active u \<and> auth = context_of uid u sid)"
proof -
  have row: "\<exists>u. (uid, u) \<in> set (db_users d) \<and> P u" if "visible_row users_e (d\<lparr>db_session := owner_session\<rparr>) uid = Some u" "P u" for uid u P
    using visible_rowD [OF that(1)] that(2) by (auto simp: row_get_def dest: map_of_SomeD)
  have user: "\<exists>uid u sid. (uid, u) \<in> set (db_users d) \<and> u_is_active u \<and> auth = context_of uid u sid"
    if "fst (load_user_from_token env lib t (d\<lparr>db_session := owner_session\<rparr>)) = Inr auth" for t auth
  proof -
    note first = that
    obtain d2 where "load_user_from_token env lib t (d\<lparr>db_session := owner_session\<rparr>) = (Inr auth, d2)"
      using first by (metis prod.collapse)
    from load_user_InrD [OF this] obtain uid u sid where
      x: "visible_row users_e (d\<lparr>db_session := owner_session\<rparr>) uid = Some u" "u_is_active u" "auth = context_of uid u sid"
      by blast
    show ?thesis using row [OF x(1), of "\<lambda>u. u_is_active u \<and> auth = context_of uid u sid"] x(2,3) by blast
  qed
  have account: "\<exists>uid u sid. (uid, u) \<in> set (db_users d) \<and> u_is_active u \<and> auth = context_of uid u sid"
    if "fst (load_service_account lib k (d\<lparr>db_session := owner_session\<rparr>)) = Inr auth" for k auth
  proof -
    note first = that
    obtain d2 where "load_service_account lib k (d\<lparr>db_session := owner_session\<rparr>) = (Inr auth, d2)"
      using first by (metis prod.collapse)
    from load_service_account_InrD [OF this] show ?thesis by auto
  qed
  show ?thesis
  proof (cases "cr_token cred")
    case (Some t)
    with assms have "scoped (load_user_from_token env lib t) d = (r, d')" by (simp add: get_principal_def)
    from scoped_state [OF keeps_load_user this] show ?thesis using user [of t] by (auto split: sum.splits)
  next
    case None
    show ?thesis
    proof (cases "cr_api_key cred")
      case (Some k)
      with None assms have "scoped (load_service_account lib k) d = (r, d')" by (simp add: get_principal_def)
      from scoped_state [OF keeps_load_service_account this] show ?thesis using account [of k] by (auto split: sum.splits)
    next
      case None
      with \<open>cr_token cred = None\<close> assms redis_only_refl [of d] show ?thesis
        by (auto simp: get_principal_def redis_only_def)
    qed
  qed
qed

end
