(* ===== verification/Users.thy ===== *)
theory Users
  imports Auth
begin

text \<open>
  Users and service accounts (\<^verbatim>\<open>services/users.py\<close>, \<^verbatim>\<open>schemas/users.py\<close>) and tenants (\<^verbatim>\<open>services/tenants.py\<close>,
  \<^verbatim>\<open>schemas/tenants.py\<close>). These services run on the owner connection, which the policies do not restrict.
  \<open>user_create_valid\<close> and its like are the field constraints of the payloads; \<open>email_ok\<close> stands for the
  \<^verbatim>\<open>email-validator\<close> package behind \<^verbatim>\<open>EmailStr\<close>.
\<close>

section \<open>Payloads\<close>

record user_create =
  uc_username :: string
  uc_email :: string
  uc_display_name :: string
  uc_role :: role
  uc_password :: "string option"
  uc_inactivity_timeout_minutes :: int

record user_update =
  uu_display_name :: "string upd"
  uu_email :: "string upd"
  uu_role :: "role upd"
  uu_is_active :: "bool upd"
  uu_inactivity_timeout_minutes :: "int upd"
  uu_permissions :: "json upd"

record password_change =
  pc_current_password :: string
  pc_new_password :: string

record service_account_create =
  sa_username :: string
  sa_display_name :: string
  sa_role :: role
  sa_permissions :: "jobj list"

definition len_in :: "nat \<Rightarrow> nat \<Rightarrow> string \<Rightarrow> bool" where
  "len_in lo hi s \<longleftrightarrow> lo \<le> length s \<and> length s \<le> hi"

definition if_sent :: "('a \<Rightarrow> bool) \<Rightarrow> 'a upd \<Rightarrow> bool" where
  "if_sent P u = (case u of Some (Some x) \<Rightarrow> P x | _ \<Rightarrow> True)"

definition user_create_valid :: "(string \<Rightarrow> bool) \<Rightarrow> user_create \<Rightarrow> bool" where
  "user_create_valid email_ok p \<longleftrightarrow> len_in 3 100 (uc_username p) \<and> email_ok (uc_email p) \<and> len_in 1 255 (uc_display_name p) \<and>
     (case uc_password p of None \<Rightarrow> True | Some pw \<Rightarrow> 8 \<le> length pw) \<and>
     5 \<le> uc_inactivity_timeout_minutes p \<and> uc_inactivity_timeout_minutes p \<le> 10080"

definition user_update_valid :: "(string \<Rightarrow> bool) \<Rightarrow> user_update \<Rightarrow> bool" where
  "user_update_valid email_ok p \<longleftrightarrow> if_sent (len_in 1 255) (uu_display_name p) \<and> if_sent email_ok (uu_email p) \<and>
     if_sent (\<lambda>n. 5 \<le> n \<and> n \<le> 10080) (uu_inactivity_timeout_minutes p) \<and>
     if_sent (\<lambda>j. case j of JList xs \<Rightarrow> list_all is_obj xs | _ \<Rightarrow> False) (uu_permissions p)"

definition password_change_valid :: "password_change \<Rightarrow> bool" where
  "password_change_valid p \<longleftrightarrow> 8 \<le> length (pc_new_password p)"

definition service_account_create_valid :: "service_account_create \<Rightarrow> bool" where
  "service_account_create_valid p \<longleftrightarrow> len_in 3 100 (sa_username p) \<and> len_in 1 255 (sa_display_name p)"

section \<open>Operations on users\<close>

abbreviation tenant_404 :: "uuid \<Rightarrow> tenant_row service" where
  "tenant_404 \<equiv> get_or_404 tenants_e (\<lambda>i. ''Tenant '' @ uuid_str i @ '' not found'')"

abbreviation get_user :: "uuid \<Rightarrow> user_row service" where
  "get_user \<equiv> get_or_404 users_e (\<lambda>i. ''User '' @ uuid_str i @ '' not found'')"

definition list_users :: "uuid \<Rightarrow> nat \<Rightarrow> nat \<Rightarrow> bool \<Rightarrow> (user_row table \<times> nat) service" where
  "list_users tenant_id limit offset include_service_accounts =
     bind (select_rows users_e (\<lambda>i u. u_tenant_id u = tenant_id \<and> (include_service_accounts \<or> \<not> u_is_service_account u))) (\<lambda>rows.
     ret (page_of limit offset (sort_desc (\<lambda>r. u_created_at (snd r)) rows), length rows))"

text \<open>The check that a user name is free in the tenant.\<close>

definition username_free :: "uuid \<Rightarrow> string \<Rightarrow> unit service" where
  "username_free tenant_id username =
     bind (select_rows users_e (\<lambda>i u. u_tenant_id u = tenant_id \<and> u_username u = username)) (\<lambda>rows.
     bind (scalar_one_or_none rows) (\<lambda>existing.
     guard (existing = None) (HTTPException 409 (''Username '' @ quoted username @ '' already exists in this tenant''))))"

definition create_user :: "auth_lib \<Rightarrow> uuid \<Rightarrow> user_create \<Rightarrow> uuid service" where
  "create_user lib tenant_id payload =
     bind (tenant_404 tenant_id) (\<lambda>_.
     and_then (username_free tenant_id (uc_username payload))
     (and_then (guard (uc_role payload \<noteq> API_SERVICE_ACCOUNT)
        (HTTPException 400 ''Use POST /service-accounts to create API service accounts''))
     (bind (case uc_password payload of None \<Rightarrow> ret None
        | Some pw \<Rightarrow> if pw = [] then ret None else bind (hash_password lib pw) (\<lambda>h. ret (Some h))) (\<lambda>password_hash.
      bind now_utc (\<lambda>now.
      insert_row users_e \<lparr>u_tenant_id = tenant_id, u_username = uc_username payload, u_email = uc_email payload,
        u_password_hash = password_hash, u_display_name = uc_display_name payload, u_role = uc_role payload,
        u_is_active = True, u_is_service_account = False, u_api_key_hash = None, u_permissions = JList [],
        u_last_login_at = None, u_inactivity_timeout_minutes = uc_inactivity_timeout_minutes payload,
        u_created_at = now, u_updated_at = now\<rparr>)))))"

definition user_set :: "user_update \<Rightarrow> user_row \<Rightarrow> user_row" where
  "user_set data u = u\<lparr>u_display_name := set_req (uu_display_name data) (u_display_name u),
     u_email := set_req (uu_email data) (u_email u), u_role := set_req (uu_role data) (u_role u),
     u_is_active := set_req (uu_is_active data) (u_is_active u),
     u_inactivity_timeout_minutes := set_req (uu_inactivity_timeout_minutes data) (u_inactivity_timeout_minutes u),
     u_permissions := set_json (uu_permissions data) (u_permissions u)\<rparr>"

definition save_user :: "uuid \<Rightarrow> user_row \<Rightarrow> user_row \<Rightarrow> unit service" where
  "save_user user_id old new = bind now_utc (\<lambda>now. save_changed users_e user_id old new (\<lambda>u. u\<lparr>u_updated_at := now\<rparr>))"

definition update_user :: "uuid \<Rightarrow> user_update \<Rightarrow> user_row service" where
  "update_user user_id data =
     bind (get_user user_id) (\<lambda>u.
     and_then (not_null [is_null (uu_display_name data), is_null (uu_email data), is_null (uu_role data), is_null (uu_is_active data),
        is_null (uu_inactivity_timeout_minutes data)])
     (and_then (save_user user_id u (user_set data u)) (get_user user_id)))"

definition change_password :: "auth_lib \<Rightarrow> uuid \<Rightarrow> password_change \<Rightarrow> unit service" where
  "change_password lib user_id payload =
     bind (get_user user_id) (\<lambda>u.
     and_then (guard (case u_password_hash u of None \<Rightarrow> False | Some h \<Rightarrow> verify_password lib (pc_current_password payload) h)
        (HTTPException 400 ''Current password is incorrect''))
     (bind (hash_password lib (pc_new_password payload)) (\<lambda>h.
      save_user user_id u (u\<lparr>u_password_hash := Some h\<rparr>))))"

definition set_active :: "bool \<Rightarrow> uuid \<Rightarrow> user_row service" where
  "set_active b user_id = bind (get_user user_id) (\<lambda>u.
     and_then (save_user user_id u (u\<lparr>u_is_active := b\<rparr>)) (get_user user_id))"

definition deactivate_user :: "uuid \<Rightarrow> user_row service" where
  "deactivate_user = set_active False"

definition activate_user :: "uuid \<Rightarrow> user_row service" where
  "activate_user = set_active True"

definition create_service_account :: "auth_lib \<Rightarrow> uuid \<Rightarrow> service_account_create \<Rightarrow> (uuid \<times> string) service" where
  "create_service_account lib tenant_id payload =
     bind (tenant_404 tenant_id) (\<lambda>_.
     and_then (guard (sa_role payload \<in> {ANALYST, READ_ONLY}) 
        (HTTPException 400 (''Service account role must be '' @ quoted ''analyst'' @ '' or '' @ quoted ''read_only'')))
     (and_then (username_free tenant_id (sa_username payload))
     (bind (generate_api_key lib) (\<lambda>api_key.
      bind now_utc (\<lambda>now.
      bind (insert_row users_e \<lparr>u_tenant_id = tenant_id, u_username = sa_username payload,
        u_email = sa_username payload @ ''@service.invalid'', u_password_hash = None,
        u_display_name = sa_display_name payload, u_role = API_SERVICE_ACCOUNT, u_is_active = True,
        u_is_service_account = True, u_api_key_hash = Some (hash_api_key lib api_key),
        u_permissions = JList (map JObj (sa_permissions payload)), u_last_login_at = None,
        u_inactivity_timeout_minutes = 30, u_created_at = now, u_updated_at = now\<rparr>) (\<lambda>uid.
      ret (uid, api_key)))))))"

definition rotate_api_key :: "auth_lib \<Rightarrow> uuid \<Rightarrow> string service" where
  "rotate_api_key lib user_id =
     bind (get_user user_id) (\<lambda>u.
     and_then (guard (u_is_service_account u) (HTTPException 400 ''Only service accounts have API keys''))
     (bind (generate_api_key lib) (\<lambda>api_key.
      and_then (save_user user_id u (u\<lparr>u_api_key_hash := Some (hash_api_key lib api_key)\<rparr>)) (ret api_key))))"

section \<open>Tenants\<close>

record tenant_create =
  tcr_name :: string
  tcr_slug :: string
  tcr_settings :: jobj
  tcr_custom_fields_schema :: "jobj list"

record tenant_update =
  tu_name :: "string upd"
  tu_settings :: "json upd"
  tu_custom_fields_schema :: "json upd"
  tu_is_active :: "bool upd"

text \<open>\<^verbatim>\<open>^[a-z0-9][a-z0-9-]*$\<close>, matched by the Rust engine of pydantic, where \<^verbatim>\<open>$\<close> is the end of the text.\<close>

definition slug_char :: "char \<Rightarrow> bool" where
  "slug_char c \<longleftrightarrow> (let n = of_char c :: nat in (97 \<le> n \<and> n \<le> 122) \<or> (48 \<le> n \<and> n \<le> 57))"

definition tenant_create_valid :: "tenant_create \<Rightarrow> bool" where
  "tenant_create_valid p \<longleftrightarrow> len_in 1 255 (tcr_name p) \<and> len_in 1 100 (tcr_slug p) \<and>
     (case tcr_slug p of [] \<Rightarrow> False | c # cs \<Rightarrow> slug_char c \<and> list_all (\<lambda>x. slug_char x \<or> x = CHR ''-'') cs)"

definition create_tenant :: "tenant_create \<Rightarrow> uuid service" where
  "create_tenant payload =
     bind (select_rows tenants_e (\<lambda>i t. tn_slug t = tcr_slug payload)) (\<lambda>rows.
     bind (scalar_one_or_none rows) (\<lambda>existing.
     and_then (guard (existing = None) (HTTPException 409 (''Tenant with slug '' @ quoted (tcr_slug payload) @ '' already exists'')))
     (bind now_utc (\<lambda>now.
      insert_row tenants_e \<lparr>tn_name = tcr_name payload, tn_slug = tcr_slug payload, tn_settings = JObj (tcr_settings payload),
        tn_custom_fields_schema = JList (map JObj (tcr_custom_fields_schema payload)), tn_is_active = True,
        tn_created_at = now, tn_updated_at = now\<rparr>))))"

definition list_tenants :: "nat \<Rightarrow> nat \<Rightarrow> (tenant_row table \<times> nat) service" where
  "list_tenants limit offset =
     bind (select_rows tenants_e (\<lambda>i t. True)) (\<lambda>rows.
     ret (page_of limit offset (sort_desc (\<lambda>r. tn_created_at (snd r)) rows), length rows))"

abbreviation get_tenant :: "uuid \<Rightarrow> tenant_row service" where
  "get_tenant \<equiv> tenant_404"

definition tenant_set :: "tenant_update \<Rightarrow> tenant_row \<Rightarrow> tenant_row" where
  "tenant_set data t = t\<lparr>tn_name := set_req (tu_name data) (tn_name t), tn_settings := set_json (tu_settings data) (tn_settings t),
     tn_custom_fields_schema := set_json (tu_custom_fields_schema data) (tn_custom_fields_schema t),
     tn_is_active := set_req (tu_is_active data) (tn_is_active t)\<rparr>"

definition update_tenant :: "uuid \<Rightarrow> tenant_update \<Rightarrow> tenant_row service" where
  "update_tenant tenant_id data =
     bind (get_tenant tenant_id) (\<lambda>t.
     and_then (not_null [is_null (tu_name data), is_null (tu_is_active data)])
     (bind now_utc (\<lambda>now.
      and_then (save_changed tenants_e tenant_id t (tenant_set data t) (\<lambda>x. x\<lparr>tn_updated_at := now\<rparr>)) (get_tenant tenant_id))))"

text \<open>
  Deleting a tenant: the session nulls the foreign key of the users and cases it loads for the relationships, which
  the columns do not take; no other foreign key to the tenant cascades either.
\<close>

definition refers :: "('r \<Rightarrow> uuid option) \<Rightarrow> uuid \<Rightarrow> 'r table \<Rightarrow> bool" where
  "refers f t rows \<longleftrightarrow> list_ex (\<lambda>(i, r). f r = Some t) rows"

definition tenant_referenced :: "db \<Rightarrow> uuid \<Rightarrow> bool" where
  "tenant_referenced d t \<longleftrightarrow> refers (Some \<circ> k_tenant_id) t (db_tasks d) \<or> refers (Some \<circ> o_tenant_id) t (db_observables d) \<or>
     refers (Some \<circ> a_tenant_id) t (db_assets d) \<or> refers (Some \<circ> e_tenant_id) t (db_evidence d) \<or>
     refers (Some \<circ> tl_tenant_id) t (db_timeline d) \<or> refers (Some \<circ> f_tenant_id) t (db_folders d) \<or>
     refers (Some \<circ> n_tenant_id) t (db_notes d) \<or> refers (Some \<circ> al_tenant_id) t (db_alerts d) \<or>
     refers tp_tenant_id t (db_templates d) \<or> refers (Some \<circ> es_tenant_id) t (db_sources d) \<or>
     refers (Some \<circ> er_tenant_id) t (db_results d) \<or> refers (Some \<circ> m_tenant_id) t (db_mappings d) \<or>
     refers (Some \<circ> x_tenant_id) t (db_executions d) \<or> refers (Some \<circ> au_tenant_id) t (db_audit_logs d) \<or>
     refers rt_tenant_id t (db_report_templates d) \<or> refers (Some \<circ> rp_tenant_id) t (db_reports d)"

definition delete_tenant :: "uuid \<Rightarrow> unit service" where
  "delete_tenant tenant_id =
     bind (get_tenant tenant_id) (\<lambda>_.
     bind (select_rows users_e (\<lambda>i u. u_tenant_id u = tenant_id)) (\<lambda>us.
     bind (select_rows cases_e (\<lambda>i c. c_tenant_id c = tenant_id)) (\<lambda>cs.
     and_then (guard (us = [] \<and> cs = []) null_error)
     (bind (reads (\<lambda>d. tenant_referenced d tenant_id)) (\<lambda>used.
      and_then (guard (\<not> used) fk_error) (delete_row tenants_e tenant_id))))))"

section \<open>Invariants\<close>

lemma keeps_hash_at [keeps_intros]:
  "keeps (wf_at A) (hash_password lib pw)" "keeps (wf_at A) (generate_api_key lib)"
  "keeps (wf_at A) (username_free t n)"
  unfolding hash_password_def generate_api_key_def username_free_def by (intro keeps_intros)+

lemma user_service_at [keeps_intros]:
  "keeps (wf_at A) (list_users t l ofs b)" "keeps (wf_at A) (create_user lib t p)" "keeps (wf_at A) (update_user i data)"
  "keeps (wf_at A) (change_password lib i pc)" "keeps (wf_at A) (deactivate_user i)" "keeps (wf_at A) (activate_user i)"
  "keeps (wf_at A) (create_service_account lib t sa)" "keeps (wf_at A) (rotate_api_key lib i)"
  unfolding list_users_def create_user_def update_user_def change_password_def deactivate_user_def activate_user_def
    set_active_def create_service_account_def rotate_api_key_def save_user_def
  by (intro keeps_intros)+

lemma tenant_service_at [keeps_intros]:
  "keeps (wf_at A) (create_tenant p)" "keeps (wf_at A) (list_tenants l ofs)" "keeps (wf_at A) (update_tenant i data)"
  "keeps (wf_at A) (delete_tenant i)"
  unfolding create_tenant_def list_tenants_def update_tenant_def delete_tenant_def by (intro keeps_intros)+

end
