(* ===== verification/Audit_Log.thy ===== *)
theory Audit_Log
  imports Auth Python_Lib
begin

text \<open>
  The audit log (\<^verbatim>\<open>services/audit.py\<close>, \<^verbatim>\<open>schemas/audit.py\<close>): recording, listing, the right to change the log, and
  the middleware that records a mutating request after it was answered.
\<close>

record audit_filters =
  af_user_id :: "uuid option"
  af_action :: "string option"
  af_resource_type :: "string option"
  af_resource_id :: "uuid option"
  af_created_after :: "int option"
  af_created_before :: "int option"

definition record_audit ::
  "auth_context \<Rightarrow> string \<Rightarrow> string \<Rightarrow> uuid option \<Rightarrow> jobj \<Rightarrow> string option \<Rightarrow> string option \<Rightarrow> uuid service" where
  "record_audit auth action resource_type resource_id details source_ip user_agent =
     bind now_utc (\<lambda>now.
     insert_row audit_logs_e \<lparr>au_tenant_id = ac_tenant_id auth, au_user_id = ac_user_id auth, au_action = action,
       au_resource_type = resource_type, au_resource_id = resource_id, au_details = details, au_source_ip = source_ip,
       au_user_agent = user_agent, au_is_service_account = ac_is_service_account auth, au_created_at = now\<rparr>)"

text \<open>A filter that is absent, or an empty string, is not applied.\<close>

definition str_filter :: "string option \<Rightarrow> string \<Rightarrow> bool" where
  "str_filter f x = (case f of None \<Rightarrow> True | Some s \<Rightarrow> s = [] \<or> x = s)"

definition audit_matches :: "audit_filters \<Rightarrow> audit_row \<Rightarrow> bool" where
  "audit_matches f r \<longleftrightarrow> (case af_user_id f of None \<Rightarrow> True | Some u \<Rightarrow> au_user_id r = u) \<and>
     str_filter (af_action f) (au_action r) \<and> str_filter (af_resource_type f) (au_resource_type r) \<and>
     (case af_resource_id f of None \<Rightarrow> True | Some u \<Rightarrow> au_resource_id r = Some u) \<and>
     (case af_created_after f of None \<Rightarrow> True | Some t \<Rightarrow> t \<le> au_created_at r) \<and>
     (case af_created_before f of None \<Rightarrow> True | Some t \<Rightarrow> au_created_at r \<le> t)"

definition list_logs :: "uuid \<Rightarrow> audit_filters \<Rightarrow> nat \<Rightarrow> nat \<Rightarrow> (audit_row table \<times> nat) service" where
  "list_logs tenant_id filters limit offset =
     bind (select_rows audit_logs_e (\<lambda>i r. au_tenant_id r = tenant_id \<and> audit_matches filters r)) (\<lambda>rows.
     ret (page_of limit offset (sort_desc (\<lambda>r. au_created_at (snd r)) rows), length rows))"

definition deny_modification :: "role \<Rightarrow> bool" where
  "deny_modification user_role \<longleftrightarrow> user_role \<noteq> PLATFORM_ADMIN"

section \<open>The middleware\<close>

text \<open>\<^verbatim>\<open>s.strip(c)\<close> for one character.\<close>

definition strip_char :: "char \<Rightarrow> string \<Rightarrow> string" where
  "strip_char c s = rev (dropWhile (\<lambda>x. x = c) (rev (dropWhile (\<lambda>x. x = c) s)))"

definition resource_from_path :: "string \<Rightarrow> string" where
  "resource_from_path path =
     (let parts = filter (\<lambda>p. p \<noteq> [] \<and> \<not> py_startswith p ''{'') (split_on CHR ''/'' (strip_char CHR ''/'' path)) in
      if parts \<noteq> [] then last parts else ''unknown'')"

text \<open>What the middleware sees: the method, path, client and agent, the principal the dependencies left, the status of the answer.\<close>

record http_request =
  hr_method :: string
  hr_path :: string
  hr_client :: "string option"
  hr_user_agent :: "string option"

definition mutating_methods :: "string list" where
  "mutating_methods = [''POST'', ''PUT'', ''PATCH'', ''DELETE'']"

definition audit_dispatch :: "http_request \<Rightarrow> auth_context option \<Rightarrow> nat \<Rightarrow> unit service" where
  "audit_dispatch request auth status_code = (case auth of
     None \<Rightarrow> ret ()
   | Some a \<Rightarrow>
     if hr_method request \<in> set mutating_methods \<and> status_code < 500 then
       catch (get_db_unscoped (bind (record_audit a (hr_method request @ '' '' @ hr_path request) (resource_from_path (hr_path request))
           None [(''status_code'', JInt (int status_code)), (''path'', JStr (hr_path request))]
           (hr_client request) (hr_user_agent request)) (\<lambda>_. ret ())))
         (\<lambda>e. ret ())
     else ret ())"

section \<open>The log is append-only\<close>

lemma audit_service_at [keeps_intros]:
  "keeps (wf_at A) (record_audit a ac rt ri de ip ua)" "keeps (wf_at A) (list_logs t f l ofs)"
  unfolding record_audit_def list_logs_def by (intro keeps_intros)+

lemma audit_service_isolated [keeps_intros]:
  "keeps (isolated s d0) (record_audit a ac rt ri de ip ua)" "keeps (isolated s d0) (list_logs t f l ofs)"
  unfolding record_audit_def list_logs_def by (intro keeps_intros)+

text \<open>
  The middleware answers every request as the application did (it returns nothing of its own and lets no error
  out), and appends exactly one entry for a mutating request of an authenticated principal that did not fail with a
  server error: the principal, its tenant, the method and path, the status. For any other request, and when the entry
  cannot be written, the log is as it was. No other table changes.
\<close>

lemma audit_dispatch_appends:
  "\<exists>d'. audit_dispatch req auth status d = (Inr (), d') \<and>
     (db_audit_logs d' = db_audit_logs d \<or>
      (\<exists>a. auth = Some a \<and> hr_method req \<in> set mutating_methods \<and> status < 500 \<and>
        db_audit_logs d' = db_audit_logs d @ [(db_next_id d, \<lparr>au_tenant_id = ac_tenant_id a, au_user_id = ac_user_id a,
          au_action = hr_method req @ '' '' @ hr_path req, au_resource_type = resource_from_path (hr_path req), au_resource_id = None,
          au_details = [(''status_code'', JInt (int status)), (''path'', JStr (hr_path req))], au_source_ip = hr_client req,
          au_user_agent = hr_user_agent req, au_is_service_account = ac_is_service_account a, au_created_at = db_now d\<rparr>)])) \<and>
     d'\<lparr>db_audit_logs := db_audit_logs d, db_next_id := db_next_id d\<rparr> = d"
  by (auto simp: audit_dispatch_def get_db_unscoped_def record_audit_def rollback_def row_add_def insert_row_def svc_simps split: option.splits)

end
