(* ===== verification/Reports.thy ===== *)
theory Reports
  imports Storage
begin

text \<open>
  Reports (\<^verbatim>\<open>services/reports.py\<close>, \<^verbatim>\<open>schemas/reports.py\<close>): the template context built from a case, rendering,
  the generation and preview of a report, the templates.

  Jinja2 and python-docx are parameters: \<open>rl_render\<close> renders a template in a context (\<open>None\<close> for an exception of
  the engine), \<open>rl_docx\<close> makes a document of paragraphs. The values a template sees are those of \<open>py_value\<close>; a
  datetime is its time stamp.
\<close>

section \<open>Contexts\<close>

datatype py_value = PV_none | PV_bool bool | PV_int int | PV_str string | PV_time int | PV_json json
  | PV_list "py_value list" | PV_dict "(string \<times> py_value) list"

record report_lib =
  rl_render :: "string \<Rightarrow> (string \<times> py_value) list \<Rightarrow> string option"
  rl_docx :: "string list \<Rightarrow> string"

definition pv_str_opt :: "string option \<Rightarrow> py_value" where
  "pv_str_opt x = (case x of None \<Rightarrow> PV_none | Some s \<Rightarrow> PV_str s)"

definition pv_time_opt :: "int option \<Rightarrow> py_value" where
  "pv_time_opt x = (case x of None \<Rightarrow> PV_none | Some t \<Rightarrow> PV_time t)"

fun outcome_text :: "case_outcome \<Rightarrow> string" where
  "outcome_text OC_TRUE_POSITIVE = ''true_positive''"
| "outcome_text OC_FALSE_POSITIVE = ''false_positive''"
| "outcome_text OC_INDETERMINATE = ''indeterminate''"
| "outcome_text OC_NOT_APPLICABLE = ''not_applicable''"

fun report_format_str :: "report_format \<Rightarrow> string" where
  "report_format_str RF_DOCX = ''docx''"
| "report_format_str RF_MARKDOWN = ''markdown''"
| "report_format_str RF_HTML = ''html''"

definition ctx_case :: "uuid \<Rightarrow> case_row \<Rightarrow> py_value" where
  "ctx_case i c = PV_dict [(''id'', PV_str (uuid_str i)), (''case_number'', PV_int (c_case_number c)),
     (''title'', PV_str (c_title c)), (''description'', pv_str_opt (c_description c)),
     (''status'', PV_str (case_status_str (c_status c))), (''severity'', PV_str (case_severity_str (c_severity c))),
     (''outcome'', pv_str_opt (map_option outcome_text (c_outcome c))), (''tags'', PV_list (map PV_str (c_tags c))),
     (''created_at'', PV_time (c_created_at c)), (''resolved_at'', pv_time_opt (c_resolved_at c)),
     (''closed_at'', pv_time_opt (c_closed_at c))]"

definition ctx_observable :: "observable_row \<Rightarrow> py_value" where
  "ctx_observable ob = PV_dict [(''type'', PV_str (observable_type_str (o_type ob))), (''value'', PV_str (o_value ob)),
     (''tlp'', pv_str_opt (map_option tlp_str (o_tlp ob))), (''is_ioc'', PV_bool (o_is_ioc ob)),
     (''tags'', PV_list (map PV_str (o_tags ob))), (''description'', pv_str_opt (o_description ob))]"

definition ctx_asset :: "asset_row \<Rightarrow> py_value" where
  "ctx_asset a = PV_dict [(''name'', PV_str (a_name a)), (''type'', PV_str (asset_type_str (a_type a))),
     (''ip_address'', pv_str_opt (a_ip_address a)), (''domain'', pv_str_opt (a_domain a)),
     (''is_compromised'', PV_bool (a_is_compromised a)), (''description'', pv_str_opt (a_description a))]"

definition ctx_entry :: "timeline_row \<Rightarrow> py_value" where
  "ctx_entry e = PV_dict [(''event_timestamp'', PV_time (tl_event_timestamp e)), (''event_type'', PV_str (tl_event_type e)),
     (''category'', pv_str_opt (tl_category e)), (''description'', PV_str (tl_description e)),
     (''is_automatic'', PV_bool (tl_is_automatic e))]"

definition ctx_task :: "task_row \<Rightarrow> py_value" where
  "ctx_task t = PV_dict [(''title'', PV_str (k_title t)), (''status'', PV_str (task_status_str (k_status t))),
     (''description'', pv_str_opt (k_description t))]"

definition ctx_note :: "note_row \<Rightarrow> py_value" where
  "ctx_note n = PV_dict [(''title'', PV_str (n_title n)), (''content'', PV_str (n_content n)), (''updated_at'', PV_time (n_updated_at n))]"

definition ctx_evidence :: "evidence_row \<Rightarrow> py_value" where
  "ctx_evidence ev = PV_dict [(''filename'', PV_str (e_filename ev)), (''type'', PV_str (evidence_type_str (e_type ev))),
     (''sha256'', PV_str (e_file_hash_sha256 ev)), (''size'', PV_int (e_file_size ev)),
     (''integrity_verified'', case e_integrity_verified ev of None \<Rightarrow> PV_none | Some b \<Rightarrow> PV_bool b)]"

definition ctx_attack :: "mapping_row \<Rightarrow> py_value" where
  "ctx_attack m = PV_dict [(''tactic'', PV_str (m_tactic_id m)), (''technique'', PV_str (m_technique_id m)),
     (''sub_technique'', pv_str_opt (m_sub_technique_id m))]"

definition ctx_list :: "('r \<Rightarrow> py_value) \<Rightarrow> 'r table \<Rightarrow> py_value" where
  "ctx_list f rows = PV_list (map (f \<circ> snd) rows)"

definition by_time :: "timeline_row table \<Rightarrow> timeline_row table" where
  "by_time = sort_key (\<lambda>r. tl_event_timestamp (snd r))"

definition build_context :: "uuid \<Rightarrow> case_row \<Rightarrow> (string \<times> py_value) list service" where
  "build_context case_id c =
     bind (select_rows observables_e (\<lambda>i r. o_case_id r = case_id)) (\<lambda>observables.
     bind (select_rows assets_e (\<lambda>i r. a_case_id r = case_id)) (\<lambda>assets.
     bind (select_rows timeline_e (\<lambda>i r. tl_case_id r = case_id)) (\<lambda>timeline.
     bind (select_rows tasks_e (\<lambda>i r. k_case_id r = case_id)) (\<lambda>tasks.
     bind (select_rows notes_e (\<lambda>i r. n_case_id r = case_id)) (\<lambda>notes.
     bind (select_rows evidence_e (\<lambda>i r. e_case_id r = case_id)) (\<lambda>evidence.
     bind (select_rows mappings_e (\<lambda>i r. m_case_id r = Some case_id)) (\<lambda>attack.
     ret [(''case'', ctx_case case_id c), (''observables'', ctx_list ctx_observable observables),
       (''assets'', ctx_list ctx_asset assets), (''timeline'', ctx_list ctx_entry (by_time timeline)),
       (''tasks'', ctx_list ctx_task tasks), (''notes'', ctx_list ctx_note notes),
       (''evidence'', ctx_list ctx_evidence evidence), (''attack'', ctx_list ctx_attack attack)])))))))"

definition ctx_audit :: "audit_row \<Rightarrow> py_value" where
  "ctx_audit e = PV_dict [(''created_at'', PV_time (au_created_at e)), (''action'', PV_str (au_action e)),
     (''resource_type'', PV_str (au_resource_type e)), (''user_id'', PV_str (uuid_str (au_user_id e))),
     (''details'', PV_json (JObj (au_details e)))]"

definition ctx_activity :: "timeline_row \<Rightarrow> py_value" where
  "ctx_activity e = PV_dict [(''event_timestamp'', PV_time (tl_event_timestamp e)), (''event_type'', PV_str (tl_event_type e)),
     (''description'', PV_str (tl_description e)), (''actor_id'', pv_str_opt (map_option uuid_str (tl_actor_id e)))]"

definition build_activity_context :: "uuid \<Rightarrow> case_row \<Rightarrow> (string \<times> py_value) list service" where
  "build_activity_context case_id c =
     bind (select_rows audit_logs_e (\<lambda>i r. au_tenant_id r = c_tenant_id c \<and> au_resource_id r = Some case_id)) (\<lambda>audit.
     bind (select_rows timeline_e (\<lambda>i r. tl_case_id r = case_id)) (\<lambda>timeline.
     ret [(''case'', PV_dict [(''title'', PV_str (c_title c)), (''case_number'', PV_int (c_case_number c))]),
       (''audit_entries'', ctx_list ctx_audit (sort_key (\<lambda>r. au_created_at (snd r)) audit)),
       (''timeline_entries'', ctx_list ctx_activity (by_time timeline))]))"

section \<open>Rendering\<close>

definition render_markdown :: "report_lib \<Rightarrow> string \<Rightarrow> (string \<times> py_value) list \<Rightarrow> string service" where
  "render_markdown lib content context = (case rl_render lib content context of
     None \<Rightarrow> raise (OtherError ''TemplateError'') | Some s \<Rightarrow> ret s)"

definition render_html :: "report_lib \<Rightarrow> string \<Rightarrow> (string \<times> py_value) list \<Rightarrow> string service" where
  "render_html = render_markdown"

text \<open>\<^verbatim>\<open>rendered.split("\n\n")\<close>.\<close>

fun paragraphs_of :: "string \<Rightarrow> string list" where
  "paragraphs_of (a # b # cs) = (if a = CHR 0x0A \<and> b = CHR 0x0A then [] # paragraphs_of cs
     else (case paragraphs_of (b # cs) of p # ps \<Rightarrow> (a # p) # ps | [] \<Rightarrow> [[a]]))"
| "paragraphs_of s = [s]"

definition render_docx :: "report_lib \<Rightarrow> string \<Rightarrow> (string \<times> py_value) list \<Rightarrow> string service" where
  "render_docx lib content context = bind (render_markdown lib content context) (\<lambda>s. ret (rl_docx lib (paragraphs_of s)))"

section \<open>Operations\<close>

abbreviation report_case :: "uuid \<Rightarrow> case_row service" where
  "report_case \<equiv> get_or_404 cases_e (\<lambda>i. ''Case not found'')"

abbreviation report_template :: "uuid \<Rightarrow> report_template_row service" where
  "report_template \<equiv> get_or_404 report_templates_e (\<lambda>i. ''Report template not found'')"

definition report_context :: "uuid \<Rightarrow> case_row \<Rightarrow> report_template_row \<Rightarrow> (string \<times> py_value) list service" where
  "report_context case_id c t = (if rt_type t = RT_INVESTIGATION then build_context case_id c else build_activity_context case_id c)"

definition generate_report ::
  "env \<Rightarrow> vault \<Rightarrow> report_lib \<Rightarrow> uuid \<Rightarrow> uuid \<Rightarrow> string option \<Rightarrow> uuid option \<Rightarrow> uuid service" where
  "generate_report env v lib case_id template_id format_override generated_by =
     bind (report_case case_id) (\<lambda>c.
     bind (report_template template_id) (\<lambda>t.
     bind (report_context case_id c t) (\<lambda>context.
     let chosen = str_or format_override (report_format_str (rt_format t)) in
     bind (if chosen = ''markdown'' then bind (render_markdown lib (rt_template_content t) context) (\<lambda>s. ret (utf8 s))
       else if chosen = ''html'' then bind (render_html lib (rt_template_content t) context) (\<lambda>s. ret (utf8 s))
       else if chosen = ''docx'' then render_docx lib (rt_template_content t) context
       else raise (HTTPException 400 (''Unsupported report format: '' @ chosen))) (\<lambda>rendered.
     bind new_uuid (\<lambda>u.
     let storage_key = ''reports/'' @ uuid_str (c_tenant_id c) @ ''/'' @ uuid_str case_id @ ''/'' @ uuid_str u @ ''.'' @ chosen in
     and_then (upload_bytes v storage_key rendered)
     (bind now_utc (\<lambda>now.
      bind (insert_row reports_e \<lparr>rp_tenant_id = c_tenant_id c, rp_case_id = case_id, rp_template_id = template_id,
        rp_format = chosen, rp_storage_path = Some storage_key,
        rp_generated_by = (case generated_by of Some g \<Rightarrow> g | None \<Rightarrow> c_created_by c), rp_generated_at = now\<rparr>) (\<lambda>report_id.
      bind (record_event env (c_tenant_id c) case_id ''report_generated''
         (''Report generated ('' @ chosen @ ''): '' @ rt_name t) (Some ''report'') generated_by
         [(''report_id'', JId report_id), (''template_id'', JId template_id)] None) (\<lambda>_.
      ret report_id)))))))))"

definition preview_report :: "report_lib \<Rightarrow> uuid \<Rightarrow> uuid \<Rightarrow> string service" where
  "preview_report lib case_id template_id =
     bind (report_case case_id) (\<lambda>c.
     bind (report_template template_id) (\<lambda>t.
     bind (report_context case_id c t) (\<lambda>context.
     render_markdown lib (rt_template_content t) context)))"

definition list_report_templates :: "uuid \<Rightarrow> report_template_row table service" where
  "list_report_templates tenant_id = select_rows report_templates_e (\<lambda>i t. rt_tenant_id t = Some tenant_id \<or> rt_tenant_id t = None)"

record report_template_create =
  rtc_name :: string
  rtc_type :: report_type
  rtc_format :: report_format
  rtc_template_content :: string
  rtc_tag_schema :: "jobj list"

definition create_report_template :: "uuid \<Rightarrow> report_template_create \<Rightarrow> uuid \<Rightarrow> uuid service" where
  "create_report_template tenant_id payload created_by =
     bind now_utc (\<lambda>now.
     insert_row report_templates_e \<lparr>rt_tenant_id = Some tenant_id, rt_name = rtc_name payload, rt_type = rtc_type payload,
       rt_format = rtc_format payload, rt_template_content = rtc_template_content payload,
       rt_tag_schema = JList (map JObj (rtc_tag_schema payload)), rt_created_by = created_by, rt_created_at = now, rt_updated_at = now\<rparr>)"

section \<open>Invariants\<close>

lemma report_context_keeps [keeps_intros]: "keeps I (report_context i c t)"
  unfolding report_context_def build_context_def build_activity_context_def by (intro keeps_intros)

lemma report_context_reads: "report_context i c t d = (Inr ctx, d') \<Longrightarrow> d' = d"
  using keepsD [OF report_context_keeps [of "\<lambda>x. x = d" i c t], of d] by simp

lemma render_keeps [keeps_intros]:
  "keeps I (render_markdown lib s ctx)" "keeps I (render_html lib s ctx)" "keeps I (render_docx lib s ctx)"
  unfolding render_html_def render_docx_def render_markdown_def by (intro keeps_intros)+

lemma report_service_at [keeps_intros]:
  "keeps (wf_at A) (generate_report env v lib i t f g)" "keeps (wf_at A) (preview_report lib i t)"
  "keeps (wf_at A) (list_report_templates ten)" "keeps (wf_at A) (create_report_template ten p u)"
  unfolding generate_report_def preview_report_def list_report_templates_def create_report_template_def Let_def
  by (rule get_case_at | intro keeps_intros; simp)+

lemma report_service_isolated [keeps_intros]:
  "keeps (isolated s d0) (generate_report env v lib i t f g)" "keeps (isolated s d0) (preview_report lib i t)"
  "keeps (isolated s d0) (list_report_templates ten)" "keeps (isolated s d0) (create_report_template ten p u)"
  unfolding generate_report_def preview_report_def list_report_templates_def create_report_template_def Let_def
  by (intro keeps_intros)+

end
