(* ===== verification/Dashboard.thy ===== *)
theory Dashboard
  imports Auth Cases
begin

text \<open>
  The dashboard (\<^verbatim>\<open>services/dashboard.py\<close>, \<^verbatim>\<open>schemas/dashboard.py\<close>): the metrics of a tenant and their cache in
  Redis.

  The text form of a response (\<^verbatim>\<open>model_dump_json\<close>, \<^verbatim>\<open>model_validate_json\<close>) is a parameter, a pair of functions of
  which \<open>metrics_json\<close> says that reading gives back what was written. The mean time is the fraction
  numerator and denominator; its rounding to a floating-point number is not modelled. Groups come in the order in which their first row does.
\<close>

record dashboard_filters =
  df_created_after :: "int option"
  df_created_before :: "int option"

definition fingerprint :: "dashboard_filters \<Rightarrow> string" where
  "fingerprint f = (case df_created_after f of None \<Rightarrow> ''none'' | Some t \<Rightarrow> isoformat t) @ '':'' @
     (case df_created_before f of None \<Rightarrow> ''none'' | Some t \<Rightarrow> isoformat t)"

record workload_point =
  wp_analyst_id :: string
  wp_analyst_name :: string
  wp_open_cases :: nat
  wp_resolved_cases_7d :: nat

record metrics =
  dm_open_by_severity :: "(case_severity \<times> nat) list"
  dm_by_status :: "(case_status \<times> nat) list"
  dm_by_outcome :: "(case_outcome \<times> nat) list"
  dm_mttr_hours :: "(int \<times> int) option"
  dm_created_over_time :: "(int \<times> nat) list"
  dm_workload :: "workload_point list"

record metrics_codec =
  mc_dump :: "metrics \<Rightarrow> string"
  mc_load :: "string \<Rightarrow> metrics option"

definition metrics_json :: "metrics_codec \<Rightarrow> bool" where
  "metrics_json codec \<longleftrightarrow> (\<forall>m. mc_load codec (mc_dump codec m) = Some m \<and> mc_dump codec m \<noteq> [])"

section \<open>Aggregates\<close>

text \<open>\<^verbatim>\<open>SELECT k, count(id) ... GROUP BY k\<close>.\<close>

definition group_count :: "'k list \<Rightarrow> ('k \<times> nat) list" where
  "group_count ks = map (\<lambda>k. (k, count_list ks k)) (remdups ks)"

definition is_open :: "case_row \<Rightarrow> bool" where
  "is_open c \<longleftrightarrow> c_status c \<in> {CS_NEW, CS_IN_PROGRESS, CS_PENDING}"

definition in_window :: "dashboard_filters \<Rightarrow> case_row \<Rightarrow> bool" where
  "in_window f c \<longleftrightarrow> (case df_created_after f of None \<Rightarrow> True | Some t \<Rightarrow> t \<le> c_created_at c) \<and>
     (case df_created_before f of None \<Rightarrow> True | Some t \<Rightarrow> c_created_at c \<le> t)"

definition day_of :: "int \<Rightarrow> int" where
  "day_of t = t div 86400000000 * 86400000000"

text \<open>\<^verbatim>\<open>avg(extract(epoch from resolved_at - created_at))\<close>, in hours.\<close>

definition mean_hours :: "case_row list \<Rightarrow> (int \<times> int) option" where
  "mean_hours cs = (let ds = List.map_filter (\<lambda>c. map_option (\<lambda>r. r - c_created_at c) (c_resolved_at c)) cs in
     if ds = [] then None else Some (sum_list ds, int (length ds) * 3600 * 1000000))"

definition workload :: "int \<Rightarrow> case_row list \<Rightarrow> user_row table \<Rightarrow> workload_point list" where
  "workload now cs us = map (\<lambda>(uid, u). let mine = filter (\<lambda>c. c_assignee_id c = Some uid) cs in
     \<lparr>wp_analyst_id = uuid_str uid, wp_analyst_name = u_display_name u, wp_open_cases = length (filter is_open mine),
      wp_resolved_cases_7d = length (filter (\<lambda>c. case c_resolved_at c of None \<Rightarrow> False | Some t \<Rightarrow> now - 7 * 86400000000 \<le> t) mine)\<rparr>) us"

text \<open>The six queries. The workload joins every case assigned to the user, whatever its age.\<close>

definition fresh_metrics :: "uuid \<Rightarrow> dashboard_filters \<Rightarrow> metrics service" where
  "fresh_metrics tenant_id f =
     bind (select_rows cases_e (\<lambda>i c. c_tenant_id c = tenant_id \<and> in_window f c)) (\<lambda>rows.
     bind (select_rows cases_e (\<lambda>i c. True)) (\<lambda>joined.
     bind (select_rows users_e (\<lambda>i u. u_tenant_id u = tenant_id \<and> u_is_active u)) (\<lambda>us.
     bind now_utc (\<lambda>now.
     let cs = map snd rows in
     ret \<lparr>dm_open_by_severity = group_count (map c_severity (filter is_open cs)),
       dm_by_status = group_count (map c_status cs),
       dm_by_outcome = group_count (List.map_filter c_outcome cs),
       dm_mttr_hours = mean_hours cs,
       dm_created_over_time = sort_key fst (group_count (map (day_of \<circ> c_created_at) cs)),
       dm_workload = workload now (map snd joined) us\<rparr>))))"

section \<open>The cache\<close>

definition cache_key :: "uuid \<Rightarrow> dashboard_filters \<Rightarrow> string" where
  "cache_key tenant_id f = ''dashboard:'' @ uuid_str tenant_id @ '':'' @ fingerprint f"

text \<open>The lookup: a miss, an error of Redis and an unreadable value all fall through.\<close>

definition cached_metrics :: "env \<Rightarrow> metrics_codec \<Rightarrow> string \<Rightarrow> metrics option service" where
  "cached_metrics env codec key =
     catch (bind (redis_get env key) (\<lambda>cached. case cached of
         None \<Rightarrow> ret None
       | Some s \<Rightarrow> if s = [] then ret None
           else (case mc_load codec s of None \<Rightarrow> raise ValidationError | Some m \<Rightarrow> ret (Some m))))
       (\<lambda>e. ret None)"

definition compute_metrics :: "env \<Rightarrow> metrics_codec \<Rightarrow> uuid \<Rightarrow> dashboard_filters \<Rightarrow> metrics service" where
  "compute_metrics env codec tenant_id f =
     (let key = cache_key tenant_id f in
      bind (cached_metrics env codec key) (\<lambda>cached. case cached of
        Some m \<Rightarrow> ret m
      | None \<Rightarrow>
        bind (fresh_metrics tenant_id f) (\<lambda>m.
        and_then (catch (redis_set env key (mc_dump codec m) 60) (\<lambda>e. ret ()))
        (ret m))))"

section \<open>What the dashboard shows\<close>

lemma group_count_total: "sum_list (map snd (group_count ks)) = length ks"
proof -
  have "sum_list (map snd (group_count ks)) = (\<Sum>k \<leftarrow> remdups ks. count_list ks k)"
    by (simp add: group_count_def comp_def)
  also have "\<dots> = (\<Sum>k \<in> set ks. count_list ks k)"
    by (subst sum_list_distinct_conv_sum_set) simp_all
  also have "\<dots> = length ks"
    by (simp add: sum_count_set)
  finally show ?thesis .
qed

lemma group_count_entry: "(k, n) \<in> set (group_count ks) \<longleftrightarrow> k \<in> set ks \<and> n = count_list ks k"
  by (auto simp: group_count_def)

lemma fresh_metrics_apply:
  "\<exists>m. fresh_metrics t f d = (Inr m, d) \<and>
     dm_by_status m = group_count (map (c_status \<circ> snd) (rows_where (\<lambda>i c. rls_standard (db_session d) (c_tenant_id c) \<and> c_tenant_id c = t \<and> in_window f c) (db_cases d))) \<and>
     dm_open_by_severity m = group_count (map c_severity (filter is_open (map snd (rows_where (\<lambda>i c. rls_standard (db_session d) (c_tenant_id c) \<and> c_tenant_id c = t \<and> in_window f c) (db_cases d)))))"
  by (simp add: fresh_metrics_def svc_simps Let_def)

lemma compute_metrics_apply:
  assumes "metrics_json codec" and "env_redis env"
  shows "compute_metrics env codec t f d = (case redis_live d (cache_key t f) of
       Some s \<Rightarrow> if s \<noteq> [] \<and> mc_load codec s \<noteq> None then (Inr (the (mc_load codec s)), d)
         else (case fresh_metrics t f d of (Inl e, d') \<Rightarrow> (Inl e, d')
           | (Inr m, d') \<Rightarrow> (Inr m, d'\<lparr>db_redis := AList.update (cache_key t f) (mc_dump codec m, db_now d' + 60000000) (db_redis d')\<rparr>))
     | None \<Rightarrow> (case fresh_metrics t f d of (Inl e, d') \<Rightarrow> (Inl e, d')
           | (Inr m, d') \<Rightarrow> (Inr m, d'\<lparr>db_redis := AList.update (cache_key t f) (mc_dump codec m, db_now d' + 60000000) (db_redis d')\<rparr>)))"
  using assms by (auto simp: compute_metrics_def cached_metrics_def redis_get_def redis_set_def redis_up_def svc_simps Let_def
      split: option.splits prod.splits sum.splits)

text \<open>
  C34: the dashboard and its cache. On a miss the answer is that of the current state: it counts every case of the
  tenant in the window exactly once by status, and every open one once by severity. For the next minute every request
  for the same tenant and window gets this answer, whatever has changed in the tables since; after that the answer is
  computed again.
\<close>

theorem dashboard_cached_a_minute:
  assumes "metrics_json codec" and "env_redis env" and "redis_live d (cache_key t f) = None"
    and "compute_metrics env codec t f d = (r, d1)"
    and "map_of (db_redis d2) (cache_key t f) = map_of (db_redis d1) (cache_key t f)"
  shows "\<exists>m. r = Inr m \<and> fresh_metrics t f d = (Inr m, d) \<and>
    (let cs = filter (\<lambda>c. rls_standard (db_session d) (c_tenant_id c) \<and> c_tenant_id c = t \<and> in_window f c) (map snd (db_cases d)) in
      sum_list (map snd (dm_by_status m)) = length cs \<and> sum_list (map snd (dm_open_by_severity m)) = length (filter is_open cs)) \<and>
    fst (compute_metrics env codec t f d2) =
      (if db_now d2 < db_now d + 60000000 then Inr m else fst (fresh_metrics t f d2))"
proof -
  let ?rows = "rows_where (\<lambda>i c. rls_standard (db_session d) (c_tenant_id c) \<and> c_tenant_id c = t \<and> in_window f c) (db_cases d)"
  let ?cs = "filter (\<lambda>c. rls_standard (db_session d) (c_tenant_id c) \<and> c_tenant_id c = t \<and> in_window f c) (map snd (db_cases d))"
  obtain m where fm: "fresh_metrics t f d = (Inr m, d)" and st: "dm_by_status m = group_count (map (c_status \<circ> snd) ?rows)"
    and sev: "dm_open_by_severity m = group_count (map c_severity (filter is_open (map snd ?rows)))"
    using fresh_metrics_apply [of t f d] by blast
  have cs: "map snd ?rows = ?cs"
    by (simp add: rows_where_def filter_map comp_def case_prod_unfold)
  have r: "r = Inr m" and d1: "map_of (db_redis d1) (cache_key t f) = Some (mc_dump codec m, db_now d + 60000000)"
    using assms(3,4) fm by (auto simp: compute_metrics_apply [OF assms(1,2)] update_conv')
  have dump: "mc_load codec (mc_dump codec m) = Some m" "mc_dump codec m \<noteq> []"
    using assms(1) by (simp_all add: metrics_json_def)
  have "fst (compute_metrics env codec t f d2) =
      (if db_now d2 < db_now d + 60000000 then Inr m else fst (fresh_metrics t f d2))"
    using d1 dump assms(5)
    by (simp add: compute_metrics_apply [OF assms(1,2)] redis_live_def split: prod.splits sum.splits)
  moreover have "sum_list (map snd (dm_by_status m)) = length ?cs"
    "sum_list (map snd (dm_open_by_severity m)) = length (filter is_open ?cs)"
    by (simp_all add: st sev group_count_total flip: cs)
  ultimately show ?thesis
    using r fm by (simp only: Let_def) blast
qed

text \<open>A codec that meets \<open>metrics_json\<close>: a response is its fields, numbered.\<close>

instance case_status :: countable
  by countable_datatype

instance case_severity :: countable
  by countable_datatype

instance case_outcome :: countable
  by countable_datatype

definition point_fields :: "workload_point \<Rightarrow> string \<times> string \<times> nat \<times> nat" where
  "point_fields p = (wp_analyst_id p, wp_analyst_name p, wp_open_cases p, wp_resolved_cases_7d p)"

definition fields_point :: "string \<times> string \<times> nat \<times> nat \<Rightarrow> workload_point" where
  "fields_point = (\<lambda>(i, n, a, b). \<lparr>wp_analyst_id = i, wp_analyst_name = n, wp_open_cases = a, wp_resolved_cases_7d = b\<rparr>)"

definition demo_codec :: metrics_codec where
  "demo_codec = \<lparr>mc_dump = (\<lambda>m. replicate (Suc (to_nat (dm_open_by_severity m, dm_by_status m, dm_by_outcome m, dm_mttr_hours m,
       dm_created_over_time m, map point_fields (dm_workload m)))) CHR ''.''),
     mc_load = (\<lambda>s. case from_nat (length s - 1) of (a, b, c, e, f, g) \<Rightarrow>
       Some \<lparr>dm_open_by_severity = a, dm_by_status = b, dm_by_outcome = c, dm_mttr_hours = e, dm_created_over_time = f,
         dm_workload = map fields_point g\<rparr>)\<rparr>"

lemma demo_codec_ok: "metrics_json demo_codec"
proof -
  have "fields_point (point_fields p) = p" for p
    by (simp add: fields_point_def point_fields_def)
  then show ?thesis
    by (simp add: metrics_json_def demo_codec_def comp_def)
qed

lemma dashboard_cached_a_minute_witness:
  "\<exists>m d1. compute_metrics demo_env demo_codec 1 \<lparr>df_created_after = None, df_created_before = None\<rparr> demo_db = (Inr m, d1) \<and>
     sum_list (map snd (dm_by_status m)) = 2 \<and>
     fst (compute_metrics demo_env demo_codec 1 \<lparr>df_created_after = None, df_created_before = None\<rparr> (d1\<lparr>db_cases := []\<rparr>)) = Inr m"
proof -
  let ?f = "\<lparr>df_created_after = None, df_created_before = None\<rparr>"
  obtain r d1 where run: "compute_metrics demo_env demo_codec 1 ?f demo_db = (r, d1)"
    by (cases "compute_metrics demo_env demo_codec 1 ?f demo_db")
  have up: "env_redis demo_env" and miss: "redis_live demo_db (cache_key 1 ?f) = None"
    by (simp_all add: redis_live_def demo_defs)
  have fresh: "fresh_metrics 1 ?f demo_db = (Inr m, demo_db) \<Longrightarrow> db_now d1 = db_now demo_db" for m
    using run miss by (auto simp: compute_metrics_apply [OF demo_codec_ok up])
  show ?thesis
    using dashboard_cached_a_minute [OF demo_codec_ok up miss run, of "d1\<lparr>db_cases := []\<rparr>"] run fresh
    by (auto simp: Let_def in_window_def demo_db_def empty_db_def demo_case_def)
qed

end
