(* ===== verification/Search.thy ===== *)
theory Search
  imports Cases Ocsf "HOL-Library.List_Lexorder" "HOL-Library.Product_Lexorder" "HOL-Library.Char_ord"
begin

text \<open>
  Search over a tenant (\<^verbatim>\<open>services/search.py\<close>, \<^verbatim>\<open>schemas/search.py\<close>). A score is counted in halves (2 for 1.0, 1 for
  0.5). The rows of a query without \<^verbatim>\<open>ORDER BY\<close> come in the order of the table.
\<close>

datatype search_entity_type = SE_CASE | SE_OBSERVABLE | SE_ASSET | SE_NOTE | SE_ALERT

record search_request =
  sq_query :: string
  sq_entity_types :: "search_entity_type list"
  sq_limit :: nat

definition search_request_valid :: "search_request \<Rightarrow> bool" where
  "search_request_valid q \<longleftrightarrow> 1 \<le> length (sq_query q) \<and> length (sq_query q) \<le> 500 \<and> 1 \<le> sq_limit q \<and> sq_limit q \<le> 500"

record search_hit =
  sh_entity_type :: search_entity_type
  sh_entity_id :: uuid
  sh_case_id :: "uuid option"
  sh_title :: string
  sh_snippet :: string
  sh_extra :: jobj
  sh_score :: nat

record search_response =
  sp_query :: string
  sp_total_hits :: nat
  sp_hits :: "search_hit list"

definition ilike_opt :: "string \<Rightarrow> string option \<Rightarrow> bool" where
  "ilike_opt pattern x = (case x of None \<Rightarrow> False | Some s \<Rightarrow> ilike pattern s)"

definition title_score :: "string \<Rightarrow> string \<Rightarrow> nat" where
  "title_score query title = (if py_contains (py_lower title) (py_lower query) then 2 else 1)"

text \<open>\<^verbatim>\<open>s.find(t)\<close>: the first position, if any.\<close>

fun py_find :: "string \<Rightarrow> string \<Rightarrow> nat option" where
  "py_find [] q = (if q = [] then Some 0 else None)"
| "py_find (c # cs) q = (if py_startswith (c # cs) q then Some 0 else map_option Suc (py_find cs q))"

definition case_hit :: "string \<Rightarrow> uuid \<times> case_row \<Rightarrow> search_hit" where
  "case_hit query = (\<lambda>(i, c). \<lparr>sh_entity_type = SE_CASE, sh_entity_id = i, sh_case_id = Some i, sh_title = c_title c,
     sh_snippet = take 200 (str_or (c_description c) (c_title c)),
     sh_extra = [(''case_number'', JInt (c_case_number c)), (''severity'', JStr (case_severity_str (c_severity c))),
       (''status'', JStr (case_status_str (c_status c)))], sh_score = title_score query (c_title c)\<rparr>)"

definition observable_hit :: "string \<Rightarrow> uuid \<times> observable_row \<Rightarrow> search_hit" where
  "observable_hit query = (\<lambda>(i, ob). \<lparr>sh_entity_type = SE_OBSERVABLE, sh_entity_id = i, sh_case_id = Some (o_case_id ob),
     sh_title = o_value ob, sh_snippet = observable_type_str (o_type ob) @ '': '' @ o_value ob,
     sh_extra = [(''type'', JStr (observable_type_str (o_type ob))),
       (''tlp'', case o_tlp ob of None \<Rightarrow> JNull | Some t \<Rightarrow> JStr (tlp_str t)), (''is_ioc'', JBool (o_is_ioc ob))],
     sh_score = title_score query (o_value ob)\<rparr>)"

definition asset_hit :: "uuid \<times> asset_row \<Rightarrow> search_hit" where
  "asset_hit = (\<lambda>(i, a). \<lparr>sh_entity_type = SE_ASSET, sh_entity_id = i, sh_case_id = Some (a_case_id a), sh_title = a_name a,
     sh_snippet = asset_type_str (a_type a) @ '': '' @ a_name a,
     sh_extra = [(''type'', JStr (asset_type_str (a_type a))), (''is_compromised'', JBool (a_is_compromised a))], sh_score = 2\<rparr>)"

text \<open>The snippet of a note: from 40 characters before the query to 160 after its start, or the first 200.\<close>

definition note_snippet :: "string \<Rightarrow> string \<Rightarrow> string" where
  "note_snippet query content = (case py_find (py_lower content) (py_lower query) of
     None \<Rightarrow> take 200 content
   | Some idx \<Rightarrow> take (min (length content) (idx + 160) - (idx - 40)) (drop (idx - 40) content))"

definition note_hit :: "string \<Rightarrow> uuid \<times> note_row \<Rightarrow> search_hit" where
  "note_hit query = (\<lambda>(i, n). \<lparr>sh_entity_type = SE_NOTE, sh_entity_id = i, sh_case_id = Some (n_case_id n), sh_title = n_title n,
     sh_snippet = note_snippet query (n_content n), sh_extra = [], sh_score = 2\<rparr>)"

fun alert_state_text :: "alert_status \<Rightarrow> string" where
  "alert_state_text AS_PENDING = ''pending''"
| "alert_state_text AS_PROMOTED = ''promoted''"
| "alert_state_text AS_DISMISSED = ''dismissed''"

definition alert_hit :: "uuid \<times> alert_row \<Rightarrow> search_hit" where
  "alert_hit = (\<lambda>(i, a). \<lparr>sh_entity_type = SE_ALERT, sh_entity_id = i, sh_case_id = al_promoted_to_case_id a, sh_title = al_title a,
     sh_snippet = take 200 (str_or (al_message a) (al_title a)),
     sh_extra = [(''source_product'', JStr (al_source_product a)), (''severity_id'', JInt (al_severity_id a)),
       (''severity'', JStr (ocsf_severity_caption (al_severity_id a))), (''status'', JStr (alert_state_text (al_status a)))],
     sh_score = 2\<rparr>)"

text \<open>One entity type: the matching rows, at most \<open>limit\<close>, as hits.\<close>

definition search_in :: "'r entity \<Rightarrow> search_entity_type \<Rightarrow> search_request \<Rightarrow> ('r \<Rightarrow> bool) \<Rightarrow> (uuid \<times> 'r \<Rightarrow> search_hit) \<Rightarrow> search_hit list service" where
  "search_in E ty q P hit = (if ty \<in> set (sq_entity_types q)
     then bind (select_rows E (\<lambda>i r. P r)) (\<lambda>rows. ret (map hit (take (sq_limit q) rows)))
     else ret [])"

definition hit_key :: "search_hit \<Rightarrow> int \<times> string" where
  "hit_key h = (- int (sh_score h), py_lower (sh_title h))"

definition search :: "uuid \<Rightarrow> search_request \<Rightarrow> search_response service" where
  "search tenant_id q =
     (let pattern = ''%'' @ py_strip (sq_query q) @ ''%'' in
      bind (search_in cases_e SE_CASE q
        (\<lambda>c. c_tenant_id c = tenant_id \<and> (ilike pattern (c_title c) \<or> ilike_opt pattern (c_description c))) (case_hit (sq_query q))) (\<lambda>h1.
      bind (search_in observables_e SE_OBSERVABLE q
        (\<lambda>ob. o_tenant_id ob = tenant_id \<and> ilike pattern (o_value ob)) (observable_hit (sq_query q))) (\<lambda>h2.
      bind (search_in assets_e SE_ASSET q
        (\<lambda>a. a_tenant_id a = tenant_id \<and> (ilike pattern (a_name a) \<or> ilike_opt pattern (a_ip_address a) \<or> ilike_opt pattern (a_domain a)))
        asset_hit) (\<lambda>h3.
      bind (search_in notes_e SE_NOTE q
        (\<lambda>n. n_tenant_id n = tenant_id \<and> (ilike pattern (n_title n) \<or> ilike pattern (n_content n))) (note_hit (sq_query q))) (\<lambda>h4.
      bind (search_in alerts_e SE_ALERT q
        (\<lambda>a. al_tenant_id a = tenant_id \<and> (ilike pattern (al_title a) \<or> ilike_opt pattern (al_message a))) alert_hit) (\<lambda>h5.
      let hits = take (sq_limit q) (sort_key hit_key (h1 @ h2 @ h3 @ h4 @ h5)) in
      ret \<lparr>sp_query = sq_query q, sp_total_hits = length hits, sp_hits = hits\<rparr>))))))"

definition opt_is :: "string option \<Rightarrow> string option \<Rightarrow> bool" where
  "opt_is wanted field = (str_or wanted [] = [] \<or> str_or field [] = [] \<or> wanted = field)"

definition filter_match :: "string \<Rightarrow> string option \<Rightarrow> string option \<Rightarrow> string option \<Rightarrow> string option \<Rightarrow> string option \<Rightarrow> bool" where
  "filter_match value query status severity status_field severity_field =
     (if str_or query [] \<noteq> [] \<and> \<not> py_contains (py_lower value) (py_lower (str_or query [])) then False
      else if \<not> opt_is status status_field then False
      else if \<not> opt_is severity severity_field then False
      else True)"

section \<open>Bounds and order of the answer\<close>

lemma search_in_apply [svc_simps]:
  "search_in E ty q P hit d = (Inr (if ty \<in> set (sq_entity_types q)
     then map hit (take (sq_limit q) (rows_where (\<lambda>i r. ent_vis E (db_session d) r \<and> P r) (ent_sel E d))) else []), d)"
  by (simp add: search_in_def svc_simps)

text \<open>A hit names a row of the tenant that the session sees, of the type it says.\<close>

definition hit_visible :: "db \<Rightarrow> uuid \<Rightarrow> search_hit \<Rightarrow> bool" where
  "hit_visible d t h = (case sh_entity_type h of
       SE_CASE \<Rightarrow> \<exists>c. (sh_entity_id h, c) \<in> set (db_cases d) \<and> c_tenant_id c = t \<and> rls_standard (db_session d) t
     | SE_OBSERVABLE \<Rightarrow> \<exists>ob. (sh_entity_id h, ob) \<in> set (db_observables d) \<and> o_tenant_id ob = t \<and> rls_standard (db_session d) t
     | SE_ASSET \<Rightarrow> \<exists>a. (sh_entity_id h, a) \<in> set (db_assets d) \<and> a_tenant_id a = t \<and> rls_standard (db_session d) t
     | SE_NOTE \<Rightarrow> \<exists>n. (sh_entity_id h, n) \<in> set (db_notes d) \<and> n_tenant_id n = t \<and> rls_standard (db_session d) t
     | SE_ALERT \<Rightarrow> \<exists>a. (sh_entity_id h, a) \<in> set (db_alerts d) \<and> al_tenant_id a = t \<and> rls_standard (db_session d) t)"

lemma list_all_hits:
  assumes "\<And>i r. b \<Longrightarrow> (i, r) \<in> set (ent_sel E d) \<Longrightarrow> ent_vis E (db_session d) r \<Longrightarrow> P r \<Longrightarrow> Q (hit (i, r))"
  shows "list_all Q (if b then map hit (take n (rows_where (\<lambda>i r. ent_vis E (db_session d) r \<and> P r) (ent_sel E d))) else [])"
  using assms by (auto simp: list_all_iff rows_where_def dest!: in_set_takeD)

lemma list_all_sort_key: "list_all P (sort_key f xs) = list_all P xs"
  by (simp add: list_all_iff)

lemma list_all_take: "list_all P xs \<Longrightarrow> list_all P (take n xs)"
  by (auto simp: list_all_iff dest: in_set_takeD)

text \<open>
  C35: the bounds of an answer. A search never fails and changes nothing. It returns at most \<open>limit\<close> hits and says how
  many, best first (the higher score, then the title without case), and each is of a requested type and names a row
  of the tenant that the session may see.
\<close>

theorem search_bounds:
  "\<exists>resp. search t q d = (Inr resp, d) \<and> sp_total_hits resp = length (sp_hits resp) \<and> length (sp_hits resp) \<le> sq_limit q \<and>
     sorted (map hit_key (sp_hits resp)) \<and>
     list_all (\<lambda>h. sh_entity_type h \<in> set (sq_entity_types q) \<and> hit_visible d t h) (sp_hits resp)"
proof -
  let ?ok = "\<lambda>h. sh_entity_type h \<in> set (sq_entity_types q) \<and> hit_visible d t h"
  obtain hits all where run: "search t q d = (Inr \<lparr>sp_query = sq_query q, sp_total_hits = length hits, sp_hits = hits\<rparr>, d)"
    and hits: "hits = take (sq_limit q) (sort_key hit_key all)" and ok: "list_all ?ok all"
  proof -
    let ?p = "''%'' @ py_strip (sq_query q) @ ''%''"
    let ?found = "\<lambda>E ty P hit. if ty \<in> set (sq_entity_types q)
      then map hit (take (sq_limit q) (rows_where (\<lambda>i r. ent_vis E (db_session d) r \<and> P r) (ent_sel E d))) else []"
    let ?h1 = "?found cases_e SE_CASE (\<lambda>c. c_tenant_id c = t \<and> (ilike ?p (c_title c) \<or> ilike_opt ?p (c_description c))) (case_hit (sq_query q))"
    let ?h2 = "?found observables_e SE_OBSERVABLE (\<lambda>ob. o_tenant_id ob = t \<and> ilike ?p (o_value ob)) (observable_hit (sq_query q))"
    let ?h3 = "?found assets_e SE_ASSET (\<lambda>a. a_tenant_id a = t \<and> (ilike ?p (a_name a) \<or> ilike_opt ?p (a_ip_address a) \<or> ilike_opt ?p (a_domain a))) asset_hit"
    let ?h4 = "?found notes_e SE_NOTE (\<lambda>n. n_tenant_id n = t \<and> (ilike ?p (n_title n) \<or> ilike ?p (n_content n))) (note_hit (sq_query q))"
    let ?h5 = "?found alerts_e SE_ALERT (\<lambda>a. al_tenant_id a = t \<and> (ilike ?p (al_title a) \<or> ilike_opt ?p (al_message a))) alert_hit"
    have "list_all ?ok ?h1" "list_all ?ok ?h2" "list_all ?ok ?h3" "list_all ?ok ?h4" "list_all ?ok ?h5"
      by (rule list_all_hits; auto simp: case_hit_def observable_hit_def asset_hit_def note_hit_def alert_hit_def hit_visible_def)+
    then have "list_all ?ok (?h1 @ ?h2 @ ?h3 @ ?h4 @ ?h5)"
      by (simp only: list_all_append)
    moreover have "search t q d = (Inr \<lparr>sp_query = sq_query q,
        sp_total_hits = length (take (sq_limit q) (sort_key hit_key (?h1 @ ?h2 @ ?h3 @ ?h4 @ ?h5))),
        sp_hits = take (sq_limit q) (sort_key hit_key (?h1 @ ?h2 @ ?h3 @ ?h4 @ ?h5))\<rparr>, d)"
      unfolding search_def Let_def bind_apply search_in_apply prod.case sum.case ret_apply ..
    ultimately show thesis by (rule that [OF _ refl, rotated])
  qed
  have "list_all ?ok hits"
    unfolding hits by (rule list_all_take) (simp only: list_all_sort_key ok)
  moreover have "sorted (map hit_key hits)"
    unfolding hits take_map [symmetric] by (rule sorted_wrt_take) simp
  ultimately show ?thesis
    using run hits by simp
qed

end
