(* ===== verification/Api.thy ===== *)
theory Api
  imports Auth Python_Lib
begin

text \<open>
  The API layer: pagination (\<^verbatim>\<open>schemas/common.py\<close>), the error handlers (\<^verbatim>\<open>api/error_handlers.py\<close>), the request id
  middleware (\<^verbatim>\<open>api/middleware/request_id.py\<close>), and the guards every route has: the principal, its permission, the
  tenant of the path.
\<close>

section \<open>Pagination\<close>

record pagination =
  pg_page :: nat
  pg_page_size :: nat

definition pagination_valid :: "pagination \<Rightarrow> bool" where
  "pagination_valid p \<longleftrightarrow> 1 \<le> pg_page p \<and> 1 \<le> pg_page_size p \<and> pg_page_size p \<le> 200"

definition pg_offset :: "pagination \<Rightarrow> nat" where
  "pg_offset p = (pg_page p - 1) * pg_page_size p"

record pagination_meta =
  pm_page :: nat
  pm_page_size :: nat
  pm_total_count :: nat
  pm_total_pages :: nat

definition build_pagination_meta :: "nat \<Rightarrow> nat \<Rightarrow> nat \<Rightarrow> pagination_meta" where
  "build_pagination_meta total_count page page_size =
     \<lparr>pm_page = page, pm_page_size = page_size, pm_total_count = total_count,
      pm_total_pages = (if 0 < page_size then (total_count + page_size - 1) div page_size else 0)\<rparr>"

lemma pages_concat: "0 < n \<Longrightarrow> concat (map (\<lambda>k. page_of n (k * n) xs) [0..<m]) = take (m * n) xs"
proof (induction m)
  case (Suc m)
  have "take (m * n) xs @ take n (drop (m * n) xs) = take (m * n + n) xs"
    by (rule take_add [symmetric])
  with Suc show ?case
    by (simp add: page_of_def add.commute)
qed simp

text \<open>
  C36: pages. With the number of pages the answer's meta data gives, reading page 1 to the last one yields every row of
  the listing exactly once and in order; no page is longer than the page size, and the pages after the last are empty.
\<close>

theorem pages_cover_listing:
  assumes "pagination_valid p" and "m = build_pagination_meta (length rows) (pg_page p) (pg_page_size p)"
  shows "concat (map (\<lambda>k. page_of (pg_page_size p) (pg_offset (p\<lparr>pg_page := k\<rparr>)) rows) [1..<Suc (pm_total_pages m)]) = rows \<and>
    length (page_of (pg_page_size p) (pg_offset p) rows) \<le> pg_page_size p \<and>
    (page_of (pg_page_size p) (pg_offset p) rows = [] \<longleftrightarrow> pm_total_pages m < pg_page p)"
proof -
  let ?n = "pg_page_size p" and ?t = "pm_total_pages m"
  have n: "0 < ?n" and pg: "1 \<le> pg_page p" using assms(1) by (simp_all add: pagination_valid_def)
  have t: "?t = (length rows + ?n - 1) div ?n" using n by (simp add: assms(2) build_pagination_meta_def)
  have up: "length rows \<le> ?t * ?n"
  proof -
    have "length rows + ?n - 1 < ?t * ?n + ?n"
      unfolding t using n by (metis add.commute dividend_less_div_times mult.commute)
    with n show ?thesis by linarith
  qed
  have least: "length rows \<le> k * ?n \<longleftrightarrow> ?t \<le> k" for k
  proof
    assume "length rows \<le> k * ?n"
    then have "length rows + ?n - 1 < Suc k * ?n" using n by simp
    then show "?t \<le> k" unfolding t by (metis less_Suc_eq_le less_mult_imp_div_less)
  next
    assume "?t \<le> k"
    then have "?t * ?n \<le> k * ?n" by simp
    with up show "length rows \<le> k * ?n" by linarith
  qed
  have "map (\<lambda>k. page_of ?n (pg_offset (p\<lparr>pg_page := k\<rparr>)) rows) [1..<Suc ?t] = map (\<lambda>k. page_of ?n (k * ?n) rows) [0..<?t]"
    by (rule nth_equalityI) (simp_all add: pg_offset_def del: upt_Suc)
  then have "concat (map (\<lambda>k. page_of ?n (pg_offset (p\<lparr>pg_page := k\<rparr>)) rows) [1..<Suc ?t]) = rows"
    using pages_concat [OF n, of rows ?t] up by simp
  moreover have "page_of ?n (pg_offset p) rows = [] \<longleftrightarrow> ?t < pg_page p"
    using n pg least [of "pg_page p - 1"] by (auto simp: page_of_def pg_offset_def)
  ultimately show ?thesis
    by (simp add: page_of_def)
qed

lemma pages_cover_listing_witness:
  "concat (map (\<lambda>k. page_of 2 (pg_offset \<lparr>pg_page = k, pg_page_size = 2\<rparr>) [10, 20, 30::nat]) [1..<Suc 2]) = [10, 20, 30] \<and>
   page_of 2 (pg_offset \<lparr>pg_page = 3, pg_page_size = 2\<rparr>) [10, 20, 30::nat] = []"
  using pages_cover_listing [of "\<lparr>pg_page = 3, pg_page_size = 2\<rparr>" "\<lparr>pm_page = 3, pm_page_size = 2, pm_total_count = 3, pm_total_pages = 2\<rparr>" "[10, 20, 30::nat]"]
  by (simp add: pagination_valid_def build_pagination_meta_def)

section \<open>Errors\<close>

record error_detail =
  ed_field :: string
  ed_message :: string
  ed_code :: string

record error_body =
  eb_code :: string
  eb_message :: string
  eb_details :: "error_detail list option"
  eb_request_id :: string

text \<open>The answer to a failed request: a status with the error envelope, or (debug mode) the text of the traceback.\<close>

datatype error_answer = Err_envelope nat error_body | Err_traceback

definition http_code :: "nat \<Rightarrow> string" where
  "http_code n = (if n = 400 then ''VALIDATION_ERROR'' else if n = 401 then ''UNAUTHENTICATED'' else if n = 403 then ''FORBIDDEN''
     else if n = 404 then ''NOT_FOUND'' else if n = 409 then ''CONFLICT'' else if n = 429 then ''RATE_LIMIT''
     else if n = 503 then ''SERVICE_UNAVAILABLE'' else ''INTERNAL_ERROR'')"

definition error_response :: "nat \<Rightarrow> string \<Rightarrow> string \<Rightarrow> string \<Rightarrow> error_answer" where
  "error_response status ecode message request_id =
     Err_envelope status \<lparr>eb_code = ecode, eb_message = message, eb_details = None, eb_request_id = request_id\<rparr>"

definition integrity_answer :: "string \<Rightarrow> string \<Rightarrow> error_answer" where
  "integrity_answer request_id orig = (let m = py_lower orig in
     if py_contains m ''duplicate key'' \<or> py_contains m ''unique constraint'' then
       error_response 409 ''CONFLICT'' ''Resource already exists or violates a uniqueness constraint'' request_id
     else if py_contains m ''violates check constraint'' then
       error_response 400 ''VALIDATION_ERROR'' ''Request violates a database check constraint'' request_id
     else error_response 400 ''VALIDATION_ERROR'' ''Database integrity violation'' request_id)"

text \<open>
  The exceptions of the model by their handler: \<^verbatim>\<open>HTTPException\<close>, \<^verbatim>\<open>IntegrityError\<close>, the other errors of
  SQLAlchemy, and the rest, which the outermost middleware answers (with the traceback when the application runs in
  debug mode).
\<close>

definition sqlalchemy_answer :: "string \<Rightarrow> error_answer" where
  "sqlalchemy_answer request_id = error_response 500 ''INTERNAL_ERROR'' ''A database error occurred'' request_id"

definition unhandled_answer :: "bool \<Rightarrow> string \<Rightarrow> error_answer" where
  "unhandled_answer debug request_id = (if debug then Err_traceback
     else error_response 500 ''INTERNAL_ERROR'' ''An unexpected error occurred'' request_id)"

fun error_answer_of :: "bool \<Rightarrow> string \<Rightarrow> api_error \<Rightarrow> error_answer" where
  "error_answer_of debug rid (HTTPException n detail) = error_response n (http_code n) detail rid"
| "error_answer_of debug rid (IntegrityError m) = integrity_answer rid m"
| "error_answer_of debug rid (DBError m) = sqlalchemy_answer rid"
| "error_answer_of debug rid MultipleResultsFound = sqlalchemy_answer rid"
| "error_answer_of debug rid NoResultFound = sqlalchemy_answer rid"
| "error_answer_of debug rid ValidationError = unhandled_answer debug rid"
| "error_answer_of debug rid (KeyError k) = unhandled_answer debug rid"
| "error_answer_of debug rid (OtherError e) = (if e = ''StaleDataError'' \<or> e = ''PendingRollbackError'' then sqlalchemy_answer rid
     else unhandled_answer debug rid)"

text \<open>A request whose parameters do not validate: the errors with their location, message and type.\<close>

fun dotted :: "string list \<Rightarrow> string" where
  "dotted [] = []"
| "dotted [x] = x"
| "dotted (x # y # ys) = x @ ''.'' @ dotted (y # ys)"

definition field_path :: "string list \<Rightarrow> string" where
  "field_path loc = (let p = (if 1 < length loc then dotted (tl loc) else if loc \<noteq> [] then hd loc else []) in
     if p = [] then ''<root>'' else p)"

definition validation_answer :: "string \<Rightarrow> (string list \<times> string \<times> string) list \<Rightarrow> error_answer" where
  "validation_answer request_id errors = Err_envelope 400
     \<lparr>eb_code = ''VALIDATION_ERROR'', eb_message = ''Request validation failed'',
      eb_details = Some (map (\<lambda>(loc, msg, ty). \<lparr>ed_field = field_path loc, ed_message = msg, ed_code = ty\<rparr>) errors),
      eb_request_id = request_id\<rparr>"

text \<open>The request id: the client's \<^verbatim>\<open>X-Request-ID\<close> if it sent one that is not empty, or a new one.\<close>

definition assign_request_id :: "string option \<Rightarrow> string service" where
  "assign_request_id header = (if str_or header [] \<noteq> [] then ret (str_or header []) else bind new_uuid (\<lambda>u. ret (uuid_str u)))"

section \<open>Guards\<close>

definition same_tenant :: "auth_context \<Rightarrow> uuid \<Rightarrow> string \<Rightarrow> unit service" where
  "same_tenant auth tenant_id detail =
     guard (is_platform_admin auth \<or> ac_tenant_id auth = tenant_id) (HTTPException 403 detail)"

definition cross_tenant :: string where
  "cross_tenant = ''Cross-tenant access denied''"

definition platform_admin_only :: "auth_context \<Rightarrow> unit service" where
  "platform_admin_only auth = guard (is_platform_admin auth) (HTTPException 403 ''Platform administrator role required'')"

text \<open>
  A route: the principal, its permission, then the body on the scoped session; \<open>owner_route\<close> is a route whose
  body runs on the owner connection (\<^verbatim>\<open>get_db_unscoped\<close>), \<open>admin_route\<close> one for platform administrators.
\<close>

definition route :: "env \<Rightarrow> auth_lib \<Rightarrow> credentials \<Rightarrow> resource \<Rightarrow> action \<Rightarrow> (auth_context \<Rightarrow> 'a service) \<Rightarrow> 'a service" where
  "route env lib cred r a body =
     get_db (bind (get_principal env lib cred) (\<lambda>p. bind (require_permission r a p) body))"

definition tenant_route ::
  "env \<Rightarrow> auth_lib \<Rightarrow> credentials \<Rightarrow> resource \<Rightarrow> action \<Rightarrow> uuid \<Rightarrow> string \<Rightarrow> (auth_context \<Rightarrow> 'a service) \<Rightarrow> 'a service" where
  "tenant_route env lib cred r a tenant_id detail body =
     route env lib cred r a (\<lambda>auth. and_then (same_tenant auth tenant_id detail) (body auth))"

definition owner_route ::
  "env \<Rightarrow> auth_lib \<Rightarrow> credentials \<Rightarrow> resource \<Rightarrow> action \<Rightarrow> uuid \<Rightarrow> string \<Rightarrow> (auth_context \<Rightarrow> 'a service) \<Rightarrow> 'a service" where
  "owner_route env lib cred r a tenant_id detail body =
     tenant_route env lib cred r a tenant_id detail (\<lambda>auth. get_db_unscoped (body auth))"

definition admin_route :: "env \<Rightarrow> auth_lib \<Rightarrow> string option \<Rightarrow> 'a service \<Rightarrow> 'a service" where
  "admin_route env lib token body =
     get_db (bind (get_current_user env lib token) (\<lambda>auth. and_then (platform_admin_only auth) body))"

text \<open>\<^verbatim>\<open>model_validate\<close> of a response, and the object a service has just written, read back.\<close>

definition respond :: "('a \<Rightarrow> bool) \<Rightarrow> 'a \<Rightarrow> 'a service" where
  "respond ok x = and_then (guard (ok x) ValidationError) (ret x)"

definition respond_page :: "('a \<Rightarrow> bool) \<Rightarrow> pagination \<Rightarrow> ('a list \<times> nat) \<Rightarrow> ('a list \<times> pagination_meta) service" where
  "respond_page ok pg = (\<lambda>(rows, total). and_then (guard (list_all ok rows) ValidationError)
     (ret (rows, build_pagination_meta total (pg_page pg) (pg_page_size pg))))"

definition refreshed :: "'r entity \<Rightarrow> uuid \<Rightarrow> (uuid \<times> 'r) service" where
  "refreshed E i = bind (get_or_404 E (\<lambda>_. ''refresh'') i) (\<lambda>r. ret (i, r))"

lemma keeps_guards [keeps_intros]:
  "keeps I (same_tenant auth t s)" "keeps I (platform_admin_only auth)" "keeps I (respond ok x)"
  "keeps I (respond_page okr pg page)" "keeps I (refreshed E i)"
  unfolding same_tenant_def platform_admin_only_def respond_def refreshed_def
  by (auto intro!: keeps_intros simp: respond_page_def split: prod.split)

end
