(* ===== verification/Routers.thy ===== *)
theory Routers
  imports Api Tasks Alerts Notes Timeline Assets Templates Attack Enrichment Evidence Users Audit_Log Reports Dashboard Search
begin

text \<open>
  The routers (\<^verbatim>\<open>api/routers/\<close>): one definition per endpoint, with its permission, its tenant check and the response
  model it validates. \<open>server\<close> collects the parameters of the parts.
\<close>

record server =
  sv_env :: env
  sv_auth :: auth_lib
  sv_vault :: vault
  sv_reports :: report_lib
  sv_codec :: metrics_codec
  sv_collate :: "string \<Rightarrow> nat list"

section \<open>Response models\<close>

text \<open>What the response models ask of the JSON columns; the other fields have their types from the row.\<close>

fun obj_list :: "json \<Rightarrow> bool" where
  "obj_list (JList xs) = list_all is_obj xs"
| "obj_list _ = False"

fun obj_or_null :: "json \<Rightarrow> bool" where
  "obj_or_null JNull = True"
| "obj_or_null j = is_obj j"

definition case_response :: "uuid \<times> case_row \<Rightarrow> bool" where
  "case_response r = is_obj (c_custom_fields (snd r))"

definition asset_response :: "uuid \<times> asset_row \<Rightarrow> bool" where
  "asset_response r = is_obj (a_custom_attributes (snd r))"

definition entry_response :: "uuid \<times> timeline_row \<Rightarrow> bool" where
  "entry_response r = is_obj (tl_metadata (snd r))"

definition template_response :: "uuid \<times> template_row \<Rightarrow> bool" where
  "template_response r \<longleftrightarrow> obj_list (tp_tasks (snd r)) \<and> is_obj (tp_custom_fields (snd r))"

definition source_response :: "uuid \<times> source_row \<Rightarrow> bool" where
  "source_response r = is_obj (es_config (snd r))"

definition result_response :: "uuid \<times> result_row \<Rightarrow> bool" where
  "result_response r = obj_or_null (er_result_data (snd r))"

definition module_response :: "uuid \<times> module_row \<Rightarrow> bool" where
  "module_response r = is_obj (mo_config_schema (snd r))"

definition execution_response :: "uuid \<times> execution_row \<Rightarrow> bool" where
  "execution_response r = (case x_result (snd r) of None \<Rightarrow> True | Some j \<Rightarrow> obj_or_null j)"

definition report_template_response :: "uuid \<times> report_template_row \<Rightarrow> bool" where
  "report_template_response r = obj_list (rt_tag_schema (snd r))"

definition tenant_response :: "uuid \<times> tenant_row \<Rightarrow> bool" where
  "tenant_response r \<longleftrightarrow> is_obj (tn_settings (snd r)) \<and> obj_list (tn_custom_fields_schema (snd r))"

definition user_ok :: "uuid \<times> user_row \<Rightarrow> bool" where
  "user_ok r = obj_list (u_permissions (snd r))"

definition report_format_ok :: "uuid \<times> report_row \<Rightarrow> bool" where
  "report_format_ok r \<longleftrightarrow> rp_format (snd r) \<in> {''docx'', ''markdown'', ''html''}"

abbreviation any_response :: "'a \<Rightarrow> bool" where
  "any_response \<equiv> (\<lambda>x. True)"

text \<open>The shapes shared by the routes: a page of rows, a row just created, the row an update returns.\<close>

definition created :: "'r entity \<Rightarrow> (uuid \<times> 'r \<Rightarrow> bool) \<Rightarrow> uuid service \<Rightarrow> (uuid \<times> 'r) service" where
  "created E ok m = bind m (\<lambda>i. bind (refreshed E i) (respond ok))"

definition updated :: "(uuid \<times> 'r \<Rightarrow> bool) \<Rightarrow> uuid \<Rightarrow> 'r service \<Rightarrow> (uuid \<times> 'r) service" where
  "updated ok i m = bind m (\<lambda>r. respond ok (i, r))"

definition guarded ::
  "server \<Rightarrow> credentials \<Rightarrow> resource \<Rightarrow> action \<Rightarrow> uuid \<Rightarrow> (auth_context \<Rightarrow> 'a service) \<Rightarrow> 'a service" where
  "guarded sv cred r a tenant_id body = tenant_route (sv_env sv) (sv_auth sv) cred r a tenant_id cross_tenant body"

section \<open>Cases\<close>

definition guarded_case :: "server \<Rightarrow> credentials \<Rightarrow> action \<Rightarrow> uuid \<Rightarrow> (auth_context \<Rightarrow> 'a service) \<Rightarrow> 'a service" where
  "guarded_case sv cred a tenant_id body =
     tenant_route (sv_env sv) (sv_auth sv) cred R_CASE a tenant_id ''Cannot access another tenant's cases'' body"

definition api_list_cases where
  "api_list_cases sv cred tenant_id pg filters = guarded_case sv cred A_READ tenant_id (\<lambda>auth.
     bind (list_cases tenant_id filters (pg_page_size pg) (pg_offset pg)) (respond_page case_response pg))"

definition api_create_case where
  "api_create_case sv cred tenant_id payload = guarded_case sv cred A_CREATE tenant_id (\<lambda>auth.
     created cases_e case_response (create_case (sv_env sv) tenant_id (ac_user_id auth) payload))"

definition api_get_case where
  "api_get_case sv cred tenant_id case_id = guarded_case sv cred A_READ tenant_id (\<lambda>auth.
     updated case_response case_id (case_or_404 case_id))"

definition api_update_case where
  "api_update_case sv cred tenant_id case_id payload = guarded_case sv cred A_UPDATE tenant_id (\<lambda>auth.
     updated case_response case_id (update_case (sv_env sv) case_id payload (ac_user_id auth)))"

definition api_close_case where
  "api_close_case sv cred tenant_id case_id outcome = guarded_case sv cred A_UPDATE tenant_id (\<lambda>auth.
     updated case_response case_id (close_case (sv_env sv) case_id outcome (ac_user_id auth)))"

definition api_merge_cases where
  "api_merge_cases sv cred tenant_id case_id sources = guarded_case sv cred A_UPDATE tenant_id (\<lambda>auth.
     updated case_response case_id (merge_cases (sv_env sv) case_id sources (ac_user_id auth)))"

definition api_delete_case where
  "api_delete_case sv cred tenant_id case_id = guarded_case sv cred A_DELETE tenant_id (\<lambda>auth. delete_case case_id)"

section \<open>Tasks\<close>

definition api_list_tasks where
  "api_list_tasks sv cred tenant_id case_id pg = guarded sv cred R_TASK A_READ tenant_id (\<lambda>auth.
     bind (list_tasks case_id (pg_page_size pg) (pg_offset pg)) (respond_page any_response pg))"

definition api_create_task where
  "api_create_task sv cred tenant_id case_id payload = guarded sv cred R_TASK A_CREATE tenant_id (\<lambda>auth.
     created tasks_e any_response (create_task (sv_env sv) case_id (ac_user_id auth) payload))"

definition api_update_task where
  "api_update_task sv cred tenant_id case_id task_id payload = guarded sv cred R_TASK A_UPDATE tenant_id (\<lambda>auth.
     updated any_response task_id (update_task (sv_env sv) task_id payload (ac_user_id auth)))"

definition api_delete_task where
  "api_delete_task sv cred tenant_id case_id task_id = guarded sv cred R_TASK A_DELETE tenant_id (\<lambda>auth.
     delete_task (sv_env sv) task_id (ac_user_id auth))"

section \<open>Observables\<close>

definition api_list_observables where
  "api_list_observables sv cred tenant_id case_id pg = guarded sv cred R_OBSERVABLE A_READ tenant_id (\<lambda>auth.
     bind (list_observables case_id (pg_page_size pg) (pg_offset pg)) (\<lambda>(rows, total).
     bind (collect rows (\<lambda>(i, ob). bind (cross_case_count tenant_id (o_type ob) (o_value ob) (o_case_id ob))
         (\<lambda>count. ret ((i, ob), count)))) (\<lambda>responses.
     respond_page any_response pg (responses, total))))"

definition api_create_observable where
  "api_create_observable sv cred tenant_id case_id payload = guarded sv cred R_OBSERVABLE A_CREATE tenant_id (\<lambda>auth.
     created observables_e any_response (create_observable (sv_env sv) case_id (ac_user_id auth) payload))"

definition api_create_observables_bulk where
  "api_create_observables_bulk sv cred tenant_id case_id payload = guarded sv cred R_OBSERVABLE A_CREATE tenant_id (\<lambda>auth.
     bind (create_observables_bulk (sv_env sv) case_id (ac_user_id auth) payload) (\<lambda>ids.
     collect ids (refreshed observables_e)))"

definition api_update_observable where
  "api_update_observable sv cred tenant_id case_id observable_id payload = guarded sv cred R_OBSERVABLE A_UPDATE tenant_id (\<lambda>auth.
     updated any_response observable_id (update_observable observable_id payload))"

definition api_delete_observable where
  "api_delete_observable sv cred tenant_id case_id observable_id = guarded sv cred R_OBSERVABLE A_DELETE tenant_id (\<lambda>auth.
     delete_observable observable_id)"

section \<open>Assets\<close>

definition api_list_assets where
  "api_list_assets sv cred tenant_id case_id pg = guarded sv cred R_ASSET A_READ tenant_id (\<lambda>auth.
     bind (list_assets case_id (pg_page_size pg) (pg_offset pg)) (respond_page asset_response pg))"

definition api_create_asset where
  "api_create_asset sv cred tenant_id case_id payload = guarded sv cred R_ASSET A_CREATE tenant_id (\<lambda>auth.
     created assets_e asset_response (create_asset (sv_env sv) case_id (ac_user_id auth) payload))"

definition api_update_asset where
  "api_update_asset sv cred tenant_id case_id asset_id payload = guarded sv cred R_ASSET A_UPDATE tenant_id (\<lambda>auth.
     updated asset_response asset_id (update_asset (sv_env sv) asset_id payload (ac_user_id auth)))"

definition api_delete_asset where
  "api_delete_asset sv cred tenant_id case_id asset_id = guarded sv cred R_ASSET A_DELETE tenant_id (\<lambda>auth. delete_asset asset_id)"

section \<open>Evidence\<close>

definition api_list_evidence where
  "api_list_evidence sv cred tenant_id case_id pg = guarded sv cred R_EVIDENCE A_READ tenant_id (\<lambda>auth.
     bind (list_evidence case_id (pg_page_size pg) (pg_offset pg)) (respond_page any_response pg))"

definition api_register_evidence where
  "api_register_evidence sv cred tenant_id case_id payload = guarded sv cred R_EVIDENCE A_CREATE tenant_id (\<lambda>auth.
     created evidence_e any_response (register_evidence (sv_env sv) case_id (ac_user_id auth) payload))"

definition api_upload_evidence_file where
  "api_upload_evidence_file sv cred tenant_id case_id evidence_id raw password = guarded sv cred R_EVIDENCE A_UPDATE tenant_id (\<lambda>auth.
     bind (upload_evidence_file (sv_env sv) (sv_vault sv) evidence_id raw password (ac_user_id auth)) (\<lambda>ev.
     ret ((evidence_id, ev), e_integrity_verified ev = Some True, e_integrity_mismatch ev)))"

definition api_download_evidence_file where
  "api_download_evidence_file sv cred tenant_id case_id evidence_id password = guarded sv cred R_EVIDENCE A_READ tenant_id (\<lambda>auth.
     bind (download_evidence_file (sv_vault sv) evidence_id password) (\<lambda>(ev, data). ret (e_filename ev, data)))"

definition api_update_evidence where
  "api_update_evidence sv cred tenant_id case_id evidence_id payload = guarded sv cred R_EVIDENCE A_UPDATE tenant_id (\<lambda>auth.
     updated any_response evidence_id (update_evidence evidence_id payload))"

definition api_delete_evidence where
  "api_delete_evidence sv cred tenant_id case_id evidence_id = guarded sv cred R_EVIDENCE A_DELETE tenant_id (\<lambda>auth. delete_evidence evidence_id)"

section \<open>Timeline\<close>

definition with_links :: "(uuid \<times> uuid list) list \<Rightarrow> uuid \<times> timeline_row \<Rightarrow> (uuid \<times> timeline_row) \<times> uuid list" where
  "with_links links r = (r, case map_of links (fst r) of None \<Rightarrow> [] | Some as \<Rightarrow> as)"

definition entry_with_links :: "uuid \<times> timeline_row \<Rightarrow> ((uuid \<times> timeline_row) \<times> uuid list) service" where
  "entry_with_links r = bind (get_asset_links [fst r]) (\<lambda>links. bind (respond entry_response r) (\<lambda>r. ret (with_links links r)))"

definition api_list_timeline where
  "api_list_timeline sv cred tenant_id case_id pg filters = guarded sv cred R_TIMELINE A_READ tenant_id (\<lambda>auth.
     bind (list_entries case_id filters (pg_page_size pg) (pg_offset pg)) (\<lambda>(rows, total).
     bind (get_asset_links (map fst rows)) (\<lambda>links.
     bind (respond_page entry_response pg (rows, total)) (\<lambda>(rows, meta). ret (map (with_links links) rows, meta)))))"

definition api_add_manual_entry where
  "api_add_manual_entry sv cred tenant_id case_id payload = guarded sv cred R_TIMELINE A_CREATE tenant_id (\<lambda>auth.
     bind (create_manual_entry case_id (ac_user_id auth) payload) (\<lambda>i. bind (refreshed timeline_e i) entry_with_links))"

definition api_update_entry where
  "api_update_entry sv cred tenant_id case_id entry_id payload = guarded sv cred R_TIMELINE A_UPDATE tenant_id (\<lambda>auth.
     bind (update_entry entry_id payload) (\<lambda>e. entry_with_links (entry_id, e)))"

definition api_delete_entry where
  "api_delete_entry sv cred tenant_id case_id entry_id = guarded sv cred R_TIMELINE A_DELETE tenant_id (\<lambda>auth. delete_entry entry_id)"

definition api_get_swimlane where
  "api_get_swimlane sv cred tenant_id case_id threshold = guarded sv cred R_TIMELINE A_READ tenant_id (\<lambda>auth.
     bind (build_swimlane case_id \<lparr>tf_event_type = None, tf_category = None, tf_actor_id = None, tf_event_after = None,
       tf_event_before = None, tf_ascending = True\<rparr> threshold) (\<lambda>(entries, clusters, lanes).
     bind (get_asset_links (map fst entries)) (\<lambda>links.
     bind (respond (list_all entry_response) entries) (\<lambda>entries. ret (map (with_links links) entries, clusters, lanes)))))"

section \<open>Alerts\<close>

definition alert_answer :: "uuid \<times> alert_row \<Rightarrow> (jobj \<times> alert_envelope) service" where
  "alert_answer r = (case alert_to_response isoformat (fst r) (snd r) of Inl e \<Rightarrow> raise e | Inr x \<Rightarrow> ret x)"

definition api_list_alerts where
  "api_list_alerts sv cred tenant_id pg filters = guarded sv cred R_ALERT A_READ tenant_id (\<lambda>auth.
     bind (list_alerts tenant_id filters (pg_page_size pg) (pg_offset pg)) (\<lambda>(rows, total).
     bind (collect rows alert_answer) (\<lambda>responses. respond_page any_response pg (responses, total))))"

definition api_ingest_alert where
  "api_ingest_alert sv cred tenant_id payload = guarded sv cred R_ALERT A_CREATE tenant_id (\<lambda>auth.
     bind (ingest_alert (sv_env sv) tenant_id payload) (\<lambda>(i, duplicate). bind (refreshed alerts_e i) alert_answer))"

definition api_get_alert where
  "api_get_alert sv cred tenant_id alert_id = guarded sv cred R_ALERT A_READ tenant_id (\<lambda>auth.
     bind (alert_or_404 alert_id) (\<lambda>a.
     and_then (guard (al_tenant_id a = tenant_id) (HTTPException 404 ''Alert not found''))
     (alert_answer (alert_id, a))))"

definition api_dismiss_alert where
  "api_dismiss_alert sv cred tenant_id alert_id reason = guarded sv cred R_ALERT A_UPDATE tenant_id (\<lambda>auth.
     bind (dismiss_alert alert_id reason) (\<lambda>a. alert_answer (alert_id, a)))"

definition api_promote_alert where
  "api_promote_alert sv cred tenant_id alert_id target title = guarded sv cred R_ALERT A_UPDATE tenant_id (\<lambda>auth.
     bind (promote_alert (sv_env sv) alert_id target title (ac_user_id auth)) (\<lambda>(a, case_id).
     bind (refreshed cases_e case_id) (respond case_response)))"

section \<open>Notes\<close>

definition api_list_folders where
  "api_list_folders sv cred tenant_id case_id = guarded sv cred R_NOTE A_READ tenant_id (\<lambda>auth. list_folders (sv_collate sv) case_id)"

definition api_create_folder where
  "api_create_folder sv cred tenant_id case_id payload = guarded sv cred R_NOTE A_CREATE tenant_id (\<lambda>auth.
     created folders_e any_response (create_folder case_id payload))"

definition api_update_folder where
  "api_update_folder sv cred tenant_id case_id folder_id payload = guarded sv cred R_NOTE A_UPDATE tenant_id (\<lambda>auth.
     updated any_response folder_id (update_folder folder_id payload))"

definition api_delete_folder where
  "api_delete_folder sv cred tenant_id case_id folder_id = guarded sv cred R_NOTE A_DELETE tenant_id (\<lambda>auth. delete_folder folder_id)"

definition api_list_notes where
  "api_list_notes sv cred tenant_id case_id pg folder_id = guarded sv cred R_NOTE A_READ tenant_id (\<lambda>auth.
     bind (list_notes case_id folder_id (pg_page_size pg) (pg_offset pg)) (respond_page any_response pg))"

definition api_create_note where
  "api_create_note sv cred tenant_id case_id payload = guarded sv cred R_NOTE A_CREATE tenant_id (\<lambda>auth.
     created notes_e any_response (create_note case_id (ac_user_id auth) payload))"

definition api_update_note where
  "api_update_note sv cred tenant_id case_id note_id payload = guarded sv cred R_NOTE A_UPDATE tenant_id (\<lambda>auth.
     updated any_response note_id (update_note note_id payload))"

definition api_delete_note where
  "api_delete_note sv cred tenant_id case_id note_id = guarded sv cred R_NOTE A_DELETE tenant_id (\<lambda>auth. delete_note note_id)"

section \<open>Case templates\<close>

definition guarded_template :: "server \<Rightarrow> credentials \<Rightarrow> action \<Rightarrow> uuid \<Rightarrow> (auth_context \<Rightarrow> 'a service) \<Rightarrow> 'a service" where
  "guarded_template sv cred a tenant_id body =
     tenant_route (sv_env sv) (sv_auth sv) cred R_CASE_TEMPLATE a tenant_id ''Cannot access another tenant's case templates'' body"

definition api_list_case_templates where
  "api_list_case_templates sv cred tenant_id pg = guarded_template sv cred A_READ tenant_id (\<lambda>auth.
     bind (list_templates tenant_id (pg_page_size pg) (pg_offset pg)) (respond_page template_response pg))"

definition api_create_case_template where
  "api_create_case_template sv cred tenant_id payload = guarded_template sv cred A_CREATE tenant_id (\<lambda>auth.
     created templates_e template_response (create_template tenant_id (ac_user_id auth) payload))"

definition api_get_case_template where
  "api_get_case_template sv cred tenant_id template_id = guarded_template sv cred A_READ tenant_id (\<lambda>auth.
     updated template_response template_id (get_template tenant_id template_id))"

definition api_update_case_template where
  "api_update_case_template sv cred tenant_id template_id payload = guarded_template sv cred A_UPDATE tenant_id (\<lambda>auth.
     updated template_response template_id (update_template tenant_id template_id payload))"

definition api_delete_case_template where
  "api_delete_case_template sv cred tenant_id template_id = guarded_template sv cred A_DELETE tenant_id (\<lambda>auth.
     delete_template tenant_id template_id)"

section \<open>ATT\&CK\<close>

definition api_create_mapping where
  "api_create_mapping sv cred tenant_id payload = guarded sv cred R_ATTACK_MAPPING A_CREATE tenant_id (\<lambda>auth.
     created mappings_e any_response (create_mapping tenant_id payload (ac_user_id auth)))"

definition api_delete_mapping where
  "api_delete_mapping sv cred tenant_id mapping_id = guarded sv cred R_ATTACK_MAPPING A_DELETE tenant_id (\<lambda>auth. delete_mapping mapping_id)"

definition api_heatmap where
  "api_heatmap sv cred tenant_id filters = guarded sv cred R_ATTACK_MAPPING A_READ tenant_id (\<lambda>auth. build_heatmap tenant_id filters)"

text \<open>The reference data need no principal.\<close>

definition api_list_reference where
  "api_list_reference = get_db list_reference"

section \<open>Enrichment\<close>

definition api_list_sources where
  "api_list_sources sv cred tenant_id pg = guarded sv cred R_ENRICHMENT_SOURCE A_READ tenant_id (\<lambda>auth.
     bind (list_sources tenant_id (pg_page_size pg) (pg_offset pg)) (respond_page source_response pg))"

definition api_create_source where
  "api_create_source sv cred tenant_id payload = guarded sv cred R_ENRICHMENT_SOURCE A_CREATE tenant_id (\<lambda>auth.
     created sources_e source_response (create_source tenant_id payload))"

definition api_update_source where
  "api_update_source sv cred tenant_id source_id payload = guarded sv cred R_ENRICHMENT_SOURCE A_UPDATE tenant_id (\<lambda>auth.
     updated source_response source_id (update_source source_id payload))"

definition api_delete_source where
  "api_delete_source sv cred tenant_id source_id = guarded sv cred R_ENRICHMENT_SOURCE A_DELETE tenant_id (\<lambda>auth. delete_source source_id)"

definition api_trigger where
  "api_trigger sv cred tenant_id payload = guarded sv cred R_ENRICHMENT A_EXECUTE tenant_id (\<lambda>auth.
     trigger_enrichment (sv_env sv) tenant_id payload (ac_user_id auth))"

definition api_list_observable_results where
  "api_list_observable_results sv cred tenant_id case_id observable_id pg = guarded sv cred R_ENRICHMENT A_READ tenant_id (\<lambda>auth.
     bind (list_results observable_id (pg_page_size pg) (pg_offset pg)) (respond_page result_response pg))"

section \<open>Reports\<close>

definition api_list_report_templates where
  "api_list_report_templates sv cred tenant_id = guarded sv cred R_REPORT_TEMPLATE A_READ tenant_id (\<lambda>auth.
     bind (list_report_templates tenant_id) (respond (list_all report_template_response)))"

definition api_create_report_template where
  "api_create_report_template sv cred tenant_id payload = guarded sv cred R_REPORT_TEMPLATE A_CREATE tenant_id (\<lambda>auth.
     created report_templates_e report_template_response (create_report_template tenant_id payload (ac_user_id auth)))"

definition api_generate_report where
  "api_generate_report sv cred tenant_id case_id template_id fmt = guarded sv cred R_REPORT A_CREATE tenant_id (\<lambda>auth.
     created reports_e report_format_ok (generate_report (sv_env sv) (sv_vault sv) (sv_reports sv) case_id template_id
       (map_option report_format_str fmt) (Some (ac_user_id auth))))"

definition api_preview_report where
  "api_preview_report sv cred tenant_id case_id template_id = guarded sv cred R_REPORT A_READ tenant_id (\<lambda>auth.
     preview_report (sv_reports sv) case_id template_id)"

section \<open>Views over a tenant\<close>

definition api_list_logs where
  "api_list_logs sv cred tenant_id pg filters = guarded sv cred R_AUDIT_LOG A_READ tenant_id (\<lambda>auth.
     bind (list_logs tenant_id filters (pg_page_size pg) (pg_offset pg)) (respond_page any_response pg))"

definition api_get_metrics where
  "api_get_metrics sv cred tenant_id filters = guarded sv cred R_DASHBOARD A_READ tenant_id (\<lambda>auth.
     compute_metrics (sv_env sv) (sv_codec sv) tenant_id filters)"

definition api_search where
  "api_search sv cred tenant_id payload = guarded sv cred R_SEARCH A_READ tenant_id (\<lambda>auth. search tenant_id payload)"

section \<open>Modules\<close>

definition for_admin :: "server \<Rightarrow> credentials \<Rightarrow> 'a service \<Rightarrow> 'a service" where
  "for_admin sv cred body = admin_route (sv_env sv) (sv_auth sv) (cr_token cred) body"

definition api_list_modules where
  "api_list_modules sv cred pg = for_admin sv cred
     (bind (list_modules (sv_collate sv) (pg_page_size pg) (pg_offset pg)) (respond_page module_response pg))"

definition api_register_module where
  "api_register_module sv cred payload = for_admin sv cred (created modules_e module_response (register_module payload))"

definition api_update_module where
  "api_update_module sv cred module_id payload = for_admin sv cred
     (created modules_e module_response (and_then (update_module module_id payload) (ret module_id)))"

definition api_delete_module where
  "api_delete_module sv cred module_id = for_admin sv cred (delete_module module_id)"

definition api_list_executions where
  "api_list_executions sv cred module_id pg = for_admin sv cred
     (bind (list_executions (Some module_id) None None (pg_page_size pg) (pg_offset pg)) (respond_page execution_response pg))"

section \<open>Tenants\<close>

definition api_list_tenants where
  "api_list_tenants sv cred pg = for_admin sv cred (get_db_unscoped
     (bind (list_tenants (pg_page_size pg) (pg_offset pg)) (respond_page tenant_response pg)))"

definition api_create_tenant where
  "api_create_tenant sv cred payload = for_admin sv cred (get_db_unscoped (created tenants_e tenant_response (create_tenant payload)))"

definition api_get_tenant where
  "api_get_tenant sv cred tenant_id = owner_route (sv_env sv) (sv_auth sv) cred R_TENANT A_READ tenant_id ''Cannot read another tenant''
     (\<lambda>auth. updated tenant_response tenant_id (get_tenant tenant_id))"

definition api_update_tenant where
  "api_update_tenant sv cred tenant_id payload = owner_route (sv_env sv) (sv_auth sv) cred R_TENANT A_UPDATE tenant_id
     ''Cannot modify another tenant'' (\<lambda>auth. updated tenant_response tenant_id (update_tenant tenant_id payload))"

definition api_delete_tenant where
  "api_delete_tenant sv cred tenant_id = for_admin sv cred (get_db_unscoped (delete_tenant tenant_id))"

section \<open>Users\<close>

definition guarded_user :: "server \<Rightarrow> credentials \<Rightarrow> action \<Rightarrow> uuid \<Rightarrow> (auth_context \<Rightarrow> 'a service) \<Rightarrow> 'a service" where
  "guarded_user sv cred a tenant_id body = owner_route (sv_env sv) (sv_auth sv) cred R_USER a tenant_id
     ''Cannot operate on another tenant's users'' body"

definition user_of_tenant :: "uuid \<Rightarrow> uuid \<Rightarrow> string \<Rightarrow> user_row service" where
  "user_of_tenant tenant_id user_id what = bind (get_user user_id) (\<lambda>u.
     and_then (guard (u_tenant_id u = tenant_id) (HTTPException 404 (what @ uuid_str user_id @ '' not found in this tenant'')))
     (ret u))"

definition api_list_users where
  "api_list_users sv cred tenant_id pg include_service_accounts = guarded_user sv cred A_READ tenant_id (\<lambda>auth.
     bind (list_users tenant_id (pg_page_size pg) (pg_offset pg) include_service_accounts) (respond_page user_ok pg))"

definition api_create_user where
  "api_create_user sv cred tenant_id payload = guarded_user sv cred A_CREATE tenant_id (\<lambda>auth.
     created users_e user_ok (create_user (sv_auth sv) tenant_id payload))"

definition api_get_user where
  "api_get_user sv cred tenant_id user_id = guarded_user sv cred A_READ tenant_id (\<lambda>auth.
     updated user_ok user_id (user_of_tenant tenant_id user_id ''User ''))"

definition api_update_user where
  "api_update_user sv cred tenant_id user_id payload = guarded_user sv cred A_UPDATE tenant_id (\<lambda>auth.
     bind (user_of_tenant tenant_id user_id ''User '') (\<lambda>_. updated user_ok user_id (update_user user_id payload)))"

text \<open>A password change needs a user session; there is no check that the user is one of the tenant of the path.\<close>

definition api_change_password where
  "api_change_password sv cred tenant_id user_id payload =
     get_db (bind (get_current_user (sv_env sv) (sv_auth sv) (cr_token cred)) (\<lambda>auth.
     and_then (same_tenant auth tenant_id ''Cannot operate on another tenant's users'')
     (and_then (guard (ac_user_id auth = user_id \<or> is_platform_admin auth \<or> has_permission auth R_USER A_UPDATE)
        (HTTPException 403 ''Cannot change another user's password''))
     (get_db_unscoped (change_password (sv_auth sv) user_id payload)))))"

definition api_deactivate_user where
  "api_deactivate_user sv cred tenant_id user_id = guarded_user sv cred A_DELETE tenant_id (\<lambda>auth.
     bind (user_of_tenant tenant_id user_id ''User '') (\<lambda>_. bind (deactivate_user user_id) (\<lambda>_. ret ())))"

definition api_create_service_account where
  "api_create_service_account sv cred tenant_id payload = guarded_user sv cred A_CREATE tenant_id (\<lambda>auth.
     bind (create_service_account (sv_auth sv) tenant_id payload) (\<lambda>(i, api_key).
     bind (refreshed users_e i) (\<lambda>u. bind (respond user_ok u) (\<lambda>u. ret (u, api_key)))))"

definition api_rotate_api_key where
  "api_rotate_api_key sv cred tenant_id user_id = guarded_user sv cred A_UPDATE tenant_id (\<lambda>auth.
     bind (user_of_tenant tenant_id user_id ''Service account '') (\<lambda>_. rotate_api_key (sv_auth sv) user_id))"

end
