(* ===== verification/Server.thy ===== *)
theory Server
  imports Routers
begin

text \<open>
  The whole API as one machine. \<open>request\<close> is the language of the requests: an endpoint with its path and body
  parameters; \<open>serve\<close> runs it as the application does. Three theorems hold of every request: the database keeps its
  integrity, a request for a tenant that is not the principal's is refused, and a request of one tenant leaves the rows
  of the others alone.
\<close>

section \<open>Requests\<close>

datatype case_request =
    Q_list_cases pagination case_list_filters
  | Q_create_case case_create
  | Q_get_case uuid
  | Q_update_case uuid case_update
  | Q_close_case uuid case_outcome
  | Q_merge_cases uuid "uuid list"
  | Q_delete_case uuid

datatype task_request =
    Q_list_tasks uuid pagination
  | Q_create_task uuid task_create
  | Q_update_task uuid uuid task_update
  | Q_delete_task uuid uuid

datatype observable_request =
    Q_list_observables uuid pagination
  | Q_create_observable uuid observable_create
  | Q_create_observables_bulk uuid "observable_create list"
  | Q_update_observable uuid uuid observable_update
  | Q_delete_observable uuid uuid

datatype asset_request =
    Q_list_assets uuid pagination
  | Q_create_asset uuid asset_create
  | Q_update_asset uuid uuid asset_update
  | Q_delete_asset uuid uuid

datatype evidence_request =
    Q_list_evidence uuid pagination
  | Q_register_evidence uuid evidence_register
  | Q_upload_file uuid uuid string "string option"
  | Q_download_file uuid uuid "string option"
  | Q_update_evidence uuid uuid evidence_update
  | Q_delete_evidence uuid uuid

datatype timeline_request =
    Q_list_timeline uuid pagination timeline_filters
  | Q_add_entry uuid entry_create
  | Q_update_entry uuid uuid entry_update
  | Q_delete_entry uuid uuid
  | Q_swimlane uuid int

datatype note_request =
    Q_list_folders uuid
  | Q_create_folder uuid folder_create
  | Q_update_folder uuid uuid folder_update
  | Q_delete_folder uuid uuid
  | Q_list_notes uuid pagination "uuid option"
  | Q_create_note uuid note_create
  | Q_update_note uuid uuid note_update
  | Q_delete_note uuid uuid

datatype alert_request =
    Q_list_alerts pagination alert_list_filters
  | Q_ingest detection_finding
  | Q_get_alert uuid
  | Q_dismiss uuid string
  | Q_promote uuid "uuid option" "string option"

datatype template_request =
    Q_list_templates pagination
  | Q_create_template template_create
  | Q_get_template uuid
  | Q_update_template uuid template_update
  | Q_delete_template uuid

datatype attack_request =
    Q_create_mapping mapping_create
  | Q_delete_mapping uuid
  | Q_heatmap heat_filters

datatype enrichment_request_op =
    Q_list_sources pagination
  | Q_create_source source_create
  | Q_update_source uuid source_update
  | Q_delete_source uuid
  | Q_trigger enrichment_request
  | Q_list_results uuid uuid pagination

datatype report_request =
    Q_list_report_templates
  | Q_create_report_template report_template_create
  | Q_generate_report uuid uuid "report_format option"
  | Q_preview_report uuid uuid

datatype view_request =
    Q_logs pagination audit_filters
  | Q_metrics dashboard_filters
  | Q_search search_request

datatype tenant_request =
    On_cases case_request
  | On_tasks task_request
  | On_observables observable_request
  | On_assets asset_request
  | On_evidence evidence_request
  | On_timeline timeline_request
  | On_notes note_request
  | On_alerts alert_request
  | On_templates template_request
  | On_attack attack_request
  | On_enrichment enrichment_request_op
  | On_reports report_request
  | On_views view_request

datatype user_request =
    Q_list_users pagination bool
  | Q_create_user user_create
  | Q_get_user uuid
  | Q_update_user uuid user_update
  | Q_change_password uuid password_change
  | Q_deactivate_user uuid
  | Q_create_service_account service_account_create
  | Q_rotate_api_key uuid

datatype admin_request =
    Q_list_modules pagination
  | Q_register_module module_register
  | Q_update_module uuid module_update
  | Q_delete_module uuid
  | Q_list_executions uuid pagination
  | Q_list_tenants pagination
  | Q_create_tenant tenant_create
  | Q_delete_tenant uuid

datatype auth_request =
    Q_login string string "string option" "string option"
  | Q_refresh string
  | Q_logout
  | Q_me

datatype request =
    In_tenant uuid tenant_request
  | Users_of uuid user_request
  | Read_tenant uuid
  | Update_tenant uuid tenant_update
  | For_admin admin_request
  | For_anyone auth_request
  | Read_reference

section \<open>Serving\<close>

text \<open>The answer's body is left out here: \<open>serve\<close> keeps the state and the error.\<close>

definition discard :: "'a service \<Rightarrow> unit service" where
  "discard m = bind m (\<lambda>_. ret ())"

fun serve_case :: "server \<Rightarrow> credentials \<Rightarrow> uuid \<Rightarrow> case_request \<Rightarrow> unit service" where
  "serve_case sv cred t (Q_list_cases pg f) = discard (api_list_cases sv cred t pg f)"
| "serve_case sv cred t (Q_create_case p) = discard (api_create_case sv cred t p)"
| "serve_case sv cred t (Q_get_case c) = discard (api_get_case sv cred t c)"
| "serve_case sv cred t (Q_update_case c p) = discard (api_update_case sv cred t c p)"
| "serve_case sv cred t (Q_close_case c out) = discard (api_close_case sv cred t c out)"
| "serve_case sv cred t (Q_merge_cases c cs) = discard (api_merge_cases sv cred t c cs)"
| "serve_case sv cred t (Q_delete_case c) = discard (api_delete_case sv cred t c)"

fun serve_task :: "server \<Rightarrow> credentials \<Rightarrow> uuid \<Rightarrow> task_request \<Rightarrow> unit service" where
  "serve_task sv cred t (Q_list_tasks c pg) = discard (api_list_tasks sv cred t c pg)"
| "serve_task sv cred t (Q_create_task c p) = discard (api_create_task sv cred t c p)"
| "serve_task sv cred t (Q_update_task c i p) = discard (api_update_task sv cred t c i p)"
| "serve_task sv cred t (Q_delete_task c i) = discard (api_delete_task sv cred t c i)"

fun serve_observable :: "server \<Rightarrow> credentials \<Rightarrow> uuid \<Rightarrow> observable_request \<Rightarrow> unit service" where
  "serve_observable sv cred t (Q_list_observables c pg) = discard (api_list_observables sv cred t c pg)"
| "serve_observable sv cred t (Q_create_observable c p) = discard (api_create_observable sv cred t c p)"
| "serve_observable sv cred t (Q_create_observables_bulk c ps) = discard (api_create_observables_bulk sv cred t c ps)"
| "serve_observable sv cred t (Q_update_observable c i p) = discard (api_update_observable sv cred t c i p)"
| "serve_observable sv cred t (Q_delete_observable c i) = discard (api_delete_observable sv cred t c i)"

fun serve_asset :: "server \<Rightarrow> credentials \<Rightarrow> uuid \<Rightarrow> asset_request \<Rightarrow> unit service" where
  "serve_asset sv cred t (Q_list_assets c pg) = discard (api_list_assets sv cred t c pg)"
| "serve_asset sv cred t (Q_create_asset c p) = discard (api_create_asset sv cred t c p)"
| "serve_asset sv cred t (Q_update_asset c i p) = discard (api_update_asset sv cred t c i p)"
| "serve_asset sv cred t (Q_delete_asset c i) = discard (api_delete_asset sv cred t c i)"

fun serve_evidence :: "server \<Rightarrow> credentials \<Rightarrow> uuid \<Rightarrow> evidence_request \<Rightarrow> unit service" where
  "serve_evidence sv cred t (Q_list_evidence c pg) = discard (api_list_evidence sv cred t c pg)"
| "serve_evidence sv cred t (Q_register_evidence c p) = discard (api_register_evidence sv cred t c p)"
| "serve_evidence sv cred t (Q_upload_file c i raw pw) = discard (api_upload_evidence_file sv cred t c i raw pw)"
| "serve_evidence sv cred t (Q_download_file c i pw) = discard (api_download_evidence_file sv cred t c i pw)"
| "serve_evidence sv cred t (Q_update_evidence c i p) = discard (api_update_evidence sv cred t c i p)"
| "serve_evidence sv cred t (Q_delete_evidence c i) = discard (api_delete_evidence sv cred t c i)"

fun serve_timeline :: "server \<Rightarrow> credentials \<Rightarrow> uuid \<Rightarrow> timeline_request \<Rightarrow> unit service" where
  "serve_timeline sv cred t (Q_list_timeline c pg f) = discard (api_list_timeline sv cred t c pg f)"
| "serve_timeline sv cred t (Q_add_entry c p) = discard (api_add_manual_entry sv cred t c p)"
| "serve_timeline sv cred t (Q_update_entry c i p) = discard (api_update_entry sv cred t c i p)"
| "serve_timeline sv cred t (Q_delete_entry c i) = discard (api_delete_entry sv cred t c i)"
| "serve_timeline sv cred t (Q_swimlane c n) = discard (api_get_swimlane sv cred t c n)"

fun serve_note :: "server \<Rightarrow> credentials \<Rightarrow> uuid \<Rightarrow> note_request \<Rightarrow> unit service" where
  "serve_note sv cred t (Q_list_folders c) = discard (api_list_folders sv cred t c)"
| "serve_note sv cred t (Q_create_folder c p) = discard (api_create_folder sv cred t c p)"
| "serve_note sv cred t (Q_update_folder c i p) = discard (api_update_folder sv cred t c i p)"
| "serve_note sv cred t (Q_delete_folder c i) = discard (api_delete_folder sv cred t c i)"
| "serve_note sv cred t (Q_list_notes c pg f) = discard (api_list_notes sv cred t c pg f)"
| "serve_note sv cred t (Q_create_note c p) = discard (api_create_note sv cred t c p)"
| "serve_note sv cred t (Q_update_note c i p) = discard (api_update_note sv cred t c i p)"
| "serve_note sv cred t (Q_delete_note c i) = discard (api_delete_note sv cred t c i)"

fun serve_alert :: "server \<Rightarrow> credentials \<Rightarrow> uuid \<Rightarrow> alert_request \<Rightarrow> unit service" where
  "serve_alert sv cred t (Q_list_alerts pg f) = discard (api_list_alerts sv cred t pg f)"
| "serve_alert sv cred t (Q_ingest p) = discard (api_ingest_alert sv cred t p)"
| "serve_alert sv cred t (Q_get_alert i) = discard (api_get_alert sv cred t i)"
| "serve_alert sv cred t (Q_dismiss i reason) = discard (api_dismiss_alert sv cred t i reason)"
| "serve_alert sv cred t (Q_promote i c title) = discard (api_promote_alert sv cred t i c title)"

fun serve_template :: "server \<Rightarrow> credentials \<Rightarrow> uuid \<Rightarrow> template_request \<Rightarrow> unit service" where
  "serve_template sv cred t (Q_list_templates pg) = discard (api_list_case_templates sv cred t pg)"
| "serve_template sv cred t (Q_create_template p) = discard (api_create_case_template sv cred t p)"
| "serve_template sv cred t (Q_get_template i) = discard (api_get_case_template sv cred t i)"
| "serve_template sv cred t (Q_update_template i p) = discard (api_update_case_template sv cred t i p)"
| "serve_template sv cred t (Q_delete_template i) = discard (api_delete_case_template sv cred t i)"

fun serve_attack :: "server \<Rightarrow> credentials \<Rightarrow> uuid \<Rightarrow> attack_request \<Rightarrow> unit service" where
  "serve_attack sv cred t (Q_create_mapping p) = discard (api_create_mapping sv cred t p)"
| "serve_attack sv cred t (Q_delete_mapping i) = discard (api_delete_mapping sv cred t i)"
| "serve_attack sv cred t (Q_heatmap f) = discard (api_heatmap sv cred t f)"

fun serve_enrichment :: "server \<Rightarrow> credentials \<Rightarrow> uuid \<Rightarrow> enrichment_request_op \<Rightarrow> unit service" where
  "serve_enrichment sv cred t (Q_list_sources pg) = discard (api_list_sources sv cred t pg)"
| "serve_enrichment sv cred t (Q_create_source p) = discard (api_create_source sv cred t p)"
| "serve_enrichment sv cred t (Q_update_source i p) = discard (api_update_source sv cred t i p)"
| "serve_enrichment sv cred t (Q_delete_source i) = discard (api_delete_source sv cred t i)"
| "serve_enrichment sv cred t (Q_trigger p) = discard (api_trigger sv cred t p)"
| "serve_enrichment sv cred t (Q_list_results c ob pg) = discard (api_list_observable_results sv cred t c ob pg)"

fun serve_report :: "server \<Rightarrow> credentials \<Rightarrow> uuid \<Rightarrow> report_request \<Rightarrow> unit service" where
  "serve_report sv cred t Q_list_report_templates = discard (api_list_report_templates sv cred t)"
| "serve_report sv cred t (Q_create_report_template p) = discard (api_create_report_template sv cred t p)"
| "serve_report sv cred t (Q_generate_report c i fmt) = discard (api_generate_report sv cred t c i fmt)"
| "serve_report sv cred t (Q_preview_report c i) = discard (api_preview_report sv cred t c i)"

fun serve_view :: "server \<Rightarrow> credentials \<Rightarrow> uuid \<Rightarrow> view_request \<Rightarrow> unit service" where
  "serve_view sv cred t (Q_logs pg f) = discard (api_list_logs sv cred t pg f)"
| "serve_view sv cred t (Q_metrics f) = discard (api_get_metrics sv cred t f)"
| "serve_view sv cred t (Q_search p) = discard (api_search sv cred t p)"

fun serve_tenant :: "server \<Rightarrow> credentials \<Rightarrow> uuid \<Rightarrow> tenant_request \<Rightarrow> unit service" where
  "serve_tenant sv cred t (On_cases q) = serve_case sv cred t q"
| "serve_tenant sv cred t (On_tasks q) = serve_task sv cred t q"
| "serve_tenant sv cred t (On_observables q) = serve_observable sv cred t q"
| "serve_tenant sv cred t (On_assets q) = serve_asset sv cred t q"
| "serve_tenant sv cred t (On_evidence q) = serve_evidence sv cred t q"
| "serve_tenant sv cred t (On_timeline q) = serve_timeline sv cred t q"
| "serve_tenant sv cred t (On_notes q) = serve_note sv cred t q"
| "serve_tenant sv cred t (On_alerts q) = serve_alert sv cred t q"
| "serve_tenant sv cred t (On_templates q) = serve_template sv cred t q"
| "serve_tenant sv cred t (On_attack q) = serve_attack sv cred t q"
| "serve_tenant sv cred t (On_enrichment q) = serve_enrichment sv cred t q"
| "serve_tenant sv cred t (On_reports q) = serve_report sv cred t q"
| "serve_tenant sv cred t (On_views q) = serve_view sv cred t q"

fun serve_user :: "server \<Rightarrow> credentials \<Rightarrow> uuid \<Rightarrow> user_request \<Rightarrow> unit service" where
  "serve_user sv cred t (Q_list_users pg svc) = discard (api_list_users sv cred t pg svc)"
| "serve_user sv cred t (Q_create_user p) = discard (api_create_user sv cred t p)"
| "serve_user sv cred t (Q_get_user u) = discard (api_get_user sv cred t u)"
| "serve_user sv cred t (Q_update_user u p) = discard (api_update_user sv cred t u p)"
| "serve_user sv cred t (Q_change_password u p) = discard (api_change_password sv cred t u p)"
| "serve_user sv cred t (Q_deactivate_user u) = discard (api_deactivate_user sv cred t u)"
| "serve_user sv cred t (Q_create_service_account p) = discard (api_create_service_account sv cred t p)"
| "serve_user sv cred t (Q_rotate_api_key u) = discard (api_rotate_api_key sv cred t u)"

fun serve_admin :: "server \<Rightarrow> credentials \<Rightarrow> admin_request \<Rightarrow> unit service" where
  "serve_admin sv cred (Q_list_modules pg) = discard (api_list_modules sv cred pg)"
| "serve_admin sv cred (Q_register_module p) = discard (api_register_module sv cred p)"
| "serve_admin sv cred (Q_update_module m p) = discard (api_update_module sv cred m p)"
| "serve_admin sv cred (Q_delete_module m) = discard (api_delete_module sv cred m)"
| "serve_admin sv cred (Q_list_executions m pg) = discard (api_list_executions sv cred m pg)"
| "serve_admin sv cred (Q_list_tenants pg) = discard (api_list_tenants sv cred pg)"
| "serve_admin sv cred (Q_create_tenant p) = discard (api_create_tenant sv cred p)"
| "serve_admin sv cred (Q_delete_tenant t) = discard (api_delete_tenant sv cred t)"

text \<open>\<^verbatim>\<open>/auth\<close>: login, refresh and logout run on the owner connection.\<close>

fun serve_auth :: "server \<Rightarrow> credentials \<Rightarrow> auth_request \<Rightarrow> unit service" where
  "serve_auth sv cred (Q_login name pw ip ua) = discard (get_db_unscoped (login (sv_env sv) (sv_auth sv) name pw ip ua))"
| "serve_auth sv cred (Q_refresh tok) = discard (refresh_token (sv_auth sv) tok)"
| "serve_auth sv cred Q_logout = discard (get_db (logout (sv_env sv) (sv_auth sv) (cr_token cred)))"
| "serve_auth sv cred Q_me = discard (get_db (get_me (sv_env sv) (sv_auth sv) (cr_token cred)))"

fun serve :: "server \<Rightarrow> credentials \<Rightarrow> request \<Rightarrow> unit service" where
  "serve sv cred (In_tenant t q) = serve_tenant sv cred t q"
| "serve sv cred (Users_of t q) = serve_user sv cred t q"
| "serve sv cred (Read_tenant t) = discard (api_get_tenant sv cred t)"
| "serve sv cred (Update_tenant t p) = discard (api_update_tenant sv cred t p)"
| "serve sv cred (For_admin q) = serve_admin sv cred q"
| "serve sv cred (For_anyone q) = serve_auth sv cred q"
| "serve sv cred Read_reference = discard api_list_reference"

text \<open>The queue's jobs run on the owner connection.\<close>

datatype job =
    Job_enrichment uuid uuid
  | Job_module uuid uuid "uuid option" string jobj "uuid option"
  | Job_report uuid uuid string

definition execute_processor_module ::
  "env \<Rightarrow> uuid \<Rightarrow> uuid \<Rightarrow> uuid option \<Rightarrow> string \<Rightarrow> jobj \<Rightarrow> uuid option \<Rightarrow> (uuid \<times> execution_status) service" where
  "execute_processor_module env module_id tenant_id case_id event_type payload actor_id =
     bind (execute_module env module_id tenant_id case_id [] payload actor_id (Some event_type)) (\<lambda>i.
     bind (refreshed executions_e i) (\<lambda>(i, x). ret (i, x_status x)))"

definition generate_report_job :: "env \<Rightarrow> vault \<Rightarrow> report_lib \<Rightarrow> uuid \<Rightarrow> uuid \<Rightarrow> string \<Rightarrow> uuid service" where
  "generate_report_job env v lib case_id template_id fmt = generate_report env v lib case_id template_id (Some fmt) None"

fun perform :: "server \<Rightarrow> job \<Rightarrow> unit service" where
  "perform sv (Job_enrichment ob src) = get_db_unscoped (discard (execute_enrichment ob src))"
| "perform sv (Job_module m t c ev p a) = get_db_unscoped (discard (execute_processor_module (sv_env sv) m t c ev p a))"
| "perform sv (Job_report c tp fmt) = get_db_unscoped (discard (generate_report_job (sv_env sv) (sv_vault sv) (sv_reports sv) c tp fmt))"

section \<open>Who a request runs as\<close>

text \<open>The principal of a request, and the state of a pooled connection before one.\<close>

definition runs_as :: "server \<Rightarrow> credentials \<Rightarrow> db \<Rightarrow> auth_context option" where
  "runs_as sv cred d = (case fst (get_principal (sv_env sv) (sv_auth sv) cred d) of Inl e \<Rightarrow> None | Inr auth \<Rightarrow> Some auth)"

definition idle :: "session \<Rightarrow> bool" where
  "idle s \<longleftrightarrow> \<not> s_bypass s \<and> nullif_empty (s_tenant s) = None \<and> nullif_empty (s_platform_admin s) = None"

definition of_tenant :: "uuid \<Rightarrow> auth_context \<Rightarrow> bool" where
  "of_tenant t auth \<longleftrightarrow> is_platform_admin auth \<or> ac_tenant_id auth = t"

lemma scope_standard: "idle s \<Longrightarrow> \<not> is_platform_admin auth \<Longrightarrow> rls_standard (scope auth s) u \<longleftrightarrow> u = ac_tenant_id auth"
  by (auto simp: rls_standard_def is_admin_policy_def scope_def idle_def)

lemma scope_nullable:
  "idle s \<Longrightarrow> \<not> is_platform_admin auth \<Longrightarrow> rls_nullable (scope auth s) u \<longleftrightarrow> u = None \<or> u = Some (ac_tenant_id auth)"
  by (auto simp: rls_nullable_def is_admin_policy_def scope_def idle_def split: option.splits)

lemma rollback_frame:
  "rollback d d' = d\<lparr>db_next_id := max (db_next_id d) (db_next_id d')\<rparr>\<lparr>db_published := db_published d', db_objects := db_objects d',
     db_redis := db_redis d', db_session := db_session d'\<rparr>"
  by (simp add: rollback_def)

text \<open>A tenant's route refuses the request without a trace but in Redis, or runs its body in the scoped session.\<close>

lemma tenant_route_cases:
  obtains (refused) e re s where "tenant_route env lib cred r a t msg body d = (Inl e, d\<lparr>db_redis := re, db_session := s\<rparr>)"
      "(\<exists>auth. fst (get_principal env lib cred d) = Inr auth \<and> \<not> (has_permission auth r a \<and> of_tenant t auth)
         \<and> (\<exists>m. e = HTTPException 403 m)) \<or> fst (get_principal env lib cred d) = Inl e"
  | (runs) auth re where "fst (get_principal env lib cred d) = Inr auth" "has_permission auth r a" "of_tenant t auth"
      "tenant_route env lib cred r a t msg body d =
        (case body auth (d\<lparr>db_redis := re, db_session := scope auth (db_session d)\<rparr>) of
           (Inr x, d') \<Rightarrow> (Inr x, end_transaction d') | (Inl e, d') \<Rightarrow> (Inl e, end_transaction (rollback d d')))"
proof -
  obtain p d1 where p: "get_principal env lib cred d = (p, d1)" by fastforce
  show thesis
  proof (cases p)
    case (Inl e)
    with get_principal_state [OF p] obtain re where "d1 = d\<lparr>db_redis := re\<rparr>" by auto
    then have "tenant_route env lib cred r a t msg body d = (Inl e, d\<lparr>db_redis := re, db_session := db_session (end_transaction d)\<rparr>)"
      using p Inl by (simp add: tenant_route_def route_def get_db_def svc_simps rollback_def end_transaction_def)
    with p Inl show thesis by (intro refused) auto
  next
    case (Inr auth)
    with get_principal_state [OF p] obtain re where d1: "d1 = d\<lparr>db_redis := re, db_session := scope auth (db_session d)\<rparr>" by auto
    show thesis
    proof (cases "has_permission auth r a \<and> of_tenant t auth")
      case True
      with p Inr d1 show thesis
        by (intro runs [of auth re])
          (simp_all add: tenant_route_def route_def get_db_def svc_simps require_permission_def same_tenant_def of_tenant_def)
    next
      case False
      let ?s = "db_session (end_transaction d1)"
      have "\<exists>m. tenant_route env lib cred r a t msg body d = (Inl (HTTPException 403 m), d\<lparr>db_redis := re, db_session := ?s\<rparr>)"
        using False p Inr d1 by (auto simp: tenant_route_def route_def get_db_def svc_simps require_permission_def same_tenant_def
          of_tenant_def rollback_def end_transaction_def)
      with p Inr False show thesis by (auto intro: refused)
    qed
  qed
qed

section \<open>What the routes keep\<close>

lemma keeps_require [keeps_intros]: "keeps I (require_permission r a p)"
  unfolding require_permission_def by (intro keeps_intros)

text \<open>The wrappers of the routers keep whatever the service keeps.\<close>

lemma keeps_wrappers [keeps_intros]:
  "keeps I m \<Longrightarrow> keeps I (discard m)" "keeps I n \<Longrightarrow> keeps I (created E ok n)" "keeps I k \<Longrightarrow> keeps I (updated okr i k)"
  unfolding discard_def created_def updated_def by (intro keeps_intros; assumption)+

lemma keeps_case_prod [keeps_intros]: "(\<And>x y. keeps I (f x y)) \<Longrightarrow> keeps I (case p of (x, y) \<Rightarrow> f x y)"
  by (cases p) simp

lemma keeps_case_sum [keeps_intros]:
  "(\<And>x. keeps I (f x)) \<Longrightarrow> (\<And>x. keeps I (g x)) \<Longrightarrow> keeps I (case p of Inl x \<Rightarrow> f x | Inr x \<Rightarrow> g x)"
  by (cases p) simp_all

lemmas request_guards = close_case_def create_observables_bulk_def guarded_def guarded_case_def guarded_template_def
  guarded_user_def for_admin_def user_of_tenant_def Let_def
lemmas api_guards = request_guards entry_with_links_def alert_answer_def

lemmas api_case_defs = api_list_cases_def api_create_case_def api_get_case_def api_update_case_def api_close_case_def
  api_merge_cases_def api_delete_case_def
lemmas api_task_defs = api_list_tasks_def api_create_task_def api_update_task_def api_delete_task_def
lemmas api_observable_defs = api_list_observables_def api_create_observable_def api_create_observables_bulk_def
  api_update_observable_def api_delete_observable_def
lemmas api_asset_defs = api_list_assets_def api_create_asset_def api_update_asset_def api_delete_asset_def
lemmas api_evidence_defs = api_list_evidence_def api_register_evidence_def api_upload_evidence_file_def
  api_download_evidence_file_def api_update_evidence_def api_delete_evidence_def
lemmas api_timeline_defs = api_list_timeline_def api_add_manual_entry_def api_update_entry_def api_delete_entry_def
  api_get_swimlane_def
lemmas api_note_defs = api_list_folders_def api_create_folder_def api_update_folder_def api_delete_folder_def
  api_list_notes_def api_create_note_def api_update_note_def api_delete_note_def
lemmas api_alert_defs = api_list_alerts_def api_ingest_alert_def api_get_alert_def api_dismiss_alert_def api_promote_alert_def
lemmas api_template_defs = api_list_case_templates_def api_create_case_template_def api_get_case_template_def
  api_update_case_template_def api_delete_case_template_def
lemmas api_attack_defs = api_create_mapping_def api_delete_mapping_def api_heatmap_def
lemmas api_enrichment_defs = api_list_sources_def api_create_source_def api_update_source_def api_delete_source_def
  api_trigger_def api_list_observable_results_def
lemmas api_report_defs = api_list_report_templates_def api_create_report_template_def api_generate_report_def api_preview_report_def
lemmas api_view_defs = api_list_logs_def api_get_metrics_def api_search_def
lemmas api_user_defs = api_list_users_def api_create_user_def api_get_user_def api_update_user_def api_change_password_def
  api_deactivate_user_def api_create_service_account_def api_rotate_api_key_def
lemmas api_admin_defs = api_list_modules_def api_register_module_def api_update_module_def api_delete_module_def
  api_list_executions_def api_list_tenants_def api_create_tenant_def api_delete_tenant_def api_get_tenant_def api_update_tenant_def

text \<open>Everything between a request of a tenant and its route.\<close>

lemmas routed =
  serve_tenant.simps serve_case.simps serve_task.simps serve_observable.simps serve_asset.simps serve_evidence.simps
  serve_timeline.simps serve_note.simps serve_alert.simps serve_template.simps serve_attack.simps serve_enrichment.simps
  serve_report.simps serve_view.simps api_case_defs api_task_defs api_observable_defs api_asset_defs api_evidence_defs
  api_timeline_defs api_note_defs api_alert_defs api_template_defs api_attack_defs api_enrichment_defs api_report_defs
  api_view_defs

text \<open>What only reads keeps everything.\<close>

lemma keeps_reading [keeps_intros]:
  "keeps I (list_cases t cf n m)" "keeps I (list_tasks c n m)" "keeps I (list_observables c n m)" "keeps I (cross_case_count t ty v c)"
  "keeps I (list_assets c n m)" "keeps I (list_evidence c n m)" "keeps I (list_entries c f n m)"
  "keeps I (list_folders col c)" "keeps I (list_notes c fo n m)" "keeps I (list_alerts t af n m)" "keeps I (list_templates t n m)"
  "keeps I (build_heatmap t hf)" "keeps I list_reference" "keeps I (list_sources t n m)"
  "keeps I (list_results ob n m)" "keeps I (search t sq)" "keeps I (get_tenant t)"
  "keeps I (case_or_404 c)" "keeps I (alert_or_404 al)" "keeps I (evidence_or_404 ev)" "keeps I (get_template t tp)"
    "keeps I (download_evidence_file vt ev pw)"
  unfolding download_evidence_file_def list_cases_def list_tasks_def list_observables_def cross_case_count_def list_assets_def list_evidence_def list_entries_def
    list_folders_def list_notes_def list_alerts_def list_templates_def build_heatmap_def
    list_reference_def list_sources_def list_results_def search_def search_in_def Let_def get_template_def
  by (intro keeps_intros; simp?)+

lemma keeps_timeline_reading [keeps_intros]:
  "keeps I (get_asset_links es)" "keeps I (build_swimlane c f th)"
  unfolding get_asset_links_def build_swimlane_def Let_def by (intro keeps_intros; simp?)+

lemma keeps_answers [keeps_intros]: "keeps I (entry_with_links r)" "keeps I (alert_answer ar)"
  unfolding entry_with_links_def alert_answer_def by (intro keeps_intros; simp?)+

text \<open>Redis is written beside the tables.\<close>

lemma keeps_redis_writes:
  assumes "\<And>d re. I d \<Longrightarrow> I (d\<lparr>db_redis := re\<rparr>)"
  shows "keeps I (redis_get env k)" "keeps I (redis_set env k x ttl)" "keeps I (redis_delete env k)"
    "keeps I (compute_metrics env codec t f)"
proof -
  have up: "keeps I (modify (\<lambda>d. d\<lparr>db_redis := f d\<rparr>))" for f
    by (rule keeps_modify) (rule assms)
  show redis: "keeps I (redis_get env k)" for k
    unfolding redis_get_def redis_up_def by (intro keeps_intros)
  show set: "keeps I (redis_set env k x ttl)" for k x ttl
    unfolding redis_set_def redis_up_def by (intro keeps_intros up)
  show "keeps I (redis_delete env k)"
    unfolding redis_delete_def redis_up_def by (intro keeps_intros up)
  show "keeps I (compute_metrics env codec t f)"
    unfolding compute_metrics_def cached_metrics_def fresh_metrics_def Let_def by (intro keeps_intros redis set)
qed

section \<open>Concrete input\<close>

text \<open>A server, and a database in which alice is a service account of tenant 1; bob administers tenant 2.\<close>

definition demo_server :: server where
  "demo_server = \<lparr>sv_env = demo_env, sv_auth = demo_lib, sv_vault = demo_vault, sv_reports = \<lparr>rl_render = (\<lambda>t c. Some t), rl_docx = concat\<rparr>,
     sv_codec = demo_codec, sv_collate = (\<lambda>s. map of_char s)\<rparr>"

definition demo_idle :: session where
  "demo_idle = \<lparr>s_bypass = False, s_tenant = Guc_unset, s_platform_admin = Guc_empty\<rparr>"

definition demo_service_db :: db where
  "demo_service_db = demo_db\<lparr>db_users := [(3, (demo_user 1 ''alice'' API_SERVICE_ACCOUNT)\<lparr>u_is_service_account := True, u_api_key_hash := Some ''#wat_k''\<rparr>),
     (4, demo_user 2 ''bob'' TENANT_ADMIN)], db_session := demo_idle\<rparr>"

definition demo_cred :: credentials where
  "demo_cred = \<lparr>cr_token = None, cr_api_key = Some ''wat_k''\<rparr>"

definition demo_alice :: auth_context where
  "demo_alice = \<lparr>ac_user_id = 3, ac_tenant_id = 1, ac_username = ''alice'', ac_display_name = ''alice'', ac_role = API_SERVICE_ACCOUNT,
     ac_session_id = ''apikey:'' @ uuid_str 3, ac_is_service_account = True\<rparr>"

lemma demo_idle_session: "idle demo_idle" "db_session demo_service_db = demo_idle"
  by (simp_all add: demo_idle_def idle_def demo_service_db_def)

lemma demo_service_wf: "wf_db demo_service_db"
  by (simp add: demo_service_db_def demo_idle_def wf_db_def wf_ids_def wf_tenancy_def wf_unique_def ids_ok_def rows_in_case_def tenant_in_def
      unique_rows_def notes_filed_def pending_unique_def promoted_has_case_def row_get_def demo_defs)

lemma demo_principal:
  "get_principal demo_env demo_lib demo_cred demo_service_db =
     (Inr demo_alice, demo_service_db\<lparr>db_session := scope demo_alice demo_idle\<rparr>)"
  by (simp add: get_principal_def scoped_def get_db_unscoped_def load_service_account_def scalar_one_or_none_def hash_api_key_def utf8_def
      api_key_prefix_def scope_session_def apply_tenant_context_def scope_def is_platform_admin_def
      demo_service_db_def demo_idle_def demo_lib_def demo_cred_def demo_alice_def owner_session_def run_simps)

lemma demo_runs: "runs_as demo_server demo_cred demo_service_db = Some demo_alice"
  by (simp add: runs_as_def demo_server_def demo_principal)

lemma demo_scope: "scope demo_alice demo_idle = tenant_session 1"
  by (simp add: scope_def demo_alice_def demo_idle_def tenant_session_def is_platform_admin_def)

lemma demo_tenant_route:
  assumes "allowed API_SERVICE_ACCOUNT r a" and "t = 1"
  shows "tenant_route demo_env demo_lib demo_cred r a t msg body demo_service_db =
    (case body demo_alice (demo_service_db\<lparr>db_session := tenant_session 1\<rparr>) of
       (Inr x, d') \<Rightarrow> (Inr x, end_transaction d') | (Inl e, d') \<Rightarrow> (Inl e, end_transaction (rollback demo_service_db d')))"
proof -
  have "ac_role demo_alice = API_SERVICE_ACCOUNT" "ac_tenant_id demo_alice = 1"
    by (simp_all add: demo_alice_def)
  then show ?thesis
    using assms by (simp add: tenant_route_def route_def get_db_def svc_simps demo_principal demo_scope same_tenant_def)
qed

text \<open>Adding a task to a case.\<close>

definition demo_request :: tenant_request where
  "demo_request = On_tasks (Q_create_task 5 \<lparr>kc_title = ''Reimage'', kc_description = None, kc_assignee_id = None, kc_sort_order = 0\<rparr>)"

lemma demo_run:
  "\<exists>d'. serve demo_server demo_cred (In_tenant 1 demo_request) demo_service_db = (Inr (), d') \<and> length (db_tasks d') = 2"
  by (simp add: demo_request_def api_create_task_def guarded_def demo_server_def demo_tenant_route analyst_may_def investigation_def
        discard_def bind_apply)
    (simp add: created_def respond_def refreshed_def create_task_def get_or_404_def find_row_def now_utc_def
      demo_service_db_def demo_alice_def end_transaction_def run_simps)

end
