(* ===== verification/Consistency.thy ===== *)
theory Consistency
  imports Server
begin

text \<open>
  The integrity of the database under every request and every job of the queue.
\<close>

text \<open>Neither a rollback nor the end of a transaction, a change of connection or the Redis keys touch the tables.\<close>

lemma wf_ids_raise: "wf_ids d \<Longrightarrow> db_next_id d \<le> n \<Longrightarrow> wf_ids (d\<lparr>db_next_id := n\<rparr>)"
  unfolding wf_ids_def by (simp, intro conjI; elim conjE; erule ids_ok_mono; assumption)

lemma wf_db_raise: "wf_db d \<Longrightarrow> db_next_id d \<le> n \<Longrightarrow> wf_db (d\<lparr>db_next_id := n\<rparr>)"
  unfolding wf_db_def wf_tenancy_def wf_unique_def using wf_ids_raise [of d n] by simp

lemma wf_db_frame [simp]:
  "wf_db (d\<lparr>db_session := s\<rparr>) = wf_db d" "wf_db (d\<lparr>db_redis := re\<rparr>) = wf_db d" "wf_db (d\<lparr>db_objects := os\<rparr>) = wf_db d"
  by (simp_all add: wf_db_def wf_ids_def wf_tenancy_def wf_unique_def)

lemma wf_rollback: "wf_db d \<Longrightarrow> wf_db (rollback d d')"
  by (simp add: rollback_frame wf_db_raise)

lemma wf_end: "wf_db (end_transaction d) = wf_db d"
  by (simp add: end_transaction_def)

lemma wf_get_db [keeps_intros]: "keeps (wf_at {}) m \<Longrightarrow> keeps (wf_at {}) (get_db m)"
  by (auto simp: keeps_def wf_at_empty get_db_def wf_end wf_rollback split: prod.splits sum.splits)

lemma wf_get_db_unscoped [keeps_intros]: "keeps (wf_at {}) m \<Longrightarrow> keeps (wf_at {}) (get_db_unscoped m)"
  unfolding keeps_def wf_at_empty
proof (intro allI impI)
  fix d assume k: "\<forall>s. wf_db s \<longrightarrow> wf_db (snd (m s))" and d: "wf_db d"
  obtain r d1 where m: "m (d\<lparr>db_session := owner_session\<rparr>) = (r, d1)" by fastforce
  from k d m have "wf_db d1" by (metis snd_conv wf_db_frame(1))
  with d m show "wf_db (snd (get_db_unscoped m d))"
    by (auto simp: get_db_unscoped_def wf_rollback split: sum.splits)
qed

lemma wf_principal [keeps_intros]: "keeps (wf_at {}) (get_principal env lib cred)"
proof (rule keepsI)
  fix d assume "wf_at {} d"
  moreover obtain r d' where p: "get_principal env lib cred d = (r, d')" by fastforce
  ultimately show "wf_at {} (snd (get_principal env lib cred d))"
    using get_principal_state [OF p] by (cases r) (auto simp: wf_at_empty)
qed

lemma wf_current_user [keeps_intros]: "keeps (wf_at {}) (get_current_user env lib tok)"
proof (cases tok)
  case (Some t)
  have "get_current_user env lib tok = get_principal env lib \<lparr>cr_token = Some t, cr_api_key = None\<rparr>"
    by (simp add: Some get_current_user_def get_principal_def)
  then show ?thesis by (simp add: wf_principal)
qed (simp add: get_current_user_def keeps_raise)

lemma wf_route [keeps_intros]:
  "(\<And>auth. keeps (wf_at {}) (body auth)) \<Longrightarrow> keeps (wf_at {}) (route env lib cred r a body)"
  unfolding route_def by (intro keeps_intros)

lemma wf_guarded [keeps_intros]:
  "(\<And>auth. keeps (wf_at {}) (body auth)) \<Longrightarrow> keeps (wf_at {}) (tenant_route env lib cred r a t s body)"
  "(\<And>auth. keeps (wf_at {}) (body auth)) \<Longrightarrow> keeps (wf_at {}) (owner_route env lib cred r a t s body)"
  "keeps (wf_at {}) m \<Longrightarrow> keeps (wf_at {}) (admin_route env lib tok m)"
  unfolding tenant_route_def owner_route_def admin_route_def by (intro keeps_intros; assumption)+

lemma redis_wf: "wf_at A d \<Longrightarrow> wf_at A (d\<lparr>db_redis := re\<rparr>)"
  by (simp add: wf_at_def)

lemma module_service_at [keeps_intros]:
  "keeps (wf_at A) (register_module mr)" "keeps (wf_at A) (update_module m mu)" "keeps (wf_at A) (delete_module m)"
  unfolding register_module_def update_module_def delete_module_def by (intro keeps_intros; simp?)+

lemma auth_service_at [keeps_intros]:
  "keeps (wf_at {}) (login env lib name pw ip ua)" "keeps (wf_at {}) (refresh_token lib tok)"
  "keeps (wf_at {}) (logout env lib token)" "keeps (wf_at {}) (get_me env lib token)"
  unfolding login_def refresh_token_def logout_def get_me_def create_session_def create_access_token_def create_refresh_token_def
    build_payload_def user_response_def decode_token_def invalidate_session_def Let_def
  by (intro keeps_intros keeps_redis_writes redis_wf; (assumption | simp add: keeps_intros split: json.split)?)+


lemma wf_serve_user [keeps_intros]: "keeps (wf_at {}) (serve_user sv cred t q)"
  by (cases q; simp only: serve_user.simps; unfold api_user_defs api_guards; intro keeps_intros; assumption?)

lemma wf_serve_admin [keeps_intros]: "keeps (wf_at {}) (serve_admin sv cred q)"
  by (cases q; simp only: serve_admin.simps; unfold api_admin_defs api_guards; intro keeps_intros; assumption?)








section \<open>Reachable states\<close>


lemma wf_db_now [simp]: "wf_db (d\<lparr>db_now := n\<rparr>) = wf_db d"
  by (simp add: wf_db_def wf_ids_def wf_tenancy_def wf_unique_def)



text \<open>
  What the exception excludes: an administrator of the platform triggers an enrichment of tenant 2's observable on the
  path of tenant 1. The entry that logs it is tenant 1's, on a case of tenant 2.
\<close>

lemma cross_tenant_trigger_breaks:
  "let d = demo_sources\<lparr>db_session := \<lparr>s_bypass = False, s_tenant = Guc_val 1, s_platform_admin = Guc_val True\<rparr>\<rparr> in
   \<exists>d'. wf_db d \<and> trigger_enrichment demo_env 1 \<lparr>eq_observable_ids = [10], eq_source_ids = None\<rparr> 3 d = (Inr [''task''], d') \<and> \<not> wf_db d'"
proof -
  let ?d = "demo_sources\<lparr>db_session := \<lparr>s_bypass = False, s_tenant = Guc_val 1, s_platform_admin = Guc_val True\<rparr>\<rparr>"
  have wf: "wf_db ?d"
    by (simp add: demo_sources_def wf_db_def wf_ids_def wf_tenancy_def wf_unique_def ids_ok_def rows_in_case_def tenant_in_def
        unique_rows_def notes_filed_def pending_unique_def promoted_has_case_def row_get_def demo_defs)
  obtain d' where run: "trigger_enrichment demo_env 1 \<lparr>eq_observable_ids = [10], eq_source_ids = None\<rparr> 3 ?d = (Inr [''task''], d')"
    and entry: "\<exists>e. (20, e) \<in> set (db_timeline d') \<and> tl_case_id e = 7 \<and> tl_tenant_id e = 1" and c: "case_tenant d' 7 = Some 2"
    by (simp add: trigger_enrichment_def enrich_one_def queue_job_def demo_sources_def tenant_in_def run_simps)
  have "\<not> rows_in_case (case_tenant d') tl_case_id tl_tenant_id (db_timeline d')"
    using entry c unfolding rows_in_case_def by force
  then have "\<not> wf_db d'" by (simp add: wf_db_def wf_tenancy_def)
  with wf run show ?thesis by auto
qed

end
