(* ===== verification/Authorization.thy ===== *)
theory Authorization
  imports Server
begin

text \<open>
  What each request needs: \<open>required\<close> is the permission of an endpoint, \<open>admitted\<close> the rule a
  principal has to meet. The theorem compares them with the routes.
\<close>

section \<open>The permission of a request\<close>

fun required_case :: "case_request \<Rightarrow> resource \<times> action" where
  "required_case (Q_list_cases _ _) = (R_CASE, A_READ)"
| "required_case (Q_create_case _) = (R_CASE, A_CREATE)"
| "required_case (Q_get_case _) = (R_CASE, A_READ)"
| "required_case (Q_delete_case _) = (R_CASE, A_DELETE)"
| "required_case _ = (R_CASE, A_UPDATE)"

fun required_task :: "task_request \<Rightarrow> resource \<times> action" where
  "required_task (Q_list_tasks _ _) = (R_TASK, A_READ)"
| "required_task (Q_create_task _ _) = (R_TASK, A_CREATE)"
| "required_task (Q_update_task _ _ _) = (R_TASK, A_UPDATE)"
| "required_task (Q_delete_task _ _) = (R_TASK, A_DELETE)"

fun required_observable :: "observable_request \<Rightarrow> resource \<times> action" where
  "required_observable (Q_list_observables _ _) = (R_OBSERVABLE, A_READ)"
| "required_observable (Q_update_observable _ _ _) = (R_OBSERVABLE, A_UPDATE)"
| "required_observable (Q_delete_observable _ _) = (R_OBSERVABLE, A_DELETE)"
| "required_observable _ = (R_OBSERVABLE, A_CREATE)"

fun required_asset :: "asset_request \<Rightarrow> resource \<times> action" where
  "required_asset (Q_list_assets _ _) = (R_ASSET, A_READ)"
| "required_asset (Q_create_asset _ _) = (R_ASSET, A_CREATE)"
| "required_asset (Q_update_asset _ _ _) = (R_ASSET, A_UPDATE)"
| "required_asset (Q_delete_asset _ _) = (R_ASSET, A_DELETE)"

fun required_evidence :: "evidence_request \<Rightarrow> resource \<times> action" where
  "required_evidence (Q_list_evidence _ _) = (R_EVIDENCE, A_READ)"
| "required_evidence (Q_download_file _ _ _) = (R_EVIDENCE, A_READ)"
| "required_evidence (Q_register_evidence _ _) = (R_EVIDENCE, A_CREATE)"
| "required_evidence (Q_delete_evidence _ _) = (R_EVIDENCE, A_DELETE)"
| "required_evidence _ = (R_EVIDENCE, A_UPDATE)"

fun required_timeline :: "timeline_request \<Rightarrow> resource \<times> action" where
  "required_timeline (Q_add_entry _ _) = (R_TIMELINE, A_CREATE)"
| "required_timeline (Q_update_entry _ _ _) = (R_TIMELINE, A_UPDATE)"
| "required_timeline (Q_delete_entry _ _) = (R_TIMELINE, A_DELETE)"
| "required_timeline _ = (R_TIMELINE, A_READ)"

fun required_note :: "note_request \<Rightarrow> resource \<times> action" where
  "required_note (Q_list_folders _) = (R_NOTE, A_READ)"
| "required_note (Q_list_notes _ _ _) = (R_NOTE, A_READ)"
| "required_note (Q_create_folder _ _) = (R_NOTE, A_CREATE)"
| "required_note (Q_create_note _ _) = (R_NOTE, A_CREATE)"
| "required_note (Q_delete_folder _ _) = (R_NOTE, A_DELETE)"
| "required_note (Q_delete_note _ _) = (R_NOTE, A_DELETE)"
| "required_note _ = (R_NOTE, A_UPDATE)"

fun required_alert :: "alert_request \<Rightarrow> resource \<times> action" where
  "required_alert (Q_list_alerts _ _) = (R_ALERT, A_READ)"
| "required_alert (Q_get_alert _) = (R_ALERT, A_READ)"
| "required_alert (Q_ingest _) = (R_ALERT, A_CREATE)"
| "required_alert _ = (R_ALERT, A_UPDATE)"

fun required_template :: "template_request \<Rightarrow> resource \<times> action" where
  "required_template (Q_create_template _) = (R_CASE_TEMPLATE, A_CREATE)"
| "required_template (Q_update_template _ _) = (R_CASE_TEMPLATE, A_UPDATE)"
| "required_template (Q_delete_template _) = (R_CASE_TEMPLATE, A_DELETE)"
| "required_template _ = (R_CASE_TEMPLATE, A_READ)"

fun required_attack :: "attack_request \<Rightarrow> resource \<times> action" where
  "required_attack (Q_create_mapping _) = (R_ATTACK_MAPPING, A_CREATE)"
| "required_attack (Q_delete_mapping _) = (R_ATTACK_MAPPING, A_DELETE)"
| "required_attack (Q_heatmap _) = (R_ATTACK_MAPPING, A_READ)"

fun required_enrichment :: "enrichment_request_op \<Rightarrow> resource \<times> action" where
  "required_enrichment (Q_list_sources _) = (R_ENRICHMENT_SOURCE, A_READ)"
| "required_enrichment (Q_create_source _) = (R_ENRICHMENT_SOURCE, A_CREATE)"
| "required_enrichment (Q_update_source _ _) = (R_ENRICHMENT_SOURCE, A_UPDATE)"
| "required_enrichment (Q_delete_source _) = (R_ENRICHMENT_SOURCE, A_DELETE)"
| "required_enrichment (Q_trigger _) = (R_ENRICHMENT, A_EXECUTE)"
| "required_enrichment (Q_list_results _ _ _) = (R_ENRICHMENT, A_READ)"

fun required_report :: "report_request \<Rightarrow> resource \<times> action" where
  "required_report Q_list_report_templates = (R_REPORT_TEMPLATE, A_READ)"
| "required_report (Q_create_report_template _) = (R_REPORT_TEMPLATE, A_CREATE)"
| "required_report (Q_generate_report _ _ _) = (R_REPORT, A_CREATE)"
| "required_report (Q_preview_report _ _) = (R_REPORT, A_READ)"

fun required_view :: "view_request \<Rightarrow> resource \<times> action" where
  "required_view (Q_logs _ _) = (R_AUDIT_LOG, A_READ)"
| "required_view (Q_metrics _) = (R_DASHBOARD, A_READ)"
| "required_view (Q_search _) = (R_SEARCH, A_READ)"

fun required_tenant :: "tenant_request \<Rightarrow> resource \<times> action" where
  "required_tenant (On_cases q) = required_case q"
| "required_tenant (On_tasks q) = required_task q"
| "required_tenant (On_observables q) = required_observable q"
| "required_tenant (On_assets q) = required_asset q"
| "required_tenant (On_evidence q) = required_evidence q"
| "required_tenant (On_timeline q) = required_timeline q"
| "required_tenant (On_notes q) = required_note q"
| "required_tenant (On_alerts q) = required_alert q"
| "required_tenant (On_templates q) = required_template q"
| "required_tenant (On_attack q) = required_attack q"
| "required_tenant (On_enrichment q) = required_enrichment q"
| "required_tenant (On_reports q) = required_report q"
| "required_tenant (On_views q) = required_view q"

text \<open>The actions on the users of a tenant; a password can also be changed by its owner, with a user session.\<close>

fun required_user :: "user_request \<Rightarrow> action" where
  "required_user (Q_list_users _ _) = A_READ"
| "required_user (Q_get_user _) = A_READ"
| "required_user (Q_create_user _) = A_CREATE"
| "required_user (Q_create_service_account _) = A_CREATE"
| "required_user (Q_deactivate_user _) = A_DELETE"
| "required_user _ = A_UPDATE"

definition may :: "resource \<times> action \<Rightarrow> uuid \<Rightarrow> auth_context \<Rightarrow> bool" where
  "may ra t auth \<longleftrightarrow> allowed (ac_role auth) (fst ra) (snd ra) \<and> of_tenant t auth"

fun admitted :: "request \<Rightarrow> auth_context \<Rightarrow> bool" where
  "admitted (In_tenant t q) auth = may (required_tenant q) t auth"
| "admitted (Users_of t (Q_change_password u p)) auth =
     (of_tenant t auth \<and> (ac_user_id auth = u \<or> allowed (ac_role auth) R_USER A_UPDATE))"
| "admitted (Users_of t q) auth = may (R_USER, required_user q) t auth"
| "admitted (Read_tenant t) auth = may (R_TENANT, A_READ) t auth"
| "admitted (Update_tenant t p) auth = may (R_TENANT, A_UPDATE) t auth"
| "admitted (For_admin q) auth = is_platform_admin auth"
| "admitted (For_anyone q) auth = True"
| "admitted Read_reference auth = True"

text \<open>The requests for which a principal has to be there.\<close>

fun needs_principal :: "request \<Rightarrow> bool" where
  "needs_principal (For_anyone q) = False"
| "needs_principal Read_reference = False"
| "needs_principal _ = True"

section \<open>Refusal\<close>

text \<open>
  A refusal: an error, and a state in which only Redis (the use of a session) and the settings of the connection may
  differ. A principal that is not admitted gets 403 (401 when an API key is used where only user sessions are taken).
\<close>

definition refused :: "server \<Rightarrow> credentials \<Rightarrow> db \<Rightarrow> (api_error + unit) \<times> db \<Rightarrow> bool" where
  "refused sv cred d run = (\<exists>e re s. run = (Inl e, d\<lparr>db_redis := re, db_session := s\<rparr>) \<and>
     (runs_as sv cred d = None \<or> (\<exists>n m. e = HTTPException n m \<and> n \<in> {401, 403})))"

lemma may_permission: "may (r, a) t auth \<longleftrightarrow> has_permission auth r a \<and> of_tenant t auth"
  by (simp add: may_def has_permission_allowed)

lemma tenant_route_refused:
  assumes "\<And>auth. runs_as sv cred d = Some auth \<Longrightarrow> \<not> may (r, a) t auth"
  shows "refused sv cred d (discard (tenant_route (sv_env sv) (sv_auth sv) cred r a t msg body) d)"
proof (cases rule: tenant_route_cases [of "sv_env sv" "sv_auth sv" cred r a t msg body d])
  case (refused e re s)
  have out: "discard (tenant_route (sv_env sv) (sv_auth sv) cred r a t msg body) d = (Inl e, d\<lparr>db_redis := re, db_session := s\<rparr>)"
    using refused(1) by (simp add: discard_def bind_apply)
  have "runs_as sv cred d = None \<or> (\<exists>n m. e = HTTPException n m \<and> n \<in> {401, 403})"
    using refused(2) by (auto simp: runs_as_def)
  with out show ?thesis unfolding refused_def by blast
next
  case (runs auth re)
  then have "runs_as sv cred d = Some auth" "may (r, a) t auth"
    by (simp_all add: runs_as_def may_permission)
  with assms show ?thesis by blast
qed

text \<open>A user session, for the routes that take no API key.\<close>

lemma current_user_principal:
  "get_current_user env lib (cr_token cred) d = (case cr_token cred of None \<Rightarrow> (Inl credentials_error, d) | Some t \<Rightarrow> get_principal env lib cred d)"
  by (simp add: get_current_user_def get_principal_def svc_simps split: option.split)

lemma session_route_refused:
  assumes "\<And>auth d1. runs_as sv cred d = Some auth \<Longrightarrow> \<exists>m. body auth d1 = (Inl (HTTPException 403 m), d1)"
  shows "refused sv cred d (discard (get_db (bind (get_current_user (sv_env sv) (sv_auth sv) (cr_token cred)) body)) d)"
proof -
  obtain p d1 where p: "get_principal (sv_env sv) (sv_auth sv) cred d = (p, d1)" by fastforce
  show ?thesis
  proof (cases "cr_token cred")
    case None
    then show ?thesis
      unfolding refused_def by (intro exI [of _ credentials_error] exI [of _ "db_redis d"] exI [of _ "db_session (end_transaction d)"])
        (simp add: discard_def get_db_def get_current_user_def svc_simps rollback_def end_transaction_def)
  next
    case (Some t)
    have u: "get_current_user (sv_env sv) (sv_auth sv) (Some t) d = (p, d1)"
      using current_user_principal [of "sv_env sv" "sv_auth sv" cred d] Some p by simp
    show ?thesis
    proof (cases p)
      case (Inl e)
      with get_principal_state [OF p] obtain re where "d1 = d\<lparr>db_redis := re\<rparr>" by auto
      with Some p Inl show ?thesis
        unfolding refused_def by (intro exI [of _ e] exI [of _ re] exI [of _ "db_session (end_transaction d)"])
          (simp add: discard_def get_db_def u svc_simps rollback_def end_transaction_def runs_as_def)
    next
      case (Inr auth)
      with get_principal_state [OF p] obtain re where d1: "d1 = d\<lparr>db_redis := re, db_session := scope auth (db_session d)\<rparr>" by auto
      obtain m where "body auth d1 = (Inl (HTTPException 403 m), d1)"
        using assms [of auth d1] p Inr by (auto simp: runs_as_def)
      with Some p Inr d1 show ?thesis
        unfolding refused_def by (intro exI [of _ "HTTPException 403 m"] exI [of _ re] exI [of _ "db_session (end_transaction d1)"])
          (simp add: discard_def get_db_def u svc_simps rollback_def end_transaction_def)
    qed
  qed
qed

section \<open>The theorem\<close>

lemma serve_tenant_refused:
  assumes "\<And>auth. runs_as sv cred d = Some auth \<Longrightarrow> \<not> may (required_tenant q) t auth"
  shows "refused sv cred d (serve_tenant sv cred t q d)"
  using assms
  by (cases q; rename_tac op; case_tac op; hypsubst; simp only: routed guarded_case_def guarded_def guarded_template_def;
      intro tenant_route_refused) auto

lemma serve_user_refused:
  assumes "\<And>auth. runs_as sv cred d = Some auth \<Longrightarrow> \<not> admitted (Users_of t q) auth"
  shows "refused sv cred d (serve_user sv cred t q d)"
proof (cases "\<exists>u p. q = Q_change_password u p")
  case True
  then obtain u p where q: "q = Q_change_password u p" by blast
  have adm: "is_platform_admin auth \<Longrightarrow> allowed (ac_role auth) r a" for auth r a
    by (simp add: is_platform_admin_def)
  show ?thesis
    unfolding q serve_user.simps api_change_password_def
    using assms unfolding q admitted.simps
    by (intro session_route_refused) (auto simp: svc_simps same_tenant_def of_tenant_def has_permission_allowed adm)
next
  case False
  then show ?thesis using assms
    by (cases q; simp only: serve_user.simps api_user_defs guarded_user_def owner_route_def; (intro tenant_route_refused)?) auto
qed

lemma serve_admin_refused:
  assumes "\<And>auth. runs_as sv cred d = Some auth \<Longrightarrow> \<not> is_platform_admin auth"
  shows "refused sv cred d (serve_admin sv cred q d)"
  using assms
  by (cases q; simp only: serve_admin.simps api_admin_defs for_admin_def admin_route_def; intro session_route_refused)
    (auto simp: svc_simps platform_admin_only_def)

text \<open>
  C2: fail closed. A request that needs a principal is refused, and changes nothing but the use of a session in Redis,
  unless its credentials are those of a principal whose role has the permission of the endpoint and who belongs to the
  tenant of the path or administers the platform. Reading, the writes, the owner connection's routes and the platform's
  administration are all behind this rule.
\<close>

theorem fail_closed:
  assumes "needs_principal q" and "case runs_as sv cred d of None \<Rightarrow> True | Some auth \<Rightarrow> \<not> admitted q auth"
  shows "refused sv cred d (serve sv cred q d)"
proof -
  have not: "\<not> admitted q auth" if "runs_as sv cred d = Some auth" for auth
    using assms(2) that by simp
  show ?thesis
  proof (cases q)
    case (In_tenant t op)
    with not show ?thesis by (simp add: serve_tenant_refused)
  next
    case (Users_of t op)
    with not show ?thesis by (simp add: serve_user_refused)
  next
    case (Read_tenant t)
    with not show ?thesis
      by (simp only: serve.simps api_get_tenant_def owner_route_def) (intro tenant_route_refused, auto)
  next
    case (Update_tenant t p)
    with not show ?thesis
      by (simp only: serve.simps api_update_tenant_def owner_route_def) (intro tenant_route_refused, auto)
  next
    case (For_admin op)
    with not show ?thesis by (simp add: serve_admin_refused)
  qed (use assms(1) in auto)
qed

text \<open>The service account of tenant 1 asks for a case of tenant 2, and without a key for one of its own.\<close>

lemma fail_closed_witness:
  "refused demo_server demo_cred demo_service_db (serve demo_server demo_cred (In_tenant 2 (On_cases (Q_get_case 7))) demo_service_db) \<and>
   (\<exists>e d'. serve demo_server demo_cred (In_tenant 2 (On_cases (Q_get_case 7))) demo_service_db = (Inl e, d'))"
proof -
  have "refused demo_server demo_cred demo_service_db (serve demo_server demo_cred (In_tenant 2 (On_cases (Q_get_case 7))) demo_service_db)"
    by (rule fail_closed) (simp_all add: demo_runs may_def of_tenant_def demo_alice_def is_platform_admin_def)
  then show ?thesis by (auto simp: refused_def)
qed

section \<open>Roles\<close>

lemma owner_route_InrD:
  assumes "owner_route env lib cred r a t msg body d = (Inr x, d')"
  shows "\<exists>auth re d2 s. fst (get_principal env lib cred d) = Inr auth \<and> has_permission auth r a \<and> of_tenant t auth \<and>
    body auth (d\<lparr>db_redis := re, db_session := owner_session\<rparr>) = (Inr x, d2) \<and> d' = d2\<lparr>db_session := s\<rparr>"
proof -
  note run = assms [unfolded owner_route_def]
  show ?thesis
  proof (cases rule: tenant_route_cases [of env lib cred r a t msg "\<lambda>auth. get_db_unscoped (body auth)" d])
    case (refused e re s)
    with run show ?thesis by simp
  next
    case (runs auth re)
    let ?d1 = "d\<lparr>db_redis := re, db_session := owner_session\<rparr>"
    have "\<exists>d2 s. body auth ?d1 = (Inr x, d2) \<and> d' = d2\<lparr>db_session := s\<rparr>"
      using run unfolding runs(4)
      by (auto simp: get_db_unscoped_def end_transaction_def split: prod.splits sum.splits)
    with runs(1-3) show ?thesis by blast
  qed
qed

lemma create_user_InrD:
  assumes "create_user lib t payload d = (Inr i, d')"
  shows "\<exists>n row. db_next_id d \<le> n \<and> insert_row users_e row (d\<lparr>db_next_id := n\<rparr>) = (Inr i, d') \<and> u_role row = uc_role payload \<and>
    u_tenant_id row = t \<and> u_is_active row"
proof -
  let ?row = "\<lambda>h n. \<lparr>u_tenant_id = t, u_username = uc_username payload, u_email = uc_email payload,
        u_password_hash = h, u_display_name = uc_display_name payload, u_role = uc_role payload,
        u_is_active = True, u_is_service_account = False, u_api_key_hash = None, u_permissions = JList [],
        u_last_login_at = None, u_inactivity_timeout_minutes = uc_inactivity_timeout_minutes payload,
        u_created_at = n, u_updated_at = n\<rparr>"
  have "\<exists>h n. db_next_id d \<le> n \<and> insert_row users_e (?row h (db_now d)) (d\<lparr>db_next_id := n\<rparr>) = (Inr i, d')"
  proof (cases "uc_password payload = None \<or> uc_password payload = Some []")
    case True
    with assms have "insert_row users_e (?row None (db_now d)) d = (Inr i, d')"
      by (auto simp: create_user_def username_free_def scalar_one_or_none_def svc_simps get_or_404_apply select_rows_apply now_utc_apply
          split: option.splits list.splits if_splits)
    then have "insert_row users_e (?row None (db_now d)) (d\<lparr>db_next_id := db_next_id d\<rparr>) = (Inr i, d')" by simp
    then show ?thesis by blast
  next
    case False
    then obtain pw where pw: "uc_password payload = Some pw" "pw \<noteq> []" by auto
    with assms have "\<exists>h. insert_row users_e (?row h (db_now d)) (d\<lparr>db_next_id := Suc (db_next_id d)\<rparr>) = (Inr i, d')"
      by (auto simp: create_user_def username_free_def scalar_one_or_none_def svc_simps get_or_404_apply select_rows_apply now_utc_apply
          hash_password_def new_uuid_def split: option.splits list.splits if_splits)
    moreover have "db_next_id d \<le> Suc (db_next_id d)" by simp
    ultimately show ?thesis by blast
  qed
  then obtain h n where "db_next_id d \<le> n" "insert_row users_e (?row h (db_now d)) (d\<lparr>db_next_id := n\<rparr>) = (Inr i, d')" by blast
  then show ?thesis by (intro exI [of _ n] exI [of _ "?row h (db_now d)"]) simp
qed

text \<open>
  C37: roles are not checked. Whoever may create users of a tenant, its own administrator for one, chooses the new
  user's role freely (only service accounts have their own endpoint): the user is stored with the role asked for, the
  platform administrator's included, and active.
\<close>

theorem created_role_is_free:
  assumes "wf_db d" and "api_create_user sv cred t payload d = (Inr (i, u), d')"
  shows "\<exists>auth. runs_as sv cred d = Some auth \<and> allowed (ac_role auth) R_USER A_CREATE \<and> of_tenant t auth \<and>
    row_get (db_users d') i = Some u \<and> u_role u = uc_role payload \<and> u_tenant_id u = t \<and> u_is_active u"
proof -
  obtain auth re d2 s where p: "fst (get_principal (sv_env sv) (sv_auth sv) cred d) = Inr auth"
      "has_permission auth R_USER A_CREATE" "of_tenant t auth"
    and body: "created users_e user_ok (create_user (sv_auth sv) t payload) (d\<lparr>db_redis := re, db_session := owner_session\<rparr>) = (Inr (i, u), d2)"
    and d': "d' = d2\<lparr>db_session := s\<rparr>"
    using owner_route_InrD [OF assms(2) [unfolded api_create_user_def guarded_user_def]] by blast
  let ?d1 = "d\<lparr>db_redis := re, db_session := owner_session\<rparr>"
  have "\<exists>d3. create_user (sv_auth sv) t payload ?d1 = (Inr i, d3) \<and> visible_row users_e d3 i = Some u \<and> d2 = d3"
    using body by (auto simp: created_def refreshed_def respond_def get_or_404_apply svc_simps split: prod.splits sum.splits option.splits if_splits)
  then have cr: "create_user (sv_auth sv) t payload ?d1 = (Inr i, d2)" and u: "row_get (db_users d2) i = Some u"
    using visible_rowD by fastforce+
  obtain n row where n: "db_next_id ?d1 \<le> n" and ins: "insert_row users_e row (?d1\<lparr>db_next_id := n\<rparr>) = (Inr i, d2)"
    and row: "u_role row = uc_role payload" "u_tenant_id row = t" "u_is_active row"
    using create_user_InrD [OF cr] by blast
  have "wf_ids (?d1\<lparr>db_next_id := n\<rparr>)"
    using n wf_db_ids [OF assms(1)] by (auto simp: wf_ids_def ids_ok_def)
  from users_t.insert_reads_back [OF this ins] u row show ?thesis
    using p by (auto simp: d' runs_as_def has_permission_allowed)
qed

text \<open>Bob administers tenant 2, is logged in, and creates an administrator of the platform.\<close>

definition demo_bob :: user_row where
  "demo_bob = demo_user 2 ''bob'' TENANT_ADMIN"

definition demo_token :: string where
  "demo_token = lib_jwt_encode demo_lib (access_payload demo_lib (login_subject 4 demo_bob ''s'') 1000 0)"

definition demo_bob_db :: db where
  "demo_bob_db = demo_db\<lparr>db_session := demo_idle, db_redis := [(session_key 4 ''s'', ''{}'', 2000)]\<rparr>"

definition demo_new_admin :: user_create where
  "demo_new_admin = \<lparr>uc_username = ''mallory'', uc_email = ''m@example.org'', uc_display_name = ''Mallory'', uc_role = PLATFORM_ADMIN,
     uc_password = None, uc_inactivity_timeout_minutes = 30\<rparr>"

lemma demo_decode: "lib_jwt_decode demo_lib 0 demo_token = Some (access_payload demo_lib (login_subject 4 demo_bob ''s'') 1000 0)"
proof -
  have "lib_access_minutes demo_lib = 60" by (simp add: demo_lib_def)
  then have "not_expired 0 (access_payload demo_lib (login_subject 4 demo_bob ''s'') 1000 0)" by (simp add: exp_access_payload)
  with demo_lib_ok show ?thesis unfolding lib_ok_def demo_token_def by blast
qed

lemma demo_bob_wf: "wf_db demo_bob_db"
proof -
  have "demo_bob_db = (demo_db\<lparr>db_session := demo_idle\<rparr>)\<lparr>db_redis := db_redis demo_bob_db\<rparr>"
    by (simp add: demo_bob_db_def)
  moreover have "wf_db (demo_db\<lparr>db_session := s\<rparr>\<lparr>db_redis := re\<rparr>) = wf_db demo_db" for s re
    by (simp add: wf_db_def wf_ids_def wf_tenancy_def wf_unique_def)
  ultimately show ?thesis using demo_wf by metis
qed

lemma demo_bob_principal:
  "\<exists>re. get_principal demo_env demo_lib \<lparr>cr_token = Some demo_token, cr_api_key = None\<rparr> demo_bob_db =
     (Inr (context_of 4 demo_bob ''s''), demo_bob_db\<lparr>db_redis := re, db_session := scope (context_of 4 demo_bob ''s'') demo_idle\<rparr>)"
proof -
  let ?d = "demo_bob_db\<lparr>db_session := owner_session\<rparr>"
  have "\<exists>re. load_user_from_token demo_env demo_lib demo_token ?d = (Inr (context_of 4 demo_bob ''s''), ?d\<lparr>db_redis := re\<rparr>)"
  proof -
    have now: "db_now ?d = 1000" and live: "redis_live ?d (session_key 4 ''s'') = Some ''{}''"
      by (simp_all add: demo_bob_db_def demo_db_def redis_live_def)
    have bob: "visible_row users_e ?d 4 = Some demo_bob" "u_is_active demo_bob" "u_inactivity_timeout_minutes demo_bob = 30"
      by (simp_all add: demo_bob_db_def demo_bob_def owner_session_def run_simps)
    have up: "env_redis demo_env" by (simp add: demo_env_def)
    show ?thesis
      using bob live up by (simp add: load_user_from_token_def decode_token_def svc_simps now demo_decode validate_access_payload
          is_session_active_def redis_get_def redis_up_def touch_session_def redis_expire_up context_of_def)
        (rule exI, rule refl)
  qed
  then show ?thesis
    by (auto simp: get_principal_def scoped_def get_db_unscoped_def svc_simps scope_session_def apply_tenant_context_def
        scope_def context_of_def demo_bob_db_def)
qed

lemma created_role_is_free_witness:
  "\<exists>i u d'. api_create_user demo_server \<lparr>cr_token = Some demo_token, cr_api_key = None\<rparr> 2 demo_new_admin demo_bob_db = (Inr (i, u), d') \<and>
     u_role u = PLATFORM_ADMIN \<and> u_is_active u \<and> row_get (db_users d') i = Some u \<and> u_role demo_bob = TENANT_ADMIN"
proof -
  let ?bob = "context_of 4 demo_bob ''s''"
  obtain re where p: "get_principal demo_env demo_lib \<lparr>cr_token = Some demo_token, cr_api_key = None\<rparr> demo_bob_db =
     (Inr ?bob, demo_bob_db\<lparr>db_redis := re, db_session := scope ?bob demo_idle\<rparr>)" using demo_bob_principal by blast
  have bob: "ac_role ?bob = TENANT_ADMIN" "ac_tenant_id ?bob = 2" by (simp_all add: context_of_def demo_bob_def demo_user_def)
  have "\<exists>u d'. api_create_user demo_server \<lparr>cr_token = Some demo_token, cr_api_key = None\<rparr> 2 demo_new_admin demo_bob_db = (Inr (20, u), d')"
    by (simp add: api_create_user_def guarded_user_def owner_route_def tenant_route_def route_def get_db_def demo_server_def svc_simps p
        same_tenant_def bob)
      (simp add: get_db_unscoped_def created_def respond_def refreshed_def create_user_def username_free_def scalar_one_or_none_def
        demo_new_admin_def demo_bob_db_def owner_session_def user_ok_def get_or_404_apply select_rows_apply now_utc_apply run_simps)
  then obtain u d' where run: "api_create_user demo_server \<lparr>cr_token = Some demo_token, cr_api_key = None\<rparr> 2 demo_new_admin demo_bob_db = (Inr (20, u), d')"
    by blast
  from created_role_is_free [OF demo_bob_wf run] run show ?thesis
    by (auto simp: demo_new_admin_def demo_bob_def demo_user_def)
qed

end
