(* ===== verification/Isolation.thy ===== *)
theory Isolation
  imports Server
begin

text \<open>
  Tenant isolation under every request of a tenant: what a session of the tenant does not see stays as it is.
\<close>

section \<open>The frame of a request\<close>

text \<open>
  The rows of other tenants: what a session of tenant \<open>t\<close> does not see, in each of the eighteen tables under a
  policy, is the same in both states.
\<close>

definition others_untouched :: "uuid \<Rightarrow> db \<Rightarrow> db \<Rightarrow> bool" where
  "others_untouched t d d' \<longleftrightarrow> isolated (tenant_session t) d (d'\<lparr>db_session := tenant_session t\<rparr>)"

text \<open>The hidden rows depend on the session through the policies only.\<close>

lemma hidden_cong:
  assumes "\<And>u. rls_standard s u = rls_standard s' u" and "\<And>u. rls_nullable s u = rls_nullable s' u"
    and "isolated s d d'"
  shows "isolated s' d (d'\<lparr>db_session := s'\<rparr>)"
proof -
  have "wf_ids d' = wf_ids (d'\<lparr>db_session := s'\<rparr>)" by (simp add: wf_ids_def)
  with assms(3) show ?thesis
    by (simp add: isolated_def hidden_def entity_defs assms(1,2))
qed

lemma isolated_frame:
  "wf_ids d \<Longrightarrow> db_next_id d \<le> n \<Longrightarrow> isolated s d (d\<lparr>db_published := ms, db_objects := os, db_redis := re, db_next_id := n, db_session := s\<rparr>)"
  by (auto simp: isolated_def hidden_def entity_defs wf_ids_def ids_ok_def)

text \<open>A route whose body keeps the hidden rows of its session leaves the rows of the other tenants alone.\<close>

lemma tenant_route_isolated:
  assumes "wf_ids d" and "idle (db_session d)"
    and "\<And>auth. runs_as sv cred d = Some auth \<Longrightarrow> ac_tenant_id auth = t \<and> \<not> is_platform_admin auth"
    and "\<And>auth s. keeps (isolated s d) (body auth)"
  shows "others_untouched t d (snd (discard (tenant_route (sv_env sv) (sv_auth sv) cred r a tp msg body) d))"
proof -
  have frame: "others_untouched t d (d\<lparr>db_published := ms, db_objects := os, db_redis := re, db_next_id := n, db_session := s\<rparr>)"
    if "db_next_id d \<le> n" for n ms os re s
    using isolated_frame [OF assms(1) that] by (simp add: others_untouched_def)
  have snd_discard: "snd (discard m d) = snd (m d)" for m :: "'z service"
    by (simp add: discard_def bind_apply split: prod.split sum.split)
  show ?thesis
    unfolding snd_discard
  proof (cases rule: tenant_route_cases [of "sv_env sv" "sv_auth sv" cred r a tp msg body d])
    case (refused e re s)
    with frame [where n = "db_next_id d" and ms = "db_published d" and os = "db_objects d" and re = re and s = s] show "others_untouched t d (snd (tenant_route (sv_env sv) (sv_auth sv) cred r a tp msg body d))"
      by simp
  next
    case (runs auth re)
    let ?s = "scope auth (db_session d)" and ?d = "d\<lparr>db_redis := re, db_session := scope auth (db_session d)\<rparr>"
    have auth: "ac_tenant_id auth = t" "\<not> is_platform_admin auth"
      using assms(3) runs(1) by (simp_all add: runs_as_def)
    obtain x d' where x: "body auth ?d = (x, d')" by fastforce
    have "isolated ?s d ?d"
      using isolated_frame [OF assms(1), where n = "db_next_id d" and s = ?s and ms = "db_published d" and os = "db_objects d" and re = re] by simp
    from keepsD [OF assms(4) this] x have "isolated ?s d d'" by (metis snd_conv)
    from hidden_cong [OF _ _ this, of "tenant_session t"]
    have kept: "others_untouched t d d'"
      using scope_standard [OF assms(2) auth(2)] scope_nullable [OF assms(2) auth(2)] by (simp add: others_untouched_def auth(1))
    show "others_untouched t d (snd (tenant_route (sv_env sv) (sv_auth sv) cred r a tp msg body d))"
    proof (cases x)
      case (Inl e)
      with runs(4) x have "snd (tenant_route (sv_env sv) (sv_auth sv) cred r a tp msg body d) = end_transaction (rollback d d')" by simp
      with frame [where n = "max (db_next_id d) (db_next_id d')" and ms = "db_published d'" and os = "db_objects d'" and re = "db_redis d'"] show ?thesis
        by (simp add: end_transaction_def rollback_def)
    next
      case (Inr y)
      with runs(4) x have "snd (tenant_route (sv_env sv) (sv_auth sv) cred r a tp msg body d) = end_transaction d'" by simp
      with kept show ?thesis by (simp add: others_untouched_def end_transaction_def)
    qed
  qed
qed

section \<open>The requests of a tenant\<close>

text \<open>
  Three deletes cascade in the database, which checks no policy: deleting an observable removes enrichment results and
  ATT\&CK mappings that refer to it, whatever their tenant, and so do deleting a timeline entry and a case.
\<close>

fun cascades :: "tenant_request \<Rightarrow> bool" where
  "cascades (On_cases (Q_delete_case c)) = True"
| "cascades (On_observables (Q_delete_observable c i)) = True"
| "cascades (On_timeline (Q_delete_entry c i)) = True"
| "cascades q = False"

definition plugins_isolated :: "env \<Rightarrow> bool" where
  "plugins_isolated env \<longleftrightarrow> (\<forall>s d. plugins_keep (isolated s d) env)"

lemma plugins_isolatedD: "plugins_isolated env \<Longrightarrow> plugins_keep (isolated s d) env"
  by (simp add: plugins_isolated_def)

lemma redis_isolated: "isolated s d0 d \<Longrightarrow> isolated s d0 (d\<lparr>db_redis := re\<rparr>)"
  by (simp add: isolated_def hidden_def wf_ids_def entity_defs)

lemmas body_intros = keeps_intros keeps_redis_writes redis_isolated plugins_isolatedD

lemma serve_tenant_isolated:
  assumes "wf_ids d" and "idle (db_session d)"
    and "\<And>auth. runs_as sv cred d = Some auth \<Longrightarrow> ac_tenant_id auth = t \<and> \<not> is_platform_admin auth"
    and "\<not> cascades q" and plug: "plugins_isolated (sv_env sv)"
  shows "others_untouched t d (snd (serve_tenant sv cred tp q d))"
  apply (insert assms(4))
  apply (cases q; rename_tac op; case_tac op; hypsubst; (simp only: cascades.simps simp_thms; fail)?;
    simp only: routed api_guards; rule tenant_route_isolated [OF assms(1-3)])
  apply (assumption | (intro body_intros plug; (rule plug)?))+
  done

text \<open>
  C1: tenant isolation. Any request of a tenant, served for a principal who is no platform administrator, whatever it
  answers and whatever its body holds, leaves the rows of every other tenant as they are, in all the tables under
  row-level security: the users, cases and everything kept with a case, alerts, templates, enrichment, ATT\&CK mappings,
  executions, audit logs and reports. The plugins are assumed to do the same, and the three cascading deletes are left out.
\<close>

theorem tenant_isolation:
  assumes "wf_db d" and "idle (db_session d)" and "plugins_isolated (sv_env sv)"
    and "runs_as sv cred d = Some auth" and "\<not> is_platform_admin auth" and "\<not> cascades q"
  shows "others_untouched (ac_tenant_id auth) d (snd (serve sv cred (In_tenant t q) d))"
  unfolding serve.simps
  by (rule serve_tenant_isolated [OF wf_db_ids [OF assms(1)] assms(2) _ assms(6,3)]) (use assms(4,5) in auto)

text \<open>A task for a case of tenant 1: the case, the user and the observable of tenant 2 are where they were.\<close>

lemma tenant_isolation_witness:
  "\<exists>d'. serve demo_server demo_cred (In_tenant 1 demo_request) demo_service_db = (Inr (), d') \<and>
     others_untouched 1 demo_service_db d' \<and> hidden cases_e (tenant_session 1) d' = [(7, demo_case 2 1)]"
proof -
  have "plugins_isolated (sv_env demo_server)"
    using demo_plugins_keep by (simp add: demo_server_def plugins_isolated_def)
  from tenant_isolation [OF demo_service_wf _ this demo_runs, of demo_request 1]
  have kept: "others_untouched 1 demo_service_db (snd (serve demo_server demo_cred (In_tenant 1 demo_request) demo_service_db))"
    by (simp add: demo_idle_session demo_alice_def is_platform_admin_def demo_request_def)
  from demo_run obtain d' where run: "serve demo_server demo_cred (In_tenant 1 demo_request) demo_service_db = (Inr (), d')" by blast
  with kept have others: "others_untouched 1 demo_service_db d'" by simp
  then have "hidden cases_e (tenant_session 1) d' = hidden cases_e (tenant_session 1) demo_service_db"
    by (simp add: others_untouched_def isolated_def) (simp add: hidden_def cases_e_def)
  moreover have "hidden cases_e (tenant_session 1) demo_service_db = [(7, demo_case 2 1)]"
    by (simp add: hidden_def demo_service_db_def run_simps)
  ultimately show ?thesis using run others by metis
qed

text \<open>What a cascade does: tenant 2 has mapped a technique to an observable of tenant 1, who deletes it.\<close>

lemma cascade_reaches_others:
  "let d = demo_db\<lparr>db_mappings := [(16, \<lparr>m_tenant_id = 2, m_case_id = None, m_observable_id = Some 9, m_timeline_entry_id = None,
       m_tactic_id = ''TA0001'', m_technique_id = ''T1566'', m_sub_technique_id = None, m_created_by = 4, m_created_at = 0\<rparr>)]\<rparr>;
     (r, d') = delete_observable 9 d in
   db_session d = tenant_session 1 \<and> r = Inr () \<and> length (hidden mappings_e (tenant_session 1) d) = 1 \<and> hidden mappings_e (tenant_session 1) d' = []"
  by (simp add: delete_observable_def get_or_404_def find_row_def not_null_def cascade_observable_def hidden_def run_simps)

end
