(* ===== verification/Hub.thy ===== *)
theory Hub
  imports Auth
begin

text \<open>
  The other end of the realtime events: the connection hub (\<^verbatim>\<open>realtime/hub.py\<close>) with its sockets and the presence
  sets in Redis, and the two streams (\<^verbatim>\<open>api/routers/realtime.py\<close>) clients open. The handlers of the sockets run
  concurrently; a history is a sequence of their steps.
\<close>

section \<open>The state\<close>

type_synonym websocket = nat

text \<open>What a socket is sent: the JSON text of an event, or the answer to a ping.\<close>

datatype frame = F_event json | F_pong

text \<open>
  The listener's coroutine: in its loop over the messages; finished, by leaving the loop or by the error the handler of
  \<^verbatim>\<open>_listen\<close> logs; or ended by an exception, when Redis refuses the subscription, which is made before the \<^verbatim>\<open>try\<close>.
\<close>

datatype loop_state = Looping | Finished | Raised_error

text \<open>
  The hub of one API instance: for each case id and each tenant id (as strings) the set of open sockets, kept as a list
  without repetitions; whether there is a listener task (\<^verbatim>\<open>_pubsub_task is not None\<close>) and how its coroutine stands.
  Redis' sorted sets: for a key the members with their scores (times in microseconds) and the key's expiry.
\<close>

record live =
  lv_cases :: "(string \<times> websocket list) list"
  lv_tenants :: "(string \<times> websocket list) list"
  lv_task :: bool
  lv_stopped :: bool
  lv_loop :: loop_state
  lv_presence :: "(string \<times> (string \<times> int) list \<times> int option) list"
  lv_now :: int
  lv_sent :: "(websocket \<times> frame) list"

type_synonym 'a live_service = "(live, api_error, 'a) svc"

definition event_json :: "realtime_event \<Rightarrow> json" where
  "event_json ev = JObj [(''type'', JStr (ev_type ev)),
     (''case_id'', case ev_case_id ev of Some c \<Rightarrow> JStr (uuid_str c) | None \<Rightarrow> JNull),
     (''tenant_id'', JStr (uuid_str (ev_tenant_id ev))), (''payload'', JObj (ev_payload ev)),
     (''actor'', case ev_actor_id ev of
        Some a \<Rightarrow> JObj [(''user_id'', JStr (uuid_str a)),
          (''display_name'', case ev_actor_display_name ev of Some n \<Rightarrow> JStr n | None \<Rightarrow> JNull)]
      | None \<Rightarrow> JNull),
     (''timestamp'', JStr (isoformat (ev_timestamp ev)))]"

section \<open>Presence\<close>

definition presence_key :: "string \<Rightarrow> string" where
  "presence_key case_id = ''presence:case:'' @ case_id"

definition zset :: "live \<Rightarrow> string \<Rightarrow> (string \<times> int) list" where
  "zset l k = (case map_of (lv_presence l) k of None \<Rightarrow> []
     | Some (ms, e) \<Rightarrow> (case e of None \<Rightarrow> ms | Some t \<Rightarrow> if lv_now l < t then ms else []))"

definition zexpiry :: "live \<Rightarrow> string \<Rightarrow> int option" where
  "zexpiry l k = (if zset l k = [] then None else case map_of (lv_presence l) k of None \<Rightarrow> None | Some (ms, e) \<Rightarrow> e)"

text \<open>A key whose set becomes empty is gone.\<close>

definition zput :: "string \<Rightarrow> (string \<times> int) list \<Rightarrow> int option \<Rightarrow> live \<Rightarrow> live" where
  "zput k ms e l = l\<lparr>lv_presence := (if ms = [] then AList.delete k (lv_presence l) else AList.update k (ms, e) (lv_presence l))\<rparr>"

definition live_redis :: "env \<Rightarrow> unit live_service" where
  "live_redis env = guard (env_redis env) (OtherError ''RedisError'')"

definition zadd :: "env \<Rightarrow> string \<Rightarrow> string \<Rightarrow> unit live_service" where
  "zadd env k m = and_then (live_redis env)
     (modify (\<lambda>l. zput k (AList.update m (lv_now l) (zset l k)) (zexpiry l k) l))"

definition zexpire :: "env \<Rightarrow> string \<Rightarrow> int \<Rightarrow> unit live_service" where
  "zexpire env k seconds = and_then (live_redis env)
     (modify (\<lambda>l. if zset l k = [] then l else zput k (zset l k) (Some (lv_now l + seconds * 1000000)) l))"

definition zrem :: "env \<Rightarrow> string \<Rightarrow> string \<Rightarrow> unit live_service" where
  "zrem env k m = and_then (live_redis env) (modify (\<lambda>l. zput k (AList.delete m (zset l k)) (zexpiry l k) l))"

definition zremrangebyscore :: "env \<Rightarrow> string \<Rightarrow> int \<Rightarrow> int \<Rightarrow> unit live_service" where
  "zremrangebyscore env k lo hi = and_then (live_redis env)
     (modify (\<lambda>l. zput k (filter (\<lambda>(m, t). \<not> (lo \<le> t \<and> t \<le> hi)) (zset l k)) (zexpiry l k) l))"

text \<open>\<^verbatim>\<open>zrange(key, 0, -1)\<close>: by score; the order of equal scores is left open.\<close>

definition zrange :: "env \<Rightarrow> string \<Rightarrow> string list live_service" where
  "zrange env k = and_then (live_redis env) (reads (\<lambda>l. map fst (sort_key snd (zset l k))))"

definition presence_ttl :: int where
  "presence_ttl = 30"

definition touch_presence :: "env \<Rightarrow> string \<Rightarrow> string \<Rightarrow> unit live_service" where
  "touch_presence env case_id user_id =
     and_then (zadd env (presence_key case_id) user_id) (zexpire env (presence_key case_id) (presence_ttl * 4))"

definition remove_presence :: "env \<Rightarrow> string \<Rightarrow> string \<Rightarrow> unit live_service" where
  "remove_presence env case_id user_id = zrem env (presence_key case_id) user_id"

definition get_active_viewers :: "env \<Rightarrow> string \<Rightarrow> string list live_service" where
  "get_active_viewers env case_id =
     bind (reads lv_now) (\<lambda>now.
     and_then (zremrangebyscore env (presence_key case_id) 0 (now - presence_ttl * 1000000))
     (zrange env (presence_key case_id)))"

section \<open>Connections\<close>

definition conns_of :: "(string \<times> websocket list) list \<Rightarrow> string \<Rightarrow> websocket list" where
  "conns_of m k = (case map_of m k of Some ws \<Rightarrow> ws | None \<Rightarrow> [])"

definition conns_add :: "websocket \<Rightarrow> string \<Rightarrow> (string \<times> websocket list) list \<Rightarrow> (string \<times> websocket list) list" where
  "conns_add w k m = AList.update k (List.insert w (conns_of m k)) m"

definition conns_discard :: "websocket \<Rightarrow> string \<Rightarrow> (string \<times> websocket list) list \<Rightarrow> (string \<times> websocket list) list" where
  "conns_discard w k m = (let ws = removeAll w (conns_of m k) in
     if ws = [] then AList.delete k m else AList.update k ws m)"

definition connect_case :: "env \<Rightarrow> websocket \<Rightarrow> string \<Rightarrow> string \<Rightarrow> unit live_service" where
  "connect_case env w case_id user_id =
     and_then (modify (\<lambda>l. l\<lparr>lv_cases := conns_add w case_id (lv_cases l)\<rparr>)) (touch_presence env case_id user_id)"

definition disconnect_case :: "env \<Rightarrow> websocket \<Rightarrow> string \<Rightarrow> string \<Rightarrow> unit live_service" where
  "disconnect_case env w case_id user_id =
     and_then (modify (\<lambda>l. l\<lparr>lv_cases := conns_discard w case_id (lv_cases l)\<rparr>)) (remove_presence env case_id user_id)"

definition connect_tenant :: "websocket \<Rightarrow> string \<Rightarrow> unit live_service" where
  "connect_tenant w tenant_id = modify (\<lambda>l. l\<lparr>lv_tenants := conns_add w tenant_id (lv_tenants l)\<rparr>)"

definition disconnect_tenant :: "websocket \<Rightarrow> string \<Rightarrow> unit live_service" where
  "disconnect_tenant w tenant_id = modify (\<lambda>l. l\<lparr>lv_tenants := conns_discard w tenant_id (lv_tenants l)\<rparr>)"

section \<open>The listener\<close>

text \<open>\<^verbatim>\<open>_pubsub_task\<close> is set once and reset by \<^verbatim>\<open>stop\<close> alone: while it is set, starting does nothing.\<close>

definition start_listener :: "env \<Rightarrow> unit live_service" where
  "start_listener env = modify (\<lambda>l. if lv_task l then l
     else l\<lparr>lv_stopped := False, lv_task := True, lv_loop := (if env_redis env then Looping else Raised_error)\<rparr>)"

text \<open>Stopping cancels the task and awaits it, which raises what the coroutine raised.\<close>

definition stop :: "unit live_service" where
  "stop = and_then (modify (\<lambda>l. l\<lparr>lv_stopped := True\<rparr>))
     (bind (reads (\<lambda>l. lv_task l)) (\<lambda>task. if \<not> task then ret () else
      bind (reads lv_loop) (\<lambda>loop.
      and_then (guard (loop \<noteq> Raised_error) (OtherError ''RedisError''))
      (modify (\<lambda>l. l\<lparr>lv_task := False, lv_loop := Finished\<rparr>)))))"

text \<open>\<^verbatim>\<open>channel.split(":", 1)[1]\<close>, and the sockets a message goes to.\<close>

definition after_colon :: "string \<Rightarrow> string" where
  "after_colon s = drop 1 (dropWhile (\<lambda>c. c \<noteq> CHR '':'') s)"

definition deliver_to :: "live \<Rightarrow> string \<Rightarrow> websocket list" where
  "deliver_to l channel =
     (if py_startswith channel ''case:'' then conns_of (lv_cases l) (after_colon channel)
      else if py_startswith channel ''tenant:'' then conns_of (lv_tenants l) (after_colon channel)
      else [])"

text \<open>
  Sending: \<open>alive w\<close> says whether the peer takes the text; \<^verbatim>\<open>suppress(Exception)\<close> when it does not. The order
  among the sockets of a set is left open.
\<close>

definition deliver :: "(websocket \<Rightarrow> bool) \<Rightarrow> string \<Rightarrow> realtime_event \<Rightarrow> unit live_service" where
  "deliver alive channel ev = modify (\<lambda>l. l\<lparr>lv_sent := lv_sent l @
     map (\<lambda>w. (w, F_event (event_json ev))) (filter alive (deliver_to l channel))\<rparr>)"

text \<open>One message of \<^verbatim>\<open>pubsub.listen()\<close>, for which the loop has to run; a stopped hub leaves it.\<close>

definition listen :: "(websocket \<Rightarrow> bool) \<Rightarrow> string \<times> realtime_event \<Rightarrow> unit live_service" where
  "listen alive = (\<lambda>(channel, ev). bind (reads (\<lambda>l. (lv_loop l, lv_stopped l))) (\<lambda>(loop, stopped).
     if loop \<noteq> Looping then ret ()
     else if stopped then modify (\<lambda>l. l\<lparr>lv_loop := Finished\<rparr>)
     else if py_startswith channel ''case:'' \<or> py_startswith channel ''tenant:'' then deliver alive channel ev else ret ()))"

text \<open>An error of \<^verbatim>\<open>pubsub.listen()\<close>: it is logged, the subscription closed, and the coroutine is at its end.\<close>

definition pubsub_error :: "unit live_service" where
  "pubsub_error = modify (\<lambda>l. if lv_loop l = Looping then l\<lparr>lv_loop := Finished\<rparr> else l)"

section \<open>The streams\<close>

text \<open>Only the failure to decode is caught; the session in Redis and its inactivity timeout are not asked for.\<close>

definition authenticate_ws :: "auth_lib \<Rightarrow> string \<Rightarrow> (uuid \<times> user_row) option service" where
  "authenticate_ws lib token =
     bind (catch (bind (decode_token lib token) (\<lambda>p. ret (Some p))) (\<lambda>e. if e = OtherError ''JWTError'' then ret None else raise e)) (\<lambda>x. case x of
       None \<Rightarrow> ret None
     | Some payload \<Rightarrow>
       if jp_token_type payload \<noteq> ''access'' then ret None
       else get_db_unscoped (bind (find_row users_e (jp_sub payload)) (\<lambda>x. case x of
         None \<Rightarrow> ret None
       | Some u \<Rightarrow> ret (if u_is_active u then Some (jp_sub payload, u) else None))))"

text \<open>
  The life of a stream: its opening (the answer is whether the socket was accepted, otherwise it is closed with code
  1008), a text the client sends, its end. After an error the handler's \<^verbatim>\<open>finally\<close> ends it.
\<close>

definition open_case_stream :: "env \<Rightarrow> (uuid \<times> user_row) option \<Rightarrow> websocket \<Rightarrow> uuid \<Rightarrow> bool live_service" where
  "open_case_stream env user w case_id = (case user of None \<Rightarrow> ret False
     | Some (uid, u) \<Rightarrow> and_then (connect_case env w (uuid_str case_id) (uuid_str uid)) (ret True))"

definition send_text :: "(websocket \<Rightarrow> bool) \<Rightarrow> websocket \<Rightarrow> frame \<Rightarrow> unit live_service" where
  "send_text alive w f = (if alive w then modify (\<lambda>l. l\<lparr>lv_sent := lv_sent l @ [(w, f)]\<rparr>) else raise (OtherError ''WebSocketDisconnect''))"

definition case_text :: "env \<Rightarrow> (websocket \<Rightarrow> bool) \<Rightarrow> websocket \<Rightarrow> string \<Rightarrow> string \<Rightarrow> string \<Rightarrow> unit live_service" where
  "case_text env alive w case_id user_id message =
     catch (if message = ''ping'' then and_then (touch_presence env case_id user_id) (send_text alive w F_pong) else ret ())
       (\<lambda>e. disconnect_case env w case_id user_id)"

definition open_tenant_stream :: "(uuid \<times> user_row) option \<Rightarrow> websocket \<Rightarrow> uuid \<Rightarrow> bool live_service" where
  "open_tenant_stream user w tenant_id = (case user of None \<Rightarrow> ret False
     | Some (uid, u) \<Rightarrow> if u_tenant_id u \<noteq> tenant_id then ret False
         else and_then (connect_tenant w (uuid_str tenant_id)) (ret True))"

definition tenant_text :: "(websocket \<Rightarrow> bool) \<Rightarrow> websocket \<Rightarrow> string \<Rightarrow> string \<Rightarrow> unit live_service" where
  "tenant_text alive w tenant_id message =
     catch (if message = ''ping'' then send_text alive w F_pong else ret ()) (\<lambda>e. disconnect_tenant w tenant_id)"

text \<open>The steps of a history.\<close>

datatype live_event =
    Case_opened websocket string string
  | Case_text websocket string string string
  | Case_closed websocket string string
  | Tenant_opened websocket string
  | Tenant_text websocket string string
  | Tenant_closed websocket string
  | Message string realtime_event
  | Viewers_read string
  | Time_passed nat
  | Listener_started
  | Listener_stopped
  | Pubsub_failed

fun live_step :: "env \<Rightarrow> (websocket \<Rightarrow> bool) \<Rightarrow> live_event \<Rightarrow> live \<Rightarrow> live" where
  "live_step env alive (Case_opened w c u) l = snd (connect_case env w c u l)"
| "live_step env alive (Case_text w c u m) l = snd (case_text env alive w c u m l)"
| "live_step env alive (Case_closed w c u) l = snd (disconnect_case env w c u l)"
| "live_step env alive (Tenant_opened w t) l = snd (connect_tenant w t l)"
| "live_step env alive (Tenant_text w t m) l = snd (tenant_text alive w t m l)"
| "live_step env alive (Tenant_closed w t) l = snd (disconnect_tenant w t l)"
| "live_step env alive (Message ch ev) l = snd (listen alive (ch, ev) l)"
| "live_step env alive (Viewers_read c) l = snd (get_active_viewers env c l)"
| "live_step env alive (Time_passed n) l = l\<lparr>lv_now := lv_now l + int n\<rparr>"
| "live_step env alive Listener_started l = snd (start_listener env l)"
| "live_step env alive Listener_stopped l = snd (stop l)"
| "live_step env alive Pubsub_failed l = snd (pubsub_error l)"

section \<open>The sockets of a channel\<close>

lemma conns_of_add: "set (conns_of (conns_add w k m) j) = (if j = k then insert w (set (conns_of m k)) else set (conns_of m j))"
  by (auto simp: conns_of_def conns_add_def update_conv' split: option.splits)

lemma conns_of_discard: "set (conns_of (conns_discard w k m) j) = (if j = k then set (conns_of m k) - {w} else set (conns_of m j))"
proof (cases "removeAll w (conns_of m k) = []")
  case True
  then have "set (conns_of m k) - {w} = {}"
    by (metis list.set(1) set_removeAll)
  with True show ?thesis
    by (auto simp: conns_discard_def conns_of_def delete_conv' split: option.splits)
next
  case False
  define ws where "ws = removeAll w (conns_of m k)"
  have "set ws = set (conns_of m k) - {w}"
    by (simp add: ws_def)
  with False show ?thesis
    unfolding conns_discard_def Let_def by (fold ws_def) (auto simp: conns_of_def update_conv' split: option.splits)
qed

lemma deliver_case: "deliver_to l (''case:'' @ k) = conns_of (lv_cases l) k"
  by (simp add: deliver_to_def after_colon_def py_startswith_iff)

lemma deliver_tenant: "deliver_to l (''tenant:'' @ k) = conns_of (lv_tenants l) k"
  by (simp add: deliver_to_def after_colon_def py_startswith_iff)

text \<open>What the presence operations leave alone: all but the sorted sets.\<close>

definition presence_only :: "live \<Rightarrow> live \<Rightarrow> bool" where
  "presence_only l l' \<longleftrightarrow> (\<exists>p. l' = l\<lparr>lv_presence := p\<rparr>)"

lemma presence_only_refl: "presence_only l l"
  unfolding presence_only_def by (intro exI [of _ "lv_presence l"]) simp

lemma presence_only_put: "presence_only l l' \<Longrightarrow> presence_only l (zput k ms e l')"
  by (auto simp: presence_only_def zput_def)

lemma keeps_presence [keeps_intros]:
  "keeps (presence_only l) (live_redis env)" "keeps (presence_only l) (zadd env k m)" "keeps (presence_only l) (zexpire env k s)"
  "keeps (presence_only l) (zrem env k m)" "keeps (presence_only l) (zremrangebyscore env k lo hi)" "keeps (presence_only l) (zrange env k)"
  unfolding live_redis_def zadd_def zexpire_def zrem_def zremrangebyscore_def zrange_def
  by (intro keeps_intros keeps_modify; simp add: presence_only_put)+

lemma presence_frame:
  "presence_only l (snd (touch_presence env c u l))" "presence_only l (snd (remove_presence env c u l))"
  "presence_only l (snd (get_active_viewers env c l))"
proof -
  have "keeps (presence_only l) (touch_presence env c u)" "keeps (presence_only l) (remove_presence env c u)"
    "keeps (presence_only l) (get_active_viewers env c)" for l
    unfolding touch_presence_def remove_presence_def get_active_viewers_def by (intro keeps_intros)+
  from this [THEN keepsD, OF presence_only_refl]
  show "presence_only l (snd (touch_presence env c u l))" "presence_only l (snd (remove_presence env c u l))"
    "presence_only l (snd (get_active_viewers env c l))" .
qed

lemma touch_up: "env_redis env \<Longrightarrow> fst (touch_presence env c u l) = Inr ()"
  by (simp add: touch_presence_def zadd_def zexpire_def live_redis_def svc_simps)

text \<open>
  Who has joined a channel, as a history says it: a set of pairs. A ping that the peer does not take ends the stream.
\<close>

fun join_step :: "(websocket \<Rightarrow> bool) \<Rightarrow> live_event \<Rightarrow> (websocket \<times> string) set \<Rightarrow> (websocket \<times> string) set" where
  "join_step alive (Case_opened w c u) J = insert (w, ''case:'' @ c) J"
| "join_step alive (Case_text w c u m) J = (if m = ''ping'' \<and> \<not> alive w then J - {(w, ''case:'' @ c)} else J)"
| "join_step alive (Case_closed w c u) J = J - {(w, ''case:'' @ c)}"
| "join_step alive (Tenant_opened w t) J = insert (w, ''tenant:'' @ t) J"
| "join_step alive (Tenant_text w t m) J = (if m = ''ping'' \<and> \<not> alive w then J - {(w, ''tenant:'' @ t)} else J)"
| "join_step alive (Tenant_closed w t) J = J - {(w, ''tenant:'' @ t)}"
| "join_step alive e J = J"

definition joined :: "live \<Rightarrow> (websocket \<times> string) set" where
  "joined l = {(w, ch). w \<in> set (deliver_to l ch)}"

lemma deliver_shape: "deliver_to l ch \<noteq> [] \<Longrightarrow> (\<exists>k. ch = ''case:'' @ k) \<or> (\<exists>k. ch = ''tenant:'' @ k)"
  by (auto simp: deliver_to_def py_startswith_iff split: if_splits)

lemma joined_iff:
  "(w, ch) \<in> joined l \<longleftrightarrow> (\<exists>k. ch = ''case:'' @ k \<and> w \<in> set (conns_of (lv_cases l) k)) \<or>
     (\<exists>k. ch = ''tenant:'' @ k \<and> w \<in> set (conns_of (lv_tenants l) k))"
proof -
  have "w \<in> set (deliver_to l ch) \<Longrightarrow> (\<exists>k. ch = ''case:'' @ k) \<or> (\<exists>k. ch = ''tenant:'' @ k)"
    by (rule deliver_shape [of l]) force
  then show ?thesis
    unfolding joined_def by (auto simp: deliver_case [simplified] deliver_tenant [simplified])
qed

lemma joined_frame: "lv_cases l' = lv_cases l \<Longrightarrow> lv_tenants l' = lv_tenants l \<Longrightarrow> joined l' = joined l"
  by (auto simp: joined_iff set_eq_iff)

lemma presence_onlyD:
  assumes "presence_only l l'"
  shows "lv_cases l' = lv_cases l" "lv_tenants l' = lv_tenants l" "lv_sent l' = lv_sent l" "lv_task l' = lv_task l"
    "lv_stopped l' = lv_stopped l" "lv_now l' = lv_now l" "joined l' = joined l" "lv_loop l' = lv_loop l"
  using assms by (auto simp: presence_only_def intro!: joined_frame)

lemma joined_cases: "joined (l\<lparr>lv_cases := conns_add w c (lv_cases l)\<rparr>) = insert (w, ''case:'' @ c) (joined l)"
  "joined (l\<lparr>lv_cases := conns_discard w c (lv_cases l)\<rparr>) = joined l - {(w, ''case:'' @ c)}"
  by (auto simp: joined_iff set_eq_iff conns_of_add conns_of_discard)

lemma joined_tenants: "joined (l\<lparr>lv_tenants := conns_add w t (lv_tenants l)\<rparr>) = insert (w, ''tenant:'' @ t) (joined l)"
  "joined (l\<lparr>lv_tenants := conns_discard w t (lv_tenants l)\<rparr>) = joined l - {(w, ''tenant:'' @ t)}"
  by (auto simp: joined_iff set_eq_iff conns_of_add conns_of_discard)

text \<open>Each step of the hub is the step of the history, and what it sends.\<close>

fun frames_of :: "(websocket \<Rightarrow> bool) \<Rightarrow> (websocket \<times> string) set \<Rightarrow> live_event \<Rightarrow> websocket \<Rightarrow> frame list" where
  "frames_of alive J (Message ch ev) w = (if (w, ch) \<in> J \<and> alive w then [F_event (event_json ev)] else [])"
| "frames_of alive J (Case_text v c u m) w = (if v = w \<and> m = ''ping'' \<and> alive w then [F_pong] else [])"
| "frames_of alive J (Tenant_text v t m) w = (if v = w \<and> m = ''ping'' \<and> alive w then [F_pong] else [])"
| "frames_of alive J e w = []"

definition sent_to :: "websocket \<Rightarrow> live \<Rightarrow> frame list" where
  "sent_to w l = map snd (filter (\<lambda>(v, f). v = w) (lv_sent l))"

definition sets_ok :: "live \<Rightarrow> bool" where
  "sets_ok l \<longleftrightarrow> (\<forall>k. distinct (conns_of (lv_cases l) k) \<and> distinct (conns_of (lv_tenants l) k))"

lemma distinct_conns: "distinct (conns_of m j) \<Longrightarrow> distinct (conns_of m k) \<Longrightarrow> distinct (conns_of (conns_add w k m) j)"
  "distinct (conns_of m j) \<Longrightarrow> distinct (conns_of m k) \<Longrightarrow> distinct (conns_of (conns_discard w k m) j)"
  by (auto simp: conns_of_def conns_add_def conns_discard_def update_conv' delete_conv' Let_def distinct_insert distinct_removeAll split: option.splits)

lemma sets_ok_deliver: "sets_ok l \<Longrightarrow> distinct (deliver_to l ch)"
  by (simp add: sets_ok_def deliver_to_def)

lemma filter_distinct_eq: "distinct ws \<Longrightarrow> filter (\<lambda>v. v = w) ws = (if w \<in> set ws then [w] else [])"
  by (induction ws) auto

lemma sent_deliver:
  assumes "sets_ok l"
  shows "map snd (filter (\<lambda>(v, f). v = w) (map (\<lambda>v. (v, F_event j)) (filter alive (deliver_to l ch)))) =
    (if (w, ch) \<in> joined l \<and> alive w then [F_event j] else [])"
proof -
  have "filter (\<lambda>v. v = w) (filter alive (deliver_to l ch)) = (if w \<in> set (deliver_to l ch) \<and> alive w then [w] else [])"
    using sets_ok_deliver [OF assms] by (subst filter_distinct_eq) auto
  then show ?thesis
    by (simp add: filter_map comp_def joined_def)
qed

text \<open>The listener runs.\<close>

definition listening :: "live \<Rightarrow> bool" where
  "listening l \<longleftrightarrow> lv_task l \<and> lv_loop l = Looping \<and> \<not> lv_stopped l \<and> sets_ok l"

lemma disconnect_case_frame:
  "joined (snd (disconnect_case env w c u l)) = joined l - {(w, ''case:'' @ c)}"
  "lv_sent (snd (disconnect_case env w c u l)) = lv_sent l" "lv_task (snd (disconnect_case env w c u l)) = lv_task l"
  "lv_stopped (snd (disconnect_case env w c u l)) = lv_stopped l" "lv_loop (snd (disconnect_case env w c u l)) = lv_loop l"
  "sets_ok l \<Longrightarrow> sets_ok (snd (disconnect_case env w c u l))"
proof -
  let ?l = "l\<lparr>lv_cases := conns_discard w c (lv_cases l)\<rparr>"
  note P = presence_onlyD [OF presence_frame(2) [of ?l env c u]]
  show "joined (snd (disconnect_case env w c u l)) = joined l - {(w, ''case:'' @ c)}"
    "lv_sent (snd (disconnect_case env w c u l)) = lv_sent l" "lv_task (snd (disconnect_case env w c u l)) = lv_task l"
    "lv_stopped (snd (disconnect_case env w c u l)) = lv_stopped l" "lv_loop (snd (disconnect_case env w c u l)) = lv_loop l"
    "sets_ok l \<Longrightarrow> sets_ok (snd (disconnect_case env w c u l))"
    by (simp_all add: disconnect_case_def svc_simps P joined_cases sets_ok_def distinct_conns)
qed

lemma case_text_frame:
  assumes "env_redis env" and "listening l"
  shows "joined (live_step env alive (Case_text v c u m) l) = join_step alive (Case_text v c u m) (joined l) \<and>
    sent_to w (live_step env alive (Case_text v c u m) l) = sent_to w l @ frames_of alive (joined l) (Case_text v c u m) w \<and>
    listening (live_step env alive (Case_text v c u m) l)"
proof -
  obtain r l1 where t: "touch_presence env c u l = (r, l1)" by fastforce
  note P = presence_onlyD [OF presence_frame(1) [of l env c u], unfolded t snd_conv]
  have r: "r = Inr ()" using touch_up [OF assms(1), of c u l] t by simp
  have ok: "sets_ok l1" using assms(2) by (simp add: listening_def sets_ok_def P)
  have same: "joined (l1\<lparr>lv_sent := x\<rparr>) = joined l" "sets_ok (l1\<lparr>lv_sent := x\<rparr>)" for x
    using ok P(7) joined_frame [of "l1\<lparr>lv_sent := x\<rparr>" l1] by (simp_all add: sets_ok_def)
  show ?thesis
  proof (cases "m = ''ping''")
    case True
    then show ?thesis using assms ok same
      by (cases "alive v") (auto simp: case_text_def send_text_def svc_simps t r P disconnect_case_frame sent_to_def listening_def)
  qed (use assms in \<open>simp add: case_text_def svc_simps sent_to_def\<close>)
qed

lemma live_step_frame:
  assumes "env_redis env" and "listening l" and "e \<noteq> Listener_stopped" and "e \<noteq> Pubsub_failed"
  shows "joined (live_step env alive e l) = join_step alive e (joined l) \<and>
    sent_to w (live_step env alive e l) = sent_to w l @ frames_of alive (joined l) e w \<and>
    listening (live_step env alive e l)"
proof (cases e)
  case (Case_opened v c u)
  let ?l = "l\<lparr>lv_cases := conns_add v c (lv_cases l)\<rparr>"
  note P = presence_onlyD [OF presence_frame(1) [of ?l env c u]]
  show ?thesis using assms
    by (simp add: Case_opened connect_case_def svc_simps P joined_cases sent_to_def listening_def sets_ok_def distinct_conns)
next
  case (Case_closed v c u)
  show ?thesis using assms
    by (simp add: Case_closed disconnect_case_frame sent_to_def listening_def)
next
  case (Case_text v c u m)
  show ?thesis unfolding Case_text by (rule case_text_frame [OF assms(1,2)])
next
  case (Tenant_opened v t)
  show ?thesis using assms
    by (simp add: Tenant_opened connect_tenant_def joined_tenants sent_to_def listening_def sets_ok_def distinct_conns)
next
  case (Tenant_text v t m)
  show ?thesis using assms
    by (auto simp: Tenant_text tenant_text_def send_text_def disconnect_tenant_def svc_simps joined_tenants sent_to_def listening_def sets_ok_def distinct_conns
        intro!: joined_frame)
next
  case (Tenant_closed v t)
  show ?thesis using assms
    by (simp add: Tenant_closed disconnect_tenant_def joined_tenants sent_to_def listening_def sets_ok_def distinct_conns)
next
  case (Message ch ev)
  show ?thesis
  proof (cases "py_startswith ch ''case:'' \<or> py_startswith ch ''tenant:''")
    case True
    then show ?thesis using assms sent_deliver [of l w "event_json ev" alive ch]
      by (auto simp: Message listen_def deliver_def svc_simps sent_to_def listening_def sets_ok_def intro!: joined_frame)
  next
    case False
    then have "deliver_to l ch = []" by (simp add: deliver_to_def)
    with False show ?thesis using assms
      by (simp add: Message listen_def svc_simps joined_def listening_def sets_ok_def)
  qed
next
  case (Viewers_read c)
  note P = presence_onlyD [OF presence_frame(3) [of l env c]]
  show ?thesis using assms
    by (simp add: Viewers_read P sent_to_def listening_def sets_ok_def)
next
  case (Time_passed n)
  show ?thesis using assms
    by (auto simp: Time_passed sent_to_def listening_def sets_ok_def intro!: joined_frame)
next
  case Listener_started
  show ?thesis using assms
    by (simp add: Listener_started start_listener_def listening_def)
qed (use assms in simp_all)

section \<open>Delivery\<close>

text \<open>
  \<open>opens w ch\<close>: the accepted opening of a stream on the channel \<open>ch\<close>, of a case or of a tenant. \<open>stays w ch\<close>: an
  event that neither ends that stream nor uses its socket elsewhere, and that leaves the listener running.
\<close>

fun opens :: "websocket \<Rightarrow> string \<Rightarrow> live_event \<Rightarrow> bool" where
  "opens w ch (Case_opened v c u) = (v = w \<and> ch = ''case:'' @ c)"
| "opens w ch (Tenant_opened v t) = (v = w \<and> ch = ''tenant:'' @ t)"
| "opens w ch e = False"

fun stays :: "websocket \<Rightarrow> string \<Rightarrow> live_event \<Rightarrow> bool" where
  "stays w ch (Case_opened v d u) = (v \<noteq> w)"
| "stays w ch (Case_text v d u m) = (v \<noteq> w \<or> ch = ''case:'' @ d)"
| "stays w ch (Case_closed v d u) = (v \<noteq> w)"
| "stays w ch (Tenant_opened v t) = (v \<noteq> w)"
| "stays w ch (Tenant_text v t m) = (v \<noteq> w \<or> ch = ''tenant:'' @ t)"
| "stays w ch (Tenant_closed v t) = (v \<noteq> w)"
| "stays w ch Listener_stopped = False"
| "stays w ch Pubsub_failed = False"
| "stays w ch e = True"

fun channel_events :: "string \<Rightarrow> live_event list \<Rightarrow> json list" where
  "channel_events ch [] = []"
| "channel_events ch (Message ch' ev # es) = (if ch' = ch then [event_json ev] else []) @ channel_events ch es"
| "channel_events ch (e # es) = channel_events ch es"

definition events_to :: "websocket \<Rightarrow> live \<Rightarrow> json list" where
  "events_to w l = List.map_filter (\<lambda>f. case f of F_event j \<Rightarrow> Some j | F_pong \<Rightarrow> None) (sent_to w l)"

definition fresh_socket :: "websocket \<Rightarrow> live \<Rightarrow> bool" where
  "fresh_socket w l \<longleftrightarrow> w \<notin> fst ` joined l"

lemma stays_joined:
  assumes "stays w ch e" and "alive w" and "{k. (w, k) \<in> J} = {ch}"
  shows "{k. (w, k) \<in> join_step alive e J} = {ch}"
  using assms by (cases e) auto

lemma map_filter_append: "List.map_filter f (xs @ ys) = List.map_filter f xs @ List.map_filter f ys"
  by (simp add: List.map_filter_def)

lemma stays_sent:
  assumes "env_redis env" and "alive w"
  shows "list_all (stays w ch) es \<Longrightarrow> listening l \<Longrightarrow> {k. (w, k) \<in> joined l} = {ch} \<Longrightarrow>
    events_to w (fold (live_step env alive) es l) = events_to w l @ channel_events ch es \<and> listening (fold (live_step env alive) es l)"
proof (induction es arbitrary: l)
  case (Cons e es)
  have e: "e \<noteq> Listener_stopped" "e \<noteq> Pubsub_failed" using Cons.prems(1) by auto
  note F = live_step_frame [OF assms(1) Cons.prems(2) e, of alive w]
  have l: "listening (live_step env alive e l)" and J: "{k. (w, k) \<in> joined (live_step env alive e l)} = {ch}"
    and sent: "sent_to w (live_step env alive e l) = sent_to w l @ frames_of alive (joined l) e w"
    using F Cons.prems stays_joined [of w ch e alive "joined l"] assms(2) by simp_all
  have "(w, k) \<in> joined l \<longleftrightarrow> k = ch" for k
    using Cons.prems(3) by blast
  then have "events_to w (live_step env alive e l) = events_to w l @ channel_events ch [e]"
    using Cons.prems(1) assms(2) unfolding events_to_def sent
    by (cases e) (auto simp: map_filter_append List.map_filter_simps)
  moreover have "channel_events ch (e # es) = channel_events ch [e] @ channel_events ch es"
    by (cases e) simp_all
  ultimately show ?case
    using Cons.IH [OF _ l J] Cons.prems(1) by simp
qed simp

text \<open>With the task's coroutine at its end no event is sent to anyone, until the hub is stopped.\<close>

lemma events_to_frame: "lv_sent l' = lv_sent l \<Longrightarrow> events_to w l' = events_to w l"
  by (simp add: events_to_def sent_to_def)

lemma events_to_pong: "events_to w (l\<lparr>lv_sent := lv_sent l @ [(v, F_pong)]\<rparr>) = events_to w l"
  by (simp add: events_to_def sent_to_def map_filter_append List.map_filter_simps)

definition deaf :: "live \<Rightarrow> bool" where
  "deaf l \<longleftrightarrow> lv_task l \<and> lv_loop l \<noteq> Looping"

lemma deaf_case_text:
  assumes "deaf l"
  shows "deaf (snd (case_text env alive v c u m l)) \<and> events_to w (snd (case_text env alive v c u m l)) = events_to w l"
proof -
  obtain r l1 where t: "touch_presence env c u l = (r, l1)" by fastforce
  note P = presence_onlyD [OF presence_frame(1) [of l env c u], unfolded t snd_conv]
  have D: "deaf (snd (disconnect_case env v c u k)) = deaf k" "events_to w (snd (disconnect_case env v c u k)) = events_to w k" for k
    by (simp_all add: deaf_def disconnect_case_frame events_to_def sent_to_def)
  have "deaf l1" "events_to w l1 = events_to w l" using assms P by (simp_all add: deaf_def events_to_def sent_to_def)
  moreover from this have "deaf (l1\<lparr>lv_sent := lv_sent l1 @ [(v, F_pong)]\<rparr>)" by (simp add: deaf_def)
  ultimately show ?thesis using assms
    by (cases r; cases "m = ''ping''"; cases "alive v") (simp_all add: case_text_def send_text_def svc_simps t D events_to_pong)
qed

lemma deaf_step:
  assumes "deaf l" and "e \<noteq> Listener_stopped"
  shows "deaf (live_step env alive e l) \<and> events_to w (live_step env alive e l) = events_to w l"
proof (cases e)
  case (Case_opened v c u)
  let ?l = "l\<lparr>lv_cases := conns_add v c (lv_cases l)\<rparr>"
  note P = presence_onlyD [OF presence_frame(1) [of ?l env c u]]
  show ?thesis using assms by (simp add: Case_opened connect_case_def svc_simps deaf_def P events_to_def sent_to_def)
next
  case (Case_text v c u m)
  then show ?thesis using deaf_case_text [OF assms(1)] by simp
next
  case (Viewers_read c)
  note P = presence_onlyD [OF presence_frame(3) [of l env c]]
  show ?thesis using assms by (simp add: Viewers_read deaf_def P events_to_def sent_to_def)
next
  case (Tenant_text v t m)
  then show ?thesis using assms
    by (auto simp: tenant_text_def send_text_def disconnect_tenant_def svc_simps deaf_def events_to_pong intro: events_to_frame)
next
  case (Message ch ev)
  then show ?thesis using assms by (simp add: listen_def svc_simps deaf_def)
qed (use assms in \<open>auto simp: disconnect_case_frame connect_tenant_def disconnect_tenant_def start_listener_def pubsub_error_def deaf_def
  intro: events_to_frame\<close>)

lemma deaf_history:
  "deaf l \<Longrightarrow> Listener_stopped \<notin> set es \<Longrightarrow> events_to w (fold (live_step env alive) es l) = events_to w l"
  by (induction es arbitrary: l) (auto simp: deaf_step)

text \<open>
  C38: delivery. A live client that opens, on a new socket, the stream of a case or of a tenant, and keeps it open, gets
  every event published on that channel from then on, once each and in the order of publication, whatever the other
  clients do in between: joining, leaving, pinging, failing to take a text. This holds while Redis answers and the
  listener runs. Once the listener's connection has failed, nobody is sent any further event, though Redis answers
  again and the hub is told to start its listener, until the hub is stopped.
\<close>

theorem subscriber_sees_all:
  assumes "env_redis env" and "alive w" and "listening l" and "fresh_socket w l" and "opens w ch e" and "list_all (stays w ch) es"
  shows "events_to w (fold (live_step env alive) (e # es) l) = events_to w l @ channel_events ch es \<and>
    (Listener_stopped \<notin> set es' \<longrightarrow>
      events_to v (fold (live_step env alive) (e # es @ Pubsub_failed # es') l) = events_to v (fold (live_step env alive) (e # es) l))"
proof -
  let ?l = "live_step env alive e l"
  have e: "e \<noteq> Listener_stopped" "e \<noteq> Pubsub_failed" using assms(5) by auto
  note F = live_step_frame [OF assms(1,3) e, of alive w]
  have "(w, k) \<notin> joined l" for k
    using assms(4) by (force simp: fresh_socket_def)
  then have "{k. (w, k) \<in> joined ?l} = {ch}" "listening ?l" "events_to w ?l = events_to w l"
    using F assms(5) by (cases e; auto simp: events_to_def simp del: live_step.simps)+
  with stays_sent [where alive = alive, OF assms(1,2,6), of ?l]
  have sent: "events_to w (fold (live_step env alive) (e # es) l) = events_to w l @ channel_events ch es"
    and running: "listening (fold (live_step env alive) (e # es) l)" by simp_all
  let ?m = "fold (live_step env alive) (e # es) l"
  have "deaf (live_step env alive Pubsub_failed ?m)" "events_to v (live_step env alive Pubsub_failed ?m) = events_to v ?m"
    using running by (auto simp: deaf_def listening_def pubsub_error_def intro: events_to_frame)
  with deaf_history [of "live_step env alive Pubsub_failed ?m" es' v env alive] sent
  show ?thesis by simp
qed

text \<open>Alice watches a case while bob comes and goes; then the listener's connection fails.\<close>

definition demo_live :: live where
  "demo_live = \<lparr>lv_cases = [], lv_tenants = [], lv_task = True, lv_stopped = False, lv_loop = Looping, lv_presence = [], lv_now = 0, lv_sent = []\<rparr>"

definition demo_message :: "string \<Rightarrow> realtime_event" where
  "demo_message ty = \<lparr>ev_type = ty, ev_case_id = Some 7, ev_tenant_id = 2, ev_payload = [], ev_actor_id = None,
     ev_actor_display_name = None, ev_timestamp = 0\<rparr>"

lemma demo_live_ok: "listening demo_live" "fresh_socket w demo_live"
  by (simp_all add: listening_def demo_live_def sets_ok_def conns_of_def fresh_socket_def joined_iff joined_def deliver_to_def)

lemma subscriber_sees_all_witness:
  "events_to 1 (fold (live_step demo_env (\<lambda>w. w = 1)) [Case_opened 1 ''c'' ''alice'', Case_opened 2 ''c'' ''bob'',
     Message ''case:c'' (demo_message ''a''), Case_text 2 ''c'' ''bob'' ''ping'', Case_text 1 ''c'' ''alice'' ''ping'',
     Message ''tenant:c'' (demo_message ''x''), Message ''case:c'' (demo_message ''b''),
     Pubsub_failed, Listener_started, Message ''case:c'' (demo_message ''d'')] demo_live) =
   [event_json (demo_message ''a''), event_json (demo_message ''b'')] \<and>
   events_to 1 (fold (live_step demo_env (\<lambda>w. w = 1)) [Tenant_opened 1 ''t'', Message ''tenant:t'' (demo_message ''x'')] demo_live) =
   [event_json (demo_message ''x'')]"
proof -
  let ?es = "[Case_opened 2 ''c'' ''bob'', Message ''case:c'' (demo_message ''a''), Case_text 2 ''c'' ''bob'' ''ping'',
     Case_text 1 ''c'' ''alice'' ''ping'', Message ''tenant:c'' (demo_message ''x''), Message ''case:c'' (demo_message ''b'')]"
  let ?after = "[Listener_started, Message ''case:c'' (demo_message ''d'')]" and ?alive = "\<lambda>w :: websocket. w = 1"
  have up: "env_redis demo_env" "?alive 1" "list_all (stays 1 ''case:c'') ?es" by (simp_all add: demo_env_def)
  note sees = subscriber_sees_all [where alive = ?alive, OF up(1,2) demo_live_ok]
  have "events_to 1 (fold (live_step demo_env ?alive) (Case_opened 1 ''c'' ''alice'' # ?es @ Pubsub_failed # ?after) demo_live) =
      events_to 1 (fold (live_step demo_env ?alive) (Case_opened 1 ''c'' ''alice'' # ?es) demo_live)"
    using sees [where e = "Case_opened 1 ''c'' ''alice''" and ch = "''case:c''" and es = ?es and es' = ?after and v = 1] up(3)
    by (simp del: live_step.simps fold_simps)
  also have "\<dots> = events_to 1 demo_live @ channel_events ''case:c'' ?es"
    by (rule conjunct1 [OF sees]) (use up(3) in simp_all)
  finally have watched: "events_to 1 (fold (live_step demo_env ?alive) (Case_opened 1 ''c'' ''alice'' # ?es @ Pubsub_failed # ?after) demo_live) =
      events_to 1 demo_live @ channel_events ''case:c'' ?es" .
  have tenant: "events_to 1 (fold (live_step demo_env ?alive) (Tenant_opened 1 ''t'' # [Message ''tenant:t'' (demo_message ''x'')]) demo_live) =
      events_to 1 demo_live @ channel_events ''tenant:t'' [Message ''tenant:t'' (demo_message ''x'')]"
    by (rule conjunct1 [OF sees]) simp_all
  have "events_to 1 demo_live = []"
    by (simp add: events_to_def sent_to_def demo_live_def List.map_filter_simps)
  with watched tenant show ?thesis by (simp del: live_step.simps fold_simps)
qed

section \<open>Who is watching\<close>

text \<open>When a user was last seen on a case, as a history says it; closing one stream forgets the user.\<close>

fun seen_step :: "(websocket \<Rightarrow> bool) \<Rightarrow> int \<Rightarrow> live_event \<Rightarrow> (string \<times> string \<Rightarrow> int option) \<Rightarrow> string \<times> string \<Rightarrow> int option" where
  "seen_step alive now (Case_opened w c u) S = S((c, u) := Some now)"
| "seen_step alive now (Case_text w c u m) S =
     (if m = ''ping'' then S((c, u) := (if alive w then Some now else None)) else S)"
| "seen_step alive now (Case_closed w c u) S = S((c, u) := None)"
| "seen_step alive now e S = S"

fun clock_after :: "live_event \<Rightarrow> int \<Rightarrow> int" where
  "clock_after (Time_passed n) t = t + int n"
| "clock_after e t = t"

fun last_seen :: "(websocket \<Rightarrow> bool) \<Rightarrow> live_event list \<Rightarrow> int \<times> (string \<times> string \<Rightarrow> int option) \<Rightarrow> int \<times> (string \<times> string \<Rightarrow> int option)" where
  "last_seen alive [] x = x"
| "last_seen alive (e # es) x = last_seen alive es (clock_after e (fst x), seen_step alive (fst x) e (snd x))"

text \<open>The sorted set of a case holds a user's time when it is less than the TTL ago, and only times seen.\<close>

definition set_shows :: "int \<Rightarrow> (string \<Rightarrow> int option) \<Rightarrow> (string \<times> int) list \<Rightarrow> bool" where
  "set_shows now S ms \<longleftrightarrow> distinct (map fst ms) \<and> (\<forall>u t. map_of ms u = Some t \<longrightarrow> S u = Some t) \<and>
     (\<forall>u t. S u = Some t \<longrightarrow> 0 \<le> t \<and> t \<le> now \<and> (now - presence_ttl * 1000000 < t \<longrightarrow> map_of ms u = Some t))"

lemma set_showsI:
  assumes "distinct (map fst ms)" and "\<And>u t. map_of ms u = Some t \<Longrightarrow> S u = Some t"
    and "\<And>u t. S u = Some t \<Longrightarrow> 0 \<le> t \<and> t \<le> now"
    and "\<And>u t. S u = Some t \<Longrightarrow> now - presence_ttl * 1000000 < t \<Longrightarrow> map_of ms u = Some t"
  shows "set_shows now S ms"
  using assms unfolding set_shows_def by blast

lemma set_showsD:
  assumes "set_shows now S ms"
  shows "distinct (map fst ms)" "map_of ms u = Some t \<Longrightarrow> S u = Some t" "S u = Some t \<Longrightarrow> 0 \<le> t \<and> t \<le> now"
    "S u = Some t \<Longrightarrow> now - presence_ttl * 1000000 < t \<Longrightarrow> map_of ms u = Some t"
  using assms unfolding set_shows_def by blast+

definition shown_key :: "live \<Rightarrow> (string \<Rightarrow> int option) \<Rightarrow> string \<Rightarrow> bool" where
  "shown_key l S k \<longleftrightarrow> set_shows (lv_now l) S (zset l k) \<and>
     (zset l k \<noteq> [] \<longrightarrow> (\<exists>e. zexpiry l k = Some e \<and> (\<forall>(u, t) \<in> set (zset l k). t + presence_ttl * 1000000 \<le> e)))"

definition presence_shown :: "live \<Rightarrow> (string \<times> string \<Rightarrow> int option) \<Rightarrow> bool" where
  "presence_shown l S \<longleftrightarrow> 0 \<le> lv_now l \<and> (\<forall>c. shown_key l (\<lambda>u. S (c, u)) (presence_key c))"

lemma zset_zput: "zset (zput k ms e l) j = (if j = k then (case e of None \<Rightarrow> ms | Some t \<Rightarrow> if lv_now l < t then ms else []) else zset l j)"
  by (auto simp: zset_def zput_def update_conv' delete_conv' split: option.splits)

lemma zexpiry_zput: "zexpiry (zput k ms e l) j = (if j = k then (if zset (zput k ms e l) k = [] then None else e) else zexpiry l j)"
proof (cases "j = k")
  case True
  have "ms = [] \<Longrightarrow> zset (zput k ms e l) k = []" by (simp add: zset_zput split: option.split)
  with True show ?thesis by (auto simp: zexpiry_def zput_def update_conv')
next
  case False
  then have "zset (zput k ms e l) j = zset l j" by (simp add: zset_zput)
  with False show ?thesis by (auto simp: zexpiry_def zput_def update_conv' delete_conv')
qed

lemma zset_live: "zset l k \<noteq> [] \<Longrightarrow> zexpiry l k = Some e \<Longrightarrow> lv_now l < e"
  by (auto simp: zexpiry_def zset_def split: option.splits if_splits)

lemma presence_key_inj: "presence_key c = presence_key d \<longleftrightarrow> c = d"
  by (simp add: presence_key_def)

lemma zput_now [simp]: "lv_now (zput k ms e l) = lv_now l"
  by (simp add: zput_def)

lemma shown_key_other:
  assumes "shown_key l S k" and "lv_now l' = lv_now l" and "zset l' k = zset l k" and "zexpiry l' k = zexpiry l k"
  shows "shown_key l' S k"
  using assms by (simp add: shown_key_def)

text \<open>The four operations on one sorted set.\<close>

lemma zset_put_same: "zset l k \<noteq> [] \<or> zexpiry l k = None \<Longrightarrow> zset (zput k ms (zexpiry l k) l) k = ms"
  by (cases "zexpiry l k") (auto simp: zset_zput zset_live)

lemma zexpiry_empty: "zset l k = [] \<Longrightarrow> zexpiry l k = None"
  by (simp add: zexpiry_def)

lemma zset_put_own: "zset (zput k ms (zexpiry l k) l) k = ms"
proof (cases "zset l k = []")
  case True
  then show ?thesis by (simp add: zexpiry_empty zset_zput)
qed (simp add: zset_put_same)

lemma zset_zexpiry_puts:
  "j \<noteq> k \<Longrightarrow> zset (zput k ms e l) j = zset l j" "j \<noteq> k \<Longrightarrow> zexpiry (zput k ms e l) j = zexpiry l j"
  "lv_now l < t \<Longrightarrow> zset (zput k ms (Some t) l) k = ms" "lv_now l < t \<Longrightarrow> zexpiry (zput k ms (Some t) l) k = (if ms = [] then None else Some t)"
  "zexpiry (zput k ms (zexpiry l k) l) k = (if ms = [] then None else zexpiry l k)"
  by (simp_all add: zset_put_own zexpiry_zput) (simp_all add: zset_zput)

definition put_in :: "string \<Rightarrow> (string \<times> int) list \<Rightarrow> int option \<Rightarrow> live \<Rightarrow> live \<Rightarrow> bool" where
  "put_in k ms e l l' \<longleftrightarrow> lv_now l' = lv_now l \<and> zset l' k = ms \<and> (ms \<noteq> [] \<longrightarrow> zexpiry l' k = e) \<and>
     (\<forall>j. j \<noteq> k \<longrightarrow> zset l' j = zset l j \<and> zexpiry l' j = zexpiry l j)"

lemma touch_puts:
  assumes "env_redis env"
  shows "put_in (presence_key c) (AList.update u (lv_now l) (zset l (presence_key c))) (Some (lv_now l + 120000000)) l (snd (touch_presence env c u l))"
proof -
  have "AList.update u t ms \<noteq> []" for t and ms :: "(string \<times> int) list" by (cases ms) auto
  with assms show ?thesis
    by (auto simp: put_in_def touch_presence_def zadd_def zexpire_def live_redis_def presence_ttl_def svc_simps zset_put_own zset_zexpiry_puts)
qed

lemma remove_puts:
  assumes "env_redis env"
  shows "put_in (presence_key c) (AList.delete u (zset l (presence_key c))) (zexpiry l (presence_key c)) l (snd (remove_presence env c u l))"
  using assms by (auto simp: put_in_def remove_presence_def zrem_def live_redis_def svc_simps zset_put_own zset_zexpiry_puts)

lemma viewers_puts:
  assumes "env_redis env"
  shows "put_in (presence_key c) (filter (\<lambda>(m, t). \<not> (0 \<le> t \<and> t \<le> lv_now l - 30000000)) (zset l (presence_key c)))
      (zexpiry l (presence_key c)) l (snd (get_active_viewers env c l)) \<and>
    fst (get_active_viewers env c l) = Inr (map fst (sort_key snd (filter (\<lambda>(m, t). \<not> (0 \<le> t \<and> t \<le> lv_now l - 30000000)) (zset l (presence_key c)))))"
  using assms by (auto simp: put_in_def get_active_viewers_def zremrangebyscore_def zrange_def live_redis_def presence_ttl_def svc_simps
      zset_put_own zset_zexpiry_puts)

lemma presence_shown_put:
  assumes "presence_shown l S" and "put_in (presence_key c) ms e l l'"
    and "set_shows (lv_now l) (\<lambda>u. S' (c, u)) ms" and "\<And>d u. d \<noteq> c \<Longrightarrow> S' (d, u) = S (d, u)"
    and "ms \<noteq> [] \<Longrightarrow> \<exists>t. e = Some t \<and> (\<forall>(u, x) \<in> set ms. x + presence_ttl * 1000000 \<le> t)"
  shows "presence_shown l' S'"
  unfolding presence_shown_def
proof (intro conjI allI)
  show "0 \<le> lv_now l'" using assms(1,2) by (simp add: presence_shown_def put_in_def)
  show "shown_key l' (\<lambda>u. S' (d, u)) (presence_key d)" for d
  proof (cases "d = c")
    case True
    with assms(2,3,5) show ?thesis by (auto simp: shown_key_def put_in_def)
  next
    case False
    then have "shown_key l (\<lambda>u. S' (d, u)) (presence_key d)"
      using assms(1,4) by (simp add: presence_shown_def)
    with False assms(2) show ?thesis
      by (intro shown_key_other [of l _ _ l']) (simp_all add: put_in_def presence_key_inj)
  qed
qed

lemma shown_at: "presence_shown l S \<Longrightarrow> shown_key l (\<lambda>u. S (c, u)) (presence_key c)"
  by (simp add: presence_shown_def)

lemma presence_touch:
  assumes "presence_shown l S" and "env_redis env"
  shows "presence_shown (snd (touch_presence env c u l)) (S((c, u) := Some (lv_now l)))"
proof (rule presence_shown_put [OF assms(1) touch_puts [OF assms(2)]])
  let ?ms = "zset l (presence_key c)"
  have k: "set_shows (lv_now l) (\<lambda>v. S (c, v)) ?ms" and now: "0 \<le> lv_now l"
    using shown_at [OF assms(1), of c] assms(1) by (simp_all add: shown_key_def presence_shown_def)
  note K = set_showsD [OF k] and M = map_of_eq_Some_iff [OF set_showsD(1) [OF k]]
  show "set_shows (lv_now l) (\<lambda>v. (S((c, u) := Some (lv_now l))) (c, v)) (AList.update u (lv_now l) ?ms)"
    by (rule set_showsI) (auto simp: update_conv' distinct_update K(1) now split: if_splits dest: K(2-4) K(2) [unfolded M])
  have "x \<le> lv_now l" if "(v, x) \<in> set (AList.update u (lv_now l) ?ms)" for v x
  proof -
    have "distinct (map fst (AList.update u (lv_now l) ?ms))" using K(1) by (simp add: distinct_update)
    then have "map_of (AList.update u (lv_now l) ?ms) v = Some x" using that by simp
    then have "x = lv_now l \<or> map_of ?ms v = Some x" by (auto simp: update_conv' split: if_splits)
    then show ?thesis using K(2,3) by blast
  qed
  then show "\<exists>t. Some (lv_now l + 120000000) = Some t \<and> (\<forall>(v, x) \<in> set (AList.update u (lv_now l) ?ms). x + presence_ttl * 1000000 \<le> t)"
    by (fastforce simp: presence_ttl_def)
qed auto

lemma presence_remove:
  assumes "presence_shown l S" and "env_redis env"
  shows "presence_shown (snd (remove_presence env c u l)) (S((c, u) := None))"
proof (rule presence_shown_put [OF assms(1) remove_puts [OF assms(2)]])
  let ?ms = "zset l (presence_key c)"
  have k: "shown_key l (\<lambda>v. S (c, v)) (presence_key c)" using shown_at [OF assms(1)] .
  then have "set_shows (lv_now l) (\<lambda>v. S (c, v)) ?ms" by (simp add: shown_key_def)
  note K = set_showsD [OF this] and M = map_of_eq_Some_iff [OF set_showsD(1) [OF this]]
  show "set_shows (lv_now l) (\<lambda>v. (S((c, u) := None)) (c, v)) (AList.delete u ?ms)"
    by (rule set_showsI) (auto simp: delete_conv' distinct_delete K(1) split: if_splits dest: K(2-4) K(2) [unfolded M])
  have "set (AList.delete u ?ms) \<subseteq> set ?ms" by (auto simp: AList.delete_eq)
  moreover assume "AList.delete u ?ms \<noteq> []"
  moreover from this have "?ms \<noteq> []" by auto
  ultimately show "\<exists>t. zexpiry l (presence_key c) = Some t \<and> (\<forall>(v, x) \<in> set (AList.delete u ?ms). x + presence_ttl * 1000000 \<le> t)"
    using k unfolding shown_key_def by blast
qed auto

lemma presence_read:
  assumes "presence_shown l S" and "env_redis env"
  shows "presence_shown (snd (get_active_viewers env c l)) S"
proof (rule presence_shown_put [OF assms(1) conjunct1 [OF viewers_puts [OF assms(2)]]])
  let ?P = "\<lambda>(m, t). \<not> (0 \<le> t \<and> t \<le> lv_now l - 30000000)" and ?ms = "zset l (presence_key c)"
  have k: "shown_key l (\<lambda>v. S (c, v)) (presence_key c)" using shown_at [OF assms(1)] .
  then have "set_shows (lv_now l) (\<lambda>v. S (c, v)) ?ms" by (simp add: shown_key_def)
  note K = set_showsD [OF this] and d = set_showsD(1) [OF this] and M = map_of_eq_Some_iff [OF set_showsD(1) [OF this]]
  have f: "map_of (filter ?P ?ms) v = Some t \<longleftrightarrow> map_of ?ms v = Some t \<and> ?P (v, t)" for v t
    using d distinct_map_filter [OF d, of ?P] by (auto simp: map_of_eq_Some_iff)
  show "set_shows (lv_now l) (\<lambda>v. S (c, v)) (filter ?P ?ms)"
    by (rule set_showsI) (auto simp: f presence_ttl_def distinct_map_filter [OF d] dest: K(2,3) K(2) [unfolded M] K(4) [unfolded M presence_ttl_def, simplified])
  assume "filter ?P ?ms \<noteq> []"
  then have "?ms \<noteq> []" by auto
  with k show "\<exists>t. zexpiry l (presence_key c) = Some t \<and> (\<forall>(v, x) \<in> set (filter ?P ?ms). x + presence_ttl * 1000000 \<le> t)"
    unfolding shown_key_def by fastforce
qed simp

lemma presence_wait:
  assumes "presence_shown l S"
  shows "presence_shown (l\<lparr>lv_now := lv_now l + int n\<rparr>) S"
  unfolding presence_shown_def
proof (intro conjI allI)
  let ?l = "l\<lparr>lv_now := lv_now l + int n\<rparr>"
  show "0 \<le> lv_now ?l" using assms by (simp add: presence_shown_def)
  fix c
  let ?k = "presence_key c" and ?S = "\<lambda>u. S (c, u)"
  have key: "shown_key l ?S ?k" using shown_at [OF assms] .
  note K = set_showsD [OF conjunct1 [OF key [unfolded shown_key_def]]]
  show "shown_key ?l ?S ?k"
  proof (cases "zset ?l ?k = []")
    case True
    have old: "\<not> lv_now ?l - presence_ttl * 1000000 < t" if "?S u = Some t" for u t
    proof
      assume fresh: "lv_now ?l - presence_ttl * 1000000 < t"
      then have "map_of (zset l ?k) u = Some t" using K(4) [OF that] by simp
      then have mem: "(u, t) \<in> set (zset l ?k)" by (rule map_of_SomeD)
      then obtain e where e: "zexpiry l ?k = Some e" "t + presence_ttl * 1000000 \<le> e"
        using key unfolding shown_key_def by fastforce
      then have "lv_now ?l < e" using fresh by simp
      with e(1) mem have "zset ?l ?k \<noteq> []" by (auto simp: zexpiry_def zset_def split: option.splits if_splits)
      with True show False by simp
    qed
    have "set_shows (lv_now ?l) ?S []"
    proof (rule set_showsI)
      show "?S u = Some t \<Longrightarrow> 0 \<le> t \<and> t \<le> lv_now ?l" for u t using K(3) [of u t] by simp
    qed (use old in auto)
    with True show ?thesis by (simp add: shown_key_def)
  next
    case False
    then have same: "zset ?l ?k = zset l ?k" by (auto simp: zset_def split: option.splits if_splits)
    then have "zexpiry ?l ?k = zexpiry l ?k" by (simp add: zexpiry_def)
    moreover have "set_shows (lv_now ?l) ?S (zset l ?k)"
    proof (rule set_showsI)
      show "?S u = Some t \<Longrightarrow> 0 \<le> t \<and> t \<le> lv_now ?l" for u t using K(3) [of u t] by simp
      show "?S u = Some t \<Longrightarrow> lv_now ?l - presence_ttl * 1000000 < t \<Longrightarrow> map_of (zset l ?k) u = Some t" for u t
        using K(4) [of u t] by simp
      show "map_of (zset l ?k) u = Some t \<Longrightarrow> ?S u = Some t" for u t by (rule K(2))
      show "distinct (map fst (zset l ?k))" by (rule K(1))
    qed
    ultimately show ?thesis using key same by (simp add: shown_key_def)
  qed
qed

lemma presence_frame_other:
  assumes "presence_shown l S" and "lv_presence l' = lv_presence l" and "lv_now l' = lv_now l"
  shows "presence_shown l' S"
proof -
  have "zset l' k = zset l k" "zexpiry l' k = zexpiry l k" for k
    unfolding zset_def zexpiry_def assms(2,3) by (rule refl)+
  then show ?thesis using assms unfolding presence_shown_def shown_key_def by simp
qed

lemma presence_disconnect:
  "presence_shown l S \<Longrightarrow> env_redis env \<Longrightarrow> presence_shown (snd (disconnect_case env w c u l)) (S((c, u) := None))"
  unfolding disconnect_case_def and_then_apply modify_apply by (simp add: presence_remove presence_frame_other)

lemma live_step_presence:
  assumes "env_redis env" and "presence_shown l S"
  shows "presence_shown (live_step env alive e l) (seen_step alive (lv_now l) e S) \<and> lv_now (live_step env alive e l) = clock_after e (lv_now l)"
proof (cases e)
  case (Case_opened w c u)
  let ?l = "l\<lparr>lv_cases := conns_add w c (lv_cases l)\<rparr>"
  have "presence_shown ?l S" using assms(2) by (rule presence_frame_other) simp_all
  from presence_touch [OF this assms(1), of c u] show ?thesis
    by (simp add: Case_opened connect_case_def svc_simps presence_onlyD(6) [OF presence_frame(1)])
next
  case (Case_closed w c u)
  then show ?thesis
    using presence_disconnect [OF assms(2,1), of w c u]
    by (simp add: disconnect_case_def svc_simps presence_onlyD(6) [OF presence_frame(2)])
next
  case (Case_text w c u m)
  obtain r l1 where t: "touch_presence env c u l = (r, l1)" by fastforce
  have r: "r = Inr ()" using touch_up [OF assms(1), of c u l] t by simp
  have now: "lv_now l1 = lv_now l" using presence_onlyD(6) [OF presence_frame(1) [of l env c u]] t by simp
  have T: "presence_shown l1 (S((c, u) := Some (lv_now l)))" using presence_touch [OF assms(2,1), of c u] t by simp
  have A: "presence_shown (l1\<lparr>lv_sent := x\<rparr>) (S((c, u) := Some (lv_now l)))" for x
    using T by (rule presence_frame_other) simp_all
  have D: "presence_shown (snd (disconnect_case env w c u l1)) (S((c, u) := None))" "lv_now (snd (disconnect_case env w c u l1)) = lv_now l"
    using presence_disconnect [OF T assms(1), of w c u] now
    by (simp_all add: disconnect_case_def svc_simps presence_onlyD(6) [OF presence_frame(2)])
  show ?thesis using assms(2) A D now
    by (auto simp: Case_text case_text_def send_text_def svc_simps t r)
next
  case (Message ch ev)
  then show ?thesis using assms(2)
    by (auto simp: listen_def deliver_def svc_simps intro: presence_frame_other)
next
  case (Viewers_read c)
  then show ?thesis using presence_read [OF assms(2,1), of c]
    by (simp add: presence_onlyD(6) [OF presence_frame(3)])
next
  case (Time_passed n)
  then show ?thesis using presence_wait [OF assms(2), of n] by simp
next
  case Listener_stopped
  have "lv_presence (snd (stop l)) = lv_presence l" "lv_now (snd (stop l)) = lv_now l"
    by (simp_all add: stop_def svc_simps)
  with assms(2) show ?thesis by (auto simp: Listener_stopped intro: presence_frame_other)
qed (use assms(2) in \<open>auto simp: connect_tenant_def disconnect_tenant_def tenant_text_def send_text_def start_listener_def pubsub_error_def
  svc_simps intro: presence_frame_other\<close>)

lemma last_seen_shown:
  assumes "env_redis env"
  shows "presence_shown l S \<Longrightarrow> presence_shown (fold (live_step env alive) es l) (snd (last_seen alive es (lv_now l, S))) \<and>
    lv_now (fold (live_step env alive) es l) = fst (last_seen alive es (lv_now l, S))"
proof (induction es arbitrary: l S)
  case (Cons e es)
  from live_step_presence [OF assms Cons.prems, of alive e] Cons.IH show ?case by fastforce
qed simp

text \<open>
  C39: presence. Whatever the history of the streams, the viewers of a case are exactly the users who opened its stream
  or pinged on it less than 30 seconds ago and have not closed a stream on it since. One closed tab forgets the user,
  though another one may be open.
\<close>

theorem viewers_are_recent:
  assumes "env_redis env" and "lv_presence l = []" and "0 \<le> lv_now l"
    and "last_seen alive es (lv_now l, Map.empty) = (now, seen)"
  shows "\<exists>us l'. get_active_viewers env c (fold (live_step env alive) es l) = (Inr us, l') \<and> distinct us \<and>
    set us = {u. \<exists>t. seen (c, u) = Some t \<and> now - 30000000 < t}"
proof -
  let ?l = "fold (live_step env alive) es l" and ?P = "\<lambda>(m, t). \<not> (0 \<le> t \<and> t \<le> now - 30000000)"
  have "presence_shown l Map.empty"
    using assms(2,3) by (simp add: presence_shown_def shown_key_def set_shows_def zset_def)
  from last_seen_shown [OF assms(1) this, of alive es] have shown: "presence_shown ?l seen" and now: "lv_now ?l = now"
    by (simp_all add: assms(4))
  let ?ms = "zset ?l (presence_key c)"
  have "set_shows now (\<lambda>u. seen (c, u)) ?ms"
    using shown_at [OF shown, of c] by (simp add: shown_key_def now)
  note K = set_showsD [OF this] and M = map_of_eq_Some_iff [OF set_showsD(1) [OF this]]
  have mem: "(u, t) \<in> set (filter ?P ?ms) \<longleftrightarrow> seen (c, u) = Some t \<and> now - 30000000 < t" for u t
  proof -
    have "(u, t) \<in> set (filter ?P ?ms) \<longleftrightarrow> map_of ?ms u = Some t \<and> \<not> (0 \<le> t \<and> t \<le> now - 30000000)"
      by (auto simp: M)
    also have "\<dots> \<longleftrightarrow> seen (c, u) = Some t \<and> now - 30000000 < t"
    proof
      assume l: "map_of ?ms u = Some t \<and> \<not> (0 \<le> t \<and> t \<le> now - 30000000)"
      then have "seen (c, u) = Some t" by (blast intro: K(2))
      with K(3) [OF this] l show "seen (c, u) = Some t \<and> now - 30000000 < t" by simp
    next
      assume r: "seen (c, u) = Some t \<and> now - 30000000 < t"
      then have "map_of ?ms u = Some t" by (intro K(4)) (simp_all add: presence_ttl_def)
      with r show "map_of ?ms u = Some t \<and> \<not> (0 \<le> t \<and> t \<le> now - 30000000)" by simp
    qed
    finally show ?thesis .
  qed
  let ?us = "map fst (sort_key snd (filter ?P ?ms))"
  have dom: "fst ` A = {u. \<exists>t. (u, t) \<in> A}" for A :: "(string \<times> int) set" by force
  have "fst (get_active_viewers env c ?l) = Inr ?us"
    using conjunct2 [OF viewers_puts [OF assms(1), of c ?l]] by (simp add: now)
  moreover have "set ?us = {u. \<exists>t. seen (c, u) = Some t \<and> now - 30000000 < t}"
  proof -
    have "set ?us = fst ` set (filter ?P ?ms)" by simp
    also have "\<dots> = {u. \<exists>t. (u, t) \<in> set (filter ?P ?ms)}" by (rule dom)
    finally show ?thesis unfolding mem .
  qed
  moreover have "distinct ?us"
    using distinct_map_filter [OF K(1), of ?P] by (simp only: distinct_map distinct_sort set_sort)
  ultimately show ?thesis by (metis prod.collapse)
qed

text \<open>Two users open a case; one closes a tab, the other's last ping is half a minute old.\<close>

lemma viewers_are_recent_witness:
  "fst (get_active_viewers demo_env ''c'' (fold (live_step demo_env (\<lambda>w. True)) [Case_opened 1 ''c'' ''alice'', Case_opened 2 ''c'' ''bob'',
     Time_passed 20000000, Case_text 1 ''c'' ''alice'' ''ping'', Time_passed 10000000] demo_live)) = Inr [''alice''] \<and>
   fst (get_active_viewers demo_env ''c'' (fold (live_step demo_env (\<lambda>w. True)) [Case_opened 1 ''c'' ''alice'', Case_opened 2 ''c'' ''alice'',
     Case_closed 2 ''c'' ''alice''] demo_live)) = Inr []"
proof -
  have up: "env_redis demo_env" "lv_presence demo_live = []" "0 \<le> lv_now demo_live"
    by (simp_all add: demo_env_def demo_live_def)
  note recent = viewers_are_recent [OF up, of "\<lambda>w. True"]
  let ?a = "[Case_opened 1 ''c'' ''alice'', Case_opened 2 ''c'' ''bob'', Time_passed 20000000, Case_text 1 ''c'' ''alice'' ''ping'', Time_passed 10000000]"
  let ?b = "[Case_opened 1 ''c'' ''alice'', Case_opened 2 ''c'' ''alice'', Case_closed 2 ''c'' ''alice'']"
  let ?A = "Map.empty((''c'', ''alice'') \<mapsto> 0, (''c'', ''bob'') \<mapsto> 0, (''c'', ''alice'') \<mapsto> 20000000) :: string \<times> string \<Rightarrow> int option"
  have "last_seen (\<lambda>w. True) ?a (lv_now demo_live, Map.empty) = (30000000, ?A)"
    by (simp add: demo_live_def)
  from recent [OF this, of "''c''"] obtain us l' where
    a: "get_active_viewers demo_env ''c'' (fold (live_step demo_env (\<lambda>w. True)) ?a demo_live) = (Inr us, l')" "distinct us"
    and us: "set us = {u. \<exists>t. ?A (''c'', u) = Some t \<and> 30000000 - 30000000 < (t::int)}" by blast
  have "last_seen (\<lambda>w. True) ?b (lv_now demo_live, Map.empty) = (0, (Map.empty((''c'', ''alice'') \<mapsto> 0))((''c'', ''alice'') := None))"
    by (simp add: demo_live_def)
  from recent [OF this, of "''c''"] obtain vs l2 where
    b: "get_active_viewers demo_env ''c'' (fold (live_step demo_env (\<lambda>w. True)) ?b demo_live) = (Inr vs, l2)" "set vs = {}" by auto
  have "set us = {''alice''}" unfolding us by (auto split: if_splits)
  with a(2) have "us = [''alice'']" by (cases us; cases "tl us") auto
  with a b show ?thesis by (simp del: live_step.simps fold_simps)
qed

section \<open>Who may open a stream\<close>

lemma record_event_published:
  assumes "record_event env t c ty de ca ac me ts d = (Inr i, d')" and "env_publish env (case_channel c)"
  shows "\<exists>ev. ev_tenant_id ev = t \<and> ev_type ev = ty \<and> (case_channel c, ev) \<in> set (drop (length (db_published d)) (db_published d'))"
proof -
  obtain d1 row p where ins: "insert_row timeline_e row d = (Inr (db_next_id d), d1)"
    and pub: "and_then (publish_case env c t ty p ac None) (ret (db_next_id d)) d1 = (Inr i, d')"
    using assms(1) unfolding record_event_def run_now run_insert by blast
  have "db_published d1 = db_published d"
    using insert_row_InrD [OF ins] by (simp add: timeline_e_def)
  moreover have "d' = snd (publish_case env c t ty p ac None d1)"
    using pub by (auto simp: svc_simps split: prod.splits sum.splits)
  ultimately show ?thesis using assms(2)
    by (intro exI [of _ "\<lparr>ev_type = ty, ev_case_id = Some c, ev_tenant_id = t, ev_payload = p, ev_actor_id = ac,
        ev_actor_display_name = None, ev_timestamp = db_now d1\<rparr>"])
      (auto simp: publish_case_def suppress_def publish_case_event_def redis_publish_def Let_def svc_simps now_utc_apply)
qed

text \<open>
  C33: who may watch. A tenant's stream is open to the users of the tenant alone. The stream of a case is open to any
  active user of any tenant with an access token: the case is not looked up, and what is recorded for it is sent to the
  stranger, with the payload.
\<close>

theorem case_stream_is_open:
  assumes "authenticate_ws lib token db = (Inr (Some (uid, u)), db')" and "env_redis env" and "listening l" and "alive w"
    and "record_event env t c ty de ca ac me ts d = (Inr i, d')" and "env_publish env (case_channel c)"
  shows "u_is_active u \<and> (u_tenant_id u \<noteq> t \<longrightarrow> open_tenant_stream (Some (uid, u)) w t l = (Inr False, l)) \<and>
    (\<exists>l1 ev. open_case_stream env (Some (uid, u)) w c l = (Inr True, l1) \<and> ev_tenant_id ev = t \<and> ev_type ev = ty \<and>
      (case_channel c, ev) \<in> set (drop (length (db_published d)) (db_published d')) \<and>
      F_event (event_json ev) \<in> set (sent_to w (snd (listen alive (case_channel c, ev) l1))))"
proof -
  have active: "u_is_active u"
    using assms(1) by (auto simp: authenticate_ws_def get_db_unscoped_def svc_simps split: sum.splits prod.splits option.splits if_splits)
  obtain ev where ev: "ev_tenant_id ev = t" "ev_type ev = ty"
    "(case_channel c, ev) \<in> set (drop (length (db_published d)) (db_published d'))"
    using record_event_published [OF assms(5,6)] by blast
  let ?e = "Case_opened w (uuid_str c) (uuid_str uid)"
  let ?l = "live_step env alive ?e l"
  have "fst (connect_case env w (uuid_str c) (uuid_str uid) l) = Inr ()"
    by (simp add: connect_case_def svc_simps touch_up [OF assms(2)])
  then have "open_case_stream env (Some (uid, u)) w c l = (Inr True, ?l)"
    by (cases "connect_case env w (uuid_str c) (uuid_str uid) l") (simp add: open_case_stream_def svc_simps)
  moreover have "joined ?l = insert (w, ''case:'' @ uuid_str c) (joined l)" and l: "listening ?l"
    using live_step_frame [OF assms(2,3), of ?e alive w] by (simp_all del: live_step.simps)
  then have "sent_to w (snd (listen alive (case_channel c, ev) ?l)) = sent_to w ?l @ [F_event (event_json ev)]"
    using live_step_frame [OF assms(2) l, of "Message (case_channel c) ev" alive w] assms(4)
    by (simp add: case_channel_def)
  ultimately have "\<exists>l1. open_case_stream env (Some (uid, u)) w c l = (Inr True, l1) \<and>
      F_event (event_json ev) \<in> set (sent_to w (snd (listen alive (case_channel c, ev) l1)))" by auto
  with active ev show ?thesis by (auto simp: open_tenant_stream_def)
qed

text \<open>Alice of tenant 1 watches case 7 of tenant 2, with a token of a session that Redis no longer knows.\<close>

definition demo_stranger :: string where
  "demo_stranger = lib_jwt_encode demo_lib (access_payload demo_lib (login_subject 3 (demo_user 1 ''alice'' ANALYST) ''s'') 1000 0)"

lemma demo_stranger_decoded:
  "lib_jwt_decode demo_lib 0 demo_stranger = Some (access_payload demo_lib (login_subject 3 (demo_user 1 ''alice'' ANALYST) ''s'') 1000 0)"
proof -
  have "lib_access_minutes demo_lib = 60" by (simp add: demo_lib_def)
  then have "not_expired 0 (access_payload demo_lib (login_subject 3 (demo_user 1 ''alice'' ANALYST) ''s'') 1000 0)" by (simp add: exp_access_payload)
  with demo_lib_ok show ?thesis unfolding lib_ok_def demo_stranger_def by blast
qed

lemma case_stream_is_open_witness:
  "\<exists>u l1 ev. authenticate_ws demo_lib demo_stranger demo_db = (Inr (Some (3, u)), demo_db) \<and> u_tenant_id u = 1 \<and> db_redis demo_db = [] \<and>
     open_tenant_stream (Some (3, u)) 9 2 demo_live = (Inr False, demo_live) \<and>
     open_case_stream demo_env (Some (3, u)) 9 7 demo_live = (Inr True, l1) \<and> ev_tenant_id ev = 2 \<and>
     F_event (event_json ev) \<in> set (sent_to 9 (snd (listen (\<lambda>w. True) (case_channel 7, ev) l1)))"
proof -
  let ?u = "demo_user 1 ''alice'' ANALYST" and ?d = "demo_db\<lparr>db_session := tenant_session 2\<rparr>"
  have now: "db_now demo_db = 1000" by (simp add: demo_db_def)
  have auth: "authenticate_ws demo_lib demo_stranger demo_db = (Inr (Some (3, ?u)), demo_db)"
    by (simp add: authenticate_ws_def decode_token_def svc_simps now demo_stranger_decoded validate_access_payload get_db_unscoped_def find_row_apply)
      (simp add: owner_session_def run_simps)
  obtain i d' where rec: "record_event demo_env 2 7 ''case_updated'' ''Closed'' None None [] None ?d = (Inr i, d')"
    by (simp add: run_simps)
  have up: "env_redis demo_env" "env_publish demo_env ch" for ch by (simp_all add: demo_env_def)
  from case_stream_is_open [OF auth up(1) demo_live_ok(1), of "\<lambda>w. True" 9, OF _ rec up(2)] auth
  show ?thesis by (auto simp: demo_user_def demo_db_def empty_db_def)
qed

end
