(* ===== verification/Runtime_Api.thy ===== *)
theory Runtime_Api
  imports Isolation Consistency
begin

text \<open>
  What the platform hands to a module: \<^verbatim>\<open>modules/base.py\<close> (the registry) and \<^verbatim>\<open>modules/runtime_api.py\<close>
  (the session-bound \<^verbatim>\<open>ModuleAPI\<close>).

  A module is third-party code. It is modelled by how it uses the interface it gets: it calls an operation of the API and
  goes on with the answer or the exception, any finite number of times, and then returns a result or raises. What it
  passes are JSON dictionaries; pydantic's coercions to numbers and booleans and \<^verbatim>\<open>datetime.fromisoformat\<close> are
  the parameter \<open>module_lib\<close>.
\<close>

section \<open>Modules and their registry\<close>

datatype api_call =
    Get_case uuid
  | Get_observables uuid
  | Get_assets uuid
  | Get_timeline uuid
  | Add_observable uuid jobj
  | Add_timeline_entry uuid jobj
  | Add_task uuid jobj
  | Update_asset uuid uuid jobj

datatype module_prog =
    Done json
  | Fail api_error
  | Call api_call "api_error + json \<Rightarrow> module_prog"

text \<open>\<^verbatim>\<open>execute(context, config, payload)\<close>; the classes registered, by entry point.\<close>

type_synonym module_class = "jobj \<Rightarrow> jobj \<Rightarrow> module_prog"

type_synonym module_registry = "(string \<times> module_class) list"

definition registry_register :: "string \<Rightarrow> module_class \<Rightarrow> module_registry \<Rightarrow> module_registry" where
  "registry_register entry_point cls reg = AList.update entry_point cls reg"

definition registry_get :: "module_registry \<Rightarrow> string \<Rightarrow> module_class option" where
  "registry_get reg entry_point = map_of reg entry_point"

definition registry_list :: "module_registry \<Rightarrow> string list" where
  "registry_list reg = sort (map fst reg)"

section \<open>Reading the dictionaries\<close>

text \<open>
  \<open>ml_int\<close> and \<open>ml_bool\<close>: the value pydantic reads a JSON value as, if it takes it. \<open>ml_fromisoformat\<close>:
  the time and whether it has an offset, or no value where \<^verbatim>\<open>ValueError\<close> is raised.
\<close>

record module_lib =
  ml_int :: "json \<Rightarrow> int option"
  ml_bool :: "json \<Rightarrow> bool option"
  ml_fromisoformat :: "string \<Rightarrow> (int \<times> bool) option"

definition item :: "jobj \<Rightarrow> string \<Rightarrow> json service" where
  "item kvs k = (case map_of kvs k of Some v \<Rightarrow> ret v | None \<Rightarrow> raise (KeyError k))"

definition get_or :: "jobj \<Rightarrow> string \<Rightarrow> json \<Rightarrow> json" where
  "get_or kvs k dflt = (case map_of kvs k of Some v \<Rightarrow> v | None \<Rightarrow> dflt)"

text \<open>\<^verbatim>\<open>list(x)\<close>: of a list, the characters of a string, the keys of a dictionary.\<close>

definition py_list :: "json \<Rightarrow> json list service" where
  "py_list j = (case j of JList xs \<Rightarrow> ret xs | JStr s \<Rightarrow> ret (map (\<lambda>c. JStr [c]) s)
     | JId u \<Rightarrow> ret (map (\<lambda>c. JStr [c]) (uuid_str u)) | JObj kvs \<Rightarrow> ret (map (JStr \<circ> fst) kvs)
     | _ \<Rightarrow> raise (OtherError ''TypeError''))"

text \<open>\<^verbatim>\<open>UUID(x)\<close>; \<open>JId\<close> is the text of an id.\<close>

definition py_uuid :: "json \<Rightarrow> uuid service" where
  "py_uuid j = (case j of JId u \<Rightarrow> ret u | JStr s \<Rightarrow> raise (OtherError ''ValueError'')
     | JNull \<Rightarrow> raise (OtherError ''TypeError'') | _ \<Rightarrow> raise (OtherError ''AttributeError''))"

text \<open>The fields of a pydantic model: a string of bounded length, an optional value, a member of a string enum.\<close>

definition str_field :: "nat \<Rightarrow> nat option \<Rightarrow> json \<Rightarrow> string option" where
  "str_field lo hi j = (case json_str j of None \<Rightarrow> None
     | Some s \<Rightarrow> if lo \<le> length s \<and> (case hi of None \<Rightarrow> True | Some h \<Rightarrow> length s \<le> h) then Some s else None)"

definition nullable :: "(json \<Rightarrow> 'a option) \<Rightarrow> json \<Rightarrow> 'a option option" where
  "nullable f j = (if j = JNull then Some None else map_option Some (f j))"

definition dict_field :: "json \<Rightarrow> jobj option" where
  "dict_field j = (case j of JObj kvs \<Rightarrow> Some kvs | _ \<Rightarrow> None)"

definition member :: "('a \<Rightarrow> string) \<Rightarrow> 'a list \<Rightarrow> json \<Rightarrow> 'a option" where
  "member text all j = Option.bind (json_str j) (\<lambda>s. List.find (\<lambda>x. text x = s) all)"

definition observable_types :: "observable_type list" where
  "observable_types = [OT_IP, OT_DOMAIN, OT_HOSTNAME, OT_URL, OT_HASH_MD5, OT_HASH_SHA1, OT_HASH_SHA256, OT_EMAIL, OT_FILENAME, OT_REGISTRY_KEY]"

definition asset_types :: "asset_type list" where
  "asset_types = [AT_WORKSTATION, AT_SERVER, AT_NETWORK_DEVICE, AT_MOBILE_DEVICE, AT_CLOUD_RESOURCE, AT_OTHER]"

text \<open>A field that a partial update may leave out: the outer option is whether the value is valid.\<close>

definition sent :: "(json \<Rightarrow> 'a option) \<Rightarrow> jobj \<Rightarrow> string \<Rightarrow> 'a upd option" where
  "sent f kvs k = (case map_of kvs k of None \<Rightarrow> Some None | Some j \<Rightarrow> map_option Some (nullable f j))"

section \<open>Reading\<close>

definition module_get_case :: "uuid \<Rightarrow> json service" where
  "module_get_case case_id = bind (find_row cases_e case_id) (\<lambda>row. case row of
       None \<Rightarrow> ret (JObj [])
     | Some c \<Rightarrow> ret (JObj [(''id'', JId case_id), (''tenant_id'', JId (c_tenant_id c)), (''case_number'', JInt (c_case_number c)),
         (''title'', JStr (c_title c)), (''status'', JStr (case_status_str (c_status c))),
         (''severity'', JStr (case_severity_str (c_severity c))), (''tags'', JList (map JStr (c_tags c)))]))"

definition module_get_observables :: "uuid \<Rightarrow> json service" where
  "module_get_observables case_id = bind (list_observables case_id 1000 0) (\<lambda>(rows, total).
     ret (JList (map (\<lambda>(i, ob). JObj [(''id'', JId i), (''type'', JStr (observable_type_str (o_type ob))), (''value'', JStr (o_value ob)),
       (''tlp'', case o_tlp ob of Some t \<Rightarrow> JStr (tlp_str t) | None \<Rightarrow> JNull), (''is_ioc'', JBool (o_is_ioc ob))]) rows)))"

definition module_get_assets :: "uuid \<Rightarrow> json service" where
  "module_get_assets case_id = bind (list_assets case_id 1000 0) (\<lambda>(rows, total).
     ret (JList (map (\<lambda>(i, a). JObj [(''id'', JId i), (''name'', JStr (a_name a)), (''type'', JStr (asset_type_str (a_type a))),
       (''ip_address'', case a_ip_address a of Some s \<Rightarrow> JStr s | None \<Rightarrow> JNull), (''is_compromised'', JBool (a_is_compromised a))]) rows)))"

definition module_get_timeline :: "uuid \<Rightarrow> json service" where
  "module_get_timeline case_id =
     bind (list_entries case_id \<lparr>tf_event_type = None, tf_category = None, tf_actor_id = None, tf_event_after = None,
         tf_event_before = None, tf_ascending = True\<rparr> 1000 0) (\<lambda>(rows, total).
     ret (JList (map (\<lambda>(i, en). JObj [(''id'', JId i), (''event_type'', JStr (tl_event_type en)),
       (''event_timestamp'', JStr (isoformat (tl_event_timestamp en))), (''description'', JStr (tl_description en))]) rows)))"

section \<open>Writing\<close>

text \<open>\<^verbatim>\<open>self._actor_id or UUID(int=0)\<close>\<close>

definition acting :: "uuid option \<Rightarrow> uuid" where
  "acting actor = (case actor of Some a \<Rightarrow> a | None \<Rightarrow> 0)"

definition observable_payload :: "jobj \<Rightarrow> observable_create service" where
  "observable_payload observable =
     bind (item observable ''type'') (\<lambda>ty.
     bind (case member observable_type_str observable_types ty of Some t \<Rightarrow> ret t | None \<Rightarrow> raise (OtherError ''ValueError'')) (\<lambda>type.
     bind (item observable ''value'') (\<lambda>v.
     bind (py_list (get_or observable ''tags'' (JList []))) (\<lambda>tags.
     case (str_field 1 None v, nullable (\<lambda>j. Option.bind (json_str j) tlp_of) (get_or observable ''tlp'' JNull),
           those (map json_str tags), nullable json_str (get_or observable ''description'' JNull)) of
       (Some value, Some tlp, Some tags, Some description) \<Rightarrow> ret
         \<lparr>oc_type = type, oc_value = value, oc_tlp = tlp, oc_is_ioc = truthy (get_or observable ''is_ioc'' (JBool False)),
          oc_tags = tags, oc_description = description\<rparr>
     | _ \<Rightarrow> raise ValidationError))))"

definition module_add_observable :: "env \<Rightarrow> uuid option \<Rightarrow> uuid \<Rightarrow> jobj \<Rightarrow> json service" where
  "module_add_observable env actor case_id observable =
     bind (observable_payload observable) (\<lambda>payload.
     bind (create_observable env case_id (acting actor) payload) (\<lambda>i.
     bind (observable_or_404 i) (\<lambda>ob.
     ret (JObj [(''id'', JId i), (''value'', JStr (o_value ob)), (''type'', JStr (observable_type_str (o_type ob)))]))))"

definition resolve_tenant :: "uuid \<Rightarrow> uuid service" where
  "resolve_tenant case_id = bind (find_row cases_e case_id) (\<lambda>row. case row of
       None \<Rightarrow> raise NoResultFound
     | Some c \<Rightarrow> ret (c_tenant_id c))"

text \<open>
  What a string column takes: an unset one violates \<^verbatim>\<open>NOT NULL\<close>, another type is refused by the driver. Both
  failures are those of the flush that inserts the row.
\<close>

definition text_column :: "json \<Rightarrow> string service" where
  "text_column j = (case json_str j of Some s \<Rightarrow> ret s
     | None \<Rightarrow> raise (if j = JNull then null_error else DBError ''DataError''))"

definition text_column_opt :: "json \<Rightarrow> string option service" where
  "text_column_opt j = (if j = JNull then ret None else bind (text_column j) (\<lambda>s. ret (Some s)))"

text \<open>
  \<^verbatim>\<open>record_event\<close> with what a module passes as metadata, which may be any JSON value; \<open>record_json_event\<close>
  is \<open>record_event\<close> on the dictionaries the services pass.
\<close>

definition record_json ::
  "env \<Rightarrow> uuid \<Rightarrow> uuid \<Rightarrow> string \<Rightarrow> string \<Rightarrow> string option \<Rightarrow> uuid option \<Rightarrow> json \<Rightarrow> uuid service" where
  "record_json env tenant_id case_id event_type description category actor_id metadata =
     bind now_utc (\<lambda>now.
     bind (insert_row timeline_e
        \<lparr>tl_tenant_id = tenant_id, tl_case_id = case_id, tl_event_type = event_type, tl_event_timestamp = now,
         tl_description = description, tl_category = category, tl_actor_id = actor_id,
         tl_is_automatic = True, tl_metadata = metadata, tl_created_at = now\<rparr>) (\<lambda>entry_id.
     and_then (publish_case env case_id tenant_id event_type
        [(''timeline_entry_id'', JId entry_id), (''description'', JStr description),
         (''category'', case category of Some c \<Rightarrow> JStr c | None \<Rightarrow> JNull), (''metadata'', metadata)]
        actor_id None)
     (ret entry_id)))"

lemma record_json_event: "record_json env t c ty de ca ac (JObj me) = record_event env t c ty de ca ac me None"
  by (simp add: record_json_def record_event_def)

definition or_empty :: "json \<Rightarrow> json" where
  "or_empty j = (if truthy j then j else JObj [])"

definition automatic_entry :: "env \<Rightarrow> uuid option \<Rightarrow> uuid \<Rightarrow> jobj \<Rightarrow> json service" where
  "automatic_entry env actor case_id entry =
     bind (case map_of entry ''tenant_id'' of Some j \<Rightarrow> py_uuid j | None \<Rightarrow> resolve_tenant case_id) (\<lambda>tenant_id.
     bind (text_column (get_or entry ''event_type'' (JStr ''module''))) (\<lambda>event_type.
     bind (text_column (get_or entry ''description'' (JStr []))) (\<lambda>description.
     bind (text_column_opt (get_or entry ''category'' (JStr ''module''))) (\<lambda>category.
     bind (record_json env tenant_id case_id event_type description category actor (or_empty (get_or entry ''metadata'' JNull))) (\<lambda>i.
     ret (JObj [(''id'', JId i)]))))))"

text \<open>
  \<^verbatim>\<open>datetime.fromisoformat(entry.get("event_timestamp", now.isoformat()))\<close>: the default reads back as the time
  itself. A time without an offset is refused by the driver when the row is inserted, once the case was found.
\<close>

definition entry_timestamp :: "module_lib \<Rightarrow> jobj \<Rightarrow> (int \<times> bool) service" where
  "entry_timestamp lib entry = (case map_of entry ''event_timestamp'' of
       None \<Rightarrow> bind now_utc (\<lambda>now. ret (now, True))
     | Some j \<Rightarrow> (case json_str j of None \<Rightarrow> raise (OtherError ''TypeError'')
         | Some s \<Rightarrow> (case ml_fromisoformat lib s of Some t \<Rightarrow> ret t | None \<Rightarrow> raise (OtherError ''ValueError''))))"

definition manual_entry :: "module_lib \<Rightarrow> uuid option \<Rightarrow> uuid \<Rightarrow> jobj \<Rightarrow> json service" where
  "manual_entry lib actor case_id entry =
     bind (entry_timestamp lib entry) (\<lambda>(event_timestamp, aware).
     case (str_field 1 (Some 50) (get_or entry ''event_type'' (JStr ''module'')), str_field 1 None (get_or entry ''description'' (JStr [])),
           nullable (str_field 0 (Some 100)) (get_or entry ''category'' JNull), dict_field (or_empty (get_or entry ''metadata'' JNull))) of
       (Some event_type, Some description, Some category, Some metadata) \<Rightarrow>
         if aware then
           bind (create_manual_entry case_id (acting actor)
             \<lparr>tc_event_type = event_type, tc_event_timestamp = event_timestamp, tc_description = description,
              tc_category = category, tc_metadata = metadata, tc_linked_asset_ids = []\<rparr>) (\<lambda>i.
           ret (JObj [(''id'', JId i)]))
         else bind (case_or_404 case_id) (\<lambda>_. raise (DBError ''DataError''))
     | _ \<Rightarrow> raise ValidationError)"

definition module_add_timeline_entry :: "module_lib \<Rightarrow> env \<Rightarrow> uuid option \<Rightarrow> uuid \<Rightarrow> jobj \<Rightarrow> json service" where
  "module_add_timeline_entry lib env actor case_id entry =
     (if truthy (get_or entry ''is_automatic'' (JBool True)) then automatic_entry env actor case_id entry
      else manual_entry lib actor case_id entry)"

definition module_add_task :: "module_lib \<Rightarrow> env \<Rightarrow> uuid option \<Rightarrow> uuid \<Rightarrow> jobj \<Rightarrow> json service" where
  "module_add_task lib env actor case_id task =
     bind (item task ''title'') (\<lambda>title.
     case (str_field 1 (Some 500) title, nullable json_str (get_or task ''description'' JNull), ml_int lib (get_or task ''sort_order'' (JInt 0))) of
       (Some title, Some description, Some sort_order) \<Rightarrow>
         bind (create_task env case_id (acting actor)
           \<lparr>kc_title = title, kc_description = description, kc_assignee_id = None, kc_sort_order = sort_order\<rparr>) (\<lambda>i.
         ret (JObj [(''id'', JId i), (''title'', JStr title)]))
     | _ \<Rightarrow> raise ValidationError)"

text \<open>
  \<^verbatim>\<open>AssetUpdate(**update)\<close>; keys that are no fields are ignored. The asset is not compared with the case. After
  the conflict that \<^verbatim>\<open>update_asset\<close> answers with a 409 the session is unusable, whatever the module does next.
\<close>

definition asset_payload :: "module_lib \<Rightarrow> jobj \<Rightarrow> asset_update service" where
  "asset_payload lib update =
     (case (sent (str_field 1 (Some 255)) update ''name'', sent (member asset_type_str asset_types) update ''type'',
            sent json_str update ''ip_address'', sent json_str update ''domain'', sent (ml_bool lib) update ''is_compromised'',
            sent json_str update ''description'', sent (\<lambda>j. map_option JObj (dict_field j)) update ''custom_attributes'') of
       (Some name, Some type, Some ip, Some domain, Some compromised, Some description, Some custom) \<Rightarrow> ret
         \<lparr>au_name = name, au_type = type, au_ip_address = ip, au_domain = domain, au_is_compromised = compromised,
          au_description = description, au_custom_attributes = custom\<rparr>
     | _ \<Rightarrow> raise ValidationError)"

definition module_update_asset :: "module_lib \<Rightarrow> env \<Rightarrow> uuid option \<Rightarrow> uuid \<Rightarrow> uuid \<Rightarrow> jobj \<Rightarrow> json service" where
  "module_update_asset lib env actor case_id asset_id update =
     bind (asset_payload lib update) (\<lambda>payload.
     bind (catch (update_asset env asset_id payload (acting actor))
        (\<lambda>e. case e of HTTPException n s \<Rightarrow> raise (if n = 409 then pending_rollback else e) | _ \<Rightarrow> raise e)) (\<lambda>a.
     ret (JObj [(''id'', JId asset_id), (''is_compromised'', JBool (a_is_compromised a))])))"

section \<open>Running a module\<close>

fun call_api :: "module_lib \<Rightarrow> env \<Rightarrow> uuid option \<Rightarrow> api_call \<Rightarrow> json service" where
  "call_api lib env actor (Get_case c) = module_get_case c"
| "call_api lib env actor (Get_observables c) = module_get_observables c"
| "call_api lib env actor (Get_assets c) = module_get_assets c"
| "call_api lib env actor (Get_timeline c) = module_get_timeline c"
| "call_api lib env actor (Add_observable c ob) = module_add_observable env actor c ob"
| "call_api lib env actor (Add_timeline_entry c en) = module_add_timeline_entry lib env actor c en"
| "call_api lib env actor (Add_task c k) = module_add_task lib env actor c k"
| "call_api lib env actor (Update_asset c i u) = module_update_asset lib env actor c i u"

text \<open>
  A module may catch what an operation raises, but not revive the session: after a database error every later statement
  fails, so its run ends there.
\<close>

primrec run_module :: "module_lib \<Rightarrow> env \<Rightarrow> uuid option \<Rightarrow> module_prog \<Rightarrow> json service" where
  "run_module lib env actor (Done result) = ret result"
| "run_module lib env actor (Fail exc) = raise exc"
| "run_module lib env actor (Call c k) =
     bind (catch (bind (call_api lib env actor c) (\<lambda>r. ret (Inr r))) (\<lambda>e. if poisons e then raise e else ret (Inl e)))
       (\<lambda>x. run_module lib env actor (k x))"

text \<open>
  The environment of a process with these classes registered. An observable a module adds is an event for the modules
  subscribed, which run inside when the queue is down: \<open>n\<close> is the nesting Python's stack allows.
\<close>

primrec runtime :: "nat \<Rightarrow> module_lib \<Rightarrow> env \<Rightarrow> module_registry \<Rightarrow> env" where
  "runtime 0 lib env reg = env\<lparr>env_registry := \<lambda>ep. map_option (\<lambda>cls actor config payload. raise (OtherError ''RecursionError'')) (registry_get reg ep)\<rparr>"
| "runtime (Suc n) lib env reg = env\<lparr>env_registry := \<lambda>ep. map_option (\<lambda>cls actor config payload.
     run_module lib (runtime n lib env reg) actor (cls config payload)) (registry_get reg ep)\<rparr>"

section \<open>Modules are safe\<close>

lemma keeps_payloads [keeps_intros]:
  "keeps I (item kvs k)" "keeps I (py_list j)" "keeps I (py_uuid j)" "keeps I (text_column j)" "keeps I (text_column_opt j)"
  "keeps I (observable_payload ob)" "keeps I (entry_timestamp lib en)" "keeps I (asset_payload lib u)" "keeps I (resolve_tenant c)"
proof -
  have item: "keeps I (item kvs k)" for kvs k by (simp add: item_def keeps_intros split: option.split)
  have list: "keeps I (py_list j)" for j by (simp add: py_list_def keeps_intros split: json.split)
  show "keeps I (py_uuid j)" by (simp add: py_uuid_def keeps_intros split: json.split)
  have column: "keeps I (text_column j)" for j by (simp add: text_column_def keeps_intros split: option.split)
  show "keeps I (item kvs k)" "keeps I (py_list j)" "keeps I (text_column j)" by (rule item list column)+
  show "keeps I (text_column_opt j)" unfolding text_column_opt_def by (intro keeps_intros column)
  show "keeps I (observable_payload ob)" unfolding observable_payload_def
    by (intro keeps_intros item list)
  show "keeps I (entry_timestamp lib en)" unfolding entry_timestamp_def by (intro keeps_intros)
  show "keeps I (asset_payload lib u)" by (simp add: asset_payload_def keeps_intros split: option.split)
  show "keeps I (resolve_tenant c)" unfolding resolve_tenant_def by (intro keeps_intros)
qed

lemma keeps_module_reads [keeps_intros]:
  "keeps I (module_get_case c)" "keeps I (module_get_observables c)" "keeps I (module_get_assets c)" "keeps I (module_get_timeline c)"
  unfolding module_get_case_def module_get_observables_def module_get_assets_def module_get_timeline_def
    list_observables_def list_assets_def list_entries_def
  by (intro keeps_intros; simp add: keeps_intros split: prod.split)+

text \<open>
  What a state property has to be closed under for every module to keep it, whatever it does with the operations allowed
  to it. The property comes as a family, so that a nested run may keep another member of it.
\<close>

primrec permitted :: "(api_call \<Rightarrow> bool) \<Rightarrow> module_prog \<Rightarrow> bool" where
  "permitted ok (Done r) = True"
| "permitted ok (Fail e) = True"
| "permitted ok (Call c k) = (ok c \<and> (\<forall>x. permitted ok (k x)))"

definition classes_permitted :: "(api_call \<Rightarrow> bool) \<Rightarrow> module_registry \<Rightarrow> bool" where
  "classes_permitted ok reg \<longleftrightarrow> (\<forall>(ep, cls) \<in> set reg. \<forall>config payload. permitted ok (cls config payload))"

locale module_services =
  fixes I :: "'i \<Rightarrow> db \<Rightarrow> bool" and ok :: "api_call \<Rightarrow> bool"
  assumes observable: "(\<And>j. plugins_keep (I j) env) \<Longrightarrow> keeps (I i) (create_observable env c u p)"
    and automatic: "ok (Add_timeline_entry c en) \<Longrightarrow> keeps (I i) (automatic_entry env a c en)"
    and manual: "keeps (I i) (create_manual_entry c u te)"
    and task: "keeps (I i) (create_task env c u tk)"
    and asset: "keeps (I i) (update_asset env k au u)"
begin

lemma call_keeps:
  assumes "\<And>j. plugins_keep (I j) env" and "ok c"
  shows "keeps (I i) (call_api lib env a c)"
proof (cases c)
  case (Add_observable e ob)
  then show ?thesis
    by (simp add: module_add_observable_def) (intro keeps_intros observable assms)
next
  case (Add_timeline_entry e en)
  with assms(2) show ?thesis
    by (simp add: module_add_timeline_entry_def manual_entry_def)
      (intro conjI impI automatic keeps_intros manual; simp add: keeps_intros manual split: prod.split option.split)
next
  case (Add_task e k)
  then show ?thesis
    by (simp add: module_add_task_def) (intro keeps_intros task)
next
  case (Update_asset e k u)
  then show ?thesis
    by (simp add: module_update_asset_def) (intro keeps_intros asset; simp add: keeps_intros split: api_error.split)
qed (simp_all add: keeps_intros)

lemma run_keeps: "(\<And>j. plugins_keep (I j) env) \<Longrightarrow> permitted ok p \<Longrightarrow> keeps (I i) (run_module lib env a p)"
proof (induction p)
  case (Call c k)
  then show ?case
    by (simp only: run_module.simps permitted.simps) (intro keeps_intros call_keeps; simp)
qed (simp_all add: keeps_intros)

lemma runtime_keeps: "classes_permitted ok reg \<Longrightarrow> plugins_keep (I i) (runtime n lib env reg)"
proof (induction n arbitrary: i)
  case (Suc n)
  then show ?case
    by (auto simp: plugins_keep_def registry_get_def classes_permitted_def dest!: map_of_SomeD
        intro!: run_keeps [unfolded plugins_keep_def])
qed (auto simp: plugins_keep_def keeps_intros)

end

text \<open>Automatic entries that name a tenant of their own are the one way out of the integrity of the database.\<close>

fun leaves_tenant :: "api_call \<Rightarrow> bool" where
  "leaves_tenant (Add_timeline_entry c en) = (map_of en ''tenant_id'' = None)"
| "leaves_tenant _ = True"

lemma record_json_isolated: "keeps (isolated s d0) (record_json env t c ty de ca ac me)"
  unfolding record_json_def by (intro keeps_intros keeps_publish_case) simp_all

lemma record_json_at: "(c, t) \<in> A \<Longrightarrow> keeps (wf_at A) (record_json env t c ty de ca ac me)"
  unfolding record_json_def by (intro keeps_intros) simp

lemma resolve_tenant_at:
  assumes "\<And>t. keeps (wf_at (insert (c, t) A)) (k t)"
  shows "keeps (wf_at A) (bind (resolve_tenant c) k)"
proof (rule wf_at_enter)
  fix d assume at: "wf_at A d"
  show "(\<exists>x. resolve_tenant c d = (Inr x, d) \<and> (\<exists>B. wf_at B d \<and> A \<subseteq> B \<and> keeps (wf_at B) (k x))) \<or>
      (\<exists>e. resolve_tenant c d = (Inl e, d))"
  proof (cases "visible_row cases_e d c")
    case (Some r)
    then have "wf_at (insert (c, c_tenant_id r) A) d"
      using at by (simp add: wf_at_insert case_tenant_visible)
    with Some assms show ?thesis by (auto simp: resolve_tenant_def svc_simps)
  qed (simp add: resolve_tenant_def svc_simps)
qed

lemma automatic_entry_at: "map_of en ''tenant_id'' = None \<Longrightarrow> keeps (wf_at A) (automatic_entry env a c en)"
  by (simp add: automatic_entry_def) (intro resolve_tenant_at keeps_intros record_json_at; simp)

interpretation iso_modules: module_services "\<lambda>(s, d). isolated s d" "\<lambda>c. True"
proof (unfold_locales, goal_cases)
  case (1 env i c u p)
  show ?case using 1 [of i] by (cases i) (simp add: create_observable_isolated)
next
  case (2 c en i env a)
  show ?case by (cases i) (simp add: automatic_entry_def, intro keeps_intros record_json_isolated)
qed (auto simp: keeps_intros split: prod.split)

interpretation wf_modules: module_services wf_at leaves_tenant
proof (unfold_locales, goal_cases)
  case (1 env i c u p)
  then show ?case by (intro create_observable_at) (simp add: plugins_wf_def)
next
  case (2 c en i env a)
  then show ?case by (intro automatic_entry_at) simp
qed (intro keeps_intros)+

text \<open>
  C4: the module interface is safe. Modules that act through the interface they are handed, whatever they call with
  whatever dictionaries and however they handle what is raised, leave the rows their session does not see as they are;
  and the database keeps its integrity as long as no automatic entry names a tenant of its own. This is what the isolation
  and the integrity of the server ask of the plugins installed.
\<close>

theorem module_runtime_safe:
  "plugins_isolated (runtime n lib env reg) \<and> (classes_permitted leaves_tenant reg \<longrightarrow> plugins_wf (runtime n lib env reg))"
proof -
  have "classes_permitted (\<lambda>c. True) reg"
    unfolding classes_permitted_def
  proof clarify
    fix ep cls config payload
    have "permitted (\<lambda>c. True) p" for p by (induction p) simp_all
    then show "permitted (\<lambda>c. True) (cls config payload)" .
  qed
  then have "plugins_keep (isolated s d) (runtime n lib env reg)" for s d
    using iso_modules.runtime_keeps [of reg "(s, d)" n lib env] by simp
  then show ?thesis
    by (simp add: plugins_isolated_def plugins_wf_def wf_modules.runtime_keeps)
qed

text \<open>A module that reads a case and, when it is there, adds a task named after it; alice's event runs it.\<close>

definition demo_class :: module_class where
  "demo_class config payload = Call (Get_case 5) (\<lambda>x. case x of
       Inr (JObj (kv # kvs)) \<Rightarrow> Call (Add_task 5 [(''title'', get_or (kv # kvs) ''title'' JNull)]) (\<lambda>y. case y of Inl e \<Rightarrow> Fail e | Inr j \<Rightarrow> Done j)
     | _ \<Rightarrow> Done JNull)"

definition demo_module_lib :: module_lib where
  "demo_module_lib = \<lparr>ml_int = (\<lambda>j. case j of JInt n \<Rightarrow> Some n | _ \<Rightarrow> None), ml_bool = (\<lambda>j. case j of JBool b \<Rightarrow> Some b | _ \<Rightarrow> None),
     ml_fromisoformat = (\<lambda>s. None)\<rparr>"

lemma demo_class_permitted: "classes_permitted leaves_tenant [(''demo'', demo_class)]"
  by (simp add: classes_permitted_def demo_class_def split: sum.split json.split list.split)

lemma demo_class_runs:
  "\<exists>d'. run_module demo_module_lib demo_env (Some 3) (demo_class [] []) demo_db = (Inr (JObj [(''id'', JId 20), (''title'', JStr ''Phishing'')]), d') \<and>
     map fst (db_tasks d') = [8, 20]"
  by (simp add: demo_class_def module_get_case_def module_add_task_def create_task_def get_or_404_def demo_module_lib_def
      item_def get_or_def str_field_def json_str_def nullable_def acting_def run_simps)

theorem module_runtime_safe_witness:
  "let env = runtime 2 demo_module_lib demo_env [(''demo'', demo_class)] in
     plugins_wf env \<and> plugins_isolated env \<and> env_registry env ''demo'' \<noteq> None"
  using module_runtime_safe [of 2 demo_module_lib demo_env "[(''demo'', demo_class)]"] demo_class_permitted
  by (simp add: Let_def registry_get_def numeral_2_eq_2)

text \<open>
  What the exception excludes. A module of a session of tenant 1 that names its own tenant logs an entry on a case of
  tenant 2, which it cannot see.
\<close>

lemma module_entry_breaks_tenancy:
  "\<exists>d'. wf_db demo_db \<and> visible_row cases_e demo_db 7 = None \<and>
     run_module demo_module_lib demo_env (Some 3) (Call (Add_timeline_entry 7 [(''tenant_id'', JId 1)]) (\<lambda>x. Done JNull)) demo_db = (Inr JNull, d') \<and>
     \<not> wf_db d'"
proof -
  let ?p = "Call (Add_timeline_entry 7 [(''tenant_id'', JId 1)]) (\<lambda>x. Done JNull)"
  obtain d' where run: "run_module demo_module_lib demo_env (Some 3) ?p demo_db = (Inr JNull, d')"
    and entry: "\<exists>e. (20, e) \<in> set (db_timeline d') \<and> tl_case_id e = 7 \<and> tl_tenant_id e = 1" and c: "case_tenant d' 7 = Some 2"
    by (simp add: module_add_timeline_entry_def automatic_entry_def record_json_def py_uuid_def get_or_def truthy_def or_empty_def
        text_column_def text_column_opt_def json_str_def tenant_in_def run_simps)
  have "\<not> rows_in_case (case_tenant d') tl_case_id tl_tenant_id (db_timeline d')"
    using entry c unfolding rows_in_case_def by force
  then have "\<not> wf_db d'" by (simp add: wf_db_def wf_tenancy_def)
  moreover have "visible_row cases_e demo_db 7 = None" by (simp add: run_simps)
  ultimately show ?thesis using demo_wf run by blast
qed

text \<open>A run without an actor writes in the name of the user \<^verbatim>\<open>UUID(int=0)\<close>, who is not there.\<close>

lemma run_without_actor_fails:
  assumes "case_or_404 c d = (Inr r, d)" and "rls_standard (db_session d) (c_tenant_id r)" and "\<not> fk (db_users d) 0"
    and "fk (db_tenants d) (c_tenant_id r)" and "fk (db_cases d) c"
  shows "run_module demo_module_lib env None (Call (Add_task c [(''title'', JStr ''t'')]) k) d = (Inl fk_error, d)"
  using assms
  by (simp add: module_add_task_def create_task_def demo_module_lib_def
      item_def get_or_def str_field_def json_str_def nullable_def acting_def svc_simps insert_row_def entity_defs varchar_def pg_int_def fk_opt_def)

end
