(* ===== verification/Answers.thy ===== *)
theory Answers
  imports Server
begin

text \<open>
  How requests fail. \<open>answers m\<close>: what the service \<open>m\<close> raises is known to the error handlers, that is, an
  \<^verbatim>\<open>HTTPException\<close> has one of five status codes. The calculus follows the structure of the services, as
  \<open>keeps\<close> does.
\<close>

named_theorems answer_intros

definition foreseen :: "api_error \<Rightarrow> bool" where
  "foreseen e \<longleftrightarrow> (case e of HTTPException n s \<Rightarrow> n \<in> {400, 401, 403, 404, 409} | _ \<Rightarrow> True)"

definition answers :: "'a service \<Rightarrow> bool" where
  "answers m \<longleftrightarrow> (\<forall>d e d'. m d = (Inl e, d') \<longrightarrow> foreseen e)"

lemma foreseen_simps [simp]:
  "foreseen (IntegrityError s)" "foreseen (DBError s)" "foreseen MultipleResultsFound" "foreseen NoResultFound"
  "foreseen ValidationError" "foreseen (KeyError s)" "foreseen (OtherError s)"
  "foreseen (HTTPException n s) \<longleftrightarrow> n \<in> {400, 401, 403, 404, 409}"
  by (simp_all add: foreseen_def)

lemma answersI: "(\<And>d e d'. m d = (Inl e, d') \<Longrightarrow> foreseen e) \<Longrightarrow> answers m"
  by (simp add: answers_def)

lemma answersD: "answers m \<Longrightarrow> m d = (Inl e, d') \<Longrightarrow> foreseen e"
  unfolding answers_def by blast

lemma answers_basic [answer_intros]:
  "answers (ret x)" "answers (reads f)" "answers (modify g)" "foreseen e \<Longrightarrow> answers (raise e)" "foreseen e \<Longrightarrow> answers (guard b e)"
  by (auto simp: answers_def split: if_splits)

lemma answers_bind [answer_intros]: "answers m \<Longrightarrow> (\<And>x. answers (k x)) \<Longrightarrow> answers (bind m k)"
  unfolding answers_def bind_apply by (auto split: prod.splits sum.splits)

lemma answers_and_then [answer_intros]: "answers m \<Longrightarrow> answers n \<Longrightarrow> answers (and_then m n)"
  unfolding and_then_def by (rule answers_bind)

lemma answers_catch:
  assumes "answers m" and "\<And>e. foreseen e \<Longrightarrow> answers (h e)"
  shows "answers (catch m h)"
proof (rule answersI)
  fix d e d' assume run: "catch m h d = (Inl e, d')"
  then obtain e1 d1 where "m d = (Inl e1, d1)" "h e1 d1 = (Inl e, d')"
    by (auto simp: catch_apply split: prod.splits sum.splits)
  then show "foreseen e" using assms by (blast dest: answersD)
qed

lemma answers_for_each [answer_intros]: "(\<And>x. answers (f x)) \<Longrightarrow> answers (for_each xs f)"
  by (induction xs) (auto intro: answer_intros)

lemma answers_collect [answer_intros]: "(\<And>x. answers (f x)) \<Longrightarrow> answers (collect xs f)"
  by (induction xs) (auto intro!: answer_intros)

lemma answers_splits [answer_intros]:
  "answers m \<Longrightarrow> answers n \<Longrightarrow> answers (if b then m else n)"
  "answers m \<Longrightarrow> (\<And>y. answers (f y)) \<Longrightarrow> answers (case x of None \<Rightarrow> m | Some y \<Rightarrow> f y)"
  "(\<And>a b. answers (g a b)) \<Longrightarrow> answers (case p of (a, b) \<Rightarrow> g a b)"
  "(\<And>a. answers (h a)) \<Longrightarrow> (\<And>b. answers (k b)) \<Longrightarrow> answers (case s of Inl a \<Rightarrow> h a | Inr b \<Rightarrow> k b)"
  by (simp_all split: option.split prod.split sum.split)

section \<open>The session\<close>

lemma constraints_error: "constraints cs = Some e \<Longrightarrow> e \<in> snd ` set cs"
proof (cases "filter (\<lambda>(b, e). \<not> b) cs")
  case (Cons be rest)
  moreover assume "constraints cs = Some e"
  moreover have "be \<in> set cs" using Cons by (metis filter_is_subset list.set_intros(1) subsetD)
  ultimately show ?thesis by (force simp: constraints_def split: prod.splits)
qed (simp add: constraints_def)

definition checks_foreseen :: "'r entity \<Rightarrow> bool" where
  "checks_foreseen E \<longleftrightarrow> (\<forall>d i r e. ent_check E d i r = Some e \<longrightarrow> foreseen e)"

lemma answers_rows:
  assumes "checks_foreseen E"
  shows "answers (insert_row E r)" "answers (store_row E i r)" "answers (save_changed E i old new touch)"
proof -
  show "answers (insert_row E r)"
    using assms by (auto simp: answers_def insert_row_def checks_foreseen_def split: if_splits option.splits)
  show s: "answers (store_row E i r)" for i r
    using assms by (auto simp: answers_def store_row_def checks_foreseen_def split: if_splits option.splits)
  show "answers (save_changed E i old new touch)"
    unfolding save_changed_def by (intro answer_intros s)
qed

lemma answers_delete [answer_intros]: "answers (delete_row E i)"
  by (auto simp: answers_def delete_row_def split: option.splits)

lemma entities_foreseen:
  "checks_foreseen users_e" "checks_foreseen cases_e" "checks_foreseen tasks_e" "checks_foreseen observables_e"
  "checks_foreseen assets_e" "checks_foreseen evidence_e" "checks_foreseen timeline_e" "checks_foreseen folders_e"
  "checks_foreseen notes_e" "checks_foreseen alerts_e" "checks_foreseen templates_e" "checks_foreseen sources_e"
  "checks_foreseen results_e" "checks_foreseen mappings_e" "checks_foreseen modules_e" "checks_foreseen executions_e"
  "checks_foreseen audit_logs_e" "checks_foreseen report_templates_e" "checks_foreseen reports_e" "checks_foreseen tenants_e"
  unfolding checks_foreseen_def entity_defs by (auto dest!: constraints_error)

lemmas row_answers [answer_intros] = entities_foreseen [THEN answers_rows(1)] entities_foreseen [THEN answers_rows(2)]
  entities_foreseen [THEN answers_rows(3)]

lemma answers_session [answer_intros]:
  "answers (find_row E i)" "answers (select_rows E P)" "answers (scalar_one_or_none rs)" "answers now_utc"
  "answers (get_or_404 E det i)" "answers (not_null ns)"
  unfolding find_row_def select_rows_def scalar_one_or_none_def now_utc_def get_or_404_def not_null_def
  by (intro answer_intros; simp; fail | simp add: answer_intros split: list.split)+

lemma answers_new_uuid [answer_intros]: "answers new_uuid"
  by (simp add: answers_def new_uuid_def)

section \<open>The services\<close>

text \<open>A handler that catches everything raises only what it raises itself, whatever the plugin inside does.\<close>

lemma answers_handled:
  assumes "\<And>e. answers (h e)"
  shows "answers (catch m h)" "answers (except_any m h)"
proof -
  have catch: "answers (catch m k)" if "\<And>e. answers (k e)" for k
    using that by (auto simp: answers_def catch_apply split: prod.splits sum.splits)
  show "answers (catch m h)" by (rule catch) (rule assms)
  show "answers (except_any m h)"
    unfolding except_any_def by (rule catch) (simp add: answer_intros assms)
qed

lemma answers_suppress [answer_intros]: "answers (suppress m)"
  unfolding suppress_def by (intro answers_handled answer_intros)

lemma answers_realtime [answer_intros]:
  "answers (redis_publish a1 b1 c1)" "answers (publish_case_event a2 b2 c2 d2 e2 f2 g2)"
  "answers (publish_tenant_event a3 b3 c3 d3 e3 f3)" "answers (publish_case a4 b4 c4 d4 e4 f4 g4)"
  "answers (publish_tenant a5 b5 c5 d5 e5 f5)" "answers (record_event a6 b6 c6 d6 e6 f6 g6 h6 i6)"
  unfolding redis_publish_def publish_case_event_def publish_tenant_event_def publish_case_def publish_tenant_def
    record_event_def Let_def
  by (intro answer_intros; simp)+

lemma answers_payload_case [answer_intros]: "answers (payload_case p)"
  by (auto simp: payload_case_def answer_intros split: option.split json.split)

lemma answers_dispatch [answer_intros]:
  "answers (execute_module env m t c config payload ac te)" "answers (fire env2 t2 ev2 p2 ac2)"
proof -
  show "answers (execute_module env m t c config payload ac te)"
    unfolding execute_module_def Let_def by (intro answer_intros answers_handled; simp)
  show "answers (fire env2 t2 ev2 p2 ac2)"
    unfolding fire_def by (intro answers_handled answer_intros)
qed

lemma answers_modules [answer_intros]:
  "answers (register_module a1)" "answers (update_module a2 b2)" "answers (delete_module a3)"
  "answers (list_modules a4 b4 c4)" "answers (list_executions a5 b5 c5 d5 e5)"
  unfolding register_module_def update_module_def delete_module_def list_modules_def list_executions_def Let_def
  by (intro answer_intros; simp)+

lemma answers_lift [answer_intros]: "(\<And>e. x = Inl e \<Longrightarrow> foreseen e) \<Longrightarrow> answers (lift_sum x)"
  by (cases x) (auto simp: lift_sum_def answer_intros)

lemma spec_foreseen:
  "spec_title i kvs = Inl e \<Longrightarrow> foreseen e" "spec_description kvs = Inl e \<Longrightarrow> foreseen e"
  "spec_sort_order i kvs = Inl e \<Longrightarrow> foreseen e" "template_severity sev tp = Inl e \<Longrightarrow> foreseen e"
  by (auto simp: spec_title_def spec_description_def spec_sort_order_def template_severity_def arg_error_def
      split: option.splits json.splits if_splits)

lemma answers_apply_task [answer_intros]: "answers (apply_task_spec t c u i spec)"
proof (cases spec)
  case (JObj kvs)
  then show ?thesis
    by (simp add: apply_task_spec_def) (intro answer_intros; simp add: spec_foreseen)
qed (simp_all add: apply_task_spec_def answer_intros)

lemma answers_cases_1 [answer_intros]:
  "answers (next_case_number a1)" "answers (find_template a2)" "answers (save_case a3 b3 c3 d3)"
  "answers (merge_source a4 b4 c4)" "answers (transfer_case a5 b5)" "answers (close_source a6)"
  "answers (list_cases a7 b7 c7 d7)" "answers (delete_case a8)"
  unfolding next_case_number_def find_template_def save_case_def merge_source_def transfer_case_def close_source_def
    list_cases_def delete_case_def Let_def
  by (intro answer_intros answers_handled; simp)+

lemma answers_cases_2 [answer_intros]:
  "answers (update_case a1 b1 c1 d1)" "answers (merge_cases a2 b2 c2 d2)"
  unfolding update_case_def merge_cases_def Let_def
  by (intro answer_intros answers_handled; simp)+

lemma answers_cases_3 [answer_intros]:
  "answers (close_case a1 b1 c1 d1)"
  unfolding close_case_def Let_def
  by (intro answer_intros answers_handled; simp)+

lemma answers_create_case [answer_intros]: "answers (create_case env t u p)"
  unfolding create_case_def by (intro answer_intros; simp add: spec_foreseen)

lemma answers_storage_1 [answer_intros]:
  "answers (urandom a1 b1)" "answers (upload_bytes a2 b2 c2)" "answers (download_bytes a3)" "answers (delete_object a4)"
  "answers (object_exists a5)"
  unfolding urandom_def upload_bytes_def download_bytes_def delete_object_def object_exists_def Let_def
  by (intro answer_intros answers_handled; simp)+

lemma answers_storage_2 [answer_intros]:
  "answers (encrypt_with_password a1 b1 c1)"
  unfolding encrypt_with_password_def Let_def
  by (intro answer_intros answers_handled; simp)+

lemma answers_transaction [answer_intros]: "answers m \<Longrightarrow> answers (get_db m)" "answers m \<Longrightarrow> answers (get_db_unscoped m)"
  by (auto simp: answers_def get_db_def get_db_unscoped_def split: prod.splits sum.splits)

lemma answers_redis [answer_intros]: "answers (redis_get env k)" "answers (redis_expire env k n)"
  unfolding redis_get_def redis_expire_def redis_up_def by (intro answer_intros; simp)+

lemma answers_token [answer_intros]:
  "answers (decode_token lib token)" "answers (load_user_from_token env lib token)" "answers (user_response i u)"
  "answers m1 \<Longrightarrow> answers (scoped m1)" "answers m2 \<Longrightarrow> answers (scoped_optional m2)"
proof -
  have decode: "answers (decode_token lib token)" for lib token
    unfolding decode_token_def by (intro answer_intros; simp)
  then show "answers (decode_token lib token)" .
  show "answers (load_user_from_token env lib token)"
    unfolding load_user_from_token_def is_session_active_def touch_session_def
    by (intro answer_intros answers_catch decode; simp)
  have http: "answers m \<Longrightarrow> answers (none_on_http m)" for m
    unfolding none_on_http_def by (intro answers_catch) (auto intro!: answer_intros split: api_error.split)
  have scope: "answers (scope_session a)" for a
    unfolding scope_session_def apply_tenant_context_def by (intro answer_intros)
  show "answers m1 \<Longrightarrow> answers (scoped m1)" "answers m2 \<Longrightarrow> answers (scoped_optional m2)"
    unfolding scoped_def scoped_optional_def by (intro answer_intros scope http; assumption)+
  show "answers (user_response i u)"
    by (auto simp: user_response_def intro!: answer_intros split: json.split)
qed

lemma answers_auth_1 [answer_intros]:
  "answers (hash_password a1 b1)" "answers (generate_api_key a2)" "answers (redis_up a3)"
  "answers (build_payload a4 b4 c4)" "answers (decode_token a5 b5)" "answers (load_service_account a6 b6)"
  "answers (get_current_user a7 b7 c7)" "answers (get_current_user_optional a8 b8 c8)"
  unfolding hash_password_def generate_api_key_def redis_up_def build_payload_def decode_token_def load_service_account_def
    get_current_user_def get_current_user_optional_def Let_def
  by (intro answer_intros answers_handled; simp)+

lemma answers_auth_2 [answer_intros]:
  "answers (redis_set a1 b1 c1 d1)" "answers (redis_get a2 b2)" "answers (redis_delete a3 b3)"
  "answers (redis_scan a4 b4)" "answers (create_access_token a5 b5 c5)" "answers (create_refresh_token a6 b6)"
  "answers (get_service_account a7 b7)" "answers (get_service_account_optional a8 b8)"
  "answers (get_principal a9 b9 c9)" "answers (get_me a10 b10 c10)"
  unfolding redis_set_def redis_get_def redis_delete_def redis_scan_def create_access_token_def create_refresh_token_def
    get_service_account_def get_service_account_optional_def get_principal_def get_me_def Let_def
  by (intro answer_intros answers_handled; simp)+

lemma answers_auth_3 [answer_intros]:
  "answers (redis_expire a1 b1 c1)" "answers (create_session a2 b2 c2 d2 e2)" "answers (is_session_active a3 b3 c3)"
  "answers (invalidate_session a4 b4 c4)" "answers (invalidate_all_sessions a5 b5)" "answers (refresh_token a6 b6)"
  unfolding redis_expire_def create_session_def is_session_active_def invalidate_session_def invalidate_all_sessions_def
    refresh_token_def Let_def
  by (intro answer_intros answers_handled; simp)+

lemma answers_auth_4 [answer_intros]:
  "answers (touch_session a1 b1 c1 d1)" "answers (login a2 b2 c2 d2 e2 f2)" "answers (logout a3 b3 c3)"
  unfolding touch_session_def login_def logout_def Let_def
  by (intro answer_intros answers_handled; simp)+

lemma answers_rbac [answer_intros]:
  "answers (require_permission a1 b1 c1)" "answers (require_any_permission a2 b2)"
  unfolding require_permission_def require_any_permission_def Let_def
  by (intro answer_intros answers_handled; simp)+

lemma answers_respond_page [answer_intros]: "answers (respond_page ok pg p)"
  by (cases p) (auto simp: respond_page_def intro!: answer_intros)

lemma answers_api [answer_intros]:
  "answers (assign_request_id a1)" "answers (same_tenant a2 b2 c2)" "answers (platform_admin_only a3)"
  "answers (respond a4 b4)" "answers (refreshed a5 b5)"
  unfolding assign_request_id_def same_tenant_def platform_admin_only_def respond_def refreshed_def Let_def
  by (intro answer_intros answers_handled; simp)+

lemma answers_routes [answer_intros]:
  "(\<And>x. answers (f1 x)) \<Longrightarrow> answers (tenant_route env lib cred r a t msg f1)"
  "(\<And>x. answers (f2 x)) \<Longrightarrow> answers (owner_route env2 lib2 cred2 r2 a2 t2 msg2 f2)"
  "answers m \<Longrightarrow> answers (admin_route env3 lib3 token m)"
  unfolding tenant_route_def owner_route_def route_def admin_route_def by (intro answer_intros; assumption)+

lemma answers_observables_1 [answer_intros]:
  "answers (normalize_or_400 a1 b1)" "answers (list_observables a2 b2 c2)" "answers (update_observable a3 b3)"
  "answers (delete_observable a4)" "answers (cross_case_count a5 b5 c5 d5)" "answers (find_correlating_cases a6 b6 c6)"
  unfolding normalize_or_400_def list_observables_def update_observable_def delete_observable_def cross_case_count_def
    find_correlating_cases_def Let_def
  by (intro answer_intros answers_handled; simp)+

lemma answers_observables_2 [answer_intros]:
  "answers (create_observable a1 b1 c1 d1)"
  unfolding create_observable_def Let_def
  by (intro answer_intros answers_handled; simp)+

lemma answers_observables_3 [answer_intros]:
  "answers (create_observables_bulk a1 b1 c1 d1)"
  unfolding create_observables_bulk_def Let_def
  by (intro answer_intros answers_handled; simp)+

lemma answers_tasks_1 [answer_intros]:
  "answers (list_tasks a1 b1 c1)" "answers (create_task a2 b2 c2 d2)" "answers (remaining_tasks a3)"
  "answers (save_task a4 b4 c4)" "answers (delete_task a5 b5 c5)"
  unfolding list_tasks_def create_task_def remaining_tasks_def save_task_def delete_task_def Let_def
  by (intro answer_intros answers_handled; simp)+

lemma answers_tasks_2 [answer_intros]:
  "answers (update_task a1 b1 c1 d1)"
  unfolding update_task_def Let_def
  by (intro answer_intros answers_handled; simp)+

lemma answers_notes_1 [answer_intros]:
  "answers (would_create_cycle a1 b1)" "answers (list_folders a2 b2)" "answers (create_folder a3 b3)"
  "answers (detach_subfolders a4)" "answers (detach_notes a5)" "answers (list_notes a6 b6 c6 d6)"
  "answers (filed_in_case a7 b7)" "answers (delete_note a8)"
  unfolding would_create_cycle_def list_folders_def create_folder_def detach_subfolders_def detach_notes_def list_notes_def
    filed_in_case_def delete_note_def Let_def
  by (intro answer_intros answers_handled; simp)+

lemma answers_notes_2 [answer_intros]:
  "answers (update_folder a1 b1)" "answers (delete_folder a2)" "answers (create_note a3 b3 c3)"
  "answers (update_note a4 b4)"
  unfolding update_folder_def delete_folder_def create_note_def update_note_def Let_def
  by (intro answer_intros answers_handled; simp)+

lemma answers_timeline_1 [answer_intros]:
  "answers (insert_link a1 b1)" "answers (delete_entry a2)" "answers (list_entries a3 b3 c3 d3)"
  "answers (get_asset_links a4)"
  unfolding insert_link_def delete_entry_def list_entries_def get_asset_links_def Let_def
  by (intro answer_intros answers_handled; simp)+

lemma answers_timeline_2 [answer_intros]:
  "answers (replace_asset_links a1 b1)" "answers (build_swimlane a2 b2 c2)"
  unfolding replace_asset_links_def build_swimlane_def Let_def
  by (intro answer_intros answers_handled; simp)+

lemma answers_timeline_3 [answer_intros]:
  "answers (create_manual_entry a1 b1 c1)" "answers (update_entry a2 b2)"
  unfolding create_manual_entry_def update_entry_def Let_def
  by (intro answer_intros answers_handled; simp)+

lemma answers_templates_1 [answer_intros]:
  "answers (list_templates a1 b1 c1)" "answers (get_template a2 b2)" "answers (create_template a3 b3 c3)"
  unfolding list_templates_def get_template_def create_template_def Let_def
  by (intro answer_intros answers_handled; simp)+

lemma answers_templates_2 [answer_intros]:
  "answers (update_template a1 b1 c1)" "answers (delete_template a2 b2)"
  unfolding update_template_def delete_template_def Let_def
  by (intro answer_intros answers_handled; simp)+

lemma answers_attack [answer_intros]:
  "answers (create_mapping a1 b1 c1)" "answers (delete_mapping a2)" "answers (list_mappings_for_case a3)"
  "answers list_reference" "answers (build_heatmap a5 b5)"
  unfolding create_mapping_def delete_mapping_def list_mappings_for_case_def list_reference_def build_heatmap_def Let_def
  by (intro answer_intros answers_handled; simp)+

lemma answers_jobs [answer_intros]: "answers (queue_job env t ob s)" "answers (execute_enrichment o1 s1)"
proof -
  show "answers (queue_job env t ob s)"
    unfolding queue_job_def by (cases ob; cases s) (auto intro!: answer_intros)
  show "answers (execute_enrichment o1 s1)"
    unfolding execute_enrichment_def by (intro answer_intros; auto intro!: answer_intros split: option.split)
qed

lemma answers_enrichment_1 [answer_intros]:
  "answers (list_sources a1 b1 c1)" "answers (create_source a2 b2)" "answers (update_source a3 b3)"
  "answers (delete_source a4)" "answers (list_results a5 b5 c5)" "answers (enrich_one a6 b6 c6 d6 e6)"
  unfolding list_sources_def create_source_def update_source_def delete_source_def list_results_def enrich_one_def Let_def
  by (intro answer_intros answers_handled; simp)+

lemma answers_enrichment_2 [answer_intros]:
  "answers (trigger_enrichment a1 b1 c1 d1)"
  unfolding trigger_enrichment_def Let_def
  by (intro answer_intros answers_handled; simp)+

lemma answers_users_1 [answer_intros]:
  "answers (list_users a1 b1 c1 d1)" "answers (username_free a2 b2)" "answers (save_user a3 b3 c3)"
  "answers (create_tenant a4)" "answers (list_tenants a5 b5)" "answers (update_tenant a6 b6)"
  "answers (delete_tenant a7)"
  unfolding list_users_def username_free_def save_user_def create_tenant_def list_tenants_def update_tenant_def
    delete_tenant_def Let_def
  by (intro answer_intros answers_handled; simp)+

lemma answers_users_2 [answer_intros]:
  "answers (create_user a1 b1 c1)" "answers (update_user a2 b2)" "answers (change_password a3 b3 c3)"
  "answers (set_active a4 b4)" "answers (create_service_account a5 b5 c5)" "answers (rotate_api_key a6 b6)"
  unfolding create_user_def update_user_def change_password_def set_active_def create_service_account_def rotate_api_key_def
    Let_def
  by (intro answer_intros answers_handled; simp)+

lemma answers_users_3 [answer_intros]:
  "answers (deactivate_user a1)" "answers (activate_user a2)"
  unfolding deactivate_user_def activate_user_def Let_def
  by (intro answer_intros answers_handled; simp)+

lemma answers_audit_log_1 [answer_intros]:
  "answers (record_audit a1 b1 c1 d1 e1 f1 g1)" "answers (list_logs a2 b2 c2 d2)"
  unfolding record_audit_def list_logs_def Let_def
  by (intro answer_intros answers_handled; simp)+

lemma answers_audit_log_2 [answer_intros]:
  "answers (audit_dispatch a1 b1 c1)"
  unfolding audit_dispatch_def Let_def
  by (intro answer_intros answers_handled; simp)+

lemma answers_dashboard_1 [answer_intros]:
  "answers (fresh_metrics a1 b1)" "answers (cached_metrics a2 b2 c2)"
  unfolding fresh_metrics_def cached_metrics_def Let_def
  by (intro answer_intros answers_handled; simp)+

lemma answers_dashboard_2 [answer_intros]:
  "answers (compute_metrics a1 b1 c1 d1)"
  unfolding compute_metrics_def Let_def
  by (intro answer_intros answers_handled; simp)+

lemma answers_search_1 [answer_intros]:
  "answers (search_in a1 b1 c1 d1 e1)"
  unfolding search_in_def Let_def
  by (intro answer_intros answers_handled; simp)+

lemma answers_search_2 [answer_intros]:
  "answers (search a1 b1)"
  unfolding search_def Let_def
  by (intro answer_intros answers_handled; simp)+

lemma answers_conflict [answer_intros]: "answers m \<Longrightarrow> answers (conflict_409 s m)"
  unfolding conflict_409_def by (intro answers_catch) (auto intro!: answer_intros split: api_error.split)

lemma answers_assets_1 [answer_intros]:
  "answers (list_assets a1 b1 c1)" "answers (create_asset a2 b2 c2 d2)" "answers (save_asset a3 b3 c3)"
  "answers (delete_asset a4)" "answers (search_assets_in_tenant a5 b5 c5)"
  unfolding list_assets_def create_asset_def save_asset_def delete_asset_def search_assets_in_tenant_def Let_def
  by (intro answer_intros answers_handled; simp)+

lemma answers_assets_2 [answer_intros]:
  "answers (update_asset a1 b1 c1 d1)"
  unfolding update_asset_def Let_def
  by (intro answer_intros answers_handled; simp)+

lemma answers_skip [answer_intros]: "answers m \<Longrightarrow> answers (skip_http m)"
  unfolding skip_http_def by (intro answers_catch) (auto intro!: answer_intros split: api_error.split)

lemma answers_payload_observables [answer_intros]: "answers (payload_observables p)"
  by (auto simp: payload_observables_def intro!: answer_intros split: json.split option.split)

lemma answers_alerts_1 [answer_intros]:
  "answers (find_pending a1 b1)" "answers (list_alerts a2 b2 c2 d2)" "answers (dismiss_alert a3 b3)"
  "answers (copy_observables a4 b4 c4 d4)" "answers (promotion_case a5 b5 c5 d5 e5)"
  "answers (mark_promoted a6 b6 c6 d6 e6)"
  unfolding find_pending_def list_alerts_def dismiss_alert_def copy_observables_def promotion_case_def mark_promoted_def Let_def
  by (intro answer_intros answers_handled; simp)+

lemma answers_alerts_2 [answer_intros]:
  "answers (ingest_alert a1 b1 c1)" "answers (promote_alert a2 b2 c2 d2 e2)"
  unfolding ingest_alert_def promote_alert_def Let_def
  by (intro answer_intros answers_handled; simp)+

lemma answers_evidence_1 [answer_intros]:
  "answers (list_evidence a1 b1 c1)" "answers (register_evidence a2 b2 c2 d2)" "answers (evidence_body a3 b3 c3)"
  "answers (log_upload a4 b4 c4 d4 e4 f4)" "answers (download_evidence_file a5 b5 c5)" "answers (update_evidence a6 b6)"
  "answers (delete_evidence a7)"
  unfolding list_evidence_def register_evidence_def evidence_body_def log_upload_def download_evidence_file_def
    update_evidence_def delete_evidence_def Let_def
  by (intro answer_intros answers_handled; simp)+

lemma answers_evidence_2 [answer_intros]:
  "answers (upload_evidence_file a1 b1 c1 d1 e1 f1)"
  unfolding upload_evidence_file_def Let_def
  by (intro answer_intros answers_handled; simp)+

lemma answers_reports_1 [answer_intros]:
  "answers (build_context a1 b1)" "answers (build_activity_context a2 b2)" "answers (render_markdown a3 b3 c3)"
  "answers (list_report_templates a4)" "answers (create_report_template a5 b5 c5)"
  unfolding build_context_def build_activity_context_def render_markdown_def list_report_templates_def
    create_report_template_def Let_def
  by (intro answer_intros answers_handled; simp)+

lemma answers_reports_2 [answer_intros]:
  "answers (render_html a1 b1 c1)" "answers (render_docx a2 b2 c2)" "answers (report_context a3 b3 c3)"
  unfolding render_html_def render_docx_def report_context_def Let_def
  by (intro answer_intros answers_handled; simp)+

lemma answers_reports_3 [answer_intros]:
  "answers (generate_report a1 b1 c1 d1 e1 f1 g1)" "answers (preview_report a2 b2 c2)"
  unfolding generate_report_def preview_report_def Let_def
  by (intro answer_intros answers_handled; simp)+

section \<open>The requests\<close>

lemma answers_wrappers [answer_intros]:
  "answers m1 \<Longrightarrow> answers (discard m1)" "answers m2 \<Longrightarrow> answers (created E ok m2)" "answers m3 \<Longrightarrow> answers (updated ok3 i m3)"
  unfolding discard_def created_def updated_def by (intro answer_intros; assumption)+

lemma alert_response_foreseen: "alert_to_response f i a = Inl e \<Longrightarrow> foreseen e"
proof -
  have "with_type_uid p = Inl e \<Longrightarrow> foreseen e" for p
    by (auto simp: with_type_uid_def split: option.splits json.splits)
  moreover assume "alert_to_response f i a = Inl e"
  ultimately show ?thesis
    by (auto simp: alert_to_response_def response_document_def map_sum_def split: sum.splits if_splits)
qed

lemma answers_fetch [answer_intros]: "answers (entry_with_links r)" "answers (alert_answer a)"
proof -
  show "answers (entry_with_links r)"
    unfolding entry_with_links_def by (intro answer_intros; simp)
  show "answers (alert_answer a)"
    by (auto simp: alert_answer_def answer_intros alert_response_foreseen split: sum.split)
qed













end
