(* ===== verification/Geospatial.thy ===== *)
theory Geospatial
  imports Watari_Prelude Complex_Main "HOL-Library.Monad_Syntax" "HOL-Library.Multiset" "HOL-Library.Sublist"
begin

text \<open>
  The geospatial helpers (\<^verbatim>\<open>services/geospatial.py\<close>): coordinates, great-circle distances and the clusters of markers at
  a zoom level. The arithmetic of floats is an argument \<open>F\<close> of the definitions, with the operations the code uses and the
  exceptions of \<^verbatim>\<open>math\<close>; \<open>exact\<close> is the arithmetic of the reals. The locale \<open>distances\<close> says what the clusters
  need of it.
\<close>

section \<open>Floating point\<close>

record 'f float_ops =
  fl_lit :: "rat \<Rightarrow> 'f"
  fl_add :: "'f \<Rightarrow> 'f \<Rightarrow> 'f"
  fl_sub :: "'f \<Rightarrow> 'f \<Rightarrow> 'f"
  fl_mul :: "'f \<Rightarrow> 'f \<Rightarrow> 'f"
  fl_div :: "'f \<Rightarrow> 'f \<Rightarrow> 'f"
  fl_le :: "'f \<Rightarrow> 'f \<Rightarrow> bool"
  fl_round :: "'f \<Rightarrow> nat \<Rightarrow> 'f"
  fl_radians :: "'f \<Rightarrow> 'f"
  fl_sin :: "'f \<Rightarrow> 'f option"
  fl_cos :: "'f \<Rightarrow> 'f option"
  fl_asin :: "'f \<Rightarrow> 'f option"
  fl_sqrt :: "'f \<Rightarrow> 'f option"

section \<open>Points and distances\<close>

record 'f geo_point =
  latitude :: 'f
  longitude :: 'f

record 'f geo_cluster =
  gc_latitude :: 'f
  gc_longitude :: 'f
  gc_point_ids :: "nat list"

datatype 'f range_error = Latitude_out_of_range 'f | Longitude_out_of_range 'f

definition coord_rounding :: nat where
  "coord_rounding = 4"

definition normalize_marker :: "'f float_ops \<Rightarrow> 'f \<Rightarrow> 'f \<Rightarrow> 'f range_error + 'f geo_point" where
  "normalize_marker F lat lng =
     (if \<not> (fl_le F (fl_lit F (- 90)) lat \<and> fl_le F lat (fl_lit F 90)) then Inl (Latitude_out_of_range lat)
      else if \<not> (fl_le F (fl_lit F (- 180)) lng \<and> fl_le F lng (fl_lit F 180)) then Inl (Longitude_out_of_range lng)
      else Inr \<lparr>latitude = fl_round F lat coord_rounding, longitude = fl_round F lng coord_rounding\<rparr>)"

definition haversine_km :: "'f float_ops \<Rightarrow> 'f geo_point \<Rightarrow> 'f geo_point \<Rightarrow> 'f option" where
  "haversine_km F a b =
     (let r_earth_km = fl_lit F (63710088 / 10000);
          lat1 = fl_radians F (latitude a);
          lat2 = fl_radians F (latitude b);
          d_lat = fl_radians F (fl_sub F (latitude b) (latitude a));
          d_lng = fl_radians F (fl_sub F (longitude b) (longitude a)) in
      do {
        s1 \<leftarrow> fl_sin F (fl_div F d_lat (fl_lit F 2));
        c1 \<leftarrow> fl_cos F lat1;
        c2 \<leftarrow> fl_cos F lat2;
        s2 \<leftarrow> fl_sin F (fl_div F d_lng (fl_lit F 2));
        root \<leftarrow> fl_sqrt F (fl_add F (fl_mul F s1 s1) (fl_mul F (fl_mul F c1 c2) (fl_mul F s2 s2)));
        angle \<leftarrow> fl_asin F root;
        Some (fl_mul F (fl_mul F (fl_lit F 2) r_earth_km) angle)
      })"

text \<open>The mean of no points is a division by zero.\<close>

definition centroid :: "'f float_ops \<Rightarrow> 'f geo_point list \<Rightarrow> 'f geo_point option" where
  "centroid F ps = (if ps = [] then None else
     Some \<lparr>latitude = fl_div F (foldl (fl_add F) (fl_lit F 0) (map latitude ps)) (fl_lit F (of_nat (length ps))),
           longitude = fl_div F (foldl (fl_add F) (fl_lit F 0) (map longitude ps)) (fl_lit F (of_nat (length ps)))\<rparr>)"

section \<open>Clusters\<close>

definition zoom_radius_km :: "(int \<times> rat) list" where
  "zoom_radius_km = [(0, 5000), (1, 2500), (2, 1000), (3, 500), (4, 250), (5, 100), (6, 50), (7, 25), (8, 10), (9, 5),
     (10, 2), (11, 1)]"

definition max_zoom_for_clustering :: int where
  "max_zoom_for_clustering = foldl max 0 (map fst zoom_radius_km)"

definition cluster_radius_km :: "int \<Rightarrow> rat" where
  "cluster_radius_km zoom =
     (if max_zoom_for_clustering < zoom then 0
      else if zoom < 0 then the (map_of zoom_radius_km 0)
      else (case map_of zoom_radius_km zoom of Some r \<Rightarrow> r | None \<Rightarrow> the (map_of zoom_radius_km max_zoom_for_clustering)))"

text \<open>A point joins the first group whose centroid is within the radius, or starts a group.\<close>

type_synonym 'f marker = "nat \<times> 'f geo_point"

fun place :: "'f float_ops \<Rightarrow> rat \<Rightarrow> 'f marker \<Rightarrow> 'f marker list list \<Rightarrow> 'f marker list list option" where
  "place F radius p [] = Some [[p]]"
| "place F radius p (g # gs) = do {
     c \<leftarrow> centroid F (map snd g);
     d \<leftarrow> haversine_km F c (snd p);
     if fl_le F d (fl_lit F radius) then Some ((g @ [p]) # gs)
     else do { gs' \<leftarrow> place F radius p gs; Some (g # gs') }
   }"

fun group_points :: "'f float_ops \<Rightarrow> rat \<Rightarrow> 'f marker list \<Rightarrow> 'f marker list list \<Rightarrow> 'f marker list list option" where
  "group_points F radius [] clusters = Some clusters"
| "group_points F radius (p # ps) clusters =
     (if radius \<le> 0 then group_points F radius ps (clusters @ [[p]])
      else do { clusters' \<leftarrow> place F radius p clusters; group_points F radius ps clusters' })"

definition geo_cluster_of :: "'f float_ops \<Rightarrow> 'f marker list \<Rightarrow> 'f geo_cluster option" where
  "geo_cluster_of F g = do {
     c \<leftarrow> centroid F (map snd g);
     Some \<lparr>gc_latitude = latitude c, gc_longitude = longitude c, gc_point_ids = map fst g\<rparr>
   }"

definition cluster_points :: "'f float_ops \<Rightarrow> 'f marker list \<Rightarrow> int \<Rightarrow> 'f geo_cluster list option" where
  "cluster_points F points zoom = do {
     groups \<leftarrow> group_points F (cluster_radius_km zoom) points [];
     those (map (geo_cluster_of F) groups)
   }"

section \<open>Radii\<close>

lemma max_zoom_eq [simp]: "max_zoom_for_clustering = 11"
  by (simp add: max_zoom_for_clustering_def zoom_radius_km_def)

lemma high_zoom_radius: "11 < zoom \<Longrightarrow> cluster_radius_km zoom = 0"
  by (simp add: cluster_radius_km_def)

lemma zoom_cases:
  fixes z :: int
  assumes "0 \<le> z" "z \<le> 11"
  shows "z \<in> {0, 1, 2, 3, 4, 5, 6, 7, 8, 9, 10, 11}"
  using assms unfolding insert_iff empty_iff by presburger

lemma radius_step: "cluster_radius_km (zoom + 1) \<le> cluster_radius_km zoom"
proof (cases "0 \<le> zoom \<and> zoom \<le> 11")
  case True
  then show ?thesis using zoom_cases [of zoom] by (auto simp: cluster_radius_km_def zoom_radius_km_def)
next
  case False
  then show ?thesis by (auto simp: cluster_radius_km_def zoom_radius_km_def)
qed

lemma radius_antimono: "z \<le> z' \<Longrightarrow> cluster_radius_km z' \<le> cluster_radius_km z"
proof (induction "nat (z' - z)" arbitrary: z')
  case 0
  then show ?case by simp
next
  case (Suc n)
  then have "cluster_radius_km (z' - 1) \<le> cluster_radius_km z" by auto
  then show ?case using radius_step [of "z' - 1"] by simp
qed

section \<open>What the groups hold\<close>

lemma place_mset: "place F r p gs = Some gs' \<Longrightarrow> mset (concat gs') = mset (concat gs) + {#p#}"
  by (induction gs arbitrary: gs') (auto split: Option.bind_splits if_splits)

lemma place_sound:
  assumes "place F r p gs = Some gs'" "g \<in> set gs'"
  shows "g \<in> set gs \<or> g = [p] \<or> (\<exists>h \<in> set gs. g = h @ [p])"
  using assms by (induction gs arbitrary: gs') (auto split: Option.bind_splits if_splits)

lemma group_points_mset: "group_points F r ps gs = Some gs' \<Longrightarrow> mset (concat gs') = mset (concat gs) + mset ps"
  by (induction F r ps gs rule: group_points.induct)
    (auto simp: place_mset split: Option.bind_splits if_splits)

lemma group_points_sound:
  assumes "group_points F r ps gs = Some gs'" "g \<in> set gs'" "\<And>h. h \<in> set gs \<Longrightarrow> h \<noteq> [] \<and> subseq h xs"
  shows "g \<noteq> [] \<and> subseq g (xs @ ps)"
  using assms
proof (induction F r ps gs arbitrary: xs rule: group_points.induct)
  case (1 F r gs)
  then show ?case by simp
next
  case (2 F r p ps gs)
  have old: "h \<noteq> [] \<and> subseq h (xs @ [p])" if "h \<in> set gs" for h
    using list_emb_append_mono [of "(=)" h xs "[]" "[p]"] "2.prems"(3) [OF that] by simp
  have one: "subseq [p] (xs @ [p])" using list_emb_append_mono [of "(=)" "[]" xs "[p]" "[p]"] by simp
  have joined: "subseq (h @ [p]) (xs @ [p])" if "h \<in> set gs" for h
    using list_emb_append_mono [of "(=)" h xs "[p]" "[p]"] "2.prems"(3) [OF that] by simp
  show ?case
  proof (cases "r \<le> 0")
    case True
    have "h \<noteq> [] \<and> subseq h (xs @ [p])" if "h \<in> set (gs @ [[p]])" for h using that old one by auto
    then show ?thesis using "2.IH"(1) [of "xs @ [p]"] True "2.prems"(1,2) by simp
  next
    case False
    then obtain gs1 where gs1: "place F r p gs = Some gs1" "group_points F r ps gs1 = Some gs'"
      using "2.prems"(1) by (auto split: Option.bind_splits)
    have "h \<noteq> [] \<and> subseq h (xs @ [p])" if "h \<in> set gs1" for h
      using place_sound [OF gs1(1) that] old one joined by auto
    then show ?thesis using "2.IH"(2) [of gs1 "xs @ [p]"] False gs1 "2.prems"(2) by simp
  qed
qed

lemma singletons_at_radius_0: "group_points F 0 ps gs = Some (gs @ map (\<lambda>p. [p]) ps)"
  by (induction ps arbitrary: gs) simp_all

lemma those_map_Some: "(\<And>x. x \<in> set xs \<Longrightarrow> f x = Some (g x)) \<Longrightarrow> those (map f xs) = Some (map g xs)"
  by (induction xs) simp_all

section \<open>What the clusters need of distances\<close>

locale distances =
  fixes F :: "'f float_ops" and valid :: "'f geo_point \<Rightarrow> bool"
  assumes distance_defined: "valid a \<Longrightarrow> valid b \<Longrightarrow> \<exists>d. haversine_km F a b = Some d"
    and centroid_valid: "ps \<noteq> [] \<Longrightarrow> (\<And>p. p \<in> set ps \<Longrightarrow> valid p) \<Longrightarrow> \<exists>c. centroid F ps = Some c \<and> valid c"
begin

definition good_group :: "'f marker list \<Rightarrow> bool" where
  "good_group g \<longleftrightarrow> g \<noteq> [] \<and> (\<forall>p \<in> set g. valid (snd p))"

lemma good_centroid:
  assumes "good_group g"
  obtains c where "centroid F (map snd g) = Some c" "valid c"
  using assms centroid_valid [of "map snd g"] by (auto simp: good_group_def)

lemma place_returns:
  assumes "valid (snd p)" "\<forall>g \<in> set gs. good_group g"
  shows "\<exists>gs'. place F r p gs = Some gs' \<and> (\<forall>g \<in> set gs'. good_group g)"
  using assms(2)
proof (induction gs)
  case Nil
  then show ?case using assms(1) by (simp add: good_group_def)
next
  case (Cons g gs)
  obtain c where c: "centroid F (map snd g) = Some c" "valid c" using Cons.prems by (auto elim: good_centroid)
  obtain d where d: "haversine_km F c (snd p) = Some d" using distance_defined [OF c(2) assms(1)] by blast
  have "good_group (g @ [p])" using Cons.prems assms(1) by (auto simp: good_group_def)
  then show ?case using Cons c d by auto
qed

lemma group_points_returns:
  assumes "\<forall>p \<in> set ps. valid (snd p)" "\<forall>g \<in> set gs. good_group g"
  shows "\<exists>gs'. group_points F r ps gs = Some gs' \<and> (\<forall>g \<in> set gs'. good_group g)"
  using assms
proof (induction ps arbitrary: gs)
  case Nil
  then show ?case by simp
next
  case (Cons p ps)
  show ?case
  proof (cases "r \<le> 0")
    case True
    then show ?thesis using Cons.IH [of "gs @ [[p]]"] Cons.prems by (simp add: good_group_def)
  next
    case False
    then obtain gs1 where "place F r p gs = Some gs1" "\<forall>g \<in> set gs1. good_group g"
      using place_returns [of p gs r] Cons.prems by auto
    then show ?thesis using Cons.IH [of gs1] Cons.prems False by simp
  qed
qed

text \<open>Clustering returns; a cluster is a centroid of the region and the ids of some of the points, in their order.\<close>

lemma cluster_points_returns:
  assumes "\<forall>p \<in> set ps. valid (snd p)"
  shows "\<exists>cs. cluster_points F ps zoom = Some cs \<and> mset (concat (map gc_point_ids cs)) = mset (map fst ps) \<and>
    (\<forall>c \<in> set cs. gc_point_ids c \<noteq> [] \<and> subseq (gc_point_ids c) (map fst ps) \<and>
       valid \<lparr>latitude = gc_latitude c, longitude = gc_longitude c\<rparr>)"
proof -
  obtain gs where gs: "group_points F (cluster_radius_km zoom) ps [] = Some gs" "\<forall>g \<in> set gs. good_group g"
    using group_points_returns [OF assms, of "[]" "cluster_radius_km zoom"] by auto
  define c where "c g = the (geo_cluster_of F g)" for g
  have one: "geo_cluster_of F g = Some (c g) \<and> gc_point_ids (c g) = map fst g \<and>
      valid \<lparr>latitude = gc_latitude (c g), longitude = gc_longitude (c g)\<rparr>" if "g \<in> set gs" for g
  proof -
    obtain c' where "centroid F (map snd g) = Some c'" "valid c'" using good_centroid gs(2) \<open>g \<in> set gs\<close> by blast
    then show ?thesis by (cases c') (simp add: c_def geo_cluster_of_def)
  qed
  have ids: "map gc_point_ids (map c gs) = map (map fst) gs" using one by simp
  have "cluster_points F ps zoom = Some (map c gs)"
    using gs(1) one by (simp add: cluster_points_def those_map_Some [of gs _ c])
  moreover have "mset (concat (map gc_point_ids (map c gs))) = mset (map fst ps)"
    unfolding ids using group_points_mset [OF gs(1)] by (simp only: map_concat [symmetric] mset_map) simp
  moreover have "subseq (map fst g) (map fst ps) \<and> g \<noteq> []" if "g \<in> set gs" for g
    using group_points_sound [OF gs(1) that, of "[]"] by (auto intro: subseq_map)
  ultimately show ?thesis using one by auto
qed

end

section \<open>Exact arithmetic\<close>

text \<open>Python rounds a half to the even neighbour.\<close>

definition round_half_even :: "real \<Rightarrow> int" where
  "round_half_even y = (let f = floor y; d = y - of_int f in
     if d < 1 / 2 then f else if 1 / 2 < d then f + 1 else if even f then f else f + 1)"

definition exact :: "real float_ops" where
  "exact = \<lparr>fl_lit = of_rat, fl_add = (+), fl_sub = (-), fl_mul = (*), fl_div = (/), fl_le = (\<le>),
     fl_round = (\<lambda>x n. of_int (round_half_even (x * 10 ^ n)) / 10 ^ n),
     fl_radians = (\<lambda>x. x * pi / 180), fl_sin = (\<lambda>x. Some (sin x)), fl_cos = (\<lambda>x. Some (cos x)),
     fl_asin = (\<lambda>x. if - 1 \<le> x \<and> x \<le> 1 then Some (arcsin x) else None),
     fl_sqrt = (\<lambda>x. if 0 \<le> x then Some (sqrt x) else None)\<rparr>"

definition on_globe :: "real geo_point \<Rightarrow> bool" where
  "on_globe p \<longleftrightarrow> - 90 \<le> latitude p \<and> latitude p \<le> 90 \<and> - 180 \<le> longitude p \<and> longitude p \<le> 180"

definition haversine_h :: "real geo_point \<Rightarrow> real geo_point \<Rightarrow> real" where
  "haversine_h a b = (sin ((latitude b - latitude a) * pi / 180 / 2))\<^sup>2 +
     cos (latitude a * pi / 180) * cos (latitude b * pi / 180) * (sin ((longitude b - longitude a) * pi / 180 / 2))\<^sup>2"

lemma cos_latitude: "- 90 \<le> x \<Longrightarrow> x \<le> 90 \<Longrightarrow> 0 \<le> cos (x * pi / 180)"
  using mult_left_mono [of "- 90" x pi] mult_left_mono [of x 90 pi] by (intro cos_ge_zero) (simp_all add: field_simps)

lemma sin_half_squared: "(sin ((x - y) / 2))\<^sup>2 + cos x * cos y \<le> (1 :: real)"
proof -
  have "cos (x - y) = 1 - 2 * (sin ((x - y) / 2))\<^sup>2"
    using cos_double_sin [of "(x - y) / 2"] by (metis field_sum_of_halves mult_2)
  then have "(sin ((x - y) / 2))\<^sup>2 + cos x * cos y = (1 + cos (x + y)) / 2"
    by (simp add: cos_times_cos [of x y] field_simps)
  moreover have "(1 + cos (x + y)) / 2 \<le> 1" by simp
  ultimately show ?thesis by metis
qed

lemma haversine_h_range:
  assumes "on_globe a" "on_globe b"
  shows "0 \<le> haversine_h a b" "haversine_h a b \<le> 1"
proof -
  let ?c = "cos (latitude a * pi / 180) * cos (latitude b * pi / 180)"
  let ?s = "(sin ((longitude b - longitude a) * pi / 180 / 2))\<^sup>2"
  have c: "0 \<le> ?c" using assms by (simp add: on_globe_def cos_latitude)
  have s: "?s \<le> 1" by (simp add: abs_square_le_1)
  show "0 \<le> haversine_h a b" using c by (simp add: haversine_h_def)
  have "?c * ?s \<le> ?c" using mult_left_mono [OF s c] by simp
  moreover have "(sin ((latitude b * pi / 180 - latitude a * pi / 180) / 2))\<^sup>2 + ?c \<le> 1"
    using sin_half_squared [of "latitude b * pi / 180" "latitude a * pi / 180"] by (simp add: mult.commute)
  ultimately show "haversine_h a b \<le> 1" by (simp add: haversine_h_def algebra_simps diff_divide_distrib)
qed

lemma haversine_exact:
  assumes "on_globe a" "on_globe b"
  shows "haversine_km exact a b = Some (2 * (63710088 / 10000) * arcsin (sqrt (haversine_h a b)))"
proof -
  have "sin ((latitude b - latitude a) * pi / 180 / 2) * sin ((latitude b - latitude a) * pi / 180 / 2) +
      cos (latitude a * pi / 180) * cos (latitude b * pi / 180) *
        (sin ((longitude b - longitude a) * pi / 180 / 2) * sin ((longitude b - longitude a) * pi / 180 / 2)) = haversine_h a b"
    by (simp add: haversine_h_def power2_eq_square)
  moreover have "- 1 \<le> sqrt (haversine_h a b)"
    using real_sqrt_ge_zero [OF haversine_h_range(1) [OF assms]] by linarith
  moreover have "(of_rat (63710088 / 10000) :: real) = 63710088 / 10000" by (simp add: of_rat_divide)
  ultimately show ?thesis using haversine_h_range [OF assms]
    unfolding haversine_km_def exact_def Let_def by (simp only: float_ops.simps of_rat_numeral_eq Option.bind.simps if_True real_sqrt_le_1_iff simp_thms)
qed

lemma mean_between:
  fixes f :: "'a \<Rightarrow> real"
  assumes "xs \<noteq> []" "\<And>x. x \<in> set xs \<Longrightarrow> l \<le> f x \<and> f x \<le> u"
  shows "l \<le> sum_list (map f xs) / of_nat (length xs) \<and> sum_list (map f xs) / of_nat (length xs) \<le> u"
proof -
  have "l * of_nat (length xs) \<le> sum_list (map f xs) \<and> sum_list (map f xs) \<le> u * of_nat (length xs)"
    using assms(2)
  proof (induction xs)
    case Nil
    then show ?case by simp
  next
    case (Cons x xs)
    then have "l \<le> f x \<and> f x \<le> u" "l * of_nat (length xs) \<le> sum_list (map f xs) \<and> sum_list (map f xs) \<le> u * of_nat (length xs)"
      by auto
    then show ?case by (simp add: algebra_simps)
  qed
  then show ?thesis using assms(1) by (simp add: pos_le_divide_eq pos_divide_le_eq)
qed

lemma foldl_sum: "foldl (+) (x :: real) xs = x + sum_list xs"
  by (induction xs arbitrary: x) (simp_all add: add.assoc)

interpretation globe: distances exact on_globe
proof unfold_locales
  fix a b :: "real geo_point"
  assume "on_globe a" "on_globe b"
  then show "\<exists>d. haversine_km exact a b = Some d" using haversine_exact by blast
next
  fix ps :: "real geo_point list"
  assume ps: "ps \<noteq> []" "\<And>p. p \<in> set ps \<Longrightarrow> on_globe p"
  have "- 90 \<le> sum_list (map latitude ps) / of_nat (length ps) \<and> sum_list (map latitude ps) / of_nat (length ps) \<le> 90"
    using ps by (intro mean_between) (auto simp: on_globe_def)
  moreover have "- 180 \<le> sum_list (map longitude ps) / of_nat (length ps) \<and>
      sum_list (map longitude ps) / of_nat (length ps) \<le> 180"
    using ps by (intro mean_between) (auto simp: on_globe_def)
  ultimately show "\<exists>c. centroid exact ps = Some c \<and> on_globe c"
    using ps(1) by (simp add: centroid_def exact_def foldl_sum on_globe_def)
qed

section \<open>Normalizing a marker\<close>

lemma round_half_even_near: "\<bar>of_int (round_half_even y) - y\<bar> \<le> 1 / 2"
  by (simp add: round_half_even_def Let_def)

lemma round_half_even_int [simp]: "round_half_even (of_int k) = k"
  by (simp add: round_half_even_def)

lemma round_half_even_mono_int:
  "of_int l \<le> y \<Longrightarrow> l \<le> round_half_even y" "y \<le> of_int u \<Longrightarrow> round_half_even y \<le> u"
  by (simp_all add: round_half_even_def Let_def) linarith+

definition round4 :: "real \<Rightarrow> real" where
  "round4 x = of_int (round_half_even (x * 10000)) / 10000"

lemma round4_near: "\<bar>round4 x - x\<bar> \<le> 1 / 20000"
  using round_half_even_near [of "x * 10000"] by (simp add: round4_def abs_le_iff field_simps)

lemma round4_again: "round4 (round4 x) = round4 x"
  by (simp add: round4_def)

lemma round4_range: "of_int l \<le> x \<Longrightarrow> of_int l \<le> round4 x" "x \<le> of_int u \<Longrightarrow> round4 x \<le> of_int u"
proof -
  assume "of_int l \<le> x"
  then show "of_int l \<le> round4 x"
    using round_half_even_mono_int(1) [of "l * 10000" "x * 10000"] by (simp add: round4_def field_simps)
next
  assume "x \<le> of_int u"
  then show "round4 x \<le> of_int u"
    using round_half_even_mono_int(2) [of "x * 10000" "u * 10000"] by (simp add: round4_def field_simps)
qed

lemma normalize_exact:
  "normalize_marker exact lat lng = (if \<not> (- 90 \<le> lat \<and> lat \<le> 90) then Inl (Latitude_out_of_range lat)
     else if \<not> (- 180 \<le> lng \<and> lng \<le> 180) then Inl (Longitude_out_of_range lng)
     else Inr \<lparr>latitude = round4 lat, longitude = round4 lng\<rparr>)"
  by (simp add: normalize_marker_def exact_def round4_def coord_rounding_def)

section \<open>The helpers on the globe\<close>

lemma haversine_km_sym: "on_globe a \<Longrightarrow> on_globe b \<Longrightarrow> haversine_km exact a b = haversine_km exact b a"
proof -
  have "sin ((x - y) * pi / 180 / 2) = - sin ((y - x) * pi / 180 / 2)" for x y :: real
    by (simp flip: sin_minus add: algebra_simps diff_divide_distrib)
  then have "(sin ((x - y) * pi / 180 / 2))\<^sup>2 = (sin ((y - x) * pi / 180 / 2))\<^sup>2" for x y :: real
    by (metis power2_minus)
  then have "haversine_h a b = haversine_h b a" unfolding haversine_h_def by (metis mult.commute)
  then show "on_globe a \<Longrightarrow> on_globe b \<Longrightarrow> haversine_km exact a b = haversine_km exact b a"
    by (simp add: haversine_exact)
qed

lemma haversine_km_range:
  assumes "on_globe a" "on_globe b" "haversine_km exact a b = Some d"
  shows "0 \<le> d \<and> d \<le> 63710088 / 10000 * pi"
proof -
  have "0 \<le> sqrt (haversine_h a b)" "- 1 \<le> sqrt (haversine_h a b)" "sqrt (haversine_h a b) \<le> 1"
    using haversine_h_range [OF assms(1,2)] real_sqrt_ge_zero [OF haversine_h_range(1) [OF assms(1,2)]] by (simp_all, linarith)
  then have "0 \<le> arcsin (sqrt (haversine_h a b))" "arcsin (sqrt (haversine_h a b)) \<le> pi / 2"
    using arcsin_le_arcsin [of 0 "sqrt (haversine_h a b)"] arcsin_ubound [of "sqrt (haversine_h a b)"] by simp_all
  then show ?thesis using assms(3) by (auto simp: haversine_exact [OF assms(1,2)])
qed

text \<open>
  C40: clustering markers whose coordinates are on the globe never fails in exact arithmetic: no distance takes the arc sine
  or the root out of its domain, and no centroid divides by zero. Every marker is in exactly one cluster, a cluster lists
  its markers in their order and sits on the globe, and above zoom level 11 every marker is a cluster of its own.
\<close>

theorem geo_clusters_correct:
  assumes "\<forall>p \<in> set ps. on_globe (snd p)"
  shows "\<exists>cs. cluster_points exact ps zoom = Some cs \<and> mset (concat (map gc_point_ids cs)) = mset (map fst ps) \<and>
    (\<forall>c \<in> set cs. gc_point_ids c \<noteq> [] \<and> subseq (gc_point_ids c) (map fst ps) \<and>
       on_globe \<lparr>latitude = gc_latitude c, longitude = gc_longitude c\<rparr>) \<and>
    (11 < zoom \<longrightarrow> map gc_point_ids cs = map (\<lambda>p. [fst p]) ps)"
proof -
  obtain cs where cs: "cluster_points exact ps zoom = Some cs" "mset (concat (map gc_point_ids cs)) = mset (map fst ps)"
    "\<forall>c \<in> set cs. gc_point_ids c \<noteq> [] \<and> subseq (gc_point_ids c) (map fst ps) \<and>
       on_globe \<lparr>latitude = gc_latitude c, longitude = gc_longitude c\<rparr>"
    using globe.cluster_points_returns [OF assms] by blast
  moreover have "map gc_point_ids cs = map (\<lambda>p. [fst p]) ps" if "11 < zoom"
  proof -
    have "geo_cluster_of exact [p] = Some \<lparr>gc_latitude = latitude (snd p), gc_longitude = longitude (snd p), gc_point_ids = [fst p]\<rparr>"
      for p :: "real marker" by (simp add: geo_cluster_of_def centroid_def exact_def)
    then have "cluster_points exact ps zoom =
        Some (map (\<lambda>p. \<lparr>gc_latitude = latitude (snd p), gc_longitude = longitude (snd p), gc_point_ids = [fst p]\<rparr>) ps)"
      by (simp add: cluster_points_def high_zoom_radius [OF that] singletons_at_radius_0 comp_def
          those_map_Some [of ps _ "\<lambda>p. \<lparr>gc_latitude = latitude (snd p), gc_longitude = longitude (snd p), gc_point_ids = [fst p]\<rparr>"])
    then show ?thesis using cs(1) by (auto simp: comp_def)
  qed
  ultimately show ?thesis by blast
qed

text \<open>Two markers at the same place, at the zoom level of a continent, are one cluster there.\<close>

lemma geo_clusters_correct_witness:
  "\<exists>cs. cluster_points exact [(1, \<lparr>latitude = 45, longitude = 90\<rparr>), (2, \<lparr>latitude = 45, longitude = 90\<rparr>)] 3 = Some cs \<and>
     mset (concat (map gc_point_ids cs)) = {#1, 2#} \<and>
     cs = [\<lparr>gc_latitude = 45, gc_longitude = 90, gc_point_ids = [1, 2]\<rparr>]"
proof -
  have "cluster_points exact [(1, \<lparr>latitude = 45, longitude = 90\<rparr>), (2, \<lparr>latitude = 45, longitude = 90\<rparr>)] 3 =
      Some [\<lparr>gc_latitude = 45, gc_longitude = 90, gc_point_ids = [1, 2]\<rparr>]"
    by (simp add: cluster_points_def cluster_radius_km_def zoom_radius_km_def centroid_def haversine_km_def exact_def
        geo_cluster_of_def)
  then show ?thesis
    using geo_clusters_correct [of "[(1, \<lparr>latitude = 45, longitude = 90\<rparr>), (2, \<lparr>latitude = 45, longitude = 90\<rparr>)]" 3]
    by (simp add: on_globe_def)
qed

text \<open>A marker is accepted exactly on the globe; it moves by at most half of the last digit and stays on the globe.\<close>

lemma normalize_marker_correct:
  "normalize_marker exact lat lng = Inr p \<longleftrightarrow>
     on_globe \<lparr>latitude = lat, longitude = lng\<rparr> \<and> p = \<lparr>latitude = round4 lat, longitude = round4 lng\<rparr>"
  "on_globe \<lparr>latitude = lat, longitude = lng\<rparr> \<Longrightarrow>
     \<bar>round4 lat - lat\<bar> \<le> 1 / 20000 \<and> \<bar>round4 lng - lng\<bar> \<le> 1 / 20000 \<and>
     on_globe \<lparr>latitude = round4 lat, longitude = round4 lng\<rparr>"
  using round4_range(1) [of "- 90" lat] round4_range(2) [of lat 90] round4_range(1) [of "- 180" lng]
    round4_range(2) [of lng 180] round4_near
  by (auto simp: normalize_exact on_globe_def)

end
