(* ===== verification/Sso.thy ===== *)
theory Sso
  imports Alerts
begin

text \<open>
  Single sign-on (\<^verbatim>\<open>auth/oidc.py\<close>, \<^verbatim>\<open>auth/saml.py\<close>): what is read from the environment, the registry of providers that
  is made once, and the claims taken from a provider's answer. No route of the program calls these functions yet. The
  environment is a function of the variable, Authlib's registry the list of what was registered, and \<open>text_of\<close> Python's
  \<^verbatim>\<open>str\<close> of values that are not strings.
\<close>

type_synonym environ = "string \<Rightarrow> string option"

definition env_set :: "environ \<Rightarrow> string \<Rightarrow> bool" where
  "env_set env var \<longleftrightarrow> (case env var of None \<Rightarrow> False | Some s \<Rightarrow> s \<noteq> [])"

section \<open>OpenID Connect\<close>

record oidc_claims =
  oi_subject :: string
  oi_email :: string
  oi_name :: string
  oi_preferred_username :: "string option"
  oi_groups :: "string list"

record oauth_provider =
  op_name :: string
  op_server_metadata_url :: string
  op_client_id :: string
  op_client_secret :: string
  op_scope :: string

definition is_oidc_configured :: "environ \<Rightarrow> bool" where
  "is_oidc_configured env \<longleftrightarrow> env_set env ''OIDC_DEFAULT_CLIENT_ID'' \<and> env_set env ''OIDC_DEFAULT_CLIENT_SECRET'' \<and>
     env_set env ''OIDC_DEFAULT_DISCOVERY_URL''"

text \<open>The state is the module's variable \<^verbatim>\<open>_oauth\<close>.\<close>

definition get_oauth_client :: "environ \<Rightarrow> oauth_provider list option \<Rightarrow> oauth_provider list \<times> oauth_provider list option" where
  "get_oauth_client env oauth = (case oauth of Some registry \<Rightarrow> (registry, oauth)
     | None \<Rightarrow> (let registry = (if is_oidc_configured env then
           [\<lparr>op_name = ''default'', op_server_metadata_url = the (env ''OIDC_DEFAULT_DISCOVERY_URL''),
             op_client_id = the (env ''OIDC_DEFAULT_CLIENT_ID''), op_client_secret = the (env ''OIDC_DEFAULT_CLIENT_SECRET''),
             op_scope = (case env ''OIDC_DEFAULT_SCOPES'' of None \<Rightarrow> ''openid email profile'' | Some s \<Rightarrow> s)\<rparr>] else [])
         in (registry, Some registry)))"

definition str_value :: "(json \<Rightarrow> string) \<Rightarrow> json \<Rightarrow> string" where
  "str_value text_of j = (case j of JStr s \<Rightarrow> s | _ \<Rightarrow> text_of j)"

definition claim_or :: "jobj \<Rightarrow> string \<Rightarrow> json \<Rightarrow> json" where
  "claim_or userinfo k absent = (case map_of userinfo k of None \<Rightarrow> absent | Some j \<Rightarrow> j)"

text \<open>\<open>None\<close> is the \<^verbatim>\<open>KeyError\<close> of an answer without a subject.\<close>

definition claims_from_userinfo :: "(json \<Rightarrow> string) \<Rightarrow> jobj \<Rightarrow> oidc_claims option" where
  "claims_from_userinfo text_of userinfo =
     (let groups = claim_or userinfo ''groups'' JNull;
          roles = claim_or userinfo ''roles'' JNull;
          groups_raw = (if truthy groups then groups else if truthy roles then roles else JList []);
          names = (case groups_raw of JStr s \<Rightarrow> [s] | JList gs \<Rightarrow> map (str_value text_of) gs | _ \<Rightarrow> []) in
      case map_of userinfo ''sub'' of None \<Rightarrow> None
      | Some sub \<Rightarrow> Some \<lparr>oi_subject = str_value text_of sub,
          oi_email = str_value text_of (claim_or userinfo ''email'' (JStr '''')),
          oi_name = str_value text_of (claim_or userinfo ''name'' (claim_or userinfo ''email'' (JStr ''''))),
          oi_preferred_username = map_option (str_value text_of) (map_of userinfo ''preferred_username''),
          oi_groups = names\<rparr>)"

text \<open>The first call decides: variables set later are not read.\<close>

lemma oauth_client_once:
  assumes "get_oauth_client env oauth = (registry, oauth')"
  shows "get_oauth_client env' oauth' = (registry, oauth')"
  using assms by (auto simp: get_oauth_client_def Let_def split: option.splits)

lemma oauth_registry:
  assumes "get_oauth_client env None = (registry, oauth')"
  shows "registry \<noteq> [] \<longleftrightarrow> is_oidc_configured env"
    and "p \<in> set registry \<Longrightarrow> env ''OIDC_DEFAULT_CLIENT_ID'' = Some (op_client_id p) \<and> op_client_id p \<noteq> []"
  using assms
  by (auto simp: get_oauth_client_def is_oidc_configured_def env_set_def Let_def split: option.splits if_splits)

text \<open>Claims need a subject only; a single group may come as a string, and the roles are the fallback.\<close>

lemma claims_total: "claims_from_userinfo f u = None \<longleftrightarrow> map_of u ''sub'' = None"
  by (simp add: claims_from_userinfo_def Let_def split: option.splits)

lemma claims_groups:
  assumes "claims_from_userinfo f u = Some c"
  shows "map_of u ''groups'' = Some (JStr g) \<Longrightarrow> g \<noteq> [] \<Longrightarrow> oi_groups c = [g]"
    and "map_of u ''groups'' = Some (JList (map JStr gs)) \<Longrightarrow> gs \<noteq> [] \<Longrightarrow> oi_groups c = gs"
    and "map_of u ''groups'' \<in> {None, Some (JList []), Some JNull} \<Longrightarrow> map_of u ''roles'' = Some (JList (map JStr gs)) \<Longrightarrow>
      oi_groups c = gs"
  using assms
  by (auto simp: claims_from_userinfo_def Let_def truthy_def claim_or_def str_value_def comp_def split: option.splits if_splits)

text \<open>A provider that answers an address with null gives an account the text of \<^verbatim>\<open>None\<close> as its address.\<close>

lemma null_email_kept:
  "claims_from_userinfo (\<lambda>_. ''None'') [(''sub'', JStr ''1''), (''email'', JNull)] =
     Some \<lparr>oi_subject = ''1'', oi_email = ''None'', oi_name = ''None'', oi_preferred_username = None, oi_groups = []\<rparr>"
  by (simp add: claims_from_userinfo_def claim_or_def str_value_def truthy_def)

section \<open>SAML\<close>

record saml_attributes =
  sm_name_id :: string
  sm_email :: string
  sm_display_name :: string
  sm_groups :: "string list"

definition is_saml_configured :: "environ \<Rightarrow> bool" where
  "is_saml_configured env \<longleftrightarrow>
     list_all (env_set env) [''SAML_IDP_METADATA_URL'', ''SAML_SP_ENTITY_ID'', ''SAML_SP_ACS_URL'']"

datatype saml_error = NotImplementedError

definition parse_saml_response :: "string \<Rightarrow> saml_error + saml_attributes" where
  "parse_saml_response saml_response_b64 = Inl NotImplementedError"

end
