(* ===== verification/Spec2Isabelle.thy ===== *)
theory Spec2Isabelle
  imports Tasks Validators Alerts Notes Timeline Assets Templates Attack Enrichment Evidence Users Audit_Log Reports Dashboard Search Routers Server Consistency Authorization Isolation Hub Runtime_Api Answers Geospatial Sso
begin

text \<open>
  Watari, a case management platform for security teams: a verification development of its backend,
  \<^verbatim>\<open>backend/src\<close> (Python, FastAPI, SQLAlchemy on PostgreSQL, Redis, Celery, S3). This theory imports the whole; each
  theory below is one part of the program, and properties stand where their part is, those that span parts in
  Isolation, Authorization, Consistency, Answers, Hub and Runtime_Api.

  \<^bold>\<open>The program and how its parts meet.\<close> A request is authenticated (JWT or API key; sessions live in Redis), checked
  against a permission matrix and the tenant of its path, and runs as a service function over one SQLAlchemy session,
  whose tenant setting makes PostgreSQL's row policies hide the other tenants. Services change the tables, record timeline
  entries, publish realtime events through Redis and fire platform events, on which modules (plugins) run, in the Celery
  worker or, when the queue is down, inside the request. The response is validated and wrapped; errors become an envelope.

  \<^bold>\<open>How it is modelled.\<close> A service is a function of the database state that returns the new state and a value or an
  error (Watari_Prelude): every raise, early return and failing statement is a branch. The state \<open>db\<close> (Data_Model)
  has a field for each table of migration 0001, an association list from ids to records with the source's columns, the
  session's settings, the Redis keys, the stored objects, the messages published, and a supply of ids. Ids are natural
  numbers, times integers in microseconds, strings lists of characters below 256; floats are an argument where they occur
  (\<open>float_ops\<close> in Geospatial). Integers of columns are unbounded with
  the column's range checked on every write. A concrete database for the witnesses is in Demo.

  \<^bold>\<open>The theories.\<close>
  \<^item> Watari_Prelude: services, the collection \<open>keeps_intros\<close> for properties kept by a service, lists and maps.
    Data_Model: enumerations, rows and the state (\<^verbatim>\<open>models/\<close>). Python_Lib, Ip_Text, Py_Datetime: what is used of the
    standard library (\<^verbatim>\<open>re\<close>, \<^verbatim>\<open>urlparse\<close>, \<^verbatim>\<open>ipaddress\<close>, \<^verbatim>\<open>isoformat\<close>).
  \<^item> Tenancy, Orm: the session (\<^verbatim>\<open>db/session.py\<close>, migrations 0002 and 0003): the row policies, the constraints of each
    table as \<open>ent_check\<close>, insert, update, delete and select under the policies, commit and rollback. Integrity: the
    invariant \<open>wf_db\<close> (rows hang on cases of their own tenant, unique keys, notes filed in folders of their case,
    promoted alerts have a case) and that every primitive keeps it.
  \<^item> Realtime, Platform_Modules: \<^verbatim>\<open>realtime/publisher.py\<close>, \<^verbatim>\<open>services/timeline_recorder.py\<close>; \<^verbatim>\<open>services/modules.py\<close>,
    \<^verbatim>\<open>services/events.py\<close>. Runtime_Api: \<^verbatim>\<open>modules/\<close>, what a module can do and that it is safe.
  \<^item> Cases, Tasks, Validators, Observables, Assets, Storage, Evidence, Clustering, Timeline, Ocsf, Alerts, Notes, Templates,
    Attack, Enrichment, Reports, Dashboard, Search, Audit_Log, Users: the services of the same names with their schemas.
  \<^item> Rbac, Auth: \<^verbatim>\<open>auth/\<close>. Hub: \<^verbatim>\<open>realtime/hub.py\<close> and the WebSocket streams, as steps of a
    history, among them the start, the stop and the failure of the listener.
  \<^item> Api, Routers: \<^verbatim>\<open>api/\<close>, each endpoint with its guards and its response. Server: all requests as one datatype and
    \<open>serve\<close>, which runs one; the jobs of the worker.
  \<^item> Answers: what requests raise and how it is answered; Isolation, Authorization, Consistency: what holds of every request.
  \<^item> Geospatial, Sso: the helpers of \<^verbatim>\<open>services/geospatial.py\<close> and single sign-on, which no endpoint calls yet.

  \<^bold>\<open>What is shown.\<close> Isolation: whatever a request of a tenant holds, the rows its session does not see stay as they
  are (three cascading deletes excepted, with a counterexample). Authorization: a request without the endpoint's permission
  or tenant is refused and changes nothing but Redis. Consistency: every state reachable by requests and jobs satisfies
  \<open>wf_db\<close> (one request of a platform administrator excepted, with a counterexample). Both ask something of the
  plugins installed, which Runtime_Api proves of every plugin that acts through the module API. For each component: its
  operations keep \<open>wf_db\<close> and hide what they must (lemmas named \<open>_at\<close> and \<open>_isolated\<close>), and the functional
  behaviour of the main operations with their errors; equivalences of the validators, clusters, correlation counts and the
  heat map with direct specifications; round trips for addresses, evidence files, tokens and alert documents; the session
  keys of Redis as a refinement of a store with deadlines; the delivery of the events of a channel to a socket that keeps its
  stream open, while the listener runs, and its silence after the listener's failure; the termination of the folder walk
  with a bound on its queries; the answers of failed requests in and out of debug mode; the clusters of markers.

  \<^bold>\<open>Third-party code\<close> is a parameter: \<open>env\<close> (Redis, Celery, the plugins installed, texts of exceptions),
  \<open>auth_lib\<close> (JWT codec, password and key hashes, settings), \<open>vault\<close> (AES-GCM, scrypt, SHA-256, random bytes),
  \<open>report_lib\<close> (Jinja, python-docx), \<open>codec\<close> values of the cache, \<open>collate\<close> (the order of the database's
  collation), \<open>module_lib\<close> (pydantic's coercions in what modules pass). What is assumed of them are named hypotheses:
  \<open>lib_ok\<close> (a token decodes to what was encoded while it is valid, a hash verifies its password), \<open>aead\<close> (what was
  encrypted decrypts with the same key), \<open>broker_up\<close> (Celery takes every task), \<open>plugins_wf\<close> and
  \<open>plugins_isolated\<close>; each has an instance among the witnesses.

  \<^bold>\<open>Bounds and fuel.\<close> No definition runs on fuel but the runtime of nested modules, whose depth stands for Python's
  recursion limit and is arbitrary in the theorems. The folder walk is a loop that need not end by its text;
  \<open>cycle_check_ends\<close> bounds it by the folders visible.

  \<^bold>\<open>Limits of the model.\<close> Requests are served one after another; the interleaving of two open transactions is not
  modelled, so races on unique keys appear only as the errors of the constraints. After a database error inside an
  \<^verbatim>\<open>except Exception\<close> the model raises at once the error that the next statement would raise. The order of rows that
  SQL leaves open is that of the tables. Payloads of requests have passed their pydantic schema, whose constraints are
  predicates of the model where a property depends on them.

  \<^bold>\<open>Not modelled.\<close> The graph, marker and
  saved-view schemas (no code produces them), settings, clients and connection pools, the DDL of roles and grants, the seed
  script, the migration runner, the frontend.
\<close>

end
